(* ===== verification/Prelude.thy ===== *)
theory Prelude
  imports Main "HOL-Library.Multiset" "HOL-Library.Char_ord"
begin

text \<open>
  What every component of the development shares: the Go values the code computes with
  (errors, fixed-width integers, strings), programs that thread a state and may return an
  error, a small rule set for what such programs establish, and the list lemmas behind the
  loops the code repeats (the \<open>seen\<close> set of visited keys, rows updated in a table).
\<close>

named_theorems prog_simps "equations of the program combinators"
named_theorems spec_intros "rules for the programs that establish a specification"
named_theorems table_simps "lemmas on tables of rows"

section \<open>Go errors\<close>

text \<open>
  An \<open>error\<close> of the code is one of its sentinel variables, a plain text
  (\<open>errors.New\<close>, \<open>fmt.Errorf\<close>), or an error wrapped with \<open>%w\<close> behind a text. The
  code tells errors apart only with \<open>errors.Is\<close> on a sentinel and by their text.
\<close>

datatype go_error =
    ErrNotFound
  | ErrEmptyNotification
  | ErrUnknownAppId string
  | ErrUnsafeDatabase
  | ErrText string
  | ErrSql string string
  | ErrWrap string go_error

fun error_text :: "go_error \<Rightarrow> string" where
  "error_text ErrNotFound = ''store: record not found''"
| "error_text ErrEmptyNotification = ''Unable to send notification that is completely empty.''"
| "error_text (ErrUnknownAppId a) = ''App id is not configured: '' @ a"
| "error_text ErrUnsafeDatabase =
     ''refusing to migrate nonempty database without schema_migrations''"
| "error_text (ErrText t) = t"
| "error_text (ErrSql state t) = t"
| "error_text (ErrWrap t e) = t @ '': '' @ error_text e"

fun errors_is_not_found :: "go_error \<Rightarrow> bool" where
  "errors_is_not_found ErrNotFound = True"
| "errors_is_not_found (ErrWrap t e) = errors_is_not_found e"
| "errors_is_not_found _ = False"

text \<open>An error of the database carries its \<open>SQLState\<close>.\<close>

fun sql_state :: "go_error \<Rightarrow> string option" where
  "sql_state (ErrSql state t) = Some state"
| "sql_state (ErrWrap t e) = sql_state e"
| "sql_state _ = None"

fun errors_is_unknown_app :: "go_error \<Rightarrow> bool" where
  "errors_is_unknown_app (ErrUnknownAppId a) = True"
| "errors_is_unknown_app (ErrWrap t e) = errors_is_unknown_app e"
| "errors_is_unknown_app _ = False"

fun errors_is_empty_notification :: "go_error \<Rightarrow> bool" where
  "errors_is_empty_notification ErrEmptyNotification = True"
| "errors_is_empty_notification (ErrWrap t e) = errors_is_empty_notification e"
| "errors_is_empty_notification _ = False"

section \<open>Go integers\<close>

text \<open>
  \<open>int\<close>, \<open>int64\<close> and \<open>time.Duration\<close> are 64 bits wide and wrap around. The model keeps
  them as \<open>int\<close> and applies \<open>wrap64\<close> where an input can drive the value out of range.
\<close>

definition wrap64 :: "int \<Rightarrow> int" where
  "wrap64 x = signed_take_bit 63 x"

lemma wrap64_id: "-9223372036854775808 \<le> x \<Longrightarrow> x \<le> 9223372036854775807 \<Longrightarrow> wrap64 x = x"
  unfolding wrap64_def by (rule signed_take_bit_int_eq_self) simp_all

lemma wrap64_bounds: "-9223372036854775808 \<le> wrap64 x \<and> wrap64 x \<le> 9223372036854775807"
  using signed_take_bit_int_greater_eq_minus_exp [of 63 x] signed_take_bit_int_less_exp [of 63 x]
  by (simp add: wrap64_def)

section \<open>Programs: a state, a result or an error\<close>

type_synonym ('s, 'a) prog = "'s \<Rightarrow> (go_error + 'a) \<times> 's"

definition ret :: "'a \<Rightarrow> ('s, 'a) prog" where
  "ret x s = (Inr x, s)"

definition throw :: "go_error \<Rightarrow> ('s, 'a) prog" where
  "throw e s = (Inl e, s)"

definition bindM :: "('s, 'a) prog \<Rightarrow> ('a \<Rightarrow> ('s, 'b) prog) \<Rightarrow> ('s, 'b) prog" where
  "bindM m f s = (case m s of (Inl e, s') \<Rightarrow> (Inl e, s') | (Inr x, s') \<Rightarrow> f x s')"

definition seqM :: "('s, 'a) prog \<Rightarrow> ('s, 'b) prog \<Rightarrow> ('s, 'b) prog" where
  "seqM m k = bindM m (\<lambda>_. k)"

text \<open>The result of a call whose error the caller looks at instead of returning it.\<close>

definition attempt :: "('s, 'a) prog \<Rightarrow> ('s, go_error + 'a) prog" where
  "attempt m s = (case m s of (r, s') \<Rightarrow> (Inr r, s'))"

definition getM :: "('s \<Rightarrow> 'a) \<Rightarrow> ('s, 'a) prog" where
  "getM f s = (Inr (f s), s)"

definition modifyM :: "('s \<Rightarrow> 's) \<Rightarrow> ('s, unit) prog" where
  "modifyM f s = (Inr (), f s)"

definition whenM :: "bool \<Rightarrow> ('s, unit) prog \<Rightarrow> ('s, unit) prog" where
  "whenM b m = (if b then m else ret ())"

text \<open>A result computed outside the state; an error returned behind a text (\<open>fmt.Errorf\<close> with \<open>%w\<close>).\<close>

definition lift_result :: "go_error + 'a \<Rightarrow> ('s, 'a) prog" where
  "lift_result r s = (r, s)"

definition wrapM :: "string \<Rightarrow> ('s, 'a) prog \<Rightarrow> ('s, 'a) prog" where
  "wrapM t m s = (case m s of (Inl e, s') \<Rightarrow> (Inl (ErrWrap t e), s') | (Inr x, s') \<Rightarrow> (Inr x, s'))"

fun traverse :: "('a \<Rightarrow> go_error + 'b) \<Rightarrow> 'a list \<Rightarrow> go_error + 'b list" where
  "traverse f [] = Inr []"
| "traverse f (x # xs) =
     (case f x of Inl e \<Rightarrow> Inl e
      | Inr y \<Rightarrow> (case traverse f xs of Inl e \<Rightarrow> Inl e | Inr ys \<Rightarrow> Inr (y # ys)))"

text \<open>A \<open>for range\<close> loop that returns at the first error, and one that collects results.\<close>

fun forM :: "'a list \<Rightarrow> ('a \<Rightarrow> ('s, unit) prog) \<Rightarrow> ('s, unit) prog" where
  "forM [] f = ret ()"
| "forM (x # xs) f = seqM (f x) (forM xs f)"

fun mapM :: "('a \<Rightarrow> ('s, 'b) prog) \<Rightarrow> 'a list \<Rightarrow> ('s, 'b list) prog" where
  "mapM f [] = ret []"
| "mapM f (x # xs) = bindM (f x) (\<lambda>y. bindM (mapM f xs) (\<lambda>ys. ret (y # ys)))"

lemmas [prog_simps] =
  ret_def throw_def bindM_def seqM_def attempt_def getM_def modifyM_def whenM_def
  lift_result_def wrapM_def

section \<open>What a program establishes\<close>

text \<open>
  \<open>establishes P m Q E\<close>: started in a state that satisfies \<open>P\<close>, the program either returns a
  result that with the final state satisfies \<open>Q\<close>, or an error that with the final state
  satisfies \<open>E\<close>. \<open>keeps I m\<close>: whatever the outcome, \<open>I\<close> still holds.
\<close>

definition establishes ::
  "('s \<Rightarrow> bool) \<Rightarrow> ('s, 'a) prog \<Rightarrow> ('a \<Rightarrow> 's \<Rightarrow> bool) \<Rightarrow> (go_error \<Rightarrow> 's \<Rightarrow> bool) \<Rightarrow> bool" where
  "establishes P m Q E \<longleftrightarrow>
     (\<forall>s. P s \<longrightarrow> (case m s of (Inl e, s') \<Rightarrow> E e s' | (Inr x, s') \<Rightarrow> Q x s'))"

definition keeps :: "('s \<Rightarrow> bool) \<Rightarrow> ('s, 'a) prog \<Rightarrow> bool" where
  "keeps I m \<longleftrightarrow> (\<forall>s. I s \<longrightarrow> I (snd (m s)))"

lemma keepsI: "(\<And>s. I s \<Longrightarrow> I (snd (m s))) \<Longrightarrow> keeps I m"
  by (simp add: keeps_def)

lemma keepsD: "keeps I m \<Longrightarrow> I s \<Longrightarrow> I (snd (m s))"
  by (simp add: keeps_def)

lemma keeps_ret [spec_intros]: "keeps I (ret x)"
  by (simp add: keeps_def ret_def)

lemma keeps_throw [spec_intros]: "keeps I (throw e)"
  by (simp add: keeps_def throw_def)

lemma keeps_getM [spec_intros]: "keeps I (getM f)"
  by (simp add: keeps_def getM_def)

lemma keeps_bindM [spec_intros]:
  "keeps I m \<Longrightarrow> (\<And>x. keeps I (f x)) \<Longrightarrow> keeps I (bindM m f)"
  by (fastforce simp: keeps_def bindM_def split: prod.splits sum.splits)

lemma keeps_seqM [spec_intros]: "keeps I m \<Longrightarrow> keeps I k \<Longrightarrow> keeps I (seqM m k)"
  by (simp add: seqM_def keeps_bindM)

lemma keeps_attempt [spec_intros]: "keeps I m \<Longrightarrow> keeps I (attempt m)"
  by (fastforce simp: keeps_def attempt_def split: prod.splits)

lemma keeps_lift_result [spec_intros]: "keeps I (lift_result r)"
  by (simp add: keeps_def lift_result_def)

lemma keeps_wrapM [spec_intros]: "keeps I m \<Longrightarrow> keeps I (wrapM t m)"
  by (fastforce simp: keeps_def wrapM_def split: prod.splits sum.splits)

lemma keeps_whenM [spec_intros]: "(b \<Longrightarrow> keeps I m) \<Longrightarrow> keeps I (whenM b m)"
  by (simp add: whenM_def keeps_ret)

lemma keeps_if [spec_intros]:
  "(b \<Longrightarrow> keeps I m) \<Longrightarrow> (\<not> b \<Longrightarrow> keeps I k) \<Longrightarrow> keeps I (if b then m else k)"
  by simp

lemma keeps_case_option [spec_intros]:
  "(x = None \<Longrightarrow> keeps I m) \<Longrightarrow> (\<And>y. x = Some y \<Longrightarrow> keeps I (f y))
   \<Longrightarrow> keeps I (case x of None \<Rightarrow> m | Some y \<Rightarrow> f y)"
  by (cases x) simp_all

lemma keeps_case_sum [spec_intros]:
  "(\<And>y. x = Inl y \<Longrightarrow> keeps I (f y)) \<Longrightarrow> (\<And>y. x = Inr y \<Longrightarrow> keeps I (g y))
   \<Longrightarrow> keeps I (case x of Inl y \<Rightarrow> f y | Inr y \<Rightarrow> g y)"
  by (cases x) simp_all

lemma keeps_case_prod [spec_intros]:
  "(\<And>a b. x = (a, b) \<Longrightarrow> keeps I (f a b)) \<Longrightarrow> keeps I (case x of (a, b) \<Rightarrow> f a b)"
  by (cases x) simp

lemma keeps_forM [spec_intros]: "(\<And>x. x \<in> set xs \<Longrightarrow> keeps I (f x)) \<Longrightarrow> keeps I (forM xs f)"
  by (induction xs) (auto intro!: spec_intros)

lemma keeps_mapM [spec_intros]: "(\<And>x. x \<in> set xs \<Longrightarrow> keeps I (f x)) \<Longrightarrow> keeps I (mapM f xs)"
  by (induction xs) (auto intro!: spec_intros)

text \<open>Inversion of the combinators on a run that returned a result.\<close>

lemma bindM_Inr:
  "bindM m f s = (Inr y, t) \<longleftrightarrow> (\<exists>x s'. m s = (Inr x, s') \<and> f x s' = (Inr y, t))"
  by (auto simp: bindM_def split: prod.splits sum.splits)

lemma bindM_Inl:
  "bindM m f s = (Inl e, t) \<longleftrightarrow>
     m s = (Inl e, t) \<or> (\<exists>x s'. m s = (Inr x, s') \<and> f x s' = (Inl e, t))"
  by (auto simp: bindM_def split: prod.splits sum.splits)

lemma seqM_Inr: "seqM m k s = (Inr y, t) \<longleftrightarrow> (\<exists>x s'. m s = (Inr x, s') \<and> k s' = (Inr y, t))"
  by (simp add: seqM_def bindM_Inr)

lemma seqM_Inl:
  "seqM m k s = (Inl e, t) \<longleftrightarrow>
     m s = (Inl e, t) \<or> (\<exists>x s'. m s = (Inr x, s') \<and> k s' = (Inl e, t))"
  by (simp add: seqM_def bindM_Inl)

lemma ret_iff: "ret x s = (r, t) \<longleftrightarrow> r = Inr x \<and> t = s"
  by (auto simp: ret_def)

lemma throw_iff: "throw e s = (r, t) \<longleftrightarrow> r = Inl e \<and> t = s"
  by (auto simp: throw_def)

lemma getM_iff: "getM f s = (r, t) \<longleftrightarrow> r = Inr (f s) \<and> t = s"
  by (auto simp: getM_def)

lemma modifyM_iff: "modifyM f s = (r, t) \<longleftrightarrow> r = Inr () \<and> t = f s"
  by (auto simp: modifyM_def)

lemma attempt_iff: "attempt m s = (r, t) \<longleftrightarrow> (\<exists>q. r = Inr q \<and> m s = (q, t))"
  by (auto simp: attempt_def split: prod.splits)

lemma lift_result_iff: "lift_result r s = (q, t) \<longleftrightarrow> q = r \<and> t = s"
  by (auto simp: lift_result_def)

lemma wrapM_Inr: "wrapM u m s = (Inr x, t) \<longleftrightarrow> m s = (Inr x, t)"
  by (auto simp: wrapM_def split: prod.splits sum.splits)

lemma wrapM_Inl: "wrapM u m s = (Inl e, t) \<longleftrightarrow> (\<exists>e'. m s = (Inl e', t) \<and> e = ErrWrap u e')"
  by (auto simp: wrapM_def split: prod.splits sum.splits)

lemma whenM_iff: "whenM b m s = (r, t) \<longleftrightarrow> (if b then m s = (r, t) else r = Inr () \<and> t = s)"
  by (auto simp: whenM_def ret_iff)

lemmas run_iffs = bindM_Inr bindM_Inl seqM_Inr seqM_Inl ret_iff throw_iff getM_iff
  modifyM_iff attempt_iff lift_result_iff wrapM_Inr wrapM_Inl whenM_iff

text \<open>\<open>fixed g m\<close>: the program leaves \<open>g\<close> of the state alone; \<open>atomic g m\<close>: it does when it fails.\<close>

definition fixed :: "('s \<Rightarrow> 'b) \<Rightarrow> ('s, 'a) prog \<Rightarrow> bool" where
  "fixed g m \<longleftrightarrow> (\<forall>s. g (snd (m s)) = g s)"

definition atomic :: "('s \<Rightarrow> 'b) \<Rightarrow> ('s, 'a) prog \<Rightarrow> bool" where
  "atomic g m \<longleftrightarrow> (\<forall>s e s'. m s = (Inl e, s') \<longrightarrow> g s' = g s)"

lemma fixed_keeps: "fixed g m \<longleftrightarrow> (\<forall>x. keeps (\<lambda>s. g s = x) m)"
  by (auto simp: fixed_def keeps_def)

lemma fixedI: "(\<And>x. keeps (\<lambda>s. g s = x) m) \<Longrightarrow> fixed g m"
  by (simp add: fixed_keeps)

lemma fixed_run: "fixed g m \<Longrightarrow> m s = (r, t) \<Longrightarrow> g t = g s"
  unfolding fixed_def by (metis snd_conv)

lemma atomic_run: "atomic g m \<Longrightarrow> m s = (Inl e, t) \<Longrightarrow> g t = g s"
  by (simp add: atomic_def)

lemma atomic_fixed: "fixed g m \<Longrightarrow> atomic g m"
  unfolding atomic_def by (blast intro: fixed_run)

lemma atomic_bindM: "fixed g m \<Longrightarrow> (\<And>x. atomic g (f x)) \<Longrightarrow> atomic g (bindM m f)"
  unfolding atomic_def by (auto simp: bindM_Inl dest: fixed_run)

lemma atomic_if: "(b \<Longrightarrow> atomic g m) \<Longrightarrow> (\<not> b \<Longrightarrow> atomic g k) \<Longrightarrow> atomic g (if b then m else k)"
  by simp

lemma atomic_case_prod: "(\<And>a b. x = (a, b) \<Longrightarrow> atomic g (f a b)) \<Longrightarrow> atomic g (case x of (a, b) \<Rightarrow> f a b)"
  by (cases x) simp

text \<open>What a program returns, when it returns.\<close>

definition returns :: "('a \<Rightarrow> bool) \<Rightarrow> ('s, 'a) prog \<Rightarrow> bool" where
  "returns R m \<longleftrightarrow> (\<forall>s x s'. m s = (Inr x, s') \<longrightarrow> R x)"

lemma returns_run: "returns R m \<Longrightarrow> m s = (Inr x, s') \<Longrightarrow> R x"
  unfolding returns_def by blast

lemma returns_ret: "R x \<Longrightarrow> returns R (ret x)"
  by (simp add: returns_def ret_def)

lemma returns_bindM: "(\<And>x. returns R (f x)) \<Longrightarrow> returns R (bindM m f)"
  by (auto simp: returns_def bindM_Inr)

lemma returns_mapM:
  "(\<And>x. x \<in> set xs \<Longrightarrow> returns R (f x)) \<Longrightarrow> returns (\<lambda>ys. \<forall>y \<in> set ys. R y) (mapM f xs)"
proof (induction xs)
  case (Cons x xs)
  then have heads: "returns R (f x)" "returns (\<lambda>ys. \<forall>y \<in> set ys. R y) (mapM f xs)" by simp_all
  show ?case
    unfolding returns_def
  proof (intro allI impI ballI)
    fix s ys s' y
    assume "mapM f (x # xs) s = (Inr ys, s')" and y: "y \<in> set ys"
    then obtain z s1 zs where "f x s = (Inr z, s1)" "mapM f xs s1 = (Inr zs, s')" "ys = z # zs"
      by (auto simp: run_iffs)
    with y returns_run [OF heads(1)] returns_run [OF heads(2)] show "R y" by auto
  qed
qed (simp add: returns_ret)

lemma keeps_bindM_when:
  "keeps I m \<Longrightarrow> returns R m \<Longrightarrow> (\<And>x. R x \<Longrightarrow> keeps I (f x)) \<Longrightarrow> keeps I (bindM m f)"
  by (fastforce simp: keeps_def bindM_def returns_def split: prod.splits sum.splits)

lemma seqM_assoc: "seqM (seqM m k) l = seqM m (seqM k l)"
  by (rule ext) (auto simp: seqM_def bindM_def split: prod.splits sum.splits)

text \<open>A run that is not an error returned something.\<close>

lemma run_exists: "\<not> isl (fst r) \<Longrightarrow> \<exists>v w'. r = (Inr v, w')"
  by (metis prod.collapse sum.collapse(2))

lemma keeps_conj: "keeps I m \<Longrightarrow> keeps J m \<Longrightarrow> keeps (\<lambda>s. I s \<and> J s) m"
  by (simp add: keeps_def)

lemma keeps_run: "keeps I m \<Longrightarrow> m s = (r, t) \<Longrightarrow> I s \<Longrightarrow> I t"
  by (metis keepsD snd_conv)

lemma traverse_Inr: "traverse f xs = Inr ys \<longleftrightarrow> map f xs = map Inr ys"
proof (induction xs arbitrary: ys)
  case (Cons x xs)
  then show ?case
    by (cases ys; cases "f x"; cases "traverse f xs") force+
qed auto

section \<open>The \<open>seen\<close> idiom: the first element of every key\<close>

text \<open>
  Several functions of the code walk a slice with a \<open>seen\<close> map and keep an element only when
  its key is new. \<open>keep_first key seen xs\<close> is that loop; the keys seen so far are a list.
\<close>

fun keep_first :: "('a \<Rightarrow> 'k) \<Rightarrow> 'k list \<Rightarrow> 'a list \<Rightarrow> 'a list" where
  "keep_first key seen [] = []"
| "keep_first key seen (x # xs) =
     (if key x \<in> set seen then keep_first key seen xs
      else x # keep_first key (key x # seen) xs)"

lemma keep_first_subset: "set (keep_first key seen xs) \<subseteq> set xs"
  by (induction key seen xs rule: keep_first.induct) auto

lemma keep_first_keys: "key ` set (keep_first key seen xs) = key ` set xs - set seen"
  by (induction key seen xs rule: keep_first.induct) auto

lemma keep_first_distinct: "distinct (map key (keep_first key seen xs))"
proof (induction key seen xs rule: keep_first.induct)
  case (2 key seen x xs)
  then show ?case
    using keep_first_keys [of key "key x # seen" xs] by auto
qed simp

lemma keep_first_first:
  "y \<in> set (keep_first key seen xs) \<Longrightarrow> find (\<lambda>x. key x = key y) xs = Some y"
proof (induction key seen xs rule: keep_first.induct)
  case (2 key seen x xs)
  show ?case
  proof (cases "key x \<in> set seen")
    case True
    moreover have "key y \<notin> set seen"
      using 2(3) keep_first_keys [of key seen "x # xs"] by blast
    ultimately show ?thesis using 2 by auto
  next
    case False
    moreover have "y \<in> set (keep_first key (key x # seen) xs) \<Longrightarrow> key y \<noteq> key x"
      using keep_first_keys [of key "key x # seen" xs] by auto
    ultimately show ?thesis using 2 by auto
  qed
qed simp

lemma keep_first_id:
  "distinct (map key xs) \<Longrightarrow> key ` set xs \<inter> set seen = {} \<Longrightarrow> keep_first key seen xs = xs"
  by (induction key seen xs rule: keep_first.induct) auto

lemma keep_first_length: "length (keep_first key seen xs) \<le> length xs"
  by (induction key seen xs rule: keep_first.induct) auto

section \<open>Tables of rows\<close>

text \<open>\<open>UPDATE \<dots> WHERE\<close> on a table: the rows keep their places.\<close>

definition update_where :: "('r \<Rightarrow> bool) \<Rightarrow> ('r \<Rightarrow> 'r) \<Rightarrow> 'r list \<Rightarrow> 'r list" where
  "update_where p f rows = map (\<lambda>r. if p r then f r else r) rows"

lemma length_update_where [simp, table_simps]: "length (update_where p f rows) = length rows"
  by (simp add: update_where_def)

lemma map_update_where [table_simps]:
  "(\<And>r. p r \<Longrightarrow> g (f r) = g r) \<Longrightarrow> map g (update_where p f rows) = map g rows"
  by (simp add: update_where_def)

lemma in_update_where:
  "x \<in> set (update_where p f rows) \<longleftrightarrow>
     (\<exists>r \<in> set rows. x = (if p r then f r else r))"
  by (auto simp: update_where_def)

lemma filter_update_where:
  "filter q (update_where p f rows) =
     map (\<lambda>r. if p r then f r else r) (filter (\<lambda>r. q (if p r then f r else r)) rows)"
  by (induction rows) (auto simp: update_where_def)

lemma filter_update_where_same [table_simps]:
  "(\<And>r. p r \<Longrightarrow> q (f r) = q r) \<Longrightarrow>
   filter q (update_where p f rows) = update_where p f (filter q rows)"
  by (induction rows) (auto simp: update_where_def)

lemma update_where_none [table_simps]:
  "(\<And>r. r \<in> set rows \<Longrightarrow> \<not> p r) \<Longrightarrow> update_where p f rows = rows"
  by (simp add: update_where_def map_idI)

lemma update_where_Nil [simp]: "update_where p f [] = []"
  by (simp add: update_where_def)

lemma update_where_Cons [simp]:
  "update_where p f (r # rows) = (if p r then f r else r) # update_where p f rows"
  by (simp add: update_where_def)

lemma update_where_append [simp]:
  "update_where p f (xs @ ys) = update_where p f xs @ update_where p f ys"
  by (simp add: update_where_def)

section \<open>Ordering by a descending key\<close>

text \<open>
  \<open>ORDER BY k DESC\<close> and a \<open>sort.Slice\<close> whose comparison is \<open>After\<close>: equal keys may come in
  any order; the model leaves them in the order they had.
\<close>

definition sort_desc :: "('a \<Rightarrow> int) \<Rightarrow> 'a list \<Rightarrow> 'a list" where
  "sort_desc k xs = sort_key (\<lambda>x. - k x) xs"

definition desc :: "('a \<Rightarrow> int) \<Rightarrow> 'a list \<Rightarrow> bool" where
  "desc k xs \<longleftrightarrow> sorted_wrt (\<lambda>x y. k y \<le> k x) xs"

lemma mset_sort_desc [simp]: "mset (sort_desc k xs) = mset xs"
  by (simp add: sort_desc_def)

lemma set_sort_desc [simp]: "set (sort_desc k xs) = set xs"
  by (simp add: sort_desc_def)

lemma length_sort_desc [simp]: "length (sort_desc k xs) = length xs"
  by (simp add: sort_desc_def)

lemma distinct_map_sort_desc [simp]: "distinct (map g (sort_desc k xs)) = distinct (map g xs)"
  by (metis mset_map mset_sort_desc mset_eq_imp_distinct_iff)

lemma desc_sort_desc [simp]: "desc k (sort_desc k xs)"
proof -
  have "sorted (map (\<lambda>x. - k x) (sort_desc k xs))"
    unfolding sort_desc_def by (rule sorted_sort_key)
  then show ?thesis
    by (simp add: desc_def sorted_map)
qed

lemma desc_take: "desc k xs \<Longrightarrow> desc k (take n xs)"
  by (simp add: desc_def sorted_wrt_take)

lemma desc_drop: "desc k xs \<Longrightarrow> desc k (drop n xs)"
  by (simp add: desc_def sorted_wrt_drop)

lemma desc_filter: "desc k xs \<Longrightarrow> desc k (filter p xs)"
  by (simp add: desc_def sorted_wrt_filter)

text \<open>A prefix of a descending list outranks what is cut off.\<close>

lemma desc_take_dominates:
  assumes "desc k xs" and "x \<in> set (take n xs)" and "y \<in> set (drop n xs)"
  shows "k y \<le> k x"
proof -
  have "desc k (take n xs @ drop n xs)" using assms(1) by simp
  then show ?thesis
    using assms(2,3) unfolding desc_def sorted_wrt_append by blast
qed

section \<open>\<open>GROUP BY\<close> with \<open>count(*)\<close>\<close>

text \<open>
  SQL leaves the order of the groups open; the model takes the groups in the order in which their
  keys first appear in the table.
\<close>

definition group_counts :: "'k list \<Rightarrow> ('k \<times> int) list" where
  "group_counts ks = map (\<lambda>k. (k, int (count_list ks k))) (keep_first (\<lambda>k. k) [] ks)"

lemma set_keep_first_id [simp]: "set (keep_first (\<lambda>k. k) [] ks) = set ks"
  using keep_first_keys [of "\<lambda>k. k" "[]" ks] by simp

lemma distinct_keep_first_id [simp]: "distinct (keep_first (\<lambda>k. k) seen ks)"
  using keep_first_distinct [of "\<lambda>k. k" seen ks] by simp

lemma group_counts_keys:
  "distinct (map fst (group_counts ks))" "fst ` set (group_counts ks) = set ks"
  by (simp_all add: group_counts_def comp_def image_image)

lemma group_counts_sum:
  "(\<Sum>(k, n) \<leftarrow> group_counts ks. if p k then n else 0) = int (length (filter p ks))"
proof -
  have split: "int (length (filter p ks)) = (\<Sum>k \<in> set ks. if p k then int (count_list ks k) else 0)"
  proof -
    have "length (filter p ks) = (\<Sum>k \<in> set (filter p ks). count_list (filter p ks) k)"
      by (simp add: sum_count_set)
    also have "\<dots> = (\<Sum>k \<in> set ks \<inter> Collect p. count_list ks k)"
      by (rule sum.cong) (auto simp: count_list_eq_length_filter intro!: arg_cong [of _ _ length]
          filter_cong)
    finally show ?thesis by (simp add: sum.inter_restrict if_distrib [of int] cong: if_cong)
  qed
  have "(\<Sum>(k, n) \<leftarrow> group_counts ks. if p k then n else 0)
      = (\<Sum>k \<leftarrow> keep_first (\<lambda>k. k) [] ks. if p k then int (count_list ks k) else 0)"
    by (simp add: group_counts_def comp_def)
  also have "\<dots> = (\<Sum>k \<in> set ks. if p k then int (count_list ks k) else 0)"
    by (simp add: sum_list_distinct_conv_sum_set)
  finally show ?thesis using split by simp
qed

end
