(* ===== verification/Model.thy ===== *)
theory Model
  imports Go_Text "HOL-Library.AList"
begin

text \<open>
  The entity and wire models of \<open>internal/model\<close>: identifiers, instants, JSON values, the
  enumerations with their stored numbers, the records, and the snake-case key policy of
  \<open>json.go\<close>.
\<close>

section \<open>Identifiers and instants\<close>

text \<open>
  A UUID is used only through equality (and the order of its bytes in one \<open>ORDER BY\<close>): it is a
  natural number here, \<open>uuid.Nil\<close> being 0. An instant is its number of nanoseconds since the
  Unix epoch, in UTC; Go's zero time is the first instant of the year 1.
\<close>

type_synonym uuid = nat
type_synonym time = int

definition zero_time :: time where
  "zero_time = -62135596800000000000"

text \<open>\<open>model.TimePtr\<close>: nil when the instant is the zero time.\<close>

definition time_ptr :: "time \<Rightarrow> time option" where
  "time_ptr t = (if t = zero_time then None else Some t)"

section \<open>JSON values\<close>

text \<open>
  The values of \<open>map[string]any\<close>. A number is kept as its literal, the code never computes with
  one. The entries of an object are listed in the order in which \<open>range\<close> visits the Go map.
\<close>

datatype json =
    JNull
  | JBool bool
  | JNum string
  | JStr string
  | JArr "json list"
  | JObj "(string \<times> json) list"

type_synonym json_map = "(string \<times> json) list"

section \<open>Enumerations\<close>

text \<open>
  The Go enumerations are named integers. The declared constants are constructors; any other
  integer, which a request or a row can carry, is kept by the last one.
\<close>

datatype push_provider =
    PushProviderApple
  | PushProviderGoogle
  | PushProviderSop
  | PushProviderUnifiedPush
  | PushProviderAppk
  | PushProviderOther int

fun provider_of_int :: "int \<Rightarrow> push_provider" where
  "provider_of_int i =
     (if i = 0 then PushProviderApple else if i = 1 then PushProviderGoogle
      else if i = 2 then PushProviderSop else if i = 3 then PushProviderUnifiedPush
      else if i = 4 then PushProviderAppk else PushProviderOther i)"

fun int_of_provider :: "push_provider \<Rightarrow> int" where
  "int_of_provider PushProviderApple = 0"
| "int_of_provider PushProviderGoogle = 1"
| "int_of_provider PushProviderSop = 2"
| "int_of_provider PushProviderUnifiedPush = 3"
| "int_of_provider PushProviderAppk = 4"
| "int_of_provider (PushProviderOther i) = i"

fun provider_string :: "push_provider \<Rightarrow> string" where
  "provider_string PushProviderApple = ''Apple''"
| "provider_string PushProviderGoogle = ''Google''"
| "provider_string PushProviderSop = ''Sop''"
| "provider_string PushProviderUnifiedPush = ''UnifiedPush''"
| "provider_string PushProviderAppk = ''Appk''"
| "provider_string (PushProviderOther i) = ''Unknown''"

definition lower_first :: "string \<Rightarrow> string" where
  "lower_first s = (if s = '''' then s else to_lower (take 1 s) @ drop 1 s)"

fun provider_name :: "push_provider \<Rightarrow> string" where
  "provider_name PushProviderApple = ''apple''"
| "provider_name PushProviderGoogle = ''google''"
| "provider_name PushProviderAppk = ''appk''"
| "provider_name PushProviderSop = ''sop''"
| "provider_name PushProviderUnifiedPush = ''unifiedpush''"
| "provider_name p = lower_first (provider_string p)"

datatype preference_level = PreferenceNormal | PreferenceSilent | PreferenceReject
  | PreferenceOther int

fun preference_of_int :: "int \<Rightarrow> preference_level" where
  "preference_of_int i =
     (if i = 0 then PreferenceNormal else if i = 1 then PreferenceSilent
      else if i = 2 then PreferenceReject else PreferenceOther i)"

fun int_of_preference :: "preference_level \<Rightarrow> int" where
  "int_of_preference PreferenceNormal = 0"
| "int_of_preference PreferenceSilent = 1"
| "int_of_preference PreferenceReject = 2"
| "int_of_preference (PreferenceOther i) = i"

datatype delivery_outcome = OutcomeSuccess | OutcomeFailure | OutcomeInvalidToken
  | OutcomeSkipped | OutcomeHeld | OutcomeOther int

fun outcome_of_int :: "int \<Rightarrow> delivery_outcome" where
  "outcome_of_int i =
     (if i = 0 then OutcomeSuccess else if i = 1 then OutcomeFailure
      else if i = 2 then OutcomeInvalidToken else if i = 3 then OutcomeSkipped
      else if i = 4 then OutcomeHeld else OutcomeOther i)"

fun int_of_outcome :: "delivery_outcome \<Rightarrow> int" where
  "int_of_outcome OutcomeSuccess = 0"
| "int_of_outcome OutcomeFailure = 1"
| "int_of_outcome OutcomeInvalidToken = 2"
| "int_of_outcome OutcomeSkipped = 3"
| "int_of_outcome OutcomeHeld = 4"
| "int_of_outcome (OutcomeOther i) = i"

datatype plan_status = PlanScheduled | PlanPaused | PlanCompleted | PlanStatusOther int

fun plan_status_of_int :: "int \<Rightarrow> plan_status" where
  "plan_status_of_int i =
     (if i = 0 then PlanScheduled else if i = 1 then PlanPaused
      else if i = 2 then PlanCompleted else PlanStatusOther i)"

fun int_of_plan_status :: "plan_status \<Rightarrow> int" where
  "int_of_plan_status PlanScheduled = 0"
| "int_of_plan_status PlanPaused = 1"
| "int_of_plan_status PlanCompleted = 2"
| "int_of_plan_status (PlanStatusOther i) = i"

datatype recipient_status = RecipientPending | RecipientSent | RecipientSkipped
  | RecipientFailed | RecipientStatusOther int

fun recipient_status_of_int :: "int \<Rightarrow> recipient_status" where
  "recipient_status_of_int i =
     (if i = 0 then RecipientPending else if i = 1 then RecipientSent
      else if i = 2 then RecipientSkipped else if i = 3 then RecipientFailed
      else RecipientStatusOther i)"

fun int_of_recipient_status :: "recipient_status \<Rightarrow> int" where
  "int_of_recipient_status RecipientPending = 0"
| "int_of_recipient_status RecipientSent = 1"
| "int_of_recipient_status RecipientSkipped = 2"
| "int_of_recipient_status RecipientFailed = 3"
| "int_of_recipient_status (RecipientStatusOther i) = i"

lemma int_of_enum_of_int [simp]:
  "int_of_provider (provider_of_int i) = i"
  "int_of_preference (preference_of_int i) = i"
  "int_of_outcome (outcome_of_int i) = i"
  "int_of_plan_status (plan_status_of_int i) = i"
  "int_of_recipient_status (recipient_status_of_int i) = i"
  by simp_all

declare provider_of_int.simps [simp del] preference_of_int.simps [simp del]
  outcome_of_int.simps [simp del] plan_status_of_int.simps [simp del]
  recipient_status_of_int.simps [simp del]

lemmas enum_of_int = provider_of_int.simps preference_of_int.simps outcome_of_int.simps
  plan_status_of_int.simps recipient_status_of_int.simps

text \<open>A status read from a row is the constructor exactly when the stored number is its code.\<close>

lemma plan_status_of_int_iff [simp]:
  "plan_status_of_int i = PlanScheduled \<longleftrightarrow> i = 0"
  "plan_status_of_int i = PlanPaused \<longleftrightarrow> i = 1"
  "plan_status_of_int i = PlanCompleted \<longleftrightarrow> i = 2"
  by (auto simp: enum_of_int)

lemma recipient_status_of_int_iff [simp]:
  "recipient_status_of_int i = RecipientPending \<longleftrightarrow> i = 0"
  "recipient_status_of_int i = RecipientSent \<longleftrightarrow> i = 1"
  "recipient_status_of_int i = RecipientSkipped \<longleftrightarrow> i = 2"
  "recipient_status_of_int i = RecipientFailed \<longleftrightarrow> i = 3"
  by (auto simp: enum_of_int)

lemma provider_of_int_iff [simp]:
  "provider_of_int i = PushProviderSop \<longleftrightarrow> i = 2"
  "provider_of_int i = PushProviderAppk \<longleftrightarrow> i = 4"
  by (auto simp: enum_of_int)

lemma preference_of_int_iff [simp]:
  "preference_of_int i = PreferenceNormal \<longleftrightarrow> i = 0"
  "preference_of_int i = PreferenceSilent \<longleftrightarrow> i = 1"
  "preference_of_int i = PreferenceReject \<longleftrightarrow> i = 2"
  by (auto simp: enum_of_int)

text \<open>The enumeration values a stored integer can decode to.\<close>

definition provider_ok :: "push_provider \<Rightarrow> bool" where
  "provider_ok p \<longleftrightarrow> (case p of PushProviderOther i \<Rightarrow> i < 0 \<or> 4 < i | _ \<Rightarrow> True)"

lemma provider_of_int_of_provider: "provider_ok p \<Longrightarrow> provider_of_int (int_of_provider p) = p"
  by (cases p) (auto simp: provider_ok_def enum_of_int)

lemma provider_ok_of_int [simp]: "provider_ok (provider_of_int i)"
  by (auto simp: provider_ok_def enum_of_int)

definition preference_ok :: "preference_level \<Rightarrow> bool" where
  "preference_ok p \<longleftrightarrow> (case p of PreferenceOther i \<Rightarrow> i < 0 \<or> 2 < i | _ \<Rightarrow> True)"

lemma preference_of_int_of_preference:
  "preference_ok p \<Longrightarrow> preference_of_int (int_of_preference p) = p"
  by (cases p) (auto simp: preference_ok_def enum_of_int)

definition plan_status_ok :: "plan_status \<Rightarrow> bool" where
  "plan_status_ok p \<longleftrightarrow> (case p of PlanStatusOther i \<Rightarrow> i < 0 \<or> 2 < i | _ \<Rightarrow> True)"

lemma plan_status_of_int_of_plan_status:
  "plan_status_ok p \<Longrightarrow> plan_status_of_int (int_of_plan_status p) = p"
  by (cases p) (auto simp: plan_status_ok_def enum_of_int)

definition recipient_status_ok :: "recipient_status \<Rightarrow> bool" where
  "recipient_status_ok p \<longleftrightarrow> (case p of RecipientStatusOther i \<Rightarrow> i < 0 \<or> 3 < i | _ \<Rightarrow> True)"

lemma recipient_status_of_int_of_recipient_status:
  "recipient_status_ok p \<Longrightarrow> recipient_status_of_int (int_of_recipient_status p) = p"
  by (cases p) (auto simp: recipient_status_ok_def enum_of_int)

section \<open>Records\<close>

record model_base =
  Id :: uuid
  CreatedAt :: time
  UpdatedAt :: time
  DeletedAt :: "time option"

record notification = model_base +
  ntf_Topic :: string
  ntf_Title :: "string option"
  ntf_Subtitle :: "string option"
  ntf_Content :: "string option"
  ntf_Meta :: "json_map option"
  ntf_Priority :: int
  ntf_ViewedAt :: "time option"
  ntf_AppId :: "string option"
  ntf_PushType :: "string option"
  ntf_AccountId :: uuid

record notification_preference = model_base +
  prf_AccountId :: uuid
  prf_Topic :: string
  prf_Preference :: preference_level

record push_subscription = model_base +
  sub_AccountId :: uuid
  sub_DeviceId :: string
  sub_DeviceToken :: string
  sub_DeviceName :: "string option"
  sub_Provider :: push_provider
  sub_IsActivated :: bool
  sub_AppId :: "string option"
  sub_CountDelivered :: int
  sub_LastUsedAt :: "time option"

text \<open>\<open>AppIdValue\<close>: empty when nil.\<close>

definition ntf_AppIdValue :: "notification \<Rightarrow> string" where
  "ntf_AppIdValue n = (case ntf_AppId n of None \<Rightarrow> '''' | Some a \<Rightarrow> a)"

definition sub_AppIdValue :: "push_subscription \<Rightarrow> string" where
  "sub_AppIdValue s = (case sub_AppId s of None \<Rightarrow> '''' | Some a \<Rightarrow> a)"

record email_sending_plan = model_base +
  plan_SendingPlanKey :: "string option"
  plan_CreatedByAccountId :: uuid
  plan_Subject :: string
  plan_HtmlBody :: string
  plan_BroadcastToAll :: bool
  plan_RecipientCount :: int
  plan_MaxEmailsPerInterval :: int
  plan_IntervalMinutes :: int
  plan_MaxEmailsPerDay :: "int option"
  plan_Status :: plan_status
  plan_AdvancedIntervalsCount :: int
  plan_PlannedStartAt :: time
  plan_NextIntervalAt :: "time option"
  plan_LastAdvancedAt :: "time option"
  plan_PausedAt :: "time option"
  plan_CompletedAt :: "time option"

record email_recipient = model_base +
  rcp_PlanId :: uuid
  rcp_AccountId :: uuid
  rcp_RecipientNameSnapshot :: "string option"
  rcp_Status :: recipient_status
  rcp_AttemptCount :: int
  rcp_LastIntervalNumber :: "int option"
  rcp_LastResolvedEmail :: "string option"
  rcp_LastError :: "string option"
  rcp_ProcessedAt :: "time option"

record email_advance = model_base +
  adv_PlanId :: uuid
  adv_IntervalNumber :: int
  adv_IsManual :: bool
  adv_AttemptedCount :: int
  adv_SentCount :: int
  adv_SkippedCount :: int
  adv_FailedCount :: int
  adv_PendingCountAfter :: int
  adv_StartedAt :: time
  adv_CompletedAt :: time

record plan_counts =
  cnt_Total :: int
  cnt_Pending :: int
  cnt_Sent :: int
  cnt_Skipped :: int
  cnt_Failed :: int

record email_delivery_record = model_base +
  edr_Source :: string
  edr_Provider :: string
  edr_Outcome :: delivery_outcome
  edr_DurationMilliseconds :: int
  edr_Error :: "string option"

record notification_delivery_record = model_base +
  ndr_NotificationId :: "uuid option"
  ndr_SubscriptionId :: "uuid option"
  ndr_Topic :: string
  ndr_AppId :: "string option"
  ndr_PushType :: "string option"
  ndr_Provider :: string
  ndr_Outcome :: delivery_outcome
  ndr_DurationMilliseconds :: int
  ndr_Error :: "string option"

record notification_send_record = model_base +
  nsr_Topic :: string
  nsr_AppId :: "string option"
  nsr_PushType :: "string option"
  nsr_Source :: string

end
