(* ===== verification/Snake_Case.thy ===== *)
theory Snake_Case
  imports Model
begin

text \<open>
  \<open>internal/model/json.go\<close>: the snake-case key policy of outbound dictionaries. \<open>to_snake\<close> is
  the byte loop with its look-behind (\<open>prev\<close>, absent on the first byte) and its look-ahead; \<open>snake_map_keys\<close>
  rebuilds every map, so two keys that convert to the same name leave the entry visited last.
\<close>

section \<open>The conversion of one name\<close>

definition is_lower_or_digit :: "char \<Rightarrow> bool" where
  "is_lower_or_digit c \<longleftrightarrow> is_lower c \<or> is_digit c"

fun snake_loop :: "char option \<Rightarrow> string \<Rightarrow> string" where
  "snake_loop prev [] = []"
| "snake_loop prev (c # rest) =
     (if is_upper c then
        (case prev of
           None \<Rightarrow> []
         | Some p \<Rightarrow>
             if is_lower_or_digit p then ''_''
             else if is_upper p \<and> rest \<noteq> [] \<and> is_lower (hd rest) then ''_''
             else [])
        @ lower_char c # snake_loop (Some c) rest
      else c # snake_loop (Some c) rest)"

definition to_snake :: "string \<Rightarrow> string" where
  "to_snake name = (if name = '''' then name else snake_loop None name)"

lemma not_upper_underscore [simp]: "\<not> is_upper CHR ''_''"
  by (simp add: char_class_defs)

lemma snake_loop_no_upper: "c \<in> set (snake_loop prev s) \<Longrightarrow> \<not> is_upper c"
proof (induction prev s rule: snake_loop.induct)
  case (2 prev a rest)
  then show ?case by (cases prev) (auto split: if_splits)
qed simp

lemma snake_loop_id: "(\<And>c. c \<in> set s \<Longrightarrow> \<not> is_upper c) \<Longrightarrow> snake_loop prev s = s"
  by (induction prev s rule: snake_loop.induct) auto

lemma to_snake_no_upper: "c \<in> set (to_snake s) \<Longrightarrow> \<not> is_upper c"
  by (auto simp: to_snake_def split: if_splits dest: snake_loop_no_upper)

lemma to_snake_id: "(\<And>c. c \<in> set s \<Longrightarrow> \<not> is_upper c) \<Longrightarrow> to_snake s = s"
  by (simp add: to_snake_def snake_loop_id)

lemma to_snake_idem [simp]: "to_snake (to_snake s) = to_snake s"
  by (rule to_snake_id) (rule to_snake_no_upper)

text \<open>The conversion only lower-cases and inserts underscores.\<close>

lemma snake_loop_letters:
  "filter (\<lambda>c. c \<noteq> CHR ''_'') (snake_loop prev s) = filter (\<lambda>c. c \<noteq> CHR ''_'') (to_lower s)"
proof (induction prev s rule: snake_loop.induct)
  case (2 prev a rest)
  then show ?case by (cases prev) (auto simp: to_lower_def lower_char_id)
qed (simp add: to_lower_def)

section \<open>The conversion of a value\<close>

text \<open>\<open>out[k] = v\<close> for each visited entry, into an empty map.\<close>

fun put_all :: "json_map \<Rightarrow> json_map \<Rightarrow> json_map" where
  "put_all out [] = out"
| "put_all out ((k, v) # kvs) = put_all (AList.update k v out) kvs"

primrec snake_map_keys :: "json \<Rightarrow> json" where
  "snake_map_keys JNull = JNull"
| "snake_map_keys (JBool b) = JBool b"
| "snake_map_keys (JNum n) = JNum n"
| "snake_map_keys (JStr s) = JStr s"
| "snake_map_keys (JArr xs) = JArr (map snake_map_keys xs)"
| "snake_map_keys (JObj kvs) =
     JObj (put_all [] (map (map_prod to_snake id) (map (map_prod id snake_map_keys) kvs)))"

text \<open>The map of a notification, as \<open>notificationResponse\<close> converts it.\<close>

definition snake_meta :: "json_map \<Rightarrow> json_map" where
  "snake_meta m = (case snake_map_keys (JObj m) of JObj kvs \<Rightarrow> kvs | _ \<Rightarrow> [])"

lemma map_of_put_all:
  "map_of (put_all out kvs) k = (case map_of (rev kvs) k of None \<Rightarrow> map_of out k | Some v \<Rightarrow> Some v)"
proof (induction out kvs rule: put_all.induct)
  case (2 out k' v kvs)
  then show ?case
    by (auto simp: update_conv map_of_append map_add_def split: option.splits)
qed simp

lemma keys_put_all: "fst ` set (put_all out kvs) = fst ` set out \<union> fst ` set kvs"
  by (induction out kvs rule: put_all.induct) (auto simp: dom_update)

lemma distinct_put_all: "distinct (map fst out) \<Longrightarrow> distinct (map fst (put_all out kvs))"
  by (induction out kvs rule: put_all.induct) (auto simp: distinct_update)

lemma update_fresh: "k \<notin> fst ` set out \<Longrightarrow> AList.update k v out = out @ [(k, v)]"
  by (induction out) auto

lemma put_all_fresh:
  "distinct (map fst kvs) \<Longrightarrow> fst ` set out \<inter> fst ` set kvs = {} \<Longrightarrow> put_all out kvs = out @ kvs"
proof (induction out kvs rule: put_all.induct)
  case (2 out k v kvs)
  then have "k \<notin> fst ` set out" by auto
  then have "AList.update k v out = out @ [(k, v)]" by (rule update_fresh)
  with 2 show ?case by auto
qed simp

text \<open>Values of \<open>put_all\<close> come from its arguments.\<close>

lemma in_put_all: "(k, v) \<in> set (put_all out kvs) \<Longrightarrow> distinct (map fst out) \<Longrightarrow> (k, v) \<in> set out \<union> set kvs"
proof -
  assume a: "(k, v) \<in> set (put_all out kvs)" and d: "distinct (map fst out)"
  from d have "distinct (map fst (put_all out kvs))" by (rule distinct_put_all)
  with a have "map_of (put_all out kvs) k = Some v" by simp
  then show ?thesis
    by (auto simp: map_of_put_all split: option.splits dest: map_of_SomeD)
qed

fun snake_keyed :: "json \<Rightarrow> bool" where
  "snake_keyed (JArr xs) = (\<forall>x \<in> set xs. snake_keyed x)"
| "snake_keyed (JObj kvs) =
     (distinct (map fst kvs) \<and> (\<forall>(k, v) \<in> set kvs. to_snake k = k \<and> snake_keyed v))"
| "snake_keyed j = True"

lemma snake_keyed_snake_map_keys: "snake_keyed (snake_map_keys j)"
proof (induction j)
  case (JObj kvs)
  have "to_snake k = k \<and> snake_keyed v"
    if "(k, v) \<in> set (put_all [] (map (map_prod to_snake id) (map (map_prod id snake_map_keys) kvs)))" for k v
  proof -
    from in_put_all [OF that] obtain k' v' where "(k', v') \<in> set kvs" "k = to_snake k'" "v = snake_map_keys v'"
      by auto
    with JObj show ?thesis by (fastforce simp: Basic_BNFs.snds.simps)
  qed
  then show ?case by (auto simp: distinct_put_all)
qed auto

lemma snake_map_keys_id: "snake_keyed j \<Longrightarrow> snake_map_keys j = j"
proof (induction j)
  case (JArr xs)
  then show ?case by (simp add: map_idI)
next
  case (JObj kvs)
  then have "map (map_prod to_snake id) (map (map_prod id snake_map_keys) kvs) = kvs"
    by (fastforce simp: Basic_BNFs.snds.simps intro: map_idI)
  with JObj show ?case by (simp add: put_all_fresh)
qed auto

end
