(* ===== verification/Entities.thy ===== *)
theory Entities
  imports Model
begin

text \<open>
  The rows of the tables (\<open>internal/store/entities.go\<close>) and their conversion from and to the
  models (\<open>internal/store/codec.go\<close>). A row holds the enumerations as integers, the meta column as a
  JSON document and the soft-delete mark as gorm's nullable time.
\<close>

section \<open>Rows\<close>

record gorm_deleted_at =
  da_Time :: time
  da_Valid :: bool

text \<open>A \<open>jsonb\<close> column as it is scanned: empty, not a JSON document, or a document.\<close>

datatype json_column = ColEmpty | ColMalformed | ColJson json

record entity =
  ID :: uuid
  e_CreatedAt :: time
  e_UpdatedAt :: time
  e_DeletedAt :: gorm_deleted_at

record notification_entity = entity +
  ne_AccountID :: uuid
  ne_AppID :: "string option"
  ne_Content :: "string option"
  ne_Meta :: json_column
  ne_Priority :: int
  ne_PushType :: "string option"
  ne_Subtitle :: "string option"
  ne_Title :: "string option"
  ne_Topic :: string
  ne_ViewedAt :: "time option"

record subscription_entity = entity +
  se_AccountID :: uuid
  se_AppID :: "string option"
  se_CountDelivered :: int
  se_DeviceID :: string
  se_DeviceName :: "string option"
  se_DeviceToken :: string
  se_IsActivated :: bool
  se_LastUsedAt :: "time option"
  se_Provider :: int

record preference_entity = entity +
  pe_AccountID :: uuid
  pe_Preference :: int
  pe_Topic :: string

record plan_entity = entity +
  ple_SendingPlanKey :: "string option"
  ple_CreatedByAccountID :: uuid
  ple_Subject :: string
  ple_HTMLBody :: string
  ple_BroadcastToAll :: bool
  ple_RecipientCount :: int
  ple_MaxEmailsPerInterval :: int
  ple_IntervalMinutes :: int
  ple_MaxEmailsPerDay :: "int option"
  ple_Status :: int
  ple_AdvancedIntervalsCount :: int
  ple_PlannedStartAt :: time
  ple_NextIntervalAt :: "time option"
  ple_LastAdvancedAt :: "time option"
  ple_PausedAt :: "time option"
  ple_CompletedAt :: "time option"

record recipient_entity = entity +
  re_PlanID :: uuid
  re_AccountID :: uuid
  re_RecipientNameSnapshot :: "string option"
  re_Status :: int
  re_AttemptCount :: int
  re_LastIntervalNumber :: "int option"
  re_LastResolvedEmail :: "string option"
  re_LastError :: "string option"
  re_ProcessedAt :: "time option"

record advance_entity = entity +
  ae_PlanID :: uuid
  ae_IntervalNumber :: int
  ae_IsManual :: bool
  ae_AttemptedCount :: int
  ae_SentCount :: int
  ae_SkippedCount :: int
  ae_FailedCount :: int
  ae_PendingCountAfter :: int
  ae_StartedAt :: time
  ae_CompletedAt :: time

record email_delivery_entity = entity +
  ede_DurationMilliseconds :: int
  ede_Error :: "string option"
  ede_Outcome :: int
  ede_Provider :: string
  ede_Source :: string

record notification_delivery_entity = entity +
  nde_AppID :: "string option"
  nde_DurationMilliseconds :: int
  nde_Error :: "string option"
  nde_NotificationID :: "uuid option"
  nde_Outcome :: int
  nde_Provider :: string
  nde_PushType :: "string option"
  nde_SubscriptionID :: "uuid option"
  nde_Topic :: string

record send_record_entity = entity +
  sre_AppID :: "string option"
  sre_PushType :: "string option"
  sre_Source :: string
  sre_Topic :: string

section \<open>Soft deletion\<close>

definition deleted_time :: "gorm_deleted_at \<Rightarrow> time option" where
  "deleted_time v = (if \<not> da_Valid v then None else Some (da_Time v))"

definition deleted_at :: "time option \<Rightarrow> gorm_deleted_at" where
  "deleted_at v = (case v of None \<Rightarrow> \<lparr>da_Time = zero_time, da_Valid = False\<rparr>
                   | Some t \<Rightarrow> \<lparr>da_Time = t, da_Valid = True\<rparr>)"

lemma deleted_time_deleted_at [simp]: "deleted_time (deleted_at v) = v"
  by (simp add: deleted_time_def deleted_at_def split: option.splits)

text \<open>The rows a query sees unless it is \<open>Unscoped\<close>.\<close>

definition alive :: "'z entity_scheme \<Rightarrow> bool" where
  "alive r \<longleftrightarrow> \<not> da_Valid (e_DeletedAt r)"

lemma alive_deleted_at [simp]: "da_Valid (deleted_at v) \<longleftrightarrow> v \<noteq> None"
  by (simp add: deleted_at_def split: option.splits)

section \<open>The meta column\<close>

definition encode_json :: "json_map option \<Rightarrow> go_error + json_column" where
  "encode_json v = Inr (ColJson (case v of None \<Rightarrow> JNull | Some m \<Rightarrow> JObj m))"

definition decode_json :: "json_column \<Rightarrow> go_error + json_map option" where
  "decode_json d =
     (case d of
        ColEmpty \<Rightarrow> Inr None
      | ColMalformed \<Rightarrow> Inl (ErrWrap ''decode json'' (ErrText ''invalid JSON''))
      | ColJson JNull \<Rightarrow> Inr None
      | ColJson (JObj m) \<Rightarrow> Inr (Some m)
      | ColJson _ \<Rightarrow> Inl (ErrWrap ''decode json'' (ErrText ''cannot unmarshal into map'')))"

section \<open>Conversions\<close>

definition notification_from_entity :: "notification_entity \<Rightarrow> go_error + notification" where
  "notification_from_entity e =
     (case decode_json (ne_Meta e) of
        Inl err \<Rightarrow> Inl (ErrWrap ''parse notification meta'' err)
      | Inr meta \<Rightarrow> Inr
         \<lparr>Id = ID e, CreatedAt = e_CreatedAt e, UpdatedAt = e_UpdatedAt e,
          DeletedAt = deleted_time (e_DeletedAt e),
          ntf_Topic = ne_Topic e, ntf_Title = ne_Title e, ntf_Subtitle = ne_Subtitle e,
          ntf_Content = ne_Content e, ntf_Meta = meta, ntf_Priority = ne_Priority e,
          ntf_ViewedAt = ne_ViewedAt e, ntf_AppId = ne_AppID e, ntf_PushType = ne_PushType e,
          ntf_AccountId = ne_AccountID e\<rparr>)"

definition notification_entity_from_model :: "notification \<Rightarrow> go_error + notification_entity" where
  "notification_entity_from_model v =
     (case encode_json (ntf_Meta v) of
        Inl err \<Rightarrow> Inl err
      | Inr meta \<Rightarrow> Inr
         \<lparr>ID = Id v, e_CreatedAt = CreatedAt v, e_UpdatedAt = UpdatedAt v,
          e_DeletedAt = deleted_at (DeletedAt v),
          ne_AccountID = ntf_AccountId v, ne_AppID = ntf_AppId v, ne_Content = ntf_Content v,
          ne_Meta = meta, ne_Priority = ntf_Priority v, ne_PushType = ntf_PushType v,
          ne_Subtitle = ntf_Subtitle v, ne_Title = ntf_Title v, ne_Topic = ntf_Topic v,
          ne_ViewedAt = ntf_ViewedAt v\<rparr>)"

definition subscription_from_entity :: "subscription_entity \<Rightarrow> push_subscription" where
  "subscription_from_entity e =
     \<lparr>Id = ID e, CreatedAt = e_CreatedAt e, UpdatedAt = e_UpdatedAt e,
      DeletedAt = deleted_time (e_DeletedAt e),
      sub_AccountId = se_AccountID e, sub_DeviceId = se_DeviceID e,
      sub_DeviceToken = se_DeviceToken e, sub_DeviceName = se_DeviceName e,
      sub_Provider = provider_of_int (se_Provider e), sub_IsActivated = se_IsActivated e,
      sub_AppId = se_AppID e, sub_CountDelivered = se_CountDelivered e,
      sub_LastUsedAt = se_LastUsedAt e\<rparr>"

definition subscription_entity_from_model :: "push_subscription \<Rightarrow> subscription_entity" where
  "subscription_entity_from_model v =
     \<lparr>ID = Id v, e_CreatedAt = CreatedAt v, e_UpdatedAt = UpdatedAt v,
      e_DeletedAt = deleted_at (DeletedAt v),
      se_AccountID = sub_AccountId v, se_AppID = sub_AppId v,
      se_CountDelivered = sub_CountDelivered v, se_DeviceID = sub_DeviceId v,
      se_DeviceName = sub_DeviceName v, se_DeviceToken = sub_DeviceToken v,
      se_IsActivated = sub_IsActivated v, se_LastUsedAt = sub_LastUsedAt v,
      se_Provider = int_of_provider (sub_Provider v)\<rparr>"

definition preference_from_entity :: "preference_entity \<Rightarrow> notification_preference" where
  "preference_from_entity e =
     \<lparr>Id = ID e, CreatedAt = e_CreatedAt e, UpdatedAt = e_UpdatedAt e,
      DeletedAt = deleted_time (e_DeletedAt e),
      prf_AccountId = pe_AccountID e, prf_Topic = pe_Topic e,
      prf_Preference = preference_of_int (pe_Preference e)\<rparr>"

definition preference_entity_from_model :: "notification_preference \<Rightarrow> preference_entity" where
  "preference_entity_from_model v =
     \<lparr>ID = Id v, e_CreatedAt = CreatedAt v, e_UpdatedAt = UpdatedAt v,
      e_DeletedAt = deleted_at (DeletedAt v),
      pe_AccountID = prf_AccountId v, pe_Preference = int_of_preference (prf_Preference v),
      pe_Topic = prf_Topic v\<rparr>"

definition plan_from_entity :: "plan_entity \<Rightarrow> email_sending_plan" where
  "plan_from_entity e =
     \<lparr>Id = ID e, CreatedAt = e_CreatedAt e, UpdatedAt = e_UpdatedAt e,
      DeletedAt = deleted_time (e_DeletedAt e),
      plan_SendingPlanKey = ple_SendingPlanKey e,
      plan_CreatedByAccountId = ple_CreatedByAccountID e,
      plan_Subject = ple_Subject e, plan_HtmlBody = ple_HTMLBody e,
      plan_BroadcastToAll = ple_BroadcastToAll e, plan_RecipientCount = ple_RecipientCount e,
      plan_MaxEmailsPerInterval = ple_MaxEmailsPerInterval e,
      plan_IntervalMinutes = ple_IntervalMinutes e,
      plan_MaxEmailsPerDay = ple_MaxEmailsPerDay e,
      plan_Status = plan_status_of_int (ple_Status e),
      plan_AdvancedIntervalsCount = ple_AdvancedIntervalsCount e,
      plan_PlannedStartAt = ple_PlannedStartAt e, plan_NextIntervalAt = ple_NextIntervalAt e,
      plan_LastAdvancedAt = ple_LastAdvancedAt e, plan_PausedAt = ple_PausedAt e,
      plan_CompletedAt = ple_CompletedAt e\<rparr>"

definition plan_entity_from_model :: "email_sending_plan \<Rightarrow> plan_entity" where
  "plan_entity_from_model v =
     \<lparr>ID = Id v, e_CreatedAt = CreatedAt v, e_UpdatedAt = UpdatedAt v,
      e_DeletedAt = deleted_at (DeletedAt v),
      ple_SendingPlanKey = plan_SendingPlanKey v,
      ple_CreatedByAccountID = plan_CreatedByAccountId v,
      ple_Subject = plan_Subject v, ple_HTMLBody = plan_HtmlBody v,
      ple_BroadcastToAll = plan_BroadcastToAll v, ple_RecipientCount = plan_RecipientCount v,
      ple_MaxEmailsPerInterval = plan_MaxEmailsPerInterval v,
      ple_IntervalMinutes = plan_IntervalMinutes v,
      ple_MaxEmailsPerDay = plan_MaxEmailsPerDay v,
      ple_Status = int_of_plan_status (plan_Status v),
      ple_AdvancedIntervalsCount = plan_AdvancedIntervalsCount v,
      ple_PlannedStartAt = plan_PlannedStartAt v, ple_NextIntervalAt = plan_NextIntervalAt v,
      ple_LastAdvancedAt = plan_LastAdvancedAt v, ple_PausedAt = plan_PausedAt v,
      ple_CompletedAt = plan_CompletedAt v\<rparr>"

definition recipient_from_entity :: "recipient_entity \<Rightarrow> email_recipient" where
  "recipient_from_entity e =
     \<lparr>Id = ID e, CreatedAt = e_CreatedAt e, UpdatedAt = e_UpdatedAt e,
      DeletedAt = deleted_time (e_DeletedAt e),
      rcp_PlanId = re_PlanID e, rcp_AccountId = re_AccountID e,
      rcp_RecipientNameSnapshot = re_RecipientNameSnapshot e,
      rcp_Status = recipient_status_of_int (re_Status e), rcp_AttemptCount = re_AttemptCount e,
      rcp_LastIntervalNumber = re_LastIntervalNumber e,
      rcp_LastResolvedEmail = re_LastResolvedEmail e, rcp_LastError = re_LastError e,
      rcp_ProcessedAt = re_ProcessedAt e\<rparr>"

definition recipient_entity_from_model :: "email_recipient \<Rightarrow> recipient_entity" where
  "recipient_entity_from_model v =
     \<lparr>ID = Id v, e_CreatedAt = CreatedAt v, e_UpdatedAt = UpdatedAt v,
      e_DeletedAt = deleted_at (DeletedAt v),
      re_PlanID = rcp_PlanId v, re_AccountID = rcp_AccountId v,
      re_RecipientNameSnapshot = rcp_RecipientNameSnapshot v,
      re_Status = int_of_recipient_status (rcp_Status v), re_AttemptCount = rcp_AttemptCount v,
      re_LastIntervalNumber = rcp_LastIntervalNumber v,
      re_LastResolvedEmail = rcp_LastResolvedEmail v, re_LastError = rcp_LastError v,
      re_ProcessedAt = rcp_ProcessedAt v\<rparr>"

definition advance_from_entity :: "advance_entity \<Rightarrow> email_advance" where
  "advance_from_entity e =
     \<lparr>Id = ID e, CreatedAt = e_CreatedAt e, UpdatedAt = e_UpdatedAt e,
      DeletedAt = deleted_time (e_DeletedAt e),
      adv_PlanId = ae_PlanID e, adv_IntervalNumber = ae_IntervalNumber e,
      adv_IsManual = ae_IsManual e, adv_AttemptedCount = ae_AttemptedCount e,
      adv_SentCount = ae_SentCount e, adv_SkippedCount = ae_SkippedCount e,
      adv_FailedCount = ae_FailedCount e, adv_PendingCountAfter = ae_PendingCountAfter e,
      adv_StartedAt = ae_StartedAt e, adv_CompletedAt = ae_CompletedAt e\<rparr>"

definition advance_entity_from_model :: "email_advance \<Rightarrow> advance_entity" where
  "advance_entity_from_model v =
     \<lparr>ID = Id v, e_CreatedAt = CreatedAt v, e_UpdatedAt = UpdatedAt v,
      e_DeletedAt = deleted_at (DeletedAt v),
      ae_PlanID = adv_PlanId v, ae_IntervalNumber = adv_IntervalNumber v,
      ae_IsManual = adv_IsManual v, ae_AttemptedCount = adv_AttemptedCount v,
      ae_SentCount = adv_SentCount v, ae_SkippedCount = adv_SkippedCount v,
      ae_FailedCount = adv_FailedCount v, ae_PendingCountAfter = adv_PendingCountAfter v,
      ae_StartedAt = adv_StartedAt v, ae_CompletedAt = adv_CompletedAt v\<rparr>"

text \<open>Each row built from a model is read back as that model.\<close>

lemma notification_row_roundtrip:
  "\<exists>e. notification_entity_from_model n = Inr e \<and> notification_from_entity e = Inr n"
  by (cases "ntf_Meta n")
    (auto simp: notification_entity_from_model_def notification_from_entity_def encode_json_def
      decode_json_def)

lemma subscription_row_roundtrip:
  "provider_ok (sub_Provider s) \<Longrightarrow>
   subscription_from_entity (subscription_entity_from_model s) = s"
  by (simp add: subscription_from_entity_def subscription_entity_from_model_def
      provider_of_int_of_provider)

lemma preference_row_roundtrip:
  "preference_ok (prf_Preference p) \<Longrightarrow>
   preference_from_entity (preference_entity_from_model p) = p"
  by (simp add: preference_from_entity_def preference_entity_from_model_def
      preference_of_int_of_preference)

lemma plan_row_roundtrip:
  "plan_status_ok (plan_Status p) \<Longrightarrow> plan_from_entity (plan_entity_from_model p) = p"
  by (simp add: plan_from_entity_def plan_entity_from_model_def plan_status_of_int_of_plan_status)

lemma recipient_row_roundtrip:
  "recipient_status_ok (rcp_Status r) \<Longrightarrow>
   recipient_from_entity (recipient_entity_from_model r) = r"
  by (simp add: recipient_from_entity_def recipient_entity_from_model_def
      recipient_status_of_int_of_recipient_status)

lemma advance_row_roundtrip: "advance_from_entity (advance_entity_from_model a) = a"
  by (simp add: advance_from_entity_def advance_entity_from_model_def)

lemma subscription_from_entity_sel [simp]:
  "Id (subscription_from_entity e) = ID e"
  "sub_AccountId (subscription_from_entity e) = se_AccountID e"
  "sub_DeviceId (subscription_from_entity e) = se_DeviceID e"
  "sub_Provider (subscription_from_entity e) = provider_of_int (se_Provider e)"
  "sub_IsActivated (subscription_from_entity e) = se_IsActivated e"
  "sub_AppId (subscription_from_entity e) = se_AppID e"
  by (simp_all add: subscription_from_entity_def)

lemma subscription_entity_from_model_sel [simp]:
  "ID (subscription_entity_from_model s) = Id s"
  "se_AccountID (subscription_entity_from_model s) = sub_AccountId s"
  "se_DeviceID (subscription_entity_from_model s) = sub_DeviceId s"
  "se_Provider (subscription_entity_from_model s) = int_of_provider (sub_Provider s)"
  "se_IsActivated (subscription_entity_from_model s) = sub_IsActivated s"
  "alive (subscription_entity_from_model s) \<longleftrightarrow> DeletedAt s = None"
  by (simp_all add: subscription_entity_from_model_def alive_def)

lemma recipient_from_entity_sel [simp]:
  "Id (recipient_from_entity e) = ID e"
  "rcp_PlanId (recipient_from_entity e) = re_PlanID e"
  "rcp_AccountId (recipient_from_entity e) = re_AccountID e"
  "rcp_Status (recipient_from_entity e) = recipient_status_of_int (re_Status e)"
  by (simp_all add: recipient_from_entity_def)

lemma plan_from_entity_sel [simp]:
  "Id (plan_from_entity e) = ID e"
  "plan_Status (plan_from_entity e) = plan_status_of_int (ple_Status e)"
  "plan_MaxEmailsPerDay (plan_from_entity e) = ple_MaxEmailsPerDay e"
  "plan_MaxEmailsPerInterval (plan_from_entity e) = ple_MaxEmailsPerInterval e"
  "plan_IntervalMinutes (plan_from_entity e) = ple_IntervalMinutes e"
  "plan_AdvancedIntervalsCount (plan_from_entity e) = ple_AdvancedIntervalsCount e"
  "plan_NextIntervalAt (plan_from_entity e) = ple_NextIntervalAt e"
  "plan_CompletedAt (plan_from_entity e) = ple_CompletedAt e"
  by (simp_all add: plan_from_entity_def)

lemma advance_entity_from_model_sel [simp]:
  "ae_PlanID (advance_entity_from_model a) = adv_PlanId a"
  "ae_AttemptedCount (advance_entity_from_model a) = adv_AttemptedCount a"
  "ae_StartedAt (advance_entity_from_model a) = adv_StartedAt a"
  "alive (advance_entity_from_model a) \<longleftrightarrow> DeletedAt a = None"
  by (simp_all add: advance_entity_from_model_def alive_def)

end
