(* ===== verification/Apps.thy ===== *)
theory Apps
  imports Model
begin

text \<open>
  The per-app senders of \<open>internal/push/apps.go\<close> with the configuration they are built from
  (\<open>internal/config\<close>), and the resolution of app ids. A Go map is an association list in the
  order \<open>range\<close> visits it.
\<close>

section \<open>Configuration\<close>

record apns_app_config =
  aac_PrivateKeyPath :: string
  aac_PrivateKeyId :: string
  aac_TeamId :: string
  aac_BundleIdentifier :: string

record push_app_config =
  pac_Production :: bool
  pac_FcmKeyPath :: string
  pac_Apns :: "apns_app_config option"
  pac_Topics :: "(string \<times> string) list"

record push_config =
  pc_DefaultApp :: string
  pc_Apps :: "(string \<times> push_app_config) list"
  pc_Production :: bool
  pc_Google :: string
  pc_ApplePrivateKey :: string
  pc_ApplePrivateKeyId :: string
  pc_AppleTeamId :: string
  pc_AppleBundleIdentifier :: string

section \<open>Senders\<close>

record fcm_sender =
  fcm_ProjectID :: string

record apn_sender =
  apn_KeyID :: string
  apn_TeamID :: string
  apn_Topic :: string
  apn_Production :: bool

record app_senders =
  as_FCM :: "fcm_sender option"
  as_ApnsByTopic :: "(string \<times> apn_sender) list"
  as_DefaultApnsTopic :: string
  as_Topics :: "(string \<times> string) list"

text \<open>
  What building the senders takes from outside the repository: the file system (\<open>os.Stat\<close>,
  \<open>os.ReadFile\<close>), the parser of the service-account JSON with the OAuth configuration built from
  it, and the parser of the p8 key.
\<close>

record key_store =
  ks_stat :: "string \<Rightarrow> bool"
  ks_read :: "string \<Rightarrow> string option"
  ks_project_id :: "string \<Rightarrow> string option"
  ks_jwt_config :: "string \<Rightarrow> bool"
  ks_p8_key :: "string \<Rightarrow> bool"

definition new_fcm_sender :: "key_store \<Rightarrow> string \<Rightarrow> go_error + fcm_sender" where
  "new_fcm_sender ks data =
     (case ks_project_id ks data of
        None \<Rightarrow> Inl (ErrText ''parse fcm service account'')
      | Some projectID \<Rightarrow>
          if projectID = '''' then Inl (ErrText ''fcm service account has no project_id'')
          else if \<not> ks_jwt_config ks data then Inl (ErrText ''build fcm jwt config'')
          else Inr \<lparr>fcm_ProjectID = projectID\<rparr>)"

definition new_apn_sender ::
  "key_store \<Rightarrow> string \<Rightarrow> string \<Rightarrow> string \<Rightarrow> string \<Rightarrow> bool \<Rightarrow> go_error + apn_sender" where
  "new_apn_sender ks privateKey keyID teamID topic production =
     (if \<not> ks_p8_key ks privateKey then Inl (ErrText ''parse apns p8 key'')
      else Inr \<lparr>apn_KeyID = keyID, apn_TeamID = teamID, apn_Topic = topic,
                apn_Production = production\<rparr>)"

text \<open>The loop over the topics: one sender per distinct topic, a key that does not parse is skipped.\<close>

fun build_apns ::
  "key_store \<Rightarrow> apns_app_config \<Rightarrow> bool \<Rightarrow> string \<Rightarrow> string list \<Rightarrow> (string \<times> apn_sender) list" where
  "build_apns ks apns production privateKey [] = []"
| "build_apns ks apns production privateKey (topic # rest) =
     (case new_apn_sender ks privateKey (aac_PrivateKeyId apns) (aac_TeamId apns) topic production of
        Inl e \<Rightarrow> build_apns ks apns production privateKey rest
      | Inr sender \<Rightarrow> (topic, sender) # build_apns ks apns production privateKey rest)"

definition build_app_senders :: "key_store \<Rightarrow> push_app_config \<Rightarrow> app_senders" where
  "build_app_senders ks cfg =
     (let fcm =
        (if pac_FcmKeyPath cfg \<noteq> '''' \<and> ks_stat ks (pac_FcmKeyPath cfg) then
           (case ks_read ks (pac_FcmKeyPath cfg) of
              None \<Rightarrow> None
            | Some data \<Rightarrow>
                (case new_fcm_sender ks data of Inl e \<Rightarrow> None | Inr s \<Rightarrow> Some s))
         else None)
      in case pac_Apns cfg of
           None \<Rightarrow> \<lparr>as_FCM = fcm, as_ApnsByTopic = [], as_DefaultApnsTopic = '''',
                     as_Topics = pac_Topics cfg\<rparr>
         | Some apns \<Rightarrow>
             (case (if ks_stat ks (aac_PrivateKeyPath apns)
                    then ks_read ks (aac_PrivateKeyPath apns) else None) of
                None \<Rightarrow> \<lparr>as_FCM = fcm, as_ApnsByTopic = [], as_DefaultApnsTopic = '''',
                          as_Topics = pac_Topics cfg\<rparr>
              | Some privateKey \<Rightarrow>
                  if aac_BundleIdentifier apns = '''' then
                    \<lparr>as_FCM = fcm, as_ApnsByTopic = [], as_DefaultApnsTopic = '''',
                     as_Topics = pac_Topics cfg\<rparr>
                  else
                    (let apnsTopic = aac_BundleIdentifier apns;
                         topics = (if map_of (pac_Topics cfg) ''Alert'' \<noteq> None then pac_Topics cfg
                                   else pac_Topics cfg @ [(''Alert'', apnsTopic)])
                     in \<lparr>as_FCM = fcm,
                         as_ApnsByTopic = build_apns ks apns (pac_Production cfg) privateKey
                           (keep_first (\<lambda>t. t) [] (map snd topics)),
                         as_DefaultApnsTopic = apnsTopic, as_Topics = topics\<rparr>)))"

section \<open>The registry\<close>

record push_apps =
  pa_appSenders :: "(string \<times> app_senders) list"
  pa_defaultAppId :: string

definition legacy_config :: "push_config \<Rightarrow> push_app_config" where
  "legacy_config pc =
     \<lparr>pac_Production = pc_Production pc, pac_FcmKeyPath = pc_Google pc,
      pac_Apns =
        (if pc_ApplePrivateKey pc \<noteq> '''' \<or> pc_ApplePrivateKeyId pc \<noteq> ''''
            \<or> pc_AppleTeamId pc \<noteq> '''' \<or> pc_AppleBundleIdentifier pc \<noteq> '''' then
           Some \<lparr>aac_PrivateKeyPath = pc_ApplePrivateKey pc,
                 aac_PrivateKeyId = pc_ApplePrivateKeyId pc, aac_TeamId = pc_AppleTeamId pc,
                 aac_BundleIdentifier = pc_AppleBundleIdentifier pc\<rparr>
         else None),
      pac_Topics = []\<rparr>"

definition new_apps :: "key_store \<Rightarrow> push_config \<Rightarrow> push_apps" where
  "new_apps ks pc =
     (let (senders, configured) =
        (if pc_Apps pc \<noteq> [] then
           (map (\<lambda>(appID, cfg). (appID, build_app_senders ks cfg)) (pc_Apps pc), pc_DefaultApp pc)
         else ([(''_default'', build_app_senders ks (legacy_config pc))], ''_default''))
      in \<lparr>pa_appSenders = senders,
          pa_defaultAppId =
            (if configured \<noteq> '''' then configured
             else (case senders of [] \<Rightarrow> '''' | (appID, _) # _ \<Rightarrow> appID))\<rparr>)"

definition get_default_app_id :: "push_apps \<Rightarrow> string" where
  "get_default_app_id s = pa_defaultAppId s"

definition resolve_app_id :: "push_apps \<Rightarrow> string \<Rightarrow> bool \<Rightarrow> string" where
  "resolve_app_id s appId useDefaultIfMissing =
     (if trim_space appId \<noteq> '''' then appId
      else if useDefaultIfMissing then pa_defaultAppId s else '''')"

definition is_app_configured :: "push_apps \<Rightarrow> string \<Rightarrow> bool" where
  "is_app_configured s appId =
     (if appId = '''' then False else map_of (pa_appSenders s) appId \<noteq> None)"

definition resolve_app_senders :: "push_apps \<Rightarrow> string \<Rightarrow> app_senders option" where
  "resolve_app_senders s appId =
     (let fallback =
        (if pa_defaultAppId s \<noteq> '''' then map_of (pa_appSenders s) (pa_defaultAppId s) else None)
      in if appId \<noteq> '''' then
           (case map_of (pa_appSenders s) appId of Some senders \<Rightarrow> Some senders | None \<Rightarrow> fallback)
         else fallback)"

definition has_apps :: "push_apps \<Rightarrow> bool" where
  "has_apps s \<longleftrightarrow> pa_appSenders s \<noteq> []"

text \<open>\<open>Service.validateAppId\<close> (\<open>push.go\<close>): the allowlist of configured apps.\<close>

definition validate_app_id :: "push_apps \<Rightarrow> string \<Rightarrow> go_error + unit" where
  "validate_app_id s appId =
     (if appId \<noteq> '''' \<and> \<not> is_app_configured s appId then Inl (ErrUnknownAppId appId) else Inr ())"

section \<open>Properties\<close>

lemma resolve_app_id_idem:
  "resolve_app_id s (resolve_app_id s a True) True = resolve_app_id s a True"
  by (simp add: resolve_app_id_def)

lemma validate_app_id_ok:
  "validate_app_id s a = Inr () \<longleftrightarrow> a = '''' \<or> is_app_configured s a"
  by (simp add: validate_app_id_def)

text \<open>Every APNs sender is filed under the topic it was built for, which the app declares.\<close>

lemma build_apns_topic:
  "(t, a) \<in> set (build_apns ks apns p key ts) \<Longrightarrow> apn_Topic a = t \<and> t \<in> set ts \<and> apn_Production a = p"
  by (induction ts) (auto simp: new_apn_sender_def split: sum.splits if_splits)

lemma build_apns_all:
  "ks_p8_key ks key \<Longrightarrow> map fst (build_apns ks apns p key ts) = ts"
  by (induction ts) (auto simp: new_apn_sender_def)

lemma build_apns_distinct: "distinct ts \<Longrightarrow> distinct (map fst (build_apns ks apns p key ts))"
proof (induction ts)
  case (Cons t ts)
  then show ?case
    by (auto simp: new_apn_sender_def split: sum.splits if_splits dest!: build_apns_topic)
qed simp

text \<open>
  for any configuration, the registry the constructor builds has an app; when a default app
  is configured (or none, with a non-empty first app id) the default id is not empty; and an
  app id the allowlist accepts is resolved to that app's own senders, never to the fallback's,
  while the default app's senders serve the ids that are not configured.
\<close>

theorem new_apps_resolution:
  assumes "\<forall>(appID, cfg) \<in> set (pc_Apps pc). appID \<noteq> ''''"
  shows "has_apps (new_apps ks pc)
       \<and> get_default_app_id (new_apps ks pc) \<noteq> ''''
       \<and> (is_app_configured (new_apps ks pc) a \<longrightarrow>
            resolve_app_senders (new_apps ks pc) a = map_of (pa_appSenders (new_apps ks pc)) a
            \<and> resolve_app_senders (new_apps ks pc) a \<noteq> None)
       \<and> (\<not> is_app_configured (new_apps ks pc) a \<longrightarrow>
            resolve_app_senders (new_apps ks pc) a =
              map_of (pa_appSenders (new_apps ks pc)) (get_default_app_id (new_apps ks pc)))"
proof -
  have d: "pa_defaultAppId (new_apps ks pc) \<noteq> ''''"
    using assms by (cases "pc_Apps pc") (auto simp: new_apps_def)
  have h: "has_apps (new_apps ks pc)"
    by (simp add: has_apps_def new_apps_def)
  from d h show ?thesis
    by (auto simp: get_default_app_id_def is_app_configured_def resolve_app_senders_def Let_def
        split: if_splits option.splits)
qed

theorem new_apps_resolution_witness:
  "get_default_app_id (new_apps
     \<lparr>ks_stat = \<lambda>_. False, ks_read = \<lambda>_. None, ks_project_id = \<lambda>_. None,
      ks_jwt_config = \<lambda>_. False, ks_p8_key = \<lambda>_. False\<rparr>
     \<lparr>pc_DefaultApp = '''', pc_Apps = [(''solian'', \<lparr>pac_Production = True, pac_FcmKeyPath = '''',
        pac_Apns = None, pac_Topics = []\<rparr>)], pc_Production = False, pc_Google = '''',
      pc_ApplePrivateKey = '''', pc_ApplePrivateKeyId = '''', pc_AppleTeamId = '''',
      pc_AppleBundleIdentifier = ''''\<rparr>) \<noteq> ''''"
  by (rule new_apps_resolution [THEN conjunct2, THEN conjunct1]) simp

end
