(* ===== verification/Device_Ids.thy ===== *)
theory Device_Ids
  imports Go_Text
begin

text \<open>
  \<open>NormalizeSopDeviceId\<close> of \<open>internal/push/replay.go\<close>: the device id without its \<open>:sop\<close> suffix,
  under which the SOP subscription and the other subscriptions of one device meet.
\<close>

definition normalize_sop_device_id :: "string \<Rightarrow> string" where
  "normalize_sop_device_id deviceId =
     (if has_suffix deviceId '':sop'' then take (length deviceId - length '':sop'') deviceId
      else deviceId)"

lemma normalize_sop_suffix [simp]: "normalize_sop_device_id (d @ '':sop'') = d"
  by (simp add: normalize_sop_device_id_def)

lemma normalize_sop_other: "\<not> has_suffix d '':sop'' \<Longrightarrow> normalize_sop_device_id d = d"
  by (simp add: normalize_sop_device_id_def)

text \<open>One suffix is stripped, not all of them.\<close>

lemma normalize_sop_strips_one:
  "normalize_sop_device_id (d @ '':sop:sop'') = d @ '':sop''"
  using normalize_sop_suffix [of "d @ '':sop''"] by simp

end
