(* ===== verification/Streams.thy ===== *)
theory Streams
  imports Model Device_Ids
begin

text \<open>
  The SOP streams of \<open>internal/push/streams.go\<close>: the unbounded queue behind one SSE connection, the
  registry of the live streams per account and device, and the blocking read \<open>WaitToRead\<close> with its
  watcher goroutine as a step relation.
\<close>

section \<open>One stream\<close>

record 'n sop_stream =
  ss_items :: "'n list"
  ss_closed :: bool

definition new_sop_stream :: "'n sop_stream" where
  "new_sop_stream = \<lparr>ss_items = [], ss_closed = False\<rparr>"

definition try_write :: "'n sop_stream \<Rightarrow> 'n \<Rightarrow> bool \<times> 'n sop_stream" where
  "try_write s n = (if ss_closed s then (False, s) else (True, s\<lparr>ss_items := ss_items s @ [n]\<rparr>))"

definition try_read :: "'n sop_stream \<Rightarrow> 'n option \<times> 'n sop_stream" where
  "try_read s = (case ss_items s of [] \<Rightarrow> (None, s) | n # rest \<Rightarrow> (Some n, s\<lparr>ss_items := rest\<rparr>))"

definition complete_stream :: "'n sop_stream \<Rightarrow> 'n sop_stream" where
  "complete_stream s = (if \<not> ss_closed s then s\<lparr>ss_closed := True\<rparr> else s)"

text \<open>The contract the registry and the SSE handler rely on: a FIFO that a completion seals.\<close>

locale sealed_fifo =
  fixes contents :: "'q \<Rightarrow> 'a list"
    and sealed :: "'q \<Rightarrow> bool"
    and fwrite :: "'q \<Rightarrow> 'a \<Rightarrow> bool \<times> 'q"
    and fread :: "'q \<Rightarrow> 'a option \<times> 'q"
    and seal :: "'q \<Rightarrow> 'q"
  assumes write_open: "\<not> sealed q \<Longrightarrow> fst (fwrite q x)"
    and contents_write: "contents (snd (fwrite q x)) = (if sealed q then contents q else contents q @ [x])"
    and sealed_write: "sealed (snd (fwrite q x)) = sealed q"
    and write_sealed: "sealed q \<Longrightarrow> \<not> fst (fwrite q x)"
    and read_empty: "contents q = [] \<Longrightarrow> fread q = (None, q)"
    and read_first: "contents q = x # xs \<Longrightarrow> fst (fread q) = Some x \<and> contents (snd (fread q)) = xs"
    and sealed_read: "sealed (snd (fread q)) = sealed q"
    and contents_seal: "contents (seal q) = contents q"
    and sealed_seal: "sealed (seal q)"
begin

lemma write_all:
  "contents (foldl (\<lambda>q x. snd (fwrite q x)) q xs) = (if sealed q then contents q else contents q @ xs)"
proof (induction xs arbitrary: q)
  case (Cons x xs)
  show ?case by (simp add: Cons.IH contents_write sealed_write)
qed simp

lemma sealed_write_all: "sealed (foldl (\<lambda>q x. snd (fwrite q x)) q xs) = sealed q"
  by (induction xs arbitrary: q) (simp_all add: sealed_write)

lemma read_some: "fread q = (Some x, q') \<Longrightarrow> contents q = x # contents q' \<and> sealed q' = sealed q"
proof -
  assume r: "fread q = (Some x, q')"
  then obtain y ys where "contents q = y # ys"
    using read_empty [of q] by (cases "contents q") auto
  with r read_first [of q y ys] sealed_read [of q] show ?thesis by auto
qed

lemma read_none: "fread q = (None, q') \<Longrightarrow> contents q = [] \<and> q' = q"
proof -
  assume r: "fread q = (None, q')"
  then have "contents q = []"
    using read_first [of q] by (cases "contents q") auto
  with r read_empty show ?thesis by auto
qed

end

interpretation sop: sealed_fifo ss_items ss_closed try_write try_read complete_stream
  by unfold_locales (auto simp: try_write_def try_read_def complete_stream_def split: list.splits)

text \<open>The inner loop of the SSE handler: \<open>TryRead\<close> until the stream is empty.\<close>

function (sequential) drain_stream :: "'n sop_stream \<Rightarrow> 'n list \<times> 'n sop_stream" where
  "drain_stream s =
     (case try_read s of
        (None, s') \<Rightarrow> ([], s')
      | (Some n, s') \<Rightarrow> (case drain_stream s' of (ns, s'') \<Rightarrow> (n # ns, s'')))"
  by pat_completeness auto
termination
  by (relation "measure (length \<circ> ss_items)") (auto dest!: sop.read_some [OF sym])

declare drain_stream.simps [simp del]

lemma drain_stream_eq: "drain_stream s = (ss_items s, s\<lparr>ss_items := []\<rparr>)"
proof (induction s rule: drain_stream.induct)
  case (1 s)
  then show ?case
    by (subst drain_stream.simps) (auto simp: try_read_def split: list.splits)
qed

section \<open>The registry\<close>

text \<open>
  The registry maps an account to its live streams, each under its stream id with the device
  it serves; the streams themselves are objects shared with their SSE handlers, found by the
  same id. The entries of an account are listed in the order \<open>range\<close> visits them.
\<close>

record 'n sop_streams =
  sr_accounts :: "uuid \<Rightarrow> (uuid \<times> string) list option"
  sr_objects :: "uuid \<Rightarrow> 'n sop_stream"

definition new_sop_streams :: "'n sop_streams" where
  "new_sop_streams = \<lparr>sr_accounts = Map.empty, sr_objects = (\<lambda>_. new_sop_stream)\<rparr>"

definition streams_of :: "'n sop_streams \<Rightarrow> uuid \<Rightarrow> (uuid \<times> string) list" where
  "streams_of s a = (case sr_accounts s a of None \<Rightarrow> [] | Some es \<Rightarrow> es)"

definition sop_subscribe :: "uuid \<Rightarrow> uuid \<Rightarrow> string \<Rightarrow> 'n sop_streams \<Rightarrow> 'n sop_streams" where
  "sop_subscribe streamID accountID deviceID s =
     (let accountStreams = (case sr_accounts s accountID of None \<Rightarrow> [] | Some es \<Rightarrow> es)
      in s\<lparr>sr_accounts := (sr_accounts s)(accountID \<mapsto> AList.update streamID deviceID accountStreams),
           sr_objects := (sr_objects s)(streamID := new_sop_stream)\<rparr>)"

definition sop_unsubscribe :: "uuid \<Rightarrow> uuid \<Rightarrow> 'n sop_streams \<Rightarrow> 'n sop_streams" where
  "sop_unsubscribe accountID streamID s =
     (case sr_accounts s accountID of
        None \<Rightarrow> s
      | Some accountStreams \<Rightarrow>
          let found = (map_of accountStreams streamID \<noteq> None);
              rest = (if found then AList.delete streamID accountStreams else accountStreams);
              objects = (if found
                then (sr_objects s)(streamID := complete_stream (sr_objects s streamID))
                else sr_objects s)
          in s\<lparr>sr_accounts := (if rest = [] then (sr_accounts s)(accountID := None)
                              else (sr_accounts s)(accountID \<mapsto> rest)),
               sr_objects := objects\<rparr>)"

fun write_each :: "uuid list \<Rightarrow> 'n \<Rightarrow> (uuid \<Rightarrow> 'n sop_stream) \<Rightarrow> uuid \<Rightarrow> 'n sop_stream" where
  "write_each [] n objs = objs"
| "write_each (i # is) n objs = write_each is n (objs(i := snd (try_write (objs i) n)))"

definition sop_broadcast :: "uuid \<Rightarrow> 'n \<Rightarrow> 'n sop_streams \<Rightarrow> 'n sop_streams" where
  "sop_broadcast accountID n s =
     (case sr_accounts s accountID of
        None \<Rightarrow> s
      | Some accountStreams \<Rightarrow>
          s\<lparr>sr_objects := write_each (map fst accountStreams) n (sr_objects s)\<rparr>)"

text \<open>The set of normalised device ids, in the order of the entries.\<close>

definition connected_device_ids :: "'n sop_streams \<Rightarrow> uuid \<Rightarrow> string list" where
  "connected_device_ids s accountID =
     (case sr_accounts s accountID of
        None \<Rightarrow> []
      | Some accountStreams \<Rightarrow>
          keep_first (\<lambda>d. d) [] (map (\<lambda>e. normalize_sop_device_id (snd e)) accountStreams))"

subsection \<open>Invariant\<close>

text \<open>
  No account keeps an empty inner map, an account lists a stream once, no stream belongs to two
  accounts, and a registered stream is open.
\<close>

definition live_streams :: "'n sop_streams \<Rightarrow> uuid \<Rightarrow> uuid set" where
  "live_streams s a = fst ` set (streams_of s a)"

definition fresh_stream :: "'n sop_streams \<Rightarrow> uuid \<Rightarrow> bool" where
  "fresh_stream s i \<longleftrightarrow> (\<forall>a. i \<notin> live_streams s a)"

definition sop_wf :: "'n sop_streams \<Rightarrow> bool" where
  "sop_wf s \<longleftrightarrow>
     (\<forall>a. sr_accounts s a \<noteq> Some []) \<and>
     (\<forall>a. distinct (map fst (streams_of s a))) \<and>
     (\<forall>a b. a \<noteq> b \<longrightarrow> live_streams s a \<inter> live_streams s b = {}) \<and>
     (\<forall>a i. i \<in> live_streams s a \<longrightarrow> \<not> ss_closed (sr_objects s i))"

lemma sop_wf_new: "sop_wf new_sop_streams"
  by (simp add: sop_wf_def new_sop_streams_def streams_of_def live_streams_def)

lemma alist_update_nonempty [simp]: "AList.update k v es \<noteq> []"
  by (cases es) auto

lemma streams_of_subscribe:
  "streams_of (sop_subscribe i a d s) =
     (streams_of s)(a := AList.update i d (streams_of s a))"
  by (auto simp: streams_of_def sop_subscribe_def Let_def fun_eq_iff split: option.splits)

lemma streams_of_unsubscribe:
  "streams_of (sop_unsubscribe a i s) = (streams_of s)(a := AList.delete i (streams_of s a))"
  by (auto simp: streams_of_def sop_unsubscribe_def Let_def map_of_eq_None_iff delete_id fun_eq_iff
      split: option.splits)

lemma live_subscribe:
  "live_streams (sop_subscribe i a d s) =
     (live_streams s)(a := insert i (live_streams s a))"
  by (auto simp: live_streams_def streams_of_subscribe dom_update fun_eq_iff)

lemma live_unsubscribe:
  "live_streams (sop_unsubscribe a i s) = (live_streams s)(a := live_streams s a - {i})"
  by (auto simp: live_streams_def streams_of_unsubscribe AList.delete_eq fun_eq_iff)

lemma streams_of_broadcast [simp]: "streams_of (sop_broadcast a n s) = streams_of s"
  by (auto simp: streams_of_def sop_broadcast_def fun_eq_iff split: option.splits)

lemma live_broadcast [simp]: "live_streams (sop_broadcast a n s) = live_streams s"
  by (simp add: live_streams_def fun_eq_iff)

lemma objects_subscribe:
  "sr_objects (sop_subscribe i a d s) = (sr_objects s)(i := new_sop_stream)"
  by (simp add: sop_subscribe_def Let_def)

lemma objects_unsubscribe:
  "sr_objects (sop_unsubscribe a i s) j =
     (if j = i \<and> i \<in> live_streams s a then complete_stream (sr_objects s i) else sr_objects s j)"
  by (auto simp: sop_unsubscribe_def Let_def live_streams_def streams_of_def map_of_eq_None_iff
      split: option.splits)

lemma accounts_nonempty:
  "(\<forall>b. sr_accounts s b \<noteq> Some []) \<Longrightarrow> sr_accounts (sop_subscribe i a d s) b \<noteq> Some []"
  "(\<forall>b. sr_accounts s b \<noteq> Some []) \<Longrightarrow> sr_accounts (sop_unsubscribe a i s) b \<noteq> Some []"
  "sr_accounts (sop_broadcast a n s) = sr_accounts s"
  by (auto simp: sop_subscribe_def sop_unsubscribe_def sop_broadcast_def Let_def split: option.splits)

lemma sop_wf_subscribe:
  assumes wf: "sop_wf s" and fresh: "fresh_stream s i"
  shows "sop_wf (sop_subscribe i a d s)"
  unfolding sop_wf_def
proof (intro conjI allI impI)
  fix b show "sr_accounts (sop_subscribe i a d s) b \<noteq> Some []"
    using wf by (simp add: sop_wf_def accounts_nonempty)
next
  fix b show "distinct (map fst (streams_of (sop_subscribe i a d s) b))"
    using wf by (simp add: sop_wf_def streams_of_subscribe distinct_update)
next
  fix b c :: uuid
  assume "b \<noteq> c"
  with wf fresh
  show "live_streams (sop_subscribe i a d s) b \<inter> live_streams (sop_subscribe i a d s) c = {}"
    by (auto simp: sop_wf_def fresh_stream_def live_subscribe)
next
  fix b j assume "j \<in> live_streams (sop_subscribe i a d s) b"
  with wf show "\<not> ss_closed (sr_objects (sop_subscribe i a d s) j)"
    by (auto simp: sop_wf_def live_subscribe objects_subscribe new_sop_stream_def split: if_splits)
qed

lemma sop_wf_unsubscribe:
  assumes wf: "sop_wf s"
  shows "sop_wf (sop_unsubscribe a i s)"
  unfolding sop_wf_def
proof (intro conjI allI impI)
  fix b show "sr_accounts (sop_unsubscribe a i s) b \<noteq> Some []"
    using wf by (simp add: sop_wf_def accounts_nonempty)
next
  fix b show "distinct (map fst (streams_of (sop_unsubscribe a i s) b))"
    using wf by (simp add: sop_wf_def streams_of_unsubscribe distinct_delete)
next
  fix b c :: uuid
  assume "b \<noteq> c"
  with wf have "live_streams s b \<inter> live_streams s c = {}" by (simp add: sop_wf_def)
  then show "live_streams (sop_unsubscribe a i s) b \<inter> live_streams (sop_unsubscribe a i s) c = {}"
    by (auto simp: live_unsubscribe)
next
  fix b j assume "j \<in> live_streams (sop_unsubscribe a i s) b"
  with wf show "\<not> ss_closed (sr_objects (sop_unsubscribe a i s) j)"
    by (auto simp: sop_wf_def live_unsubscribe objects_unsubscribe disjoint_iff split: if_splits)
qed

lemma write_each_other: "j \<notin> set is \<Longrightarrow> write_each is n objs j = objs j"
  by (induction "is" n objs rule: write_each.induct) auto

lemma write_each_in:
  "distinct is \<Longrightarrow> j \<in> set is \<Longrightarrow> write_each is n objs j = snd (try_write (objs j) n)"
  by (induction "is" n objs rule: write_each.induct) (auto simp: write_each_other)

lemma write_each_closed: "ss_closed (write_each is n objs j) = ss_closed (objs j)"
proof (induction "is" n objs rule: write_each.induct)
  case (2 i "is" n objs)
  have "ss_closed ((objs(i := snd (try_write (objs i) n))) j) = ss_closed (objs j)"
    by (simp add: sop.sealed_write)
  with 2 show ?case by (simp only: write_each.simps)
qed simp

lemma objects_broadcast:
  "sr_objects (sop_broadcast a n s) = write_each (map fst (streams_of s a)) n (sr_objects s)"
  by (simp add: sop_broadcast_def streams_of_def split: option.splits)

lemma sop_wf_broadcast: "sop_wf s \<Longrightarrow> sop_wf (sop_broadcast a n s)"
  by (simp add: sop_wf_def objects_broadcast write_each_closed accounts_nonempty)

text \<open>A broadcast appends to every live stream of the account and touches no other stream.\<close>

lemma broadcast_objects:
  assumes "sop_wf s"
  shows "sr_objects (sop_broadcast a n s) i =
     (if i \<in> live_streams s a
      then (sr_objects s i)\<lparr>ss_items := ss_items (sr_objects s i) @ [n]\<rparr> else sr_objects s i)"
proof (cases "i \<in> live_streams s a")
  case True
  then have "\<not> ss_closed (sr_objects s i)" "distinct (map fst (streams_of s a))"
    using assms by (auto simp: sop_wf_def)
  with True show ?thesis
    by (simp add: objects_broadcast write_each_in live_streams_def try_write_def)
next
  case False
  then show ?thesis by (simp add: objects_broadcast write_each_other live_streams_def)
qed

lemma set_connected_device_ids:
  "set (connected_device_ids s a) = (normalize_sop_device_id \<circ> snd) ` set (streams_of s a)"
proof (cases "sr_accounts s a")
  case (Some es)
  have "set (keep_first (\<lambda>d. d) [] ds) = set ds" for ds :: "string list"
    using keep_first_keys [of "\<lambda>d. d" "[]" ds] by simp
  with Some show ?thesis
    by (simp add: connected_device_ids_def streams_of_def image_image)
qed (simp add: connected_device_ids_def streams_of_def)

subsection \<open>Runs of the registry\<close>

datatype 'n sop_op = SopSubscribe uuid uuid string | SopUnsubscribe uuid uuid
  | SopBroadcast uuid 'n | SopRead uuid

fun sop_apply :: "'n sop_streams \<Rightarrow> 'n sop_op \<Rightarrow> 'n sop_streams" where
  "sop_apply s (SopSubscribe i a d) = sop_subscribe i a d s"
| "sop_apply s (SopUnsubscribe a i) = sop_unsubscribe a i s"
| "sop_apply s (SopBroadcast a n) = sop_broadcast a n s"
| "sop_apply s (SopRead i) = s\<lparr>sr_objects := (sr_objects s)(i := snd (try_read (sr_objects s i)))\<rparr>"

text \<open>Stream ids are fresh UUIDs: no operation list reuses one.\<close>

fun sop_ids_fresh :: "'n sop_streams \<Rightarrow> 'n sop_op list \<Rightarrow> bool" where
  "sop_ids_fresh s [] = True"
| "sop_ids_fresh s (SopSubscribe i a d # ops) =
     (fresh_stream s i \<and> sop_ids_fresh (sop_apply s (SopSubscribe i a d)) ops)"
| "sop_ids_fresh s (p # ops) = sop_ids_fresh (sop_apply s p) ops"

lemma sop_wf_read: "sop_wf s \<Longrightarrow> sop_wf (sop_apply s (SopRead i))"
  by (simp add: sop_wf_def streams_of_def live_streams_def sop.sealed_read)

lemma sop_wf_run: "sop_wf s \<Longrightarrow> sop_ids_fresh s ops \<Longrightarrow> sop_wf (foldl sop_apply s ops)"
proof (induction ops arbitrary: s)
  case (Cons op ops)
  then show ?case
    by (cases op)
      (simp_all add: sop_wf_subscribe sop_wf_unsubscribe sop_wf_broadcast sop_wf_read [simplified])
qed simp

text \<open>
  C30: in every run of the stream registry in which the stream ids are fresh, a broadcast to an
  account appends the notification at the end of each of the account's live streams and leaves
  every other stream object (of other accounts, or already unsubscribed) as it was, and the
  account's connected devices are the normalised devices of exactly those streams.
\<close>

theorem broadcast_reaches_live_streams:
  assumes "sop_ids_fresh new_sop_streams ops"
    and "s = foldl sop_apply new_sop_streams ops"
  shows "sr_objects (sop_broadcast a n s) i =
           (if i \<in> live_streams s a
            then (sr_objects s i)\<lparr>ss_items := ss_items (sr_objects s i) @ [n]\<rparr>
            else sr_objects s i)
         \<and> set (connected_device_ids s a) =
             (normalize_sop_device_id \<circ> snd) ` set (streams_of s a)
         \<and> sr_accounts s a \<noteq> Some []"
proof -
  have wf: "sop_wf s"
    using sop_wf_run [OF sop_wf_new assms(1)] assms(2) by simp
  then have "sr_accounts s a \<noteq> Some []" by (simp add: sop_wf_def)
  with wf show ?thesis by (simp add: broadcast_objects set_connected_device_ids)
qed

theorem broadcast_reaches_live_streams_witness:
  "ss_items (sr_objects (sop_broadcast 7 (5 :: nat) (foldl sop_apply new_sop_streams
     [SopSubscribe 1 7 ''d:sop'', SopSubscribe 2 8 ''e:sop'', SopBroadcast 7 4])) 1) = [4, 5]"
proof -
  let ?ops = "[SopSubscribe 1 7 ''d:sop'', SopSubscribe 2 8 ''e:sop'', SopBroadcast 7 (4 :: nat)]"
  have "sop_ids_fresh new_sop_streams ?ops"
    by (simp add: fresh_stream_def live_streams_def streams_of_def new_sop_streams_def
        sop_subscribe_def sop_broadcast_def)
  from broadcast_reaches_live_streams [OF this refl, of 7 5 1]
  show ?thesis
    by (simp add: live_streams_def streams_of_def new_sop_streams_def sop_subscribe_def
        sop_broadcast_def new_sop_stream_def try_write_def)
qed

text \<open>A stream taken out of the registry is sealed: later broadcasts cannot reach it.\<close>

lemma unsubscribed_sealed:
  "i \<in> live_streams s a \<Longrightarrow> ss_closed (sr_objects (sop_unsubscribe a i s) i)
   \<and> ss_items (sr_objects (sop_unsubscribe a i s) i) = ss_items (sr_objects s i)"
  by (simp add: objects_unsubscribe sop.sealed_seal sop.contents_seal)

end
