(* ===== verification/World.thy ===== *)
theory World
  imports Entities Apps Streams
begin

text \<open>
  The state the program runs in: the tables of its database, the heap of the notifications that are
  passed by pointer, the in-process state of its services and what it sent to the outside. The
  outside itself (PostgreSQL's failures, the clock, generated UUIDs, FCM, APNs, HTTP endpoints,
  SMTP, NATS, Redis, and the services Blade and Stargate) is an oracle, a record of functions the
  state carries unchanged. Every interaction with the outside has a number, \<open>w_tick\<close>, and the
  oracle says what that interaction does: every sequence of failures and answers is one oracle.
\<close>

section \<open>What leaves the process\<close>

text \<open>The websocket packet and the \<open>websocket_push\<close> envelope of \<open>internal/events/websocket.go\<close>.\<close>

record ws_packet =
  wp_Type :: string
  wp_Data :: notification
  wp_ErrorMessage :: string

record ws_push_payload =
  wpp_Namespace :: string
  wpp_Target :: string
  wpp_Ids :: "string list"
  wpp_ExcludedDeviceIds :: "string list"
  wpp_Packet :: ws_packet

datatype push_attempt =
    FcmAttempt fcm_sender json
  | ApnsAttempt apn_sender string json string int string
  | HttpAttempt string int string

record smtp_message =
  sm_From :: string
  sm_To :: string
  sm_Data :: string

text \<open>The jobs of \<open>internal/queue\<close>; a notification is a pointer into the heap.\<close>

type_synonym nref = nat

record email_job =
  ej_ToName :: string
  ej_ToAddress :: string
  ej_Subject :: string
  ej_Body :: string

record push_job =
  pj_Notification :: nref
  pj_ExcludedWebSocketDeviceIDs :: "string list"
  pj_IsSavable :: bool

record job =
  job_Type :: int
  job_Email :: "email_job option"
  job_Push :: "push_job option"

text \<open>The Stargate account and contact messages the program reads.\<close>

record dy_account =
  da_Id :: string
  da_Name :: string
  da_Nick :: string
  da_IsSuperuser :: bool

text \<open>A session of the auth service, and what authenticating a request gives.\<close>

record dy_session =
  ds_Id :: string
  ds_ClientId :: "string option"
  ds_Scopes :: "string list"
  ds_IsOauth :: bool

record auth_result =
  ar_Account :: "dy_account option"
  ar_Session :: "dy_session option"

record contact =
  ct_Content :: string
  ct_IsPrimary :: bool
  ct_VerifiedAt :: "time option"

record email_config =
  ec_Server :: string
  ec_Port :: int
  ec_UseSsl :: bool
  ec_Username :: string
  ec_Password :: string
  ec_FromAddress :: string
  ec_FromName :: string
  ec_SubjectPrefix :: string

text \<open>The \<open>accounts.last_active\<close> event of \<open>internal/middleware/lastactive.go\<close>.\<close>

record last_active_event =
  la_AccountID :: string
  la_SessionID :: string
  la_SeenAt :: time

section \<open>The outside\<close>

text \<open>
  The first group is static: which clients and services are configured, and pure library
  functions outside the repository. In the second group the first argument of a function is the
  number of the interaction.
\<close>

record outside =
  o_apps :: push_apps
  o_bus :: bool
  o_blade :: bool
  o_accounts :: bool
  o_action_log :: bool
  o_enqueuer :: bool
  o_email :: "email_config option"
  o_perm :: bool
  o_cache :: bool
  o_touch_key :: "string \<Rightarrow> string"
  o_parse_url :: "string \<Rightarrow> (string \<times> string) option"
  o_parse_ip :: "string \<Rightarrow> bool option"
  o_parse_time :: "string \<Rightarrow> time option"
  o_unmarshal_meta :: "string \<Rightarrow> json_map option option"
  o_parse_uuid :: "string \<Rightarrow> uuid option"
  o_show_uuid :: "uuid \<Rightarrow> string"
  o_mail_address :: "string \<Rightarrow> string \<Rightarrow> string option"
  o_q_encode :: "string \<Rightarrow> string"
  o_rfc1123 :: "time \<Rightarrow> string"
  o_fault :: "nat \<Rightarrow> go_error option"
  o_time :: "nat \<Rightarrow> time"
  o_uuid :: "nat \<Rightarrow> uuid"
  o_fcm :: "nat \<Rightarrow> int \<times> string"
  o_fcm_envelope :: "string \<Rightarrow> (string \<times> string) option"
  o_apns :: "nat \<Rightarrow> int \<times> string"
  o_http_request :: "string \<Rightarrow> bool"
  o_http :: "nat \<Rightarrow> int \<times> string"
  o_connected :: "nat \<Rightarrow> string list \<Rightarrow> string \<Rightarrow> string list option"
  o_cached :: "nat \<Rightarrow> bool"
  o_lock :: "nat \<Rightarrow> bool"
  o_flag :: "nat \<Rightarrow> string \<Rightarrow> bool"
  o_has_permission :: "nat \<Rightarrow> string \<Rightarrow> string \<Rightarrow> bool option"
  o_accounts_page :: "nat \<Rightarrow> string \<Rightarrow> (dy_account option list \<times> string) option"
  o_account_batch :: "nat \<Rightarrow> string list \<Rightarrow> dy_account option list option"
  o_contacts :: "nat \<Rightarrow> uuid \<Rightarrow> contact list"
  o_schedule :: "nat \<Rightarrow> push_subscription list \<Rightarrow> push_subscription list"
  o_schedule_users :: "nat \<Rightarrow> uuid list \<Rightarrow> uuid list"

section \<open>The state\<close>

record world =
  w_outside :: outside
  w_tick :: nat
  w_notifications :: "notification_entity list"
  w_subscriptions :: "subscription_entity list"
  w_preferences :: "preference_entity list"
  w_plans :: "plan_entity list"
  w_recipients :: "recipient_entity list"
  w_advances :: "advance_entity list"
  w_email_deliveries :: "email_delivery_entity list"
  w_deliveries :: "notification_delivery_entity list"
  w_sends :: "send_record_entity list"
  w_heap :: "nref \<Rightarrow> notification"
  w_heap_next :: nref
  w_streams :: "nref sop_streams"
  w_replay :: "uuid \<Rightarrow> notification list option"
  w_removals :: "uuid list"
  w_jobs :: "job list"
  w_published :: "ws_push_payload list"
  w_pushes :: "push_attempt list"
  w_outbox :: "smtp_message list"
  w_action_logs :: "(string \<times> string \<times> (string \<times> string) list) list"
  w_last_active :: "last_active_event list"

type_synonym 'a io = "(world, 'a) prog"

abbreviation apps_of :: "world \<Rightarrow> push_apps" where
  "apps_of w \<equiv> o_apps (w_outside w)"

section \<open>Interactions\<close>

text \<open>An interaction that may fail: the error, or the number under which it answers.\<close>

definition external :: "nat io" where
  "external w =
     (let k = w_tick w; w' = w\<lparr>w_tick := Suc k\<rparr>
      in case o_fault (w_outside w) k of Some e \<Rightarrow> (Inl e, w') | None \<Rightarrow> (Inr k, w'))"

definition time_now :: "time io" where
  "time_now w = (Inr (o_time (w_outside w) (w_tick w)), w\<lparr>w_tick := Suc (w_tick w)\<rparr>)"

definition uuid_new :: "uuid io" where
  "uuid_new w = (Inr (o_uuid (w_outside w) (w_tick w)), w\<lparr>w_tick := Suc (w_tick w)\<rparr>)"

text \<open>A statement that reads the database, and one that changes it.\<close>

definition db_query :: "(world \<Rightarrow> 'a) \<Rightarrow> 'a io" where
  "db_query f = bindM external (\<lambda>k. getM f)"

definition db_exec :: "(world \<Rightarrow> world) \<Rightarrow> unit io" where
  "db_exec f = bindM external (\<lambda>k. modifyM f)"

definition db_exec_count :: "(world \<Rightarrow> int) \<Rightarrow> (world \<Rightarrow> world) \<Rightarrow> int io" where
  "db_exec_count c f = bindM external (\<lambda>k. bindM (getM c) (\<lambda>n. seqM (modifyM f) (ret n)))"

text \<open>\<open>&model.Notification{...}\<close> that is passed by pointer: a new heap cell.\<close>

definition alloc_notification :: "notification \<Rightarrow> nref io" where
  "alloc_notification n w =
     (Inr (w_heap_next w),
      w\<lparr>w_heap := (w_heap w)(w_heap_next w := n), w_heap_next := Suc (w_heap_next w)\<rparr>)"

lemmas outside_defs = external_def time_now_def uuid_new_def db_query_def db_exec_def
  db_exec_count_def alloc_notification_def

section \<open>What an interaction keeps\<close>

text \<open>
  \<open>steady I\<close>: the predicate does not depend on the number of interactions so far, so reading the
  clock, drawing a UUID and failing leave it as it is.
\<close>

definition steady :: "(world \<Rightarrow> bool) \<Rightarrow> bool" where
  "steady I \<longleftrightarrow> (\<forall>w k. I (w\<lparr>w_tick := k\<rparr>) = I w)"

lemma steadyI: "(\<And>w k. I (w\<lparr>w_tick := k\<rparr>) = I w) \<Longrightarrow> steady I"
  by (simp add: steady_def)

lemma steadyD [simp]: "steady I \<Longrightarrow> I (w\<lparr>w_tick := k\<rparr>) = I w"
  by (simp add: steady_def)

lemma keeps_external [spec_intros]: "steady I \<Longrightarrow> keeps I external"
  by (auto simp: keeps_def external_def Let_def split: option.splits)

lemma keeps_time_now [spec_intros]: "steady I \<Longrightarrow> keeps I time_now"
  by (simp add: keeps_def time_now_def)

lemma keeps_uuid_new [spec_intros]: "steady I \<Longrightarrow> keeps I uuid_new"
  by (simp add: keeps_def uuid_new_def)

lemma keeps_db_query [spec_intros]: "steady I \<Longrightarrow> keeps I (db_query f)"
  unfolding db_query_def by (intro spec_intros)

lemma keeps_modifyM: "(\<And>w. I w \<Longrightarrow> I (f w)) \<Longrightarrow> keeps I (modifyM f)"
  by (simp add: keeps_def modifyM_def)

lemma keeps_db_exec: "steady I \<Longrightarrow> (\<And>w. I w \<Longrightarrow> I (f w)) \<Longrightarrow> keeps I (db_exec f)"
  unfolding db_exec_def by (intro spec_intros keeps_modifyM)

lemma keeps_db_exec_count: "steady I \<Longrightarrow> (\<And>w. I w \<Longrightarrow> I (f w)) \<Longrightarrow> keeps I (db_exec_count c f)"
  unfolding db_exec_count_def by (intro spec_intros keeps_modifyM)

text \<open>A statement that fails has changed nothing.\<close>

lemma atomic_db_exec: "(\<And>w k. g (w\<lparr>w_tick := k\<rparr>) = g w) \<Longrightarrow> atomic g (db_exec f)"
  by (auto simp: atomic_def db_exec_def prog_simps external_def Let_def split: option.splits)

text \<open>The outcomes of the interactions, as equations on runs.\<close>

lemma external_Inr: "external w = (Inr k, w') \<longleftrightarrow>
    k = w_tick w \<and> w' = w\<lparr>w_tick := Suc (w_tick w)\<rparr> \<and> o_fault (w_outside w) (w_tick w) = None"
  by (auto simp: external_def Let_def split: option.splits)

lemma external_Inl: "external w = (Inl e, w') \<longleftrightarrow>
    w' = w\<lparr>w_tick := Suc (w_tick w)\<rparr> \<and> o_fault (w_outside w) (w_tick w) = Some e"
  by (auto simp: external_def Let_def split: option.splits)

lemma time_now_iff: "time_now w = (r, w') \<longleftrightarrow>
    r = Inr (o_time (w_outside w) (w_tick w)) \<and> w' = w\<lparr>w_tick := Suc (w_tick w)\<rparr>"
  by (auto simp: time_now_def)

lemma uuid_new_iff: "uuid_new w = (r, w') \<longleftrightarrow>
    r = Inr (o_uuid (w_outside w) (w_tick w)) \<and> w' = w\<lparr>w_tick := Suc (w_tick w)\<rparr>"
  by (auto simp: uuid_new_def)

lemma db_query_Inr: "db_query f w = (Inr x, w') \<longleftrightarrow>
    w' = w\<lparr>w_tick := Suc (w_tick w)\<rparr> \<and> x = f w' \<and> o_fault (w_outside w) (w_tick w) = None"
  by (auto simp: db_query_def run_iffs external_Inr)

lemma db_query_Inl: "db_query f w = (Inl e, w') \<longleftrightarrow>
    w' = w\<lparr>w_tick := Suc (w_tick w)\<rparr> \<and> o_fault (w_outside w) (w_tick w) = Some e"
  by (auto simp: db_query_def run_iffs external_Inl)

lemma db_exec_Inr: "db_exec f w = (Inr x, w') \<longleftrightarrow>
    w' = f (w\<lparr>w_tick := Suc (w_tick w)\<rparr>) \<and> o_fault (w_outside w) (w_tick w) = None"
  by (auto simp: db_exec_def run_iffs external_Inr)

lemma db_exec_Inl: "db_exec f w = (Inl e, w') \<longleftrightarrow>
    w' = w\<lparr>w_tick := Suc (w_tick w)\<rparr> \<and> o_fault (w_outside w) (w_tick w) = Some e"
  by (auto simp: db_exec_def run_iffs external_Inl)

lemma db_exec_count_Inr: "db_exec_count c f w = (Inr n, w') \<longleftrightarrow>
    w' = f (w\<lparr>w_tick := Suc (w_tick w)\<rparr>) \<and> n = c (w\<lparr>w_tick := Suc (w_tick w)\<rparr>)
    \<and> o_fault (w_outside w) (w_tick w) = None"
  by (auto simp: db_exec_count_def run_iffs external_Inr)

lemma db_exec_count_Inl: "db_exec_count c f w = (Inl e, w') \<longleftrightarrow>
    w' = w\<lparr>w_tick := Suc (w_tick w)\<rparr> \<and> o_fault (w_outside w) (w_tick w) = Some e"
  by (auto simp: db_exec_count_def run_iffs external_Inl)

lemmas io_iffs = run_iffs external_Inr external_Inl time_now_iff uuid_new_iff db_query_Inr
  db_query_Inl db_exec_Inr db_exec_Inl db_exec_count_Inr db_exec_count_Inl

text \<open>No interaction fails.\<close>

definition faultless :: "world \<Rightarrow> bool" where
  "faultless w \<longleftrightarrow> (\<forall>k. o_fault (w_outside w) k = None)"

section \<open>A small world to compute with\<close>

definition quiet_outside :: outside where
  "quiet_outside =
     \<lparr>o_apps = \<lparr>pa_appSenders = [], pa_defaultAppId = ''''\<rparr>, o_bus = True, o_blade = False,
      o_accounts = True, o_action_log = False, o_enqueuer = True, o_email = None,
      o_perm = True, o_cache = True, o_touch_key = (\<lambda>s. s), o_parse_url = (\<lambda>s. None),
      o_parse_ip = (\<lambda>s. None), o_parse_time = (\<lambda>s. None), o_unmarshal_meta = (\<lambda>s. None),
      o_parse_uuid = (\<lambda>s. None), o_show_uuid = (\<lambda>u. ''''), o_mail_address = (\<lambda>n a. None),
      o_q_encode = (\<lambda>s. s), o_rfc1123 = (\<lambda>t. ''''), o_fault = (\<lambda>k. None), o_time = int,
      o_uuid = (\<lambda>k. 1000 + k), o_fcm = (\<lambda>k. (200, '''')), o_fcm_envelope = (\<lambda>s. None), o_apns = (\<lambda>k. (200, '''')),
      o_http_request = (\<lambda>u. True), o_http = (\<lambda>k. (200, '''')), o_connected = (\<lambda>k ids ns. None),
      o_cached = (\<lambda>k. True), o_lock = (\<lambda>k. True), o_flag = (\<lambda>k key. False),
      o_has_permission = (\<lambda>k actor key. None),
      o_accounts_page = (\<lambda>k t. None), o_account_batch = (\<lambda>k ids. None),
      o_contacts = (\<lambda>k a. []), o_schedule = (\<lambda>k xs. xs), o_schedule_users = (\<lambda>k xs. xs)\<rparr>"

definition empty_world :: "outside \<Rightarrow> world" where
  "empty_world out =
     \<lparr>w_outside = out, w_tick = 0, w_notifications = [], w_subscriptions = [], w_preferences = [],
      w_plans = [], w_recipients = [], w_advances = [], w_email_deliveries = [],
      w_deliveries = [], w_sends = [],
      w_heap = (\<lambda>_. \<lparr>Id = 0, CreatedAt = 0, UpdatedAt = 0, DeletedAt = None, ntf_Topic = '''',
        ntf_Title = None, ntf_Subtitle = None, ntf_Content = None, ntf_Meta = None,
        ntf_Priority = 0, ntf_ViewedAt = None, ntf_AppId = None, ntf_PushType = None,
        ntf_AccountId = 0\<rparr>),
      w_heap_next = 0, w_streams = new_sop_streams, w_replay = (\<lambda>_. None), w_removals = [],
      w_jobs = [], w_published = [], w_pushes = [], w_outbox = [], w_action_logs = [],
      w_last_active = []\<rparr>"

end
