(* ===== verification/Store.thy ===== *)
theory Store
  imports World "HOL-Library.List_Lexorder"
begin

text \<open>
  The access layer of \<open>internal/store\<close> for notifications, subscriptions and preferences. A query
  is the rows it selects, in the order it asks for; rows it leaves unordered, and rows equal in
  the \<open>ORDER BY\<close>, come in table order. gorm adds \<open>deleted_at IS NULL\<close> unless a statement is
  \<open>Unscoped\<close>, and the primary key to the order of \<open>First\<close>.
\<close>

section \<open>Shared pieces of the queries\<close>

definition gorm_limit :: "int \<Rightarrow> 'a list \<Rightarrow> 'a list" where
  "gorm_limit n xs = (if n < 0 then xs else take (nat n) xs)"

definition gorm_offset :: "int \<Rightarrow> 'a list \<Rightarrow> 'a list" where
  "gorm_offset n xs = (if 0 < n then drop (nat n) xs else xs)"

definition first_row :: "('z entity_scheme) list \<Rightarrow> ('z entity_scheme) option" where
  "first_row rows =
     (case sort_key e_CreatedAt (sort_key ID rows) of [] \<Rightarrow> None | r # _ \<Rightarrow> Some r)"

lemma first_row_None [simp]: "first_row rows = None \<longleftrightarrow> rows = []"
proof -
  have "length (sort_key e_CreatedAt (sort_key ID rows)) = length rows" by simp
  then have "sort_key e_CreatedAt (sort_key ID rows) = [] \<longleftrightarrow> rows = []"
    by (metis length_0_conv)
  then show ?thesis by (auto simp: first_row_def split: list.splits)
qed

lemma first_row_Some:
  assumes "first_row rows = Some r"
  shows "r \<in> set rows"
proof -
  obtain more where "sort_key e_CreatedAt (sort_key ID rows) = r # more"
    using assms by (auto simp: first_row_def split: list.splits)
  then have "r \<in> set (sort_key e_CreatedAt (sort_key ID rows))" by (metis list.set_intros(1))
  then show ?thesis by (simp only: set_sort)
qed

text \<open>\<open>INSERT\<close>: the primary key must be new; all rows of the statement go in, or none.\<close>

definition db_insert ::
  "(world \<Rightarrow> ('z entity_scheme) list) \<Rightarrow> (('z entity_scheme) list \<Rightarrow> world \<Rightarrow> world)
   \<Rightarrow> ('z entity_scheme) list \<Rightarrow> unit io" where
  "db_insert get put new =
     bindM external (\<lambda>k. bindM (getM get) (\<lambda>rows.
       if distinct (map ID (rows @ new)) then modifyM (put (rows @ new))
       else throw (ErrText ''duplicate key value violates unique constraint'')))"

text \<open>\<open>applyAppFilter\<close>: the condition it adds to a query.\<close>

definition apply_app_filter :: "string option \<Rightarrow> string option \<Rightarrow> string option \<Rightarrow> bool" where
  "apply_app_filter resolvedAppID defaultAppID column =
     (if resolvedAppID = None \<or> resolvedAppID = Some '''' then True
      else if defaultAppID \<noteq> None \<and> resolvedAppID = defaultAppID then
        column = resolvedAppID \<or> column = None \<or> column = Some ''''
      else column = resolvedAppID)"

section \<open>Notifications\<close>

definition in_notification_query ::
  "uuid \<Rightarrow> string option \<Rightarrow> string option \<Rightarrow> notification_entity \<Rightarrow> bool" where
  "in_notification_query accountID resolvedAppID defaultAppID r \<longleftrightarrow>
     alive r \<and> ne_AccountID r = accountID \<and> apply_app_filter resolvedAppID defaultAppID (ne_AppID r)"

definition notification_query ::
  "uuid \<Rightarrow> string option \<Rightarrow> string option \<Rightarrow> world \<Rightarrow> notification_entity list" where
  "notification_query accountID resolvedAppID defaultAppID w =
     filter (in_notification_query accountID resolvedAppID defaultAppID) (w_notifications w)"

definition count_unread_notifications ::
  "uuid \<Rightarrow> string option \<Rightarrow> string option \<Rightarrow> int io" where
  "count_unread_notifications accountID resolvedAppID defaultAppID =
     db_query (\<lambda>w. int (length (filter (\<lambda>r. ne_ViewedAt r = None)
       (notification_query accountID resolvedAppID defaultAppID w))))"

definition list_notifications ::
  "uuid \<Rightarrow> string option \<Rightarrow> string option \<Rightarrow> int \<Rightarrow> int \<Rightarrow> (notification list \<times> int) io" where
  "list_notifications accountID resolvedAppID defaultAppID offset take' =
     bindM (db_query (\<lambda>w. int (length (notification_query accountID resolvedAppID defaultAppID w))))
       (\<lambda>total.
     bindM (db_query (\<lambda>w. gorm_limit take' (gorm_offset offset
         (sort_desc e_CreatedAt (notification_query accountID resolvedAppID defaultAppID w)))))
       (\<lambda>entities.
     bindM (lift_result (traverse notification_from_entity entities)) (\<lambda>items.
     ret (items, total))))"

definition list_notifications_for_sop ::
  "uuid \<Rightarrow> string option \<Rightarrow> string option \<Rightarrow> int \<Rightarrow> int \<Rightarrow> int \<Rightarrow> uuid list
   \<Rightarrow> (notification list \<times> int \<times> int) io" where
  "list_notifications_for_sop accountID resolvedAppID defaultAppID offset take' replayCount replayIDs =
     bindM (db_query (\<lambda>w. int (length (notification_query accountID resolvedAppID defaultAppID w))))
       (\<lambda>total.
     bindM (if 0 < length replayIDs then
              db_query (\<lambda>w. int (length (filter (\<lambda>r. ID r \<in> set replayIDs)
                (notification_query accountID resolvedAppID defaultAppID w))))
            else ret 0)
       (\<lambda>duplicate.
     bindM (db_query (\<lambda>w. gorm_limit (wrap64 (offset + take' + replayCount))
         (sort_desc e_CreatedAt (notification_query accountID resolvedAppID defaultAppID w))))
       (\<lambda>entities.
     bindM (lift_result (traverse notification_from_entity entities)) (\<lambda>items.
     ret (items, total, duplicate)))))"

definition mark_viewed :: "time \<Rightarrow> notification_entity \<Rightarrow> notification_entity" where
  "mark_viewed now r = r\<lparr>ne_ViewedAt := Some now, e_UpdatedAt := now\<rparr>"

definition store_mark_notifications_viewed :: "uuid list \<Rightarrow> time \<Rightarrow> unit io" where
  "store_mark_notifications_viewed ids now =
     (if ids = [] then ret ()
      else db_exec (\<lambda>w. w\<lparr>w_notifications :=
        update_where (\<lambda>r. alive r \<and> ID r \<in> set ids \<and> ne_ViewedAt r = None) (mark_viewed now)
          (w_notifications w)\<rparr>))"

definition store_mark_all_notifications_viewed ::
  "uuid \<Rightarrow> string option \<Rightarrow> string option \<Rightarrow> time \<Rightarrow> unit io" where
  "store_mark_all_notifications_viewed accountID resolvedAppID defaultAppID now =
     db_exec (\<lambda>w. w\<lparr>w_notifications :=
       update_where (\<lambda>r. in_notification_query accountID resolvedAppID defaultAppID r
           \<and> ne_ViewedAt r = None) (mark_viewed now)
         (w_notifications w)\<rparr>)"

definition batch_insert_notifications :: "notification list \<Rightarrow> unit io" where
  "batch_insert_notifications notifications =
     (if notifications = [] then ret ()
      else bindM (lift_result (traverse notification_entity_from_model notifications)) (\<lambda>entities.
        db_insert w_notifications (\<lambda>rows w. w\<lparr>w_notifications := rows\<rparr>) entities))"

definition store_save_notification :: "notification \<Rightarrow> unit io" where
  "store_save_notification n = batch_insert_notifications [n]"

text \<open>
  \<open>DeleteExcessNotifications\<close>: the window function numbers the live rows of each
  (account, app) partition, newest first; rows numbered above 100 go.
\<close>

definition partition_key :: "notification_entity \<Rightarrow> uuid \<times> string" where
  "partition_key r = (ne_AccountID r, case ne_AppID r of None \<Rightarrow> '''' | Some a \<Rightarrow> a)"

definition ranked_partition ::
  "notification_entity list \<Rightarrow> uuid \<times> string \<Rightarrow> notification_entity list" where
  "ranked_partition rows key =
     sort_desc e_CreatedAt (filter (\<lambda>r. alive r \<and> partition_key r = key) rows)"

definition row_number :: "notification_entity list \<Rightarrow> notification_entity \<Rightarrow> nat" where
  "row_number rows r =
     Suc (length (takeWhile (\<lambda>x. ID x \<noteq> ID r) (ranked_partition rows (partition_key r))))"

definition excess_ids :: "notification_entity list \<Rightarrow> uuid list" where
  "excess_ids rows = map ID (filter (\<lambda>r. alive r \<and> 100 < row_number rows r) rows)"

definition delete_excess_notifications :: "int io" where
  "delete_excess_notifications =
     db_exec_count
       (\<lambda>w. int (length (filter (\<lambda>r. ID r \<in> set (excess_ids (w_notifications w))) (w_notifications w))))
       (\<lambda>w. w\<lparr>w_notifications :=
          filter (\<lambda>r. ID r \<notin> set (excess_ids (w_notifications w))) (w_notifications w)\<rparr>)"

definition recycled :: "time \<Rightarrow> 'z entity_scheme \<Rightarrow> bool" where
  "recycled threshold r \<longleftrightarrow> da_Valid (e_DeletedAt r) \<and> da_Time (e_DeletedAt r) < threshold"

abbreviation kept :: "time \<Rightarrow> ('z entity_scheme) list \<Rightarrow> ('z entity_scheme) list" where
  "kept threshold rows \<equiv> filter (\<lambda>r. \<not> recycled threshold r) rows"

definition recycle_soft_deleted :: "time \<Rightarrow> unit io" where
  "recycle_soft_deleted t =
     seqM (wrapM ''recycle notifications''
       (db_exec (\<lambda>w. w\<lparr>w_notifications := kept t (w_notifications w)\<rparr>)))
     (seqM (wrapM ''recycle push_subscriptions''
       (db_exec (\<lambda>w. w\<lparr>w_subscriptions := kept t (w_subscriptions w)\<rparr>)))
     (seqM (wrapM ''recycle notification_preferences''
       (db_exec (\<lambda>w. w\<lparr>w_preferences := kept t (w_preferences w)\<rparr>)))
     (seqM (wrapM ''recycle email_sending_plans''
       (db_exec (\<lambda>w. w\<lparr>w_plans := kept t (w_plans w)\<rparr>)))
     (seqM (wrapM ''recycle email_sending_plan_recipients''
       (db_exec (\<lambda>w. w\<lparr>w_recipients := kept t (w_recipients w)\<rparr>)))
     (seqM (wrapM ''recycle email_sending_plan_advances''
       (db_exec (\<lambda>w. w\<lparr>w_advances := kept t (w_advances w)\<rparr>)))
     (seqM (wrapM ''recycle email_delivery_records''
       (db_exec (\<lambda>w. w\<lparr>w_email_deliveries := kept t (w_email_deliveries w)\<rparr>)))
     (seqM (wrapM ''recycle notification_delivery_records''
       (db_exec (\<lambda>w. w\<lparr>w_deliveries := kept t (w_deliveries w)\<rparr>)))
     (wrapM ''recycle notification_send_records''
       (db_exec (\<lambda>w. w\<lparr>w_sends := kept t (w_sends w)\<rparr>))))))))))"

section \<open>Subscriptions\<close>

definition deactivate_subscriptions :: "uuid \<Rightarrow> string \<Rightarrow> push_provider \<Rightarrow> time \<Rightarrow> unit io" where
  "deactivate_subscriptions accountID deviceID provider now =
     db_exec (\<lambda>w. w\<lparr>w_subscriptions :=
       update_where (\<lambda>r. alive r \<and> se_AccountID r = accountID \<and> se_DeviceID r = deviceID
           \<and> se_IsActivated r \<and> se_Provider r = int_of_provider provider)
         (\<lambda>r. r\<lparr>se_IsActivated := False, e_UpdatedAt := now\<rparr>)
         (w_subscriptions w)\<rparr>)"

definition get_existing_subscription ::
  "uuid \<Rightarrow> string \<Rightarrow> push_provider \<Rightarrow> push_subscription io" where
  "get_existing_subscription accountID deviceID provider =
     bindM (db_query (\<lambda>w. first_row (filter (\<lambda>r. alive r \<and> se_AccountID r = accountID
         \<and> se_DeviceID r = deviceID \<and> se_Provider r = int_of_provider provider)
         (w_subscriptions w))))
       (\<lambda>e. case e of None \<Rightarrow> throw ErrNotFound | Some r \<Rightarrow> ret (subscription_from_entity r))"

definition insert_subscription :: "push_subscription \<Rightarrow> unit io" where
  "insert_subscription sub =
     db_insert w_subscriptions (\<lambda>rows w. w\<lparr>w_subscriptions := rows\<rparr>)
       [subscription_entity_from_model sub]"

definition set_subscription_columns ::
  "push_subscription \<Rightarrow> subscription_entity \<Rightarrow> subscription_entity" where
  "set_subscription_columns sub r =
     r\<lparr>se_DeviceID := sub_DeviceId sub, se_DeviceToken := sub_DeviceToken sub,
       se_Provider := int_of_provider (sub_Provider sub), se_IsActivated := sub_IsActivated sub,
       se_LastUsedAt := sub_LastUsedAt sub, e_UpdatedAt := UpdatedAt sub,
       se_DeviceName := sub_DeviceName sub, se_AppID := sub_AppId sub\<rparr>"

definition update_subscription :: "push_subscription \<Rightarrow> unit io" where
  "update_subscription sub =
     db_exec (\<lambda>w. w\<lparr>w_subscriptions :=
       update_where (\<lambda>r. alive r \<and> ID r = Id sub) (set_subscription_columns sub)
         (w_subscriptions w)\<rparr>)"

definition count_subscriptions :: "uuid \<Rightarrow> int io" where
  "count_subscriptions accountID =
     db_query (\<lambda>w. int (length (filter (\<lambda>r. alive r \<and> se_AccountID r = accountID)
       (w_subscriptions w))))"

definition delete_subscription_by_id :: "uuid \<Rightarrow> uuid \<Rightarrow> int io" where
  "delete_subscription_by_id accountID i =
     db_exec_count
       (\<lambda>w. int (length (filter (\<lambda>r. se_AccountID r = accountID \<and> ID r = i) (w_subscriptions w))))
       (\<lambda>w. w\<lparr>w_subscriptions :=
          filter (\<lambda>r. \<not> (se_AccountID r = accountID \<and> ID r = i)) (w_subscriptions w)\<rparr>)"

definition delete_subscriptions_by_device :: "string \<Rightarrow> unit io" where
  "delete_subscriptions_by_device deviceID =
     db_exec (\<lambda>w. w\<lparr>w_subscriptions := filter (\<lambda>r. se_DeviceID r \<noteq> deviceID) (w_subscriptions w)\<rparr>)"

definition list_subscriptions ::
  "uuid \<Rightarrow> string option \<Rightarrow> string option \<Rightarrow> push_subscription list io" where
  "list_subscriptions accountID resolvedAppID defaultAppID =
     db_query (\<lambda>w. map subscription_from_entity (sort_desc e_UpdatedAt
       (filter (\<lambda>r. alive r \<and> se_AccountID r = accountID
           \<and> apply_app_filter resolvedAppID defaultAppID (se_AppID r)) (w_subscriptions w))))"

definition get_sop_subscription_by_token :: "string \<Rightarrow> push_subscription io" where
  "get_sop_subscription_by_token token =
     bindM (db_query (\<lambda>w. first_row (filter (\<lambda>r. alive r
         \<and> se_Provider r = int_of_provider PushProviderSop \<and> se_DeviceToken r = token
         \<and> se_IsActivated r) (w_subscriptions w))))
       (\<lambda>e. case e of None \<Rightarrow> throw ErrNotFound | Some r \<Rightarrow> ret (subscription_from_entity r))"

definition get_current_device_subscriptions :: "uuid \<Rightarrow> string \<Rightarrow> push_subscription list io" where
  "get_current_device_subscriptions accountID deviceID =
     db_query (\<lambda>w. map subscription_from_entity (sort_desc e_UpdatedAt
       (filter (\<lambda>r. alive r \<and> se_AccountID r = accountID
           \<and> se_DeviceID r \<in> {deviceID, deviceID @ '':sop''}) (w_subscriptions w))))"

definition list_activated_subscriptions ::
  "uuid \<Rightarrow> string option \<Rightarrow> string option \<Rightarrow> push_subscription list io" where
  "list_activated_subscriptions accountID resolvedAppID defaultAppID =
     db_query (\<lambda>w. map subscription_from_entity
       (filter (\<lambda>r. alive r \<and> se_AccountID r = accountID \<and> se_IsActivated r
           \<and> apply_app_filter resolvedAppID defaultAppID (se_AppID r)) (w_subscriptions w)))"

definition delete_subscriptions_by_ids :: "uuid list \<Rightarrow> int io" where
  "delete_subscriptions_by_ids ids =
     (if ids = [] then ret 0
      else db_exec_count
        (\<lambda>w. int (length (filter (\<lambda>r. ID r \<in> set ids) (w_subscriptions w))))
        (\<lambda>w. w\<lparr>w_subscriptions := filter (\<lambda>r. ID r \<notin> set ids) (w_subscriptions w)\<rparr>))"

section \<open>Preferences\<close>

definition list_preferences :: "uuid \<Rightarrow> notification_preference list io" where
  "list_preferences accountID =
     db_query (\<lambda>w. map preference_from_entity (sort_key pe_Topic
       (filter (\<lambda>r. alive r \<and> pe_AccountID r = accountID) (w_preferences w))))"

definition get_preference :: "uuid \<Rightarrow> string \<Rightarrow> notification_preference option io" where
  "get_preference accountID topic =
     bindM (db_query (\<lambda>w. first_row (filter (\<lambda>r. alive r \<and> pe_AccountID r = accountID
         \<and> pe_Topic r = topic) (w_preferences w))))
       (\<lambda>e. ret (map_option preference_from_entity e))"

definition set_preference :: "uuid \<Rightarrow> string \<Rightarrow> preference_level \<Rightarrow> time \<Rightarrow> unit io" where
  "set_preference accountID topic level now =
     bindM (get_preference accountID topic) (\<lambda>existing.
       case existing of
         Some e \<Rightarrow>
           db_exec (\<lambda>w. w\<lparr>w_preferences :=
             update_where (\<lambda>r. alive r \<and> ID r = Id e)
               (\<lambda>r. r\<lparr>pe_Preference := int_of_preference level, e_UpdatedAt := now\<rparr>)
               (w_preferences w)\<rparr>)
       | None \<Rightarrow>
           bindM uuid_new (\<lambda>i.
             db_insert w_preferences (\<lambda>rows w. w\<lparr>w_preferences := rows\<rparr>)
               [\<lparr>ID = i, e_CreatedAt = now, e_UpdatedAt = now, e_DeletedAt = deleted_at None,
                 pe_AccountID = accountID, pe_Preference = int_of_preference level,
                 pe_Topic = topic\<rparr>]))"

definition delete_preference :: "uuid \<Rightarrow> string \<Rightarrow> time \<Rightarrow> unit io" where
  "delete_preference accountID topic now =
     bindM (get_preference accountID topic) (\<lambda>existing.
       case existing of
         None \<Rightarrow> ret ()
       | Some e \<Rightarrow>
           db_exec (\<lambda>w. w\<lparr>w_preferences :=
             update_where (\<lambda>r. alive r \<and> ID r = Id e)
               (\<lambda>r. r\<lparr>e_DeletedAt := deleted_at (Some now), e_UpdatedAt := now\<rparr>)
               (w_preferences w)\<rparr>))"

type_synonym preference_map = "uuid \<Rightarrow> preference_level option"

fun collect_preferences :: "preference_map \<Rightarrow> preference_entity list \<Rightarrow> preference_map" where
  "collect_preferences result [] = result"
| "collect_preferences result (e # es) =
     collect_preferences (result(pe_AccountID e \<mapsto> preference_of_int (pe_Preference e))) es"

definition get_preferences_by_topics :: "uuid list \<Rightarrow> string \<Rightarrow> preference_map io" where
  "get_preferences_by_topics accounts topic =
     (if accounts = [] then ret Map.empty
      else db_query (\<lambda>w. collect_preferences Map.empty
        (filter (\<lambda>r. alive r \<and> pe_AccountID r \<in> set accounts \<and> pe_Topic r = topic)
          (w_preferences w))))"

text \<open>Indexing the map: Go's zero value, \<open>NotificationPreferenceNormal\<close>, for a missing account.\<close>

definition preference_at :: "preference_map \<Rightarrow> uuid \<Rightarrow> preference_level" where
  "preference_at m a = (case m a of None \<Rightarrow> PreferenceNormal | Some l \<Rightarrow> l)"

section \<open>File references\<close>

definition apply_file_reference_updates :: "string \<Rightarrow> int io" where
  "apply_file_reference_updates fileID = ret 0"

end
