(* ===== verification/Store_Email.thy ===== *)
theory Store_Email
  imports Store
begin

text \<open>
  \<open>internal/store/emailplans.go\<close>: the rows of the e-mail sending plans, of their recipients and of
  their recorded intervals.
\<close>

section \<open>Transactions\<close>

text \<open>
  gorm's \<open>Transaction\<close>: an error of the body, or of the commit, leaves the tables as they were;
  what has been asked of the outside stays asked.
\<close>

definition transaction :: "unit io \<Rightarrow> unit io" where
  "transaction body w =
     (case external w of
        (Inl e, w1) \<Rightarrow> (Inl e, w1)
      | (Inr _, w1) \<Rightarrow>
          (case body w1 of
             (Inl e, w2) \<Rightarrow> (Inl e, w1\<lparr>w_tick := w_tick w2\<rparr>)
           | (Inr _, w2) \<Rightarrow>
               (case external w2 of
                  (Inl e, w3) \<Rightarrow> (Inl e, w1\<lparr>w_tick := w_tick w3\<rparr>)
                | (Inr _, w3) \<Rightarrow> (Inr (), w3))))"

lemma transaction_Inl:
  assumes "transaction body w = (Inl e, w')"
  shows "\<exists>k. w' = w\<lparr>w_tick := k\<rparr>"
proof (cases "external w")
  case (Pair r w1)
  then have w1: "w1 = w\<lparr>w_tick := Suc (w_tick w)\<rparr>"
    by (cases r) (auto simp: io_iffs)
  from assms Pair show ?thesis
    unfolding w1 by (auto simp: transaction_def split: sum.splits prod.splits)
qed

lemma transaction_Inr:
  "transaction body w = (Inr u, w') \<longleftrightarrow>
     (\<exists>k w1 w2 k'. external w = (Inr k, w1) \<and> body w1 = (Inr (), w2) \<and> external w2 = (Inr k', w'))"
  by (auto simp: transaction_def split: sum.splits prod.splits)

section \<open>Plans\<close>

definition insert_plan :: "email_sending_plan \<Rightarrow> unit io" where
  "insert_plan plan =
     db_insert w_plans (\<lambda>rows w. w\<lparr>w_plans := rows\<rparr>) [plan_entity_from_model plan]"

definition insert_recipient :: "email_recipient \<Rightarrow> unit io" where
  "insert_recipient recipient =
     db_insert w_recipients (\<lambda>rows w. w\<lparr>w_recipients := rows\<rparr>)
       [recipient_entity_from_model recipient]"

definition create_email_plan :: "email_sending_plan \<Rightarrow> email_recipient list \<Rightarrow> unit io" where
  "create_email_plan plan recipients =
     transaction (seqM (insert_plan plan) (forM recipients insert_recipient))"

definition get_email_plan :: "uuid \<Rightarrow> email_sending_plan option io" where
  "get_email_plan planID =
     db_query (\<lambda>w. map_option plan_from_entity (find (\<lambda>r. alive r \<and> ID r = planID) (w_plans w)))"

definition list_email_plans ::
  "int \<Rightarrow> int \<Rightarrow> plan_status option \<Rightarrow> (email_sending_plan list \<times> int) io" where
  "list_email_plans offset take' status =
     (let query = (\<lambda>w. filter (\<lambda>r. alive r
              \<and> (case status of None \<Rightarrow> True | Some st \<Rightarrow> ple_Status r = int_of_plan_status st))
            (w_plans w))
      in bindM (db_query (\<lambda>w. int (length (query w)))) (\<lambda>total.
         bindM (db_query (\<lambda>w. gorm_limit take' (gorm_offset offset (sort_desc e_CreatedAt (query w)))))
           (\<lambda>entities. ret (map plan_from_entity entities, total))))"

definition set_plan_columns :: "email_sending_plan \<Rightarrow> plan_entity \<Rightarrow> plan_entity" where
  "set_plan_columns plan r =
     r\<lparr>ple_Status := int_of_plan_status (plan_Status plan),
       ple_AdvancedIntervalsCount := plan_AdvancedIntervalsCount plan,
       ple_NextIntervalAt := plan_NextIntervalAt plan,
       ple_LastAdvancedAt := plan_LastAdvancedAt plan,
       ple_PausedAt := plan_PausedAt plan,
       ple_CompletedAt := plan_CompletedAt plan,
       e_UpdatedAt := UpdatedAt plan\<rparr>"

definition update_email_plan_status :: "email_sending_plan \<Rightarrow> unit io" where
  "update_email_plan_status plan =
     db_exec (\<lambda>w. w\<lparr>w_plans :=
       update_where (\<lambda>r. alive r \<and> ID r = Id plan) (set_plan_columns plan) (w_plans w)\<rparr>)"

definition list_due_plans :: "time \<Rightarrow> email_sending_plan list io" where
  "list_due_plans now =
     db_query (\<lambda>w. map plan_from_entity
       (sort_key (\<lambda>r. case ple_NextIntervalAt r of None \<Rightarrow> 0 | Some t \<Rightarrow> t)
         (filter (\<lambda>r. alive r \<and> ple_Status r = int_of_plan_status PlanScheduled
             \<and> (case ple_NextIntervalAt r of None \<Rightarrow> False | Some t \<Rightarrow> t \<le> now))
           (w_plans w))))"

section \<open>Recipients\<close>

definition no_counts :: plan_counts where
  "no_counts = \<lparr>cnt_Total = 0, cnt_Pending = 0, cnt_Sent = 0, cnt_Skipped = 0, cnt_Failed = 0\<rparr>"

definition add_count :: "int \<Rightarrow> int \<Rightarrow> plan_counts \<Rightarrow> plan_counts" where
  "add_count status n c =
     (let c' = c\<lparr>cnt_Total := cnt_Total c + n\<rparr>
      in case recipient_status_of_int status of
           RecipientPending \<Rightarrow> c'\<lparr>cnt_Pending := cnt_Pending c' + n\<rparr>
         | RecipientSent \<Rightarrow> c'\<lparr>cnt_Sent := cnt_Sent c' + n\<rparr>
         | RecipientSkipped \<Rightarrow> c'\<lparr>cnt_Skipped := cnt_Skipped c' + n\<rparr>
         | RecipientFailed \<Rightarrow> c'\<lparr>cnt_Failed := cnt_Failed c' + n\<rparr>
         | _ \<Rightarrow> c')"

type_synonym count_map = "uuid \<Rightarrow> plan_counts option"

definition counts_at :: "count_map \<Rightarrow> uuid \<Rightarrow> plan_counts" where
  "counts_at m i = (case m i of None \<Rightarrow> no_counts | Some c \<Rightarrow> c)"

fun collect_counts :: "count_map \<Rightarrow> ((uuid \<times> int) \<times> int) list \<Rightarrow> count_map" where
  "collect_counts m [] = m"
| "collect_counts m (((i, status), n) # rows) =
     collect_counts (m(i \<mapsto> add_count status n (counts_at m i))) rows"

definition recipient_status_rows ::
  "uuid list \<Rightarrow> recipient_entity list \<Rightarrow> ((uuid \<times> int) \<times> int) list" where
  "recipient_status_rows planIDs rows =
     group_counts (map (\<lambda>r. (re_PlanID r, re_Status r))
       (filter (\<lambda>r. alive r \<and> re_PlanID r \<in> set planIDs) rows))"

definition count_recipients_by_status :: "uuid list \<Rightarrow> count_map io" where
  "count_recipients_by_status planIDs =
     (if planIDs = [] then ret Map.empty
      else db_query (\<lambda>w. collect_counts Map.empty (recipient_status_rows planIDs (w_recipients w))))"

definition is_pending :: "uuid \<Rightarrow> recipient_entity \<Rightarrow> bool" where
  "is_pending planID r \<longleftrightarrow>
     alive r \<and> re_PlanID r = planID \<and> re_Status r = int_of_recipient_status RecipientPending"

definition count_pending_recipients :: "uuid \<Rightarrow> int io" where
  "count_pending_recipients planID =
     db_query (\<lambda>w. int (length (filter (is_pending planID) (w_recipients w))))"

definition list_pending_recipients :: "uuid \<Rightarrow> email_recipient list io" where
  "list_pending_recipients planID =
     db_query (\<lambda>w. map recipient_from_entity
       (sort_key e_CreatedAt (sort_key ID (filter (is_pending planID) (w_recipients w)))))"

definition set_recipient_columns :: "email_recipient \<Rightarrow> recipient_entity \<Rightarrow> recipient_entity" where
  "set_recipient_columns recipient r =
     r\<lparr>re_Status := int_of_recipient_status (rcp_Status recipient),
       re_AttemptCount := rcp_AttemptCount recipient,
       re_LastIntervalNumber := rcp_LastIntervalNumber recipient,
       re_LastResolvedEmail := rcp_LastResolvedEmail recipient,
       re_LastError := rcp_LastError recipient,
       re_ProcessedAt := rcp_ProcessedAt recipient,
       e_UpdatedAt := UpdatedAt recipient\<rparr>"

definition update_recipient :: "email_recipient \<Rightarrow> unit io" where
  "update_recipient recipient =
     db_exec (\<lambda>w. w\<lparr>w_recipients :=
       update_where (\<lambda>r. alive r \<and> ID r = Id recipient) (set_recipient_columns recipient)
         (w_recipients w)\<rparr>)"

section \<open>Intervals\<close>

definition list_advances_by_plans :: "uuid list \<Rightarrow> email_advance list io" where
  "list_advances_by_plans planIDs =
     (if planIDs = [] then ret []
      else db_query (\<lambda>w. map advance_from_entity (sort_desc ae_IntervalNumber
        (filter (\<lambda>r. alive r \<and> ae_PlanID r \<in> set planIDs) (w_advances w)))))"

definition insert_advance :: "email_advance \<Rightarrow> unit io" where
  "insert_advance advance =
     db_insert w_advances (\<lambda>rows w. w\<lparr>w_advances := rows\<rparr>) [advance_entity_from_model advance]"

definition attempted_between :: "uuid \<Rightarrow> time \<Rightarrow> time \<Rightarrow> advance_entity list \<Rightarrow> int" where
  "attempted_between planID startOfDay endOfDay rows =
     sum_list (map ae_AttemptedCount (filter (\<lambda>r. alive r \<and> ae_PlanID r = planID
       \<and> startOfDay \<le> ae_StartedAt r \<and> ae_StartedAt r < endOfDay) rows))"

definition sum_attempted_today :: "uuid \<Rightarrow> time \<Rightarrow> time \<Rightarrow> int io" where
  "sum_attempted_today planID startOfDay endOfDay =
     db_query (\<lambda>w. attempted_between planID startOfDay endOfDay (w_advances w))"

end
