(* ===== verification/Row_Codec.thy ===== *)
theory Row_Codec
  imports Store_Email
begin

text \<open>
  What the conversions of \<open>store/entities.go\<close> and \<open>store/codec.go\<close> promise to the queries, as an
  interface that every table's pair of conversions provides, and what follows for the plans of
  \<open>store/emailplans.go\<close>: a plan that has been created is read back.
\<close>

section \<open>The contract of a pair of conversions\<close>

text \<open>
  A model that is \<open>valid\<close> (its enumeration is one a stored integer can mean) survives being
  written to a row, and the columns the queries select and sort by are those of the model.
\<close>

locale row_codec =
  fixes to_row :: "'m model_base_scheme \<Rightarrow> 'e entity_scheme"
    and from_row :: "'e entity_scheme \<Rightarrow> 'm model_base_scheme"
    and valid :: "'m model_base_scheme \<Rightarrow> bool"
  assumes read_row: "valid m \<Longrightarrow> from_row (to_row m) = m"
    and row_id: "ID (to_row m) = Id m"
    and row_created: "e_CreatedAt (to_row m) = CreatedAt m"
    and row_alive: "alive (to_row m) \<longleftrightarrow> DeletedAt m = None"
begin

lemma read_rows: "\<forall>m \<in> set ms. valid m \<Longrightarrow> map from_row (map to_row ms) = ms"
  by (induction ms) (simp_all add: read_row)

lemma inj_on_valid: "inj_on to_row {m. valid m}"
  by (rule inj_on_inverseI [of _ from_row]) (simp add: read_row)

text \<open>An inserted model is found by its id; an insert lets only new ids in.\<close>

lemma find_inserted:
  assumes "distinct (map ID (rows @ map to_row ms))" and "m \<in> set ms" and "valid m" and "DeletedAt m = None"
  shows "map_option from_row (find (\<lambda>r. alive r \<and> ID r = Id m) (rows @ map to_row ms)) = Some m"
proof -
  let ?all = "rows @ map to_row ms"
  have m: "to_row m \<in> set ?all" "alive (to_row m)" using assms(2,4) by (auto simp: row_alive)
  then have "find (\<lambda>r. alive r \<and> ID r = Id m) ?all \<noteq> None"
    unfolding find_None_iff using row_id by blast
  then obtain r where r: "find (\<lambda>r. alive r \<and> ID r = Id m) ?all = Some r" by blast
  then have "r \<in> set ?all" "ID r = ID (to_row m)"
    unfolding find_Some_iff row_id by (metis nth_mem)+
  with m(1) assms(1) have "r = to_row m" by (metis distinct_map inj_onD)
  with r assms(3) show ?thesis by (simp add: read_row)
qed

text \<open>Reading in the order of creation commutes with writing.\<close>

lemma sort_rows:
  assumes "\<And>m. k (to_row m) = j m"
  shows "sort_key k (map to_row ms) = map to_row (sort_key j ms)"
proof (induction ms)
  case (Cons m ms)
  have "insort_key k (to_row m) (map to_row xs) = map to_row (insort_key j m xs)" for xs
    by (induction xs) (simp_all add: assms)
  with Cons show ?case by simp
qed simp

lemma read_in_order:
  assumes "\<forall>m \<in> set ms. valid m"
  shows "map from_row (sort_key e_CreatedAt (sort_key ID (filter P (map to_row ms))))
    = sort_key CreatedAt (sort_key Id (filter (\<lambda>m. P (to_row m)) ms))"
proof -
  have "filter P (map to_row ms) = map to_row (filter (\<lambda>m. P (to_row m)) ms)"
    by (simp add: filter_map comp_def)
  then show ?thesis
    using assms by (simp only: sort_rows [of ID Id, OF row_id] sort_rows [of e_CreatedAt CreatedAt, OF row_created])
      (rule read_rows, simp)
qed

end

text \<open>The conversions of the code.\<close>

interpretation subscription_rows: row_codec subscription_entity_from_model subscription_from_entity
  "\<lambda>s. provider_ok (sub_Provider s)"
  by unfold_locales (erule subscription_row_roundtrip | simp add: subscription_entity_from_model_def alive_def)+

interpretation preference_rows: row_codec preference_entity_from_model preference_from_entity
  "\<lambda>p. preference_ok (prf_Preference p)"
  by unfold_locales (erule preference_row_roundtrip | simp add: preference_entity_from_model_def alive_def)+

interpretation plan_rows: row_codec plan_entity_from_model plan_from_entity
  "\<lambda>p. plan_status_ok (plan_Status p)"
  by unfold_locales (erule plan_row_roundtrip | simp add: plan_entity_from_model_def alive_def)+

interpretation recipient_rows: row_codec recipient_entity_from_model recipient_from_entity
  "\<lambda>r. recipient_status_ok (rcp_Status r)"
  by unfold_locales (erule recipient_row_roundtrip | simp add: recipient_entity_from_model_def alive_def)+

interpretation advance_rows: row_codec advance_entity_from_model advance_from_entity "\<lambda>a. True"
  by unfold_locales (rule advance_row_roundtrip | simp add: advance_entity_from_model_def alive_def)+

section \<open>Creating a plan and reading it\<close>

lemma insert_recipients_run:
  "forM recipients insert_recipient w = (Inr (), w') \<Longrightarrow>
     w_recipients w' = w_recipients w @ map recipient_entity_from_model recipients \<and> w_plans w' = w_plans w"
proof (induction recipients arbitrary: w)
  case (Cons m ms)
  from Cons.prems obtain w1 where "insert_recipient m w = (Inr (), w1)" and rest: "forM ms insert_recipient w1 = (Inr (), w')"
    by (auto simp: run_iffs)
  then have "w_recipients w1 = w_recipients w @ [recipient_entity_from_model m] \<and> w_plans w1 = w_plans w"
    by (auto simp: insert_recipient_def db_insert_def io_iffs split: if_splits)
  with Cons.IH [OF rest] show ?case by simp
qed (simp add: ret_iff)

lemma create_email_plan_run:
  assumes "create_email_plan plan recipients w = (Inr (), w')"
  shows "w_plans w' = w_plans w @ [plan_entity_from_model plan]
    \<and> distinct (map ID (w_plans w @ [plan_entity_from_model plan]))
    \<and> w_recipients w' = w_recipients w @ map recipient_entity_from_model recipients"
proof -
  obtain k w1 w2 w3 k' where run: "external w = (Inr k, w1)" "insert_plan plan w1 = (Inr (), w2)"
    "forM recipients insert_recipient w2 = (Inr (), w3)" "external w3 = (Inr k', w')"
    using assms by (auto simp: create_email_plan_def transaction_Inr run_iffs)
  then have "w_plans w2 = w_plans w @ [plan_entity_from_model plan] \<and> w_recipients w2 = w_recipients w
    \<and> distinct (map ID (w_plans w @ [plan_entity_from_model plan]))"
    by (auto simp: insert_plan_def db_insert_def io_iffs split: if_splits)
  moreover have "w_plans w' = w_plans w3 \<and> w_recipients w' = w_recipients w3"
    using run(4) by (auto simp: io_iffs)
  ultimately show ?thesis using insert_recipients_run [OF run(3)] by simp
qed

lemma recipient_row_pending:
  assumes "recipient_status_ok (rcp_Status m)"
  shows "is_pending p (recipient_entity_from_model m) \<longleftrightarrow>
    DeletedAt m = None \<and> rcp_PlanId m = p \<and> rcp_Status m = RecipientPending"
proof -
  have "recipient_status_of_int (int_of_recipient_status (rcp_Status m)) = rcp_Status m"
    using assms by (rule recipient_status_of_int_of_recipient_status)
  then have "int_of_recipient_status (rcp_Status m) = 0 \<longleftrightarrow> rcp_Status m = RecipientPending"
    by (metis recipient_status_of_int_iff(1))
  then show ?thesis
    by (simp add: is_pending_def recipient_rows.row_alive) (simp add: recipient_entity_from_model_def)
qed

text \<open>
  C13: Creating a sending plan stores all of it or nothing. When \<open>CreateEmailPlan\<close> fails, at whatever
  insert or at the commit, neither a plan nor a recipient has been added. When it returns nil, the
  plan is read back by its id with every field, and the recipients that are still to be
  mailed are read back in the order of creation and id, each as it was written and none else.
\<close>

theorem created_plan_is_read_back:
  assumes "create_email_plan plan recipients w = (r, w1)"
    and "DeletedAt plan = None" and "plan_status_ok (plan_Status plan)"
    and "\<forall>m \<in> set recipients. recipient_status_ok (rcp_Status m)"
    and "\<forall>row \<in> set (w_recipients w). re_PlanID row \<noteq> Id plan"
  shows "case r of
      Inl _ \<Rightarrow> w_plans w1 = w_plans w \<and> w_recipients w1 = w_recipients w
    | Inr _ \<Rightarrow> (\<forall>q w2. get_email_plan (Id plan) w1 = (Inr q, w2) \<longrightarrow> q = Some plan)
        \<and> (\<forall>ms w2. list_pending_recipients (Id plan) w1 = (Inr ms, w2) \<longrightarrow>
             ms = sort_key CreatedAt (sort_key Id (filter (\<lambda>m. DeletedAt m = None
               \<and> rcp_PlanId m = Id plan \<and> rcp_Status m = RecipientPending) recipients)))"
proof (cases r)
  case (Inl e)
  with assms(1) show ?thesis by (auto simp: create_email_plan_def dest: transaction_Inl)
next
  case (Inr u)
  with assms(1) have run: "create_email_plan plan recipients w = (Inr (), w1)" by simp
  note rows = create_email_plan_run [OF run]
  have "map_option plan_from_entity (find (\<lambda>r. alive r \<and> ID r = Id plan) (w_plans w1)) = Some plan"
    using plan_rows.find_inserted [of "w_plans w" "[plan]" plan] rows assms(2,3) by simp
  moreover have "filter (is_pending (Id plan)) (w_recipients w) = []"
    using assms(5) by (auto simp: is_pending_def filter_empty_conv)
  then have "map recipient_from_entity (sort_key e_CreatedAt (sort_key ID
      (filter (is_pending (Id plan)) (w_recipients w1))))
    = sort_key CreatedAt (sort_key Id (filter (\<lambda>m. is_pending (Id plan) (recipient_entity_from_model m)) recipients))"
    using recipient_rows.read_in_order [OF assms(4)] rows by simp
  moreover have "filter (\<lambda>m. is_pending (Id plan) (recipient_entity_from_model m)) recipients
    = filter (\<lambda>m. DeletedAt m = None \<and> rcp_PlanId m = Id plan \<and> rcp_Status m = RecipientPending) recipients"
    by (rule filter_cong) (simp_all add: recipient_row_pending assms(4))
  ultimately show ?thesis
    using Inr by (auto simp: get_email_plan_def list_pending_recipients_def db_query_Inr)
qed

definition plan_to_save :: email_sending_plan where
  "plan_to_save = \<lparr>Id = 1, CreatedAt = 5, UpdatedAt = 5, DeletedAt = None, plan_SendingPlanKey = Some ''k'',
     plan_CreatedByAccountId = 9, plan_Subject = ''s'', plan_HtmlBody = ''b'', plan_BroadcastToAll = False,
     plan_RecipientCount = 2, plan_MaxEmailsPerInterval = 1, plan_IntervalMinutes = 60,
     plan_MaxEmailsPerDay = None, plan_Status = PlanScheduled, plan_AdvancedIntervalsCount = 0,
     plan_PlannedStartAt = 5, plan_NextIntervalAt = Some 5, plan_LastAdvancedAt = None,
     plan_PausedAt = None, plan_CompletedAt = None\<rparr>"

definition recipient_to_save :: "uuid \<Rightarrow> email_recipient" where
  "recipient_to_save i = \<lparr>Id = i, CreatedAt = 5, UpdatedAt = 5, DeletedAt = None, rcp_PlanId = 1,
     rcp_AccountId = i + 100, rcp_RecipientNameSnapshot = Some ''n'', rcp_Status = RecipientPending,
     rcp_AttemptCount = 0, rcp_LastIntervalNumber = None, rcp_LastResolvedEmail = None,
     rcp_LastError = None, rcp_ProcessedAt = None\<rparr>"

theorem created_plan_is_read_back_witness:
  "\<exists>w1. create_email_plan plan_to_save [recipient_to_save 12, recipient_to_save 11] (empty_world quiet_outside)
       = (Inr (), w1)
     \<and> (\<exists>w2. get_email_plan 1 w1 = (Inr (Some plan_to_save), w2))
     \<and> (\<exists>w2. list_pending_recipients 1 w1 = (Inr [recipient_to_save 11, recipient_to_save 12], w2))"
proof -
  let ?ms = "[recipient_to_save 12, recipient_to_save 11]"
  have runs: "fst (create_email_plan plan_to_save ?ms (empty_world quiet_outside)) = Inr ()"
    "\<not> isl (fst (get_email_plan 1 (snd (create_email_plan plan_to_save ?ms (empty_world quiet_outside)))))"
    "\<not> isl (fst (list_pending_recipients 1 (snd (create_email_plan plan_to_save ?ms (empty_world quiet_outside)))))"
    by code_simp+
  then obtain w1 where run: "create_email_plan plan_to_save ?ms (empty_world quiet_outside) = (Inr (), w1)"
    by (metis prod.collapse)
  obtain q w2 ms w3 where reads: "get_email_plan 1 w1 = (Inr q, w2)" "list_pending_recipients 1 w1 = (Inr ms, w3)"
    using run_exists [of "get_email_plan 1 w1"] run_exists [of "list_pending_recipients 1 w1"] runs(2,3) run
    by auto
  have ok: "Id plan_to_save = 1" "DeletedAt plan_to_save = None" "plan_status_ok (plan_Status plan_to_save)"
    "\<forall>m \<in> set ?ms. recipient_status_ok (rcp_Status m)"
    "\<forall>row \<in> set (w_recipients (empty_world quiet_outside)). re_PlanID row \<noteq> Id plan_to_save"
    by (simp_all add: plan_to_save_def recipient_to_save_def plan_status_ok_def recipient_status_ok_def
        empty_world_def)
  have shown: "sort_key CreatedAt (sort_key Id (filter (\<lambda>m. DeletedAt m = None \<and> rcp_PlanId m = 1
      \<and> rcp_Status m = RecipientPending) ?ms)) = [recipient_to_save 11, recipient_to_save 12]"
    by (simp add: recipient_to_save_def)
  from created_plan_is_read_back [OF run ok(2-5)] reads have "q = Some plan_to_save"
    "ms = [recipient_to_save 11, recipient_to_save 12]"
    unfolding ok(1) shown by auto
  with run reads show ?thesis by auto
qed

end
