(* ===== verification/Stream_Wait.thy ===== *)
theory Stream_Wait
  imports Streams
begin

text \<open>
  \<open>SopStream.WaitToRead\<close> with its goroutines, as a step relation over one stream: the reader,
  the watcher it starts to turn a cancelled context into a wake-up, the writers and the
  goroutine that completes the stream. Every critical section under the stream's mutex is one
  step; \<open>cond.Wait\<close> gives the mutex up and parks the reader, \<open>Signal\<close> and \<open>Broadcast\<close> make a
  parked reader runnable and have no effect when it is not parked.
\<close>

section \<open>The machine\<close>

datatype reader_pc = ReaderBeforeLock | ReaderParked | ReaderWoken | ReaderReturned bool

datatype watcher_pc = WatcherSelecting | WatcherExited

record 'n wait_state =
  wt_stream :: "'n sop_stream"
  wt_ctx_done :: bool
  wt_reader :: reader_pc
  wt_watcher :: watcher_pc

definition wait_init :: "'n sop_stream \<Rightarrow> 'n wait_state" where
  "wait_init s = \<lparr>wt_stream = s, wt_ctx_done = False, wt_reader = ReaderBeforeLock,
                  wt_watcher = WatcherSelecting\<rparr>"

text \<open>\<open>cond.Broadcast\<close> and \<open>cond.Signal\<close> on the one reader that can be parked.\<close>

fun wake :: "reader_pc \<Rightarrow> reader_pc" where
  "wake ReaderParked = ReaderWoken"
| "wake pc = pc"

text \<open>The head of the \<open>for\<close> loop, and what follows it.\<close>

definition loop_head :: "'n sop_stream \<Rightarrow> reader_pc" where
  "loop_head s = (if ss_items s = [] \<and> \<not> ss_closed s then ReaderParked
                  else ReaderReturned (ss_items s \<noteq> []))"

text \<open>The steps of the reader and of its watcher.\<close>

inductive wait_own_step :: "'n wait_state \<Rightarrow> 'n wait_state \<Rightarrow> bool" where
  reader_enters:
    "wt_reader s = ReaderBeforeLock \<Longrightarrow> wait_own_step s (s\<lparr>wt_reader := loop_head (wt_stream s)\<rparr>)"
| reader_resumes_cancelled:
    "wt_reader s = ReaderWoken \<Longrightarrow> wt_ctx_done s \<Longrightarrow>
     wait_own_step s (s\<lparr>wt_reader := ReaderReturned False\<rparr>)"
| reader_resumes:
    "wt_reader s = ReaderWoken \<Longrightarrow> \<not> wt_ctx_done s \<Longrightarrow>
     wait_own_step s (s\<lparr>wt_reader := loop_head (wt_stream s)\<rparr>)"
| watcher_broadcasts:
    "wt_watcher s = WatcherSelecting \<Longrightarrow> wt_ctx_done s \<Longrightarrow>
     wait_own_step s (s\<lparr>wt_reader := wake (wt_reader s), wt_watcher := WatcherExited\<rparr>)"
| watcher_stops:
    "wt_watcher s = WatcherSelecting \<Longrightarrow> wt_reader s = ReaderReturned b \<Longrightarrow>
     wait_own_step s (s\<lparr>wt_watcher := WatcherExited\<rparr>)"

text \<open>The steps of everybody else: a write, a completion, the cancellation of the context.\<close>

inductive wait_env_step :: "'n wait_state \<Rightarrow> 'n wait_state \<Rightarrow> bool" where
  writer:
    "try_write (wt_stream s) n = (ok, t) \<Longrightarrow>
     wait_env_step s (s\<lparr>wt_stream := t, wt_reader := (if ok then wake (wt_reader s) else wt_reader s)\<rparr>)"
| completer:
    "wait_env_step s (s\<lparr>wt_stream := complete_stream (wt_stream s),
       wt_reader := (if ss_closed (wt_stream s) then wt_reader s else wake (wt_reader s))\<rparr>)"
| cancel: "wait_env_step s (s\<lparr>wt_ctx_done := True\<rparr>)"

inductive wait_reachable :: "'n wait_state \<Rightarrow> bool" where
  start: "wait_reachable (wait_init s)"
| own: "wait_reachable s \<Longrightarrow> wait_own_step s t \<Longrightarrow> wait_reachable t"
| env: "wait_reachable s \<Longrightarrow> wait_env_step s t \<Longrightarrow> wait_reachable t"

inductive_cases wait_own_stepE: "wait_own_step s t"
inductive_cases wait_env_stepE: "wait_env_step s t"

section \<open>No notification is missed\<close>

text \<open>
  The reader is parked only while the stream is empty and open, and it has returned true only
  with a notification there to read.
\<close>

definition wait_inv :: "'n wait_state \<Rightarrow> bool" where
  "wait_inv s \<longleftrightarrow>
     (wt_reader s = ReaderParked \<longrightarrow> ss_items (wt_stream s) = [] \<and> \<not> ss_closed (wt_stream s)) \<and>
     (wt_reader s = ReaderReturned True \<longrightarrow> ss_items (wt_stream s) \<noteq> []) \<and>
     (wt_reader s = ReaderReturned False \<longrightarrow> wt_ctx_done s \<or> ss_closed (wt_stream s))"

lemma wake_not_parked [simp]: "wake pc \<noteq> ReaderParked"
  by (cases pc) auto

lemma wake_returned [simp]: "wake pc = ReaderReturned b \<longleftrightarrow> pc = ReaderReturned b"
  by (cases pc) auto

lemma wait_own_step_inv: "wait_own_step s t \<Longrightarrow> wait_inv s \<Longrightarrow> wait_inv t"
  by (cases rule: wait_own_step.cases) (auto simp: wait_inv_def loop_head_def split: if_splits)

lemma wait_env_step_inv: "wait_env_step s t \<Longrightarrow> wait_inv s \<Longrightarrow> wait_inv t"
  by (cases rule: wait_env_step.cases)
    (auto simp: wait_inv_def try_write_def complete_stream_def split: if_splits)

lemma wait_reachable_inv: "wait_reachable s \<Longrightarrow> wait_inv s"
  by (induction rule: wait_reachable.induct)
    (auto simp: wait_init_def wait_inv_def [of "\<lparr>wt_stream = _, wt_ctx_done = _, wt_reader = _, wt_watcher = _\<rparr>"]
      intro: wait_own_step_inv wait_env_step_inv)

text \<open>A reader that has not returned and is not parked can always move.\<close>

lemma reader_runnable:
  "wt_reader s = ReaderBeforeLock \<or> wt_reader s = ReaderWoken \<Longrightarrow> \<exists>t. wait_own_step s t"
  by (cases "wt_ctx_done s") (auto intro: wait_own_step.intros)

text \<open>
  C23: in every reachable state of \<open>WaitToRead\<close>, a reader that is still inside the call while a
  notification is in the stream or the stream is completed is able to take a step: data and
  completion never leave it parked; and when it has returned true there is a notification to
  read, when it has returned false the context is cancelled or the stream is completed.
\<close>

theorem wait_to_read_no_missed_data:
  assumes "wait_reachable s"
  shows "((ss_items (wt_stream s) \<noteq> [] \<or> ss_closed (wt_stream s)) \<longrightarrow>
           (\<exists>b. wt_reader s = ReaderReturned b) \<or> (\<exists>t. wait_own_step s t))
       \<and> (wt_reader s = ReaderReturned True \<longrightarrow> ss_items (wt_stream s) \<noteq> [])
       \<and> (wt_reader s = ReaderReturned False \<longrightarrow> wt_ctx_done s \<or> ss_closed (wt_stream s))"
  using wait_reachable_inv [OF assms] reader_runnable [of s]
  by (cases "wt_reader s") (auto simp: wait_inv_def)

theorem wait_to_read_no_missed_data_witness:
  "\<exists>t. wait_own_step \<lparr>wt_stream = \<lparr>ss_items = [7 :: nat], ss_closed = False\<rparr>, wt_ctx_done = False,
     wt_reader = ReaderWoken, wt_watcher = WatcherSelecting\<rparr> t"
proof -
  let ?s = "\<lparr>wt_stream = \<lparr>ss_items = [7 :: nat], ss_closed = False\<rparr>, wt_ctx_done = False,
     wt_reader = ReaderWoken, wt_watcher = WatcherSelecting\<rparr>"
  let ?p = "\<lparr>wt_stream = \<lparr>ss_items = [] :: nat list, ss_closed = False\<rparr>, wt_ctx_done = False,
     wt_reader = ReaderParked, wt_watcher = WatcherSelecting\<rparr>"
  have "wait_own_step (wait_init (new_sop_stream :: nat sop_stream)) ?p"
    using wait_own_step.reader_enters [of "wait_init (new_sop_stream :: nat sop_stream)"]
    by (simp add: wait_init_def loop_head_def new_sop_stream_def)
  then have "wait_reachable ?p" by (rule wait_reachable.own [OF wait_reachable.start])
  moreover have "wait_env_step ?p ?s"
    using wait_env_step.writer [of ?p 7 True "\<lparr>ss_items = [7], ss_closed = False\<rparr>"]
    by (simp add: try_write_def)
  ultimately have "wait_reachable ?s" by (rule wait_reachable.env)
  from wait_to_read_no_missed_data [OF this] show ?thesis by simp
qed

section \<open>A cancellation can be missed\<close>

text \<open>
  When the context is cancelled after \<open>WaitToRead\<close> has started its watcher but before the reader
  has the mutex, the watcher's one broadcast comes before the reader is parked. The loop does
  not look at the context before it waits, so the reader parks with nobody left to wake it but
  a later write to this stream.
\<close>

definition missed_cancel :: "'n wait_state \<Rightarrow> bool" where
  "missed_cancel s \<longleftrightarrow> wt_ctx_done s \<and> wt_reader s = ReaderParked \<and> wt_watcher s = WatcherExited"

lemma missed_cancel_stuck: "missed_cancel s \<Longrightarrow> \<not> wait_own_step s t"
  by (auto simp: missed_cancel_def elim: wait_own_step.cases)

lemma missed_cancel_reachable:
  "\<exists>s :: 'n wait_state. wait_reachable s \<and> missed_cancel s \<and> ss_items (wt_stream s) = []"
proof -
  let ?s0 = "wait_init (new_sop_stream :: 'n sop_stream)"
  let ?s1 = "?s0\<lparr>wt_ctx_done := True\<rparr>"
  let ?s2 = "?s1\<lparr>wt_reader := wake (wt_reader ?s1), wt_watcher := WatcherExited\<rparr>"
  let ?s3 = "?s2\<lparr>wt_reader := loop_head (wt_stream ?s2)\<rparr>"
  have "wait_reachable ?s1"
    by (rule wait_reachable.env [OF wait_reachable.start wait_env_step.cancel])
  moreover have "wait_own_step ?s1 ?s2"
    by (rule wait_own_step.watcher_broadcasts) (simp_all add: wait_init_def)
  ultimately have "wait_reachable ?s2" by (rule wait_reachable.own)
  moreover have "wait_own_step ?s2 ?s3"
    by (rule wait_own_step.reader_enters) (simp add: wait_init_def)
  ultimately have "wait_reachable ?s3" by (rule wait_reachable.own)
  moreover have "missed_cancel ?s3 \<and> ss_items (wt_stream ?s3) = []"
    by (simp add: missed_cancel_def wait_init_def loop_head_def new_sop_stream_def)
  ultimately show ?thesis by blast
qed

text \<open>
  C37: a cancelled \<open>WaitToRead\<close> may hang: a state is reachable in which the context is done and
  neither the reader nor its watcher can take any step, so the SSE handler stays parked until
  somebody writes to the stream or completes it, and its deferred \<open>UnsubscribeSopStream\<close>, the
  only caller of \<open>Complete\<close>, comes after the wait.
\<close>

theorem wait_to_read_cancellation_can_hang:
  "\<exists>s :: 'n wait_state. wait_reachable s \<and> wt_ctx_done s \<and> wt_reader s = ReaderParked
     \<and> (\<nexists>t. wait_own_step s t)"
  using missed_cancel_reachable missed_cancel_stuck by (fastforce simp: missed_cancel_def)

text \<open>
  Apart from that window the cancellation is seen: a reader that is parked while its watcher
  still selects is woken by the watcher's broadcast, and then returns false.
\<close>

lemma cancellation_seen_when_parked:
  assumes "wt_reader s = ReaderParked" and "wt_watcher s = WatcherSelecting" and "wt_ctx_done s"
  shows "\<exists>t u. wait_own_step s t \<and> wait_own_step t u \<and> wt_reader u = ReaderReturned False"
proof -
  let ?t = "s\<lparr>wt_reader := wake (wt_reader s), wt_watcher := WatcherExited\<rparr>"
  have "wait_own_step s ?t" by (rule wait_own_step.watcher_broadcasts) (use assms in simp_all)
  moreover have "wait_own_step ?t (?t\<lparr>wt_reader := ReaderReturned False\<rparr>)"
    by (rule wait_own_step.reader_resumes_cancelled) (use assms in simp_all)
  ultimately show ?thesis by fastforce
qed

end
