(* ===== verification/Store_Records.thy ===== *)
theory Store_Records
  imports Store
begin

text \<open>
  \<open>internal/store/observability.go\<close> and \<open>internal/store/admin.go\<close>: the rows that record deliveries
  and the counts over them.
\<close>

section \<open>Recording\<close>

definition store_record_email_delivery :: "email_delivery_record \<Rightarrow> unit io" where
  "store_record_email_delivery record =
     db_insert w_email_deliveries (\<lambda>rows w. w\<lparr>w_email_deliveries := rows\<rparr>)
       [\<lparr>ID = Id record, e_CreatedAt = CreatedAt record, e_UpdatedAt = CreatedAt record,
         e_DeletedAt = deleted_at (DeletedAt record),
         ede_DurationMilliseconds = edr_DurationMilliseconds record, ede_Error = edr_Error record,
         ede_Outcome = int_of_outcome (edr_Outcome record), ede_Provider = edr_Provider record,
         ede_Source = edr_Source record\<rparr>]"

definition store_record_notification_delivery :: "notification_delivery_record \<Rightarrow> unit io" where
  "store_record_notification_delivery record =
     db_insert w_deliveries (\<lambda>rows w. w\<lparr>w_deliveries := rows\<rparr>)
       [\<lparr>ID = Id record, e_CreatedAt = CreatedAt record, e_UpdatedAt = CreatedAt record,
         e_DeletedAt = deleted_at (DeletedAt record),
         nde_AppID = ndr_AppId record, nde_DurationMilliseconds = ndr_DurationMilliseconds record,
         nde_Error = ndr_Error record, nde_NotificationID = ndr_NotificationId record,
         nde_Outcome = int_of_outcome (ndr_Outcome record), nde_Provider = ndr_Provider record,
         nde_PushType = ndr_PushType record, nde_SubscriptionID = ndr_SubscriptionId record,
         nde_Topic = ndr_Topic record\<rparr>]"

definition store_record_notification_send :: "notification_send_record \<Rightarrow> unit io" where
  "store_record_notification_send record =
     db_insert w_sends (\<lambda>rows w. w\<lparr>w_sends := rows\<rparr>)
       [\<lparr>ID = Id record, e_CreatedAt = CreatedAt record, e_UpdatedAt = CreatedAt record,
         e_DeletedAt = deleted_at (DeletedAt record),
         sre_AppID = nsr_AppId record, sre_PushType = nsr_PushType record,
         sre_Source = nsr_Source record, sre_Topic = nsr_Topic record\<rparr>]"

definition held_for :: "uuid \<Rightarrow> uuid list \<Rightarrow> notification_delivery_entity \<Rightarrow> bool" where
  "held_for subscriptionID notificationIDs r \<longleftrightarrow>
     alive r \<and> nde_Provider r = ''sop'' \<and> nde_SubscriptionID r = Some subscriptionID
     \<and> nde_Outcome r = int_of_outcome OutcomeHeld
     \<and> (case nde_NotificationID r of None \<Rightarrow> False | Some i \<Rightarrow> i \<in> set notificationIDs)"

definition store_mark_sop_delivery_read :: "uuid \<Rightarrow> uuid list \<Rightarrow> time \<Rightarrow> int io" where
  "store_mark_sop_delivery_read subscriptionID notificationIDs now =
     (if notificationIDs = [] then ret 0
      else db_exec_count
        (\<lambda>w. int (length (filter (held_for subscriptionID notificationIDs) (w_deliveries w))))
        (\<lambda>w. w\<lparr>w_deliveries := update_where (held_for subscriptionID notificationIDs)
           (\<lambda>r. r\<lparr>nde_Outcome := int_of_outcome OutcomeSuccess, e_UpdatedAt := now\<rparr>)
           (w_deliveries w)\<rparr>))"

section \<open>Counting\<close>

record notification_stats =
  nst_CalculatedAt :: time
  nst_TotalNotifications :: int
  nst_UnreadNotifications :: int
  nst_NotificationsLastDay :: int
  nst_NotificationsLastWeek :: int
  nst_NotificationsLastMonth :: int
  nst_TotalPushSubscriptions :: int
  nst_ActivePushSubscriptions :: int
  nst_TotalSendRequests :: int
  nst_TotalDeliveryAttempts :: int

text \<open>
  \<open>return count, query.Count(&count).Error\<close>: the operand \<open>count\<close> is a variable the call of the
  second operand assigns. Go leaves the order of the two open; the compiler of the distribution
  reads the variable last, which is what the model does.
\<close>

definition count_entity :: "(world \<Rightarrow> ('z entity_scheme) list) \<Rightarrow> ('z entity_scheme \<Rightarrow> bool) \<Rightarrow> int io" where
  "count_entity table p = db_query (\<lambda>w. int (length (filter (\<lambda>r. alive r \<and> p r) (table w))))"

abbreviation (input) hour :: int where
  "hour \<equiv> 3600000000000"

definition get_notification_stats :: "time \<Rightarrow> notification_stats io" where
  "get_notification_stats now =
     bindM (count_entity w_notifications (\<lambda>r. True)) (\<lambda>all.
     bindM (count_entity w_notifications (\<lambda>r. ne_ViewedAt r = None)) (\<lambda>unread.
     bindM (count_entity w_notifications (\<lambda>r. now - 24 * hour \<le> e_CreatedAt r)) (\<lambda>day.
     bindM (count_entity w_notifications (\<lambda>r. now - 7 * 24 * hour \<le> e_CreatedAt r)) (\<lambda>week.
     bindM (count_entity w_notifications (\<lambda>r. now - 30 * 24 * hour \<le> e_CreatedAt r)) (\<lambda>month.
     bindM (count_entity w_subscriptions (\<lambda>r. True)) (\<lambda>subs.
     bindM (count_entity w_subscriptions se_IsActivated) (\<lambda>active.
     bindM (count_entity w_sends (\<lambda>r. True)) (\<lambda>sends.
     bindM (count_entity w_deliveries (\<lambda>r. True)) (\<lambda>attempts.
     ret \<lparr>nst_CalculatedAt = now, nst_TotalNotifications = all, nst_UnreadNotifications = unread,
          nst_NotificationsLastDay = day, nst_NotificationsLastWeek = week,
          nst_NotificationsLastMonth = month, nst_TotalPushSubscriptions = subs,
          nst_ActivePushSubscriptions = active, nst_TotalSendRequests = sends,
          nst_TotalDeliveryAttempts = attempts\<rparr>)))))))))"

datatype delivery_table = EmailDeliveries | NotificationDeliveries

definition quoted :: "string \<Rightarrow> string" where
  "quoted s = [CHR 0x22] @ s @ [CHR 0x22]"

definition delivery_entity :: "string \<Rightarrow> go_error + delivery_table" where
  "delivery_entity table =
     (if table = ''email_delivery_records'' then Inr EmailDeliveries
      else if table = ''notification_delivery_records'' then Inr NotificationDeliveries
      else Inl (ErrText (''unsupported delivery table '' @ quoted table)))"

text \<open>
  What the grouped queries read of a delivery row: its outcome and the column named by the key; a
  nullable column that is NULL is None.
\<close>

record delivery_row =
  dr_Outcome :: int
  dr_Key :: "string option"

definition email_key :: "string \<Rightarrow> email_delivery_entity \<Rightarrow> string option" where
  "email_key key r = (if key = ''provider'' then Some (ede_Provider r) else None)"

definition notification_key :: "string \<Rightarrow> notification_delivery_entity \<Rightarrow> string option" where
  "notification_key key r =
     (if key = ''topic'' then Some (nde_Topic r)
      else if key = ''provider'' then Some (nde_Provider r)
      else if key = ''push_type'' then nde_PushType r
      else if key = ''app_id'' then nde_AppID r
      else None)"

definition in_range :: "time \<Rightarrow> time \<Rightarrow> 'z entity_scheme \<Rightarrow> bool" where
  "in_range from to r \<longleftrightarrow> alive r \<and> from \<le> e_CreatedAt r \<and> e_CreatedAt r \<le> to"

definition delivery_rows ::
  "delivery_table \<Rightarrow> string \<Rightarrow> time \<Rightarrow> time \<Rightarrow> world \<Rightarrow> delivery_row list" where
  "delivery_rows table key from to w =
     (case table of
        EmailDeliveries \<Rightarrow>
          map (\<lambda>r. \<lparr>dr_Outcome = ede_Outcome r, dr_Key = email_key key r\<rparr>)
            (filter (in_range from to) (w_email_deliveries w))
      | NotificationDeliveries \<Rightarrow>
          map (\<lambda>r. \<lparr>dr_Outcome = nde_Outcome r, dr_Key = notification_key key r\<rparr>)
            (filter (in_range from to) (w_deliveries w)))"

type_synonym outcome_count = "delivery_outcome \<times> int"
type_synonym key_outcome_count = "string \<times> delivery_outcome \<times> int"
type_synonym key_count = "string \<times> int"

definition count_delivery_outcomes :: "string \<Rightarrow> time \<Rightarrow> time \<Rightarrow> outcome_count list io" where
  "count_delivery_outcomes table from to =
     bindM (lift_result (delivery_entity table)) (\<lambda>entity.
     bindM (db_query (\<lambda>w. group_counts (map dr_Outcome (delivery_rows entity [] from to w))))
       (\<lambda>rows. ret (map (\<lambda>(outcome, n). (outcome_of_int outcome, n)) rows)))"

definition allowed_delivery_key :: "string \<Rightarrow> string \<Rightarrow> bool" where
  "allowed_delivery_key table key =
     (if table = ''notification_delivery_records'' then
        key = ''topic'' \<or> key = ''provider'' \<or> key = ''push_type'' \<or> key = ''app_id''
      else table = ''email_delivery_records'' \<and> key = ''provider'')"

text \<open>A NULL key is scanned into a Go string as the empty string.\<close>

definition scan_string :: "string option \<Rightarrow> string" where
  "scan_string v = (case v of None \<Rightarrow> [] | Some s \<Rightarrow> s)"

definition count_delivery_by_key_outcome ::
  "string \<Rightarrow> string \<Rightarrow> time \<Rightarrow> time \<Rightarrow> key_outcome_count list io" where
  "count_delivery_by_key_outcome table keyColumn from to =
     bindM (lift_result (delivery_entity table)) (\<lambda>entity.
     if \<not> allowed_delivery_key table keyColumn then
       throw (ErrText (''unsupported delivery key '' @ quoted keyColumn))
     else
       bindM (db_query (\<lambda>w. group_counts
           (map (\<lambda>r. (dr_Key r, dr_Outcome r)) (delivery_rows entity keyColumn from to w))))
         (\<lambda>rows. ret (map (\<lambda>((key, outcome), n). (scan_string key, outcome_of_int outcome, n)) rows)))"

definition count_send_by_topic :: "time \<Rightarrow> time \<Rightarrow> key_count list io" where
  "count_send_by_topic from to =
     db_query (\<lambda>w. group_counts (map sre_Topic (filter (in_range from to) (w_sends w))))"

definition count_send_records :: "time \<Rightarrow> time \<Rightarrow> int io" where
  "count_send_records from to =
     count_entity w_sends (\<lambda>r. from \<le> e_CreatedAt r \<and> e_CreatedAt r \<le> to)"

section \<open>What the counts add up to\<close>

text \<open>The counts per outcome of a table, whatever outcomes they are summed over.\<close>

lemma count_delivery_outcomes_sum:
  assumes "count_delivery_outcomes ''notification_delivery_records'' from to w = (Inr rows, w')"
  shows "(\<Sum>(outcome, n) \<leftarrow> rows. if p outcome then n else 0)
       = int (length (filter (\<lambda>r. in_range from to r \<and> p (outcome_of_int (nde_Outcome r)))
           (w_deliveries w)))"
proof -
  let ?ks = "map nde_Outcome (filter (in_range from to) (w_deliveries w))"
  have "rows = map (\<lambda>(outcome, n). (outcome_of_int outcome, n)) (group_counts ?ks)"
    using assms
    by (auto simp: count_delivery_outcomes_def delivery_entity_def io_iffs delivery_rows_def comp_def)
  then have "(\<Sum>(outcome, n) \<leftarrow> rows. if p outcome then n else 0)
      = (\<Sum>(k, n) \<leftarrow> group_counts ?ks. if p (outcome_of_int k) then n else 0)"
    by (simp only: map_map) (rule arg_cong [of _ _ sum_list], rule map_cong, auto)
  also have "\<dots> = int (length (filter (\<lambda>k. p (outcome_of_int k)) ?ks))"
    by (rule group_counts_sum)
  also have "\<dots> = int (length (filter (\<lambda>r. in_range from to r \<and> p (outcome_of_int (nde_Outcome r)))
           (w_deliveries w)))"
    by (simp add: filter_map comp_def conj_commute)
  finally show ?thesis .
qed

end
