(* ===== verification/Observability.thy ===== *)
theory Observability
  imports Store_Records
begin

text \<open>
  \<open>internal/observability/observability.go\<close>: delivery records written on the side. A record that
  cannot be written is logged and dropped, so a recorder always returns, and it touches nothing
  but its own table. That contract is the locale \<open>recorder\<close>.
\<close>

section \<open>The recorders\<close>

definition truncate_text :: "string \<Rightarrow> nat \<Rightarrow> string" where
  "truncate_text value maxLength = take maxLength value"

definition truncate_err :: "go_error option \<Rightarrow> string option" where
  "truncate_err err =
     (case err of
        None \<Rightarrow> None
      | Some e \<Rightarrow>
          (let msg = error_text e
           in Some (if 4096 < length msg then truncate_text msg 4096 else msg)))"

definition swallow :: "'a io \<Rightarrow> unit io" where
  "swallow m = bindM (attempt m) (\<lambda>_. ret ())"

text \<open>\<open>time.Duration.Milliseconds\<close> truncates toward zero.\<close>

definition milliseconds :: "int \<Rightarrow> int" where
  "milliseconds d = (if d < 0 then - ((- d) div 1000000) else d div 1000000)"

definition record_email :: "string \<Rightarrow> delivery_outcome \<Rightarrow> int \<Rightarrow> go_error option \<Rightarrow> unit io" where
  "record_email source outcome durationMilliseconds err =
     bindM uuid_new (\<lambda>i. bindM time_now (\<lambda>created. bindM time_now (\<lambda>updated.
       swallow (store_record_email_delivery
         \<lparr>Id = i, CreatedAt = created, UpdatedAt = updated, DeletedAt = None,
          edr_Source = source, edr_Provider = ''smtp'', edr_Outcome = outcome,
          edr_DurationMilliseconds = durationMilliseconds, edr_Error = truncate_err err\<rparr>))))"

definition record_notification ::
  "notification option \<Rightarrow> string \<Rightarrow> delivery_outcome \<Rightarrow> int \<Rightarrow> go_error option \<Rightarrow> uuid option \<Rightarrow> unit io" where
  "record_notification n provider outcome durationMilliseconds err subscriptionID =
     bindM uuid_new (\<lambda>i. bindM time_now (\<lambda>created. bindM time_now (\<lambda>updated.
       swallow (store_record_notification_delivery
         \<lparr>Id = i, CreatedAt = created, UpdatedAt = updated, DeletedAt = None,
          ndr_NotificationId = map_option Id n, ndr_SubscriptionId = subscriptionID,
          ndr_Topic = (case n of None \<Rightarrow> [] | Some v \<Rightarrow> ntf_Topic v),
          ndr_AppId = (case n of None \<Rightarrow> None | Some v \<Rightarrow> ntf_AppId v),
          ndr_PushType = (case n of None \<Rightarrow> None | Some v \<Rightarrow> ntf_PushType v),
          ndr_Provider = provider, ndr_Outcome = outcome,
          ndr_DurationMilliseconds = durationMilliseconds, ndr_Error = truncate_err err\<rparr>))))"

definition record_notification_send :: "notification option \<Rightarrow> string \<Rightarrow> unit io" where
  "record_notification_send n source =
     bindM uuid_new (\<lambda>i. bindM time_now (\<lambda>created. bindM time_now (\<lambda>updated.
       swallow (store_record_notification_send
         \<lparr>Id = i, CreatedAt = created, UpdatedAt = updated, DeletedAt = None,
          nsr_Topic = (case n of None \<Rightarrow> [] | Some v \<Rightarrow> ntf_Topic v),
          nsr_AppId = (case n of None \<Rightarrow> None | Some v \<Rightarrow> ntf_AppId v),
          nsr_PushType = (case n of None \<Rightarrow> None | Some v \<Rightarrow> ntf_PushType v),
          nsr_Source = source\<rparr>))))"

definition mark_sop_delivery_read :: "uuid \<Rightarrow> uuid list \<Rightarrow> unit io" where
  "mark_sop_delivery_read subscriptionID notificationIDs =
     bindM time_now (\<lambda>now. swallow (store_mark_sop_delivery_read subscriptionID notificationIDs now))"

section \<open>The contract of a recorder\<close>

text \<open>
  A recorder returns, and the only part of the state it changes beside the number of interactions
  is its table, which \<open>erase\<close> blanks out.
\<close>

locale recorder =
  fixes erase :: "world \<Rightarrow> world"
    and note_down :: "'r \<Rightarrow> unit io"
  assumes returns: "fst (note_down r w) = Inr ()"
    and confined: "erase (snd (note_down r w)) = erase (w\<lparr>w_tick := w_tick (snd (note_down r w))\<rparr>)"
begin

text \<open>A client that goes on after a recorder goes on with the outcome it had.\<close>

lemma run_record: "note_down r w = (Inr (), snd (note_down r w))"
  using returns [of r w] by (metis prod.collapse)

lemma never_fails: "note_down r w \<noteq> (Inl e, w')"
  using returns [of r w] by auto

lemma then_record: "seqM (note_down r) m w = m (snd (note_down r w))"
  unfolding seqM_def bindM_def by (subst run_record) simp

lemma keeps_record:
  assumes "steady I" and "\<And>v. I (erase v) = I v"
  shows "keeps I (note_down r)"
  using confined assms by (metis keepsI steadyD)

end

lemma keeps_swallow [spec_intros]: "keeps I m \<Longrightarrow> keeps I (swallow m)"
  unfolding swallow_def by (intro spec_intros)

lemma run_swallow: "swallow m w = (Inr (), snd (m w))"
  by (simp add: swallow_def prog_simps split: prod.splits)

text \<open>What the proofs of the contract evaluate.\<close>

lemmas recorder_evals = run_swallow time_now_def uuid_new_def prog_simps db_insert_def external_def
  Let_def

interpretation emails: recorder "\<lambda>w. w\<lparr>w_email_deliveries := []\<rparr>"
  "\<lambda>(source, outcome, duration, err). record_email source outcome duration err"
  by unfold_locales
    (simp_all add: record_email_def store_record_email_delivery_def recorder_evals
      split: prod.splits option.splits)

interpretation deliveries: recorder "\<lambda>w. w\<lparr>w_deliveries := []\<rparr>"
  "\<lambda>(n, provider, outcome, duration, err, sub). record_notification n provider outcome duration err sub"
  by unfold_locales
    (simp_all add: record_notification_def store_record_notification_delivery_def recorder_evals
      split: prod.splits option.splits)

interpretation sends: recorder "\<lambda>w. w\<lparr>w_sends := []\<rparr>"
  "\<lambda>(n, source). record_notification_send n source"
  by unfold_locales
    (simp_all add: record_notification_send_def store_record_notification_send_def recorder_evals
      split: prod.splits option.splits)

interpretation receipts: recorder "\<lambda>w. w\<lparr>w_deliveries := []\<rparr>"
  "\<lambda>(sub, ids). mark_sop_delivery_read sub ids"
  by unfold_locales
    (simp_all add: mark_sop_delivery_read_def store_mark_sop_delivery_read_def db_exec_count_def
      recorder_evals split: prod.splits option.splits)

text \<open>The recorders of the code, as the rest of the development uses them.\<close>

lemma record_email_run: "record_email source outcome duration err w
    = (Inr (), snd (record_email source outcome duration err w))"
  using emails.run_record [of "(source, outcome, duration, err)"] by simp

lemma record_notification_run: "record_notification n provider outcome duration err sub w
    = (Inr (), snd (record_notification n provider outcome duration err sub w))"
  using deliveries.run_record [of "(n, provider, outcome, duration, err, sub)"] by simp

lemma record_notification_send_run: "record_notification_send n source w
    = (Inr (), snd (record_notification_send n source w))"
  using sends.run_record [of "(n, source)"] by simp

lemma mark_sop_delivery_read_run: "mark_sop_delivery_read sub ids w
    = (Inr (), snd (mark_sop_delivery_read sub ids w))"
  using receipts.run_record [of "(sub, ids)"] by simp

lemmas recorder_runs = record_email_run record_notification_run record_notification_send_run
  mark_sop_delivery_read_run

lemma keeps_record_email [spec_intros]:
  assumes "steady I" and "\<And>v. I (v\<lparr>w_email_deliveries := []\<rparr>) = I v"
  shows "keeps I (record_email source outcome duration err)"
  using emails.keeps_record [OF assms, of "(source, outcome, duration, err)"] by simp

lemma keeps_record_notification [spec_intros]:
  assumes "steady I" and "\<And>v. I (v\<lparr>w_deliveries := []\<rparr>) = I v"
  shows "keeps I (record_notification n provider outcome duration err sub)"
  using deliveries.keeps_record [OF assms, of "(n, provider, outcome, duration, err, sub)"] by simp

lemma keeps_record_notification_send [spec_intros]:
  assumes "steady I" and "\<And>v. I (v\<lparr>w_sends := []\<rparr>) = I v"
  shows "keeps I (record_notification_send n source)"
  using sends.keeps_record [OF assms, of "(n, source)"] by simp

end
