(* ===== verification/Replay.thy ===== *)
theory Replay
  imports Observability
begin

text \<open>
  \<open>internal/push/replay.go\<close>: the notifications an account's SOP devices missed, kept in the shared
  cache. The cache service is outside the repository: every call to it is an interaction that may
  fail, an entry may have expired (\<open>o_cached\<close>), and the lock may not be granted in time (\<open>o_lock\<close>),
  which the code does not tell from success.
\<close>

section \<open>The cache\<close>

definition get_replay_notifications :: "uuid \<Rightarrow> notification list io" where
  "get_replay_notifications accountID =
     bindM external (\<lambda>k. bindM (getM w_outside) (\<lambda>out.
       if o_cached out k then
         bindM (getM (\<lambda>w. w_replay w accountID)) (\<lambda>found.
           ret (case found of None \<Rightarrow> [] | Some notifications \<Rightarrow> notifications))
       else seqM (modifyM (\<lambda>w. w\<lparr>w_replay := (w_replay w)(accountID := None)\<rparr>)) (ret [])))"

definition set_replay_notifications :: "uuid \<Rightarrow> notification list \<Rightarrow> unit io" where
  "set_replay_notifications accountID notifications =
     bindM external (\<lambda>k. modifyM (\<lambda>w. w\<lparr>w_replay := (w_replay w)(accountID \<mapsto> notifications)\<rparr>))"

definition execute_with_lock :: "unit io \<Rightarrow> unit io" where
  "execute_with_lock action =
     bindM external (\<lambda>k. bindM (getM w_outside) (\<lambda>out. if o_lock out k then action else ret ()))"

section \<open>The buffer\<close>

definition max_replay_notifications :: nat where
  "max_replay_notifications = 100"

definition replay_insert :: "notification \<Rightarrow> notification list \<Rightarrow> notification list" where
  "replay_insert n notifications =
     (let filtered = sort_desc CreatedAt (filter (\<lambda>item. Id item \<noteq> Id n) notifications @ [n])
      in if max_replay_notifications < length filtered then take max_replay_notifications filtered
         else filtered)"

definition append_notification :: "notification \<Rightarrow> unit io" where
  "append_notification n =
     execute_with_lock
       (bindM (get_replay_notifications (ntf_AccountId n)) (\<lambda>notifications.
         set_replay_notifications (ntf_AccountId n) (replay_insert n notifications)))"

definition replay_remove :: "uuid list \<Rightarrow> notification list \<Rightarrow> notification list" where
  "replay_remove ids notifications = filter (\<lambda>item. Id item \<notin> set ids) notifications"

definition remove_notifications :: "uuid \<Rightarrow> uuid list \<Rightarrow> unit io" where
  "remove_notifications accountID ids =
     (if ids = [] then ret ()
      else execute_with_lock
        (bindM (get_replay_notifications accountID) (\<lambda>notifications.
          if length (replay_remove ids notifications) = length notifications then ret ()
          else set_replay_notifications accountID (replay_remove ids notifications))))"

section \<open>The contract of the buffer\<close>

text \<open>
  A bounded buffer of the most recent items: an item is in it under one key only, newest first,
  and what an insertion pushes out is not newer than anything it keeps.
\<close>

locale recent_buffer =
  fixes key :: "'n \<Rightarrow> 'k"
    and stamp :: "'n \<Rightarrow> int"
    and capacity :: nat
    and insert_item :: "'n \<Rightarrow> 'n list \<Rightarrow> 'n list"
    and remove_items :: "'k list \<Rightarrow> 'n list \<Rightarrow> 'n list"
  assumes insert_bound: "length (insert_item n xs) \<le> capacity"
    and insert_sub: "set (insert_item n xs) \<subseteq> insert n {x \<in> set xs. key x \<noteq> key n}"
    and insert_desc: "desc stamp (insert_item n xs)"
    and insert_distinct: "distinct (map key xs) \<Longrightarrow> distinct (map key (insert_item n xs))"
    and insert_newest: "x \<in> insert n {x \<in> set xs. key x \<noteq> key n} - set (insert_item n xs)
      \<Longrightarrow> length (insert_item n xs) = capacity \<and> (\<forall>y \<in> set (insert_item n xs). stamp x \<le> stamp y)"
    and remove_eq: "remove_items ks xs = filter (\<lambda>x. key x \<notin> set ks) xs"
begin

definition well_kept :: "'n list \<Rightarrow> bool" where
  "well_kept xs \<longleftrightarrow> length xs \<le> capacity \<and> desc stamp xs \<and> distinct (map key xs)"

lemma well_kept_Nil: "well_kept []"
  by (simp add: well_kept_def desc_def)

lemma well_kept_insert: "well_kept xs \<Longrightarrow> well_kept (insert_item n xs)"
  using insert_bound insert_desc insert_distinct by (simp add: well_kept_def)

lemma well_kept_remove: "well_kept xs \<Longrightarrow> well_kept (remove_items ks xs)"
  unfolding well_kept_def remove_eq
  by (auto simp: desc_filter distinct_map_filter intro: le_trans [OF length_filter_le])

lemma insert_room:
  assumes "distinct (map key xs)" and "length xs < capacity"
  shows "set (insert_item n xs) = insert n {x \<in> set xs. key x \<noteq> key n}"
proof (rule ccontr)
  let ?all = "insert n {x \<in> set xs. key x \<noteq> key n}"
  assume "set (insert_item n xs) \<noteq> ?all"
  then obtain x where x: "x \<in> ?all - set (insert_item n xs)"
    using insert_sub [of n xs] by blast
  have "card (set (insert_item n xs)) = capacity"
    using insert_distinct [OF assms(1)] insert_newest [OF x] by (metis distinct_card distinct_map)
  moreover have "set (insert_item n xs) \<subset> ?all"
    using insert_sub [of n xs] x by blast
  then have "card (set (insert_item n xs)) < card ?all"
    by (intro psubset_card_mono) simp_all
  moreover have "card {x \<in> set xs. key x \<noteq> key n} \<le> length xs"
    by (rule le_trans [OF card_mono card_length]) auto
  then have "card ?all \<le> Suc (length xs)"
    using card_insert_le_m1 [of "Suc (length xs)"] by (simp add: card_insert_if)
  ultimately show False using assms by simp
qed

end

lemma replay_insert_eq:
  "replay_insert n xs = take 100 (sort_desc CreatedAt (filter (\<lambda>i. Id i \<noteq> Id n) xs @ [n]))"
  by (simp add: replay_insert_def max_replay_notifications_def Let_def)

lemma replay_insert_newest:
  assumes "x \<in> insert n {x \<in> set xs. Id x \<noteq> Id n} - set (replay_insert n xs)"
  shows "length (replay_insert n xs) = 100 \<and> (\<forall>y \<in> set (replay_insert n xs). CreatedAt x \<le> CreatedAt y)"
proof -
  let ?s = "sort_desc CreatedAt (filter (\<lambda>i. Id i \<noteq> Id n) xs @ [n])"
  have "x \<in> set ?s" using assms by auto
  then have "x \<in> set (take 100 ?s) \<union> set (drop 100 ?s)"
    by (simp only: set_append [symmetric] append_take_drop_id)
  moreover have "x \<notin> set (take 100 ?s)"
    using assms by (simp add: replay_insert_eq)
  ultimately have dropped: "x \<in> set (drop 100 ?s)" by blast
  then have "0 < length (drop 100 ?s)" by (rule length_pos_if_in_set)
  then have "100 < length ?s" by (simp only: length_drop zero_less_diff)
  moreover have "CreatedAt x \<le> CreatedAt y" if "y \<in> set (replay_insert n xs)" for y
    using that unfolding replay_insert_eq by (rule desc_take_dominates [OF desc_sort_desc _ dropped])
  ultimately show ?thesis by (simp only: replay_insert_eq length_take) simp
qed

interpretation replay: recent_buffer Id CreatedAt 100 replay_insert replay_remove
proof unfold_locales
  show "x \<in> insert n {x \<in> set xs. Id x \<noteq> Id n} - set (replay_insert n xs)
      \<Longrightarrow> length (replay_insert n xs) = 100 \<and> (\<forall>y \<in> set (replay_insert n xs). CreatedAt x \<le> CreatedAt y)"
    for x n :: notification and xs by (rule replay_insert_newest)
  show "distinct (map Id (replay_insert n xs))" if "distinct (map Id xs)" for n :: notification and xs
  proof -
    have "distinct (map Id (filter (\<lambda>i. Id i \<noteq> Id n) xs @ [n]))"
      using that by (auto simp: distinct_map_filter)
    then show ?thesis
      unfolding replay_insert_eq take_map [symmetric] by (intro distinct_take) simp
  qed
qed (auto simp: replay_insert_eq replay_remove_def desc_take dest!: in_set_takeD)

section \<open>The replay of an account\<close>

text \<open>Every stored buffer is well kept and holds notifications of its account only.\<close>

definition replay_inv :: "world \<Rightarrow> bool" where
  "replay_inv w \<longleftrightarrow> (\<forall>a xs. w_replay w a = Some xs \<longrightarrow>
     replay.well_kept xs \<and> (\<forall>x \<in> set xs. ntf_AccountId x = a))"

text \<open>What the buffer can touch, blanked out.\<close>

definition replay_frame :: "world \<Rightarrow> world" where
  "replay_frame w = w\<lparr>w_tick := 0, w_replay := Map.empty\<rparr>"

text \<open>The notifications an account would be served now.\<close>

definition replay_of :: "world \<Rightarrow> uuid \<Rightarrow> notification list" where
  "replay_of w a = (case w_replay w a of None \<Rightarrow> [] | Some xs \<Rightarrow> xs)"

lemma replay_inv_of: "replay_inv w \<Longrightarrow> replay.well_kept (replay_of w a)"
  using replay.well_kept_Nil by (auto simp: replay_inv_def replay_of_def split: option.splits)

lemma get_replay_effect:
  assumes "get_replay_notifications a w = (r, w')"
  shows "(case r of Inl _ \<Rightarrow> w_replay w' = w_replay w
    | Inr xs \<Rightarrow> (xs = replay_of w a \<and> w_replay w' = w_replay w
        \<or> xs = [] \<and> w_replay w' = (w_replay w)(a := None)))
    \<and> replay_frame w' = replay_frame w"
proof (cases r)
  case (Inl e)
  with assms show ?thesis
    by (auto simp: get_replay_notifications_def io_iffs replay_frame_def split: if_splits)
next
  case (Inr xs)
  with assms show ?thesis
    by (auto simp: get_replay_notifications_def io_iffs replay_of_def replay_frame_def split: if_splits)
qed

lemma set_replay_effect:
  assumes "set_replay_notifications a xs w = (r, w')"
  shows "w_replay w' = (case r of Inl _ \<Rightarrow> w_replay w | Inr _ \<Rightarrow> (w_replay w)(a \<mapsto> xs))
    \<and> replay_frame w' = replay_frame w"
  using assms
  by (cases r) (auto simp: set_replay_notifications_def io_iffs replay_frame_def)

lemma replay_frame_tick [simp]: "replay_frame (w\<lparr>w_tick := k\<rparr>) = replay_frame w"
  by (simp add: replay_frame_def)

lemma replay_of_tick [simp]: "replay_of (w\<lparr>w_tick := k\<rparr>) a = replay_of w a"
  by (simp add: replay_of_def)

lemma execute_with_lock_effect:
  assumes "execute_with_lock action w = (r, w')"
  shows "w' = w\<lparr>w_tick := Suc (w_tick w)\<rparr> \<or> action (w\<lparr>w_tick := Suc (w_tick w)\<rparr>) = (r, w')"
  using assms by (cases r) (auto simp: execute_with_lock_def io_iffs split: if_splits)

text \<open>
  A locked read-modify-write of one account's buffer: the buffer is as before, has expired, or is
  what the modification makes of it (of the empty buffer, had it expired).
\<close>

definition replay_change :: "uuid \<Rightarrow> (notification list \<Rightarrow> notification list) \<Rightarrow> world \<Rightarrow> world \<Rightarrow> bool" where
  "replay_change a f w w' \<longleftrightarrow> replay_frame w' = replay_frame w \<and>
     (w_replay w' = w_replay w \<or> w_replay w' = (w_replay w)(a := None)
      \<or> (\<exists>before \<in> {replay_of w a, []}. w_replay w' = (w_replay w)(a \<mapsto> f before)))"

lemma read_modify_write:
  assumes "bindM (get_replay_notifications a) (\<lambda>xs.
      if same xs then ret () else set_replay_notifications a (f xs)) w = (r, w')"
  shows "replay_change a f w w'"
proof (cases "get_replay_notifications a w")
  case (Pair q w1)
  note read = get_replay_effect [OF Pair]
  show ?thesis
  proof (cases q)
    case (Inl e)
    with assms Pair read show ?thesis by (simp add: bindM_def replay_change_def)
  next
    case (Inr xs)
    then have rest: "(if same xs then ret () else set_replay_notifications a (f xs)) w1 = (r, w')"
      using assms Pair by (simp add: bindM_def)
    show ?thesis
    proof (cases "same xs")
      case True
      with rest read Inr show ?thesis by (auto simp: ret_def replay_change_def)
    next
      case False
      with rest have "set_replay_notifications a (f xs) w1 = (r, w')" by simp
      from set_replay_effect [OF this] read Inr show ?thesis
        by (auto simp: replay_change_def split: sum.splits)
    qed
  qed
qed

lemma replay_change_tick [simp]:
  "replay_change a f (w\<lparr>w_tick := k\<rparr>) w' = replay_change a f w w'"
  by (simp add: replay_change_def)

lemma replay_change_refl: "replay_change a f w (w\<lparr>w_tick := k\<rparr>)"
  by (simp add: replay_change_def)

lemma append_notification_change:
  assumes "append_notification n w = (r, w')"
  shows "replay_change (ntf_AccountId n) (replay_insert n) w w'"
  using execute_with_lock_effect [OF assms [unfolded append_notification_def]]
proof
  assume "bindM (get_replay_notifications (ntf_AccountId n)) (\<lambda>xs.
      set_replay_notifications (ntf_AccountId n) (replay_insert n xs)) (w\<lparr>w_tick := Suc (w_tick w)\<rparr>)
    = (r, w')"
  from read_modify_write [where same = "\<lambda>_. False", simplified, OF this] show ?thesis by simp
qed (simp add: replay_change_refl)

lemma remove_notifications_change:
  assumes "remove_notifications a ids w = (r, w')"
  shows "replay_change a (replay_remove ids) w w'"
proof (cases "ids = []")
  case True
  with assms show ?thesis
    by (auto simp: remove_notifications_def ret_def replay_change_def)
next
  case False
  with assms have "execute_with_lock (bindM (get_replay_notifications a) (\<lambda>xs.
      if length (replay_remove ids xs) = length xs then ret ()
      else set_replay_notifications a (replay_remove ids xs))) w = (r, w')"
    by (simp add: remove_notifications_def)
  from execute_with_lock_effect [OF this] show ?thesis
  proof
    assume "bindM (get_replay_notifications a) (\<lambda>xs.
        if length (replay_remove ids xs) = length xs then ret ()
        else set_replay_notifications a (replay_remove ids xs)) (w\<lparr>w_tick := Suc (w_tick w)\<rparr>) = (r, w')"
    from read_modify_write [OF this] show ?thesis by simp
  qed (simp add: replay_change_refl)
qed

text \<open>Both operations keep every buffer well kept and of its own account.\<close>

lemma replay_inv_own: "replay_inv w \<Longrightarrow> \<forall>x \<in> set (replay_of w a). ntf_AccountId x = a"
  by (cases "w_replay w a") (auto simp: replay_inv_def replay_of_def)

lemma replay_change_inv:
  assumes "replay_change a f w w'" and inv: "replay_inv w"
    and kept: "\<And>xs. replay.well_kept xs \<Longrightarrow> replay.well_kept (f xs)"
    and own: "\<And>xs. \<forall>x \<in> set xs. ntf_AccountId x = a \<Longrightarrow> \<forall>x \<in> set (f xs). ntf_AccountId x = a"
  shows "replay_inv w'"
proof -
  have mine: "\<forall>x \<in> set (replay_of w a). ntf_AccountId x = a"
    using inv by (rule replay_inv_own)
  have good: "replay.well_kept (f xs) \<and> (\<forall>x \<in> set (f xs). ntf_AccountId x = a)"
    if "xs \<in> {replay_of w a, []}" for xs
  proof -
    from that consider "xs = replay_of w a" | "xs = []" by blast
    then show ?thesis
    proof cases
      case 1
      then show ?thesis
        using kept [OF replay_inv_of [OF inv, of a]] own [OF mine] by simp
    next
      case 2
      then show ?thesis
        using kept [OF replay.well_kept_Nil] own [of "[]"] by simp
    qed
  qed
  have "w_replay w' b = Some xs \<Longrightarrow> replay.well_kept xs \<and> (\<forall>x \<in> set xs. ntf_AccountId x = b)" for b xs
    using assms(1) inv good [of "[]"] good [of "replay_of w a"]
    unfolding replay_change_def replay_inv_def
    by (auto split: if_splits)
  then show ?thesis by (simp add: replay_inv_def)
qed

lemma keeps_append_notification: "keeps replay_inv (append_notification n)"
proof (rule keepsI)
  fix w assume "replay_inv w"
  with append_notification_change [OF prod.collapse [symmetric], of n w]
  show "replay_inv (snd (append_notification n w))"
    by (rule replay_change_inv) (use replay.insert_sub [of n] in \<open>auto intro: replay.well_kept_insert\<close>)
qed

lemma keeps_remove_notifications: "keeps replay_inv (remove_notifications a ids)"
proof (rule keepsI)
  fix w assume "replay_inv w"
  with remove_notifications_change [OF prod.collapse [symmetric], of a ids w]
  show "replay_inv (snd (remove_notifications a ids w))"
    by (rule replay_change_inv [OF _ _ replay.well_kept_remove]) (auto simp: replay.remove_eq)
qed

section \<open>What is promised\<close>

datatype replay_op = AppendReplay notification | RemoveReplay uuid "uuid list"

fun replay_op_run :: "world \<Rightarrow> replay_op \<Rightarrow> world" where
  "replay_op_run w (AppendReplay n) = snd (append_notification n w)"
| "replay_op_run w (RemoveReplay a ids) = snd (remove_notifications a ids w)"

lemma replay_inv_ops: "replay_inv w \<Longrightarrow> replay_inv (foldl replay_op_run w ops)"
proof (induction ops arbitrary: w)
  case (Cons op ops)
  have "replay_inv (replay_op_run w op)"
    using Cons.prems keepsD [OF keeps_append_notification] keepsD [OF keeps_remove_notifications]
    by (cases op) simp_all
  from Cons.IH [OF this] show ?case by simp
qed simp

lemma replay_inv_empty: "replay_inv (empty_world out)"
  by (simp add: replay_inv_def empty_world_def)

text \<open>
  C7: Whatever is appended and removed, and whatever fails on the way (the cache, the lock), the
  replay of an account never holds more than 100 notifications, is ordered from the newest to the
  oldest, holds a notification once, and holds notifications of that account only.
\<close>

theorem replay_buffer_invariant:
  assumes "w = foldl replay_op_run (empty_world out) ops"
  shows "length (replay_of w a) \<le> 100 \<and> desc CreatedAt (replay_of w a)
    \<and> distinct (map Id (replay_of w a)) \<and> ntf_AccountId ` set (replay_of w a) \<subseteq> {a}"
proof -
  have inv: "replay_inv w"
    unfolding assms by (rule replay_inv_ops [OF replay_inv_empty])
  then have "ntf_AccountId ` set (replay_of w a) \<subseteq> {a}"
    using replay_inv_own by blast
  then show ?thesis
    using replay_inv_of [OF inv, of a] by (simp add: replay.well_kept_def)
qed

definition sample_notification :: "uuid \<Rightarrow> uuid \<Rightarrow> time \<Rightarrow> notification" where
  "sample_notification i a t =
     \<lparr>Id = i, CreatedAt = t, UpdatedAt = t, DeletedAt = None, ntf_Topic = ''t'', ntf_Title = None,
      ntf_Subtitle = None, ntf_Content = Some ''c'', ntf_Meta = None, ntf_Priority = 10,
      ntf_ViewedAt = None, ntf_AppId = None, ntf_PushType = None, ntf_AccountId = a\<rparr>"

theorem replay_buffer_invariant_witness:
  "\<exists>w. w = foldl replay_op_run (empty_world quiet_outside)
       [AppendReplay (sample_notification 1 7 10), AppendReplay (sample_notification 2 7 20)]
     \<and> map Id (replay_of w 7) = [2, 1] \<and> desc CreatedAt (replay_of w 7)"
proof -
  obtain w where w: "w = foldl replay_op_run (empty_world quiet_outside)
      [AppendReplay (sample_notification 1 7 10), AppendReplay (sample_notification 2 7 20)]"
    by (rule that [OF refl])
  have "map Id (replay_of w 7) = [2, 1]"
    unfolding w by code_simp
  moreover have "desc CreatedAt (replay_of w 7)"
    using replay_buffer_invariant [OF w, of 7] by (rule conjunct2 [THEN conjunct1])
  ultimately show ?thesis using w by (intro exI [of _ w] conjI)
qed

text \<open>
  When the cache answers and the lock is granted, appending a notification and reading the
  replay gives the former contents with the notification in place of any earlier copy, cut to the
  100 newest: every notification missing from it is at most as new as all that are in it.
\<close>

theorem append_then_get:
  assumes "faultless w" and "o_cached (w_outside w) = (\<lambda>_. True)" and "o_lock (w_outside w) = (\<lambda>_. True)"
  shows "\<exists>w' w''. append_notification n w = (Inr (), w')
    \<and> get_replay_notifications (ntf_AccountId n) w' = (Inr (replay_insert n (replay_of w (ntf_AccountId n))), w'')
    \<and> (let before = set (replay_of w (ntf_AccountId n));
           after = set (replay_insert n (replay_of w (ntf_AccountId n)))
       in after \<subseteq> insert n {x \<in> before. Id x \<noteq> Id n}
        \<and> (\<forall>x \<in> insert n {x \<in> before. Id x \<noteq> Id n} - after. \<forall>y \<in> after. CreatedAt x \<le> CreatedAt y))"
proof -
  have "append_notification n w = (Inr (), (snd (append_notification n w)))
    \<and> get_replay_notifications (ntf_AccountId n) (snd (append_notification n w))
      = (Inr (replay_insert n (replay_of w (ntf_AccountId n))),
         snd (get_replay_notifications (ntf_AccountId n) (snd (append_notification n w))))"
    using assms
    by (simp add: append_notification_def execute_with_lock_def get_replay_notifications_def
        set_replay_notifications_def external_def prog_simps faultless_def replay_of_def Let_def)
  then show ?thesis
    using replay.insert_sub [of n "replay_of w (ntf_AccountId n)"]
      replay.insert_newest [of _ n "replay_of w (ntf_AccountId n)"]
    unfolding Let_def by (intro exI conjI ballI) (assumption | simp only: | blast)+
qed

theorem append_then_get_witness:
  "\<exists>w' w''. append_notification (sample_notification 1 7 10) (empty_world quiet_outside) = (Inr (), w')
    \<and> get_replay_notifications 7 w'
       = (Inr (replay_insert (sample_notification 1 7 10) []), w'')"
  using append_then_get [of "empty_world quiet_outside" "sample_notification 1 7 10"]
  by (auto simp: faultless_def quiet_outside_def empty_world_def replay_of_def sample_notification_def)

end
