(* ===== verification/Events.thy ===== *)
theory Events
  imports Observability
begin

text \<open>
  \<open>internal/events/websocket.go\<close>: the publisher of \<open>websocket_push\<close> envelopes and the question to
  Blade which devices are connected. What has been published is \<open>w_published\<close>; the packet
  carries its data before the JSON and base64 encodings, which lose nothing.
\<close>

definition solian :: string where
  "solian = ''dev.solsynth.solian''"

definition resolve_namespace :: "string \<Rightarrow> string" where
  "resolve_namespace ns = (if trim_space ns = [] then solian else trim_space ns)"

definition create_packet :: "string \<Rightarrow> notification \<Rightarrow> ws_packet" where
  "create_packet eventType dat = \<lparr>wp_Type = eventType, wp_Data = dat, wp_ErrorMessage = []\<rparr>"

definition distinct_non_empty :: "string list \<Rightarrow> string list" where
  "distinct_non_empty ids = keep_first (\<lambda>i. i) [] (filter (\<lambda>i. trim_space i \<noteq> []) ids)"

definition publish_push :: "ws_push_payload \<Rightarrow> unit io" where
  "publish_push payload =
     bindM (getM w_outside) (\<lambda>out.
       if \<not> o_bus out then ret ()
       else bindM external (\<lambda>_. modifyM (\<lambda>w. w\<lparr>w_published := w_published w @ [payload]\<rparr>)))"

definition push_websocket_packet ::
  "string \<Rightarrow> string \<Rightarrow> notification \<Rightarrow> string list \<Rightarrow> string \<Rightarrow> unit io" where
  "push_websocket_packet accountID eventType dat excludedDeviceIds namespace =
     publish_push
       \<lparr>wpp_Namespace = resolve_namespace namespace, wpp_Target = ''account'',
        wpp_Ids = [accountID], wpp_ExcludedDeviceIds = distinct_non_empty excludedDeviceIds,
        wpp_Packet = create_packet eventType dat\<rparr>"

definition get_connected_websocket_device_ids :: "string list \<Rightarrow> string \<Rightarrow> string list io" where
  "get_connected_websocket_device_ids deviceIds namespace =
     bindM (getM w_outside) (\<lambda>out.
       if \<not> o_blade out then ret []
       else let ids = distinct_non_empty deviceIds in
         if ids = [] then ret []
         else bindM external (\<lambda>k.
           ret (case o_connected out k ids (resolve_namespace namespace) of
                  None \<Rightarrow> [] | Some found \<Rightarrow> found)))"

section \<open>Facts\<close>

lemma trim_solian: "trim_space solian = solian" "solian \<noteq> []"
  by code_simp+

lemma resolve_namespace_idem: "resolve_namespace (resolve_namespace ns) = resolve_namespace ns"
  by (simp add: resolve_namespace_def trim_solian)

lemma distinct_non_empty:
  "distinct (distinct_non_empty ids)"
  "set (distinct_non_empty ids) = {i \<in> set ids. trim_space i \<noteq> []}"
  by (auto simp: distinct_non_empty_def)

lemma distinct_non_empty_idem: "distinct_non_empty (distinct_non_empty ids) = distinct_non_empty ids"
  by (subst (1) distinct_non_empty_def) (auto simp: distinct_non_empty keep_first_id)

text \<open>One envelope, or none when the bus is down or not configured.\<close>

lemma publish_push_Inr:
  "publish_push payload w = (Inr u, w') \<longleftrightarrow>
     (if o_bus (w_outside w) then o_fault (w_outside w) (w_tick w) = None
        \<and> w' = w\<lparr>w_tick := Suc (w_tick w), w_published := w_published w @ [payload]\<rparr>
      else w' = w)"
  by (auto simp: publish_push_def io_iffs split: if_splits)

lemma publish_push_Inl:
  "publish_push payload w = (Inl e, w') \<longleftrightarrow>
     o_bus (w_outside w) \<and> o_fault (w_outside w) (w_tick w) = Some e
     \<and> w' = w\<lparr>w_tick := Suc (w_tick w)\<rparr>"
  by (auto simp: publish_push_def io_iffs split: if_splits)

lemma get_connected_effect:
  "get_connected_websocket_device_ids ids ns w = (r, w') \<Longrightarrow> \<exists>k. w' = w\<lparr>w_tick := k\<rparr>"
  by (cases r) (auto simp: get_connected_websocket_device_ids_def io_iffs Let_def split: if_splits
      intro: exI [of _ "w_tick w"])

end
