(* ===== verification/Senders.thy ===== *)
theory Senders
  imports Observability
begin

text \<open>
  The senders of \<open>internal/push\<close>: the payloads (\<open>senders.go\<close>), the FCM request with the reading of
  its error body (\<open>fcm.go\<close>) and the APNs request (\<open>apns.go\<close>). Every request that is put on the
  wire is an entry of \<open>w_pushes\<close>, whether or not an answer comes back.
\<close>

section \<open>Payloads\<close>

definition fcm_payload :: "string \<Rightarrow> string \<Rightarrow> string \<Rightarrow> json" where
  "fcm_payload deviceToken title body =
     JObj [(''message'', JObj
       [(''token'', JStr deviceToken),
        (''notification'', JObj [(''title'', JStr title), (''body'', JStr body)])])]"

definition apple_payload ::
  "string \<Rightarrow> string \<Rightarrow> json_map \<Rightarrow> json_map option \<Rightarrow> int \<Rightarrow> json" where
  "apple_payload apnsPushTopic notificationTopic alertDict meta priority =
     JObj
       [(''topic'', JStr apnsPushTopic), (''type'', JStr notificationTopic),
        (''aps'', JObj
          [(''alert'', JObj alertDict),
           (''sound'', if 5 \<le> priority then JStr ''default'' else JNull),
           (''mutable-content'', JNum ''1'')]),
        (''meta'', case meta of None \<Rightarrow> JNull | Some m \<Rightarrow> JObj m)]"

text \<open>The meta entries, overwritten under \<open>aps\<close>, completed with \<open>uuid\<close> when it is absent.\<close>

definition appk_payload :: "outside \<Rightarrow> notification \<Rightarrow> json" where
  "appk_payload out n =
     (let payload = AList.update ''aps'' (JObj [(''content-available'', JNum ''1'')])
            (case ntf_Meta n of None \<Rightarrow> [] | Some m \<Rightarrow> m)
      in JObj (if map_of payload ''uuid'' \<noteq> None then payload
               else payload @ [(''uuid'', JStr (o_show_uuid out (Id n)))]))"

section \<open>FCM\<close>

record send_result =
  sr_StatusCode :: int
  sr_Error :: string

text \<open>
  \<open>o_fcm_envelope\<close> is the error object \<open>json.Unmarshal\<close> finds in a body, as status and message;
  None when the body is not JSON or has no such object.
\<close>

definition extract_fcm_error :: "outside \<Rightarrow> string \<Rightarrow> string" where
  "extract_fcm_error out raw =
     (case o_fcm_envelope out raw of
        Some (status, message) \<Rightarrow>
          if status \<noteq> [] then status
          else if message \<noteq> [] then message else take 512 (trim_space raw)
      | None \<Rightarrow> take 512 (trim_space raw))"

definition record_attempt :: "push_attempt \<Rightarrow> unit io" where
  "record_attempt a = modifyM (\<lambda>w. w\<lparr>w_pushes := w_pushes w @ [a]\<rparr>)"

definition fcm_url :: "fcm_sender \<Rightarrow> string" where
  "fcm_url s = ''https://fcm.googleapis.com/v1/projects/'' @ fcm_ProjectID s @ ''/messages:send''"

definition fcm_send_async :: "fcm_sender option \<Rightarrow> json \<Rightarrow> send_result io" where
  "fcm_send_async sender payload =
     (case sender of
        None \<Rightarrow> throw (ErrText ''fcm sender not initialized'')
      | Some s \<Rightarrow>
          bindM (getM w_outside) (\<lambda>out.
          bindM (wrapM ''fcm token'' external) (\<lambda>_.
          if \<not> o_http_request out (fcm_url s) then throw (ErrText ''invalid URL'')
          else
            seqM (record_attempt (FcmAttempt s payload))
              (bindM external (\<lambda>k.
                let (status, raw) = o_fcm out k
                in ret \<lparr>sr_StatusCode = status,
                        sr_Error = (if 200 \<le> status \<and> status < 300 then []
                          else extract_fcm_error out raw)\<rparr>)))))"

section \<open>APNs\<close>

definition apn_send_async ::
  "apn_sender \<Rightarrow> string \<Rightarrow> json \<Rightarrow> string \<Rightarrow> int \<Rightarrow> string \<Rightarrow> send_result io" where
  "apn_send_async s deviceToken payload apnsID apnsPriority apnPushType =
     bindM (getM w_outside) (\<lambda>out.
     seqM (record_attempt (ApnsAttempt s deviceToken payload apnsID apnsPriority apnPushType))
       (bindM external (\<lambda>k.
         let (status, reason) = o_apns out k
         in ret \<lparr>sr_StatusCode = status, sr_Error = reason\<rparr>)))"

section \<open>Facts\<close>

lemma appk_payload_uuid:
  "\<exists>entries. appk_payload out n = JObj entries \<and> map_of entries ''aps'' \<noteq> None
     \<and> map_of entries ''uuid'' \<noteq> None
     \<and> (ntf_Meta n = Some m \<longrightarrow> map_of m ''uuid'' = Some v \<longrightarrow> map_of entries ''uuid'' = Some v)"
proof -
  let ?p = "AList.update ''aps'' (JObj [(''content-available'', JNum ''1'')])
    (case ntf_Meta n of None \<Rightarrow> [] | Some m \<Rightarrow> m)"
  have aps: "map_of ?p ''aps'' \<noteq> None" by (simp add: update_conv)
  have uuid: "ntf_Meta n = Some m \<Longrightarrow> map_of ?p ''uuid'' = map_of m ''uuid''" by (simp add: update_conv)
  show ?thesis
    using aps uuid by (cases "map_of ?p ''uuid''")
      (auto simp: appk_payload_def Let_def map_add_def)
qed

lemma extract_fcm_error_bound:
  "o_fcm_envelope out raw = None \<Longrightarrow> length (extract_fcm_error out raw) \<le> 512"
  by (simp add: extract_fcm_error_def)

end
