(* ===== verification/Push_Select.thy ===== *)
theory Push_Select
  imports Apps Device_Ids
begin

text \<open>
  The pure decisions of \<open>internal/push/push.go\<close>: which subscription of a device a notification goes
  to, what a provider's answer says about a token, and which websocket devices are left out. A Go
  map that is ranged over is an association list in some order, a set a list.
\<close>

section \<open>Tokens and topics\<close>

definition invalid_fcm_errors :: "string list" where
  "invalid_fcm_errors = [to_lower ''InvalidRegistration'', ''notregistered'',
     ''registration-token-not-registered'', ''unregistered'']"

definition invalid_apns_errors :: "string list" where
  "invalid_apns_errors = [to_lower ''BadDeviceToken'', ''unregistered'']"

definition is_invalid_fcm_token_error :: "string \<Rightarrow> bool" where
  "is_invalid_fcm_token_error err = (to_lower (trim_space err) \<in> set invalid_fcm_errors)"

definition is_invalid_apns_token_error :: "string \<Rightarrow> bool" where
  "is_invalid_apns_token_error err = (to_lower (trim_space err) \<in> set invalid_apns_errors)"

definition apns_for :: "app_senders option \<Rightarrow> string \<Rightarrow> apn_sender option" where
  "apns_for a topic = (case a of None \<Rightarrow> None | Some s \<Rightarrow> map_of (as_ApnsByTopic s) topic)"

definition topics_lookup :: "(string \<times> string) list \<Rightarrow> string \<Rightarrow> string" where
  "topics_lookup topics key =
     (case map_of topics key of
        Some v \<Rightarrow> v
      | None \<Rightarrow>
          (case find (\<lambda>(k, v). to_lower k = to_lower key) topics of
             Some (k, v) \<Rightarrow> v | None \<Rightarrow> []))"

definition str_ptr_or_nil :: "string \<Rightarrow> string option" where
  "str_ptr_or_nil s = (if s = [] then None else Some s)"

section \<open>The subscription of a device\<close>

definition is_voip_push :: "notification \<Rightarrow> bool" where
  "is_voip_push n =
     (case ntf_PushType n of None \<Rightarrow> False | Some t \<Rightarrow> equal_fold t ''VoIP'')"

definition is_provider_compatible :: "push_provider \<Rightarrow> notification \<Rightarrow> bool \<Rightarrow> bool" where
  "is_provider_compatible provider n hasAnyAppk =
     (if \<not> is_voip_push n then provider \<noteq> PushProviderAppk
      else if hasAnyAppk \<and> provider = PushProviderApple then False
      else True)"

definition get_subscription_priority ::
  "push_subscription \<Rightarrow> string list \<Rightarrow> notification \<Rightarrow> int" where
  "get_subscription_priority sub connectedSop n =
     (case sub_Provider sub of
        PushProviderSop \<Rightarrow>
          if normalize_sop_device_id (sub_DeviceId sub) \<in> set connectedSop then 5 else 0
      | PushProviderAppk \<Rightarrow> if is_voip_push n then 4 else 0
      | PushProviderGoogle \<Rightarrow> 2
      | PushProviderUnifiedPush \<Rightarrow> 1
      | PushProviderApple \<Rightarrow> if is_voip_push n then 3 else 4
      | PushProviderOther _ \<Rightarrow> 0)"

definition has_any_appk :: "push_subscription list \<Rightarrow> notification \<Rightarrow> bool" where
  "has_any_appk subs n =
     (is_voip_push n \<and> list_ex (\<lambda>sub. sub_Provider sub = PushProviderAppk) subs)"

abbreviation device_key :: "push_subscription \<Rightarrow> string" where
  "device_key sub \<equiv> normalize_sop_device_id (sub_DeviceId sub)"

fun select_loop ::
  "string list \<Rightarrow> notification \<Rightarrow> bool \<Rightarrow> (string \<times> push_subscription) list
   \<Rightarrow> push_subscription list \<Rightarrow> (string \<times> push_subscription) list" where
  "select_loop connectedSop n hasAnyAppk result [] = result"
| "select_loop connectedSop n hasAnyAppk result (sub # subs) =
     select_loop connectedSop n hasAnyAppk
       (if \<not> is_provider_compatible (sub_Provider sub) n hasAnyAppk then result
        else
          (case map_of result (device_key sub) of
             None \<Rightarrow> AList.update (device_key sub) sub result
           | Some current \<Rightarrow>
               if get_subscription_priority current connectedSop n
                   < get_subscription_priority sub connectedSop n
               then AList.update (device_key sub) sub result else result))
       subs"

definition select_subscriptions_by_device ::
  "push_subscription list \<Rightarrow> string list \<Rightarrow> notification \<Rightarrow> (string \<times> push_subscription) list" where
  "select_subscriptions_by_device subs connectedSop n =
     select_loop connectedSop n (has_any_appk subs n) [] subs"

definition should_queue_sop_replay :: "bool \<Rightarrow> push_subscription list \<Rightarrow> bool" where
  "should_queue_sop_replay isSavable subs =
     (if isSavable then False else list_ex (\<lambda>sub. sub_Provider sub = PushProviderSop) subs)"

definition build_websocket_exclusions :: "string list \<Rightarrow> string list \<Rightarrow> string list" where
  "build_websocket_exclusions deviceIds excluded = keep_first (\<lambda>i. i) [] (excluded @ deviceIds)"

section \<open>Facts\<close>

lemma topics_lookup_exact: "map_of topics key = Some v \<Longrightarrow> topics_lookup topics key = v"
  by (simp add: topics_lookup_def)

text \<open>The loop keeps, per device, the first subscription of the highest priority.\<close>

fun first_best :: "('a \<Rightarrow> 'k :: linorder) \<Rightarrow> 'a option \<Rightarrow> 'a list \<Rightarrow> 'a option" where
  "first_best rank best [] = best"
| "first_best rank best (x # xs) =
     first_best rank (case best of None \<Rightarrow> Some x | Some b \<Rightarrow> Some (if rank b < rank x then x else b)) xs"

lemma first_best_Some:
  "\<exists>b. first_best rank (Some x) xs = Some b \<and> (b = x \<or> b \<in> set xs) \<and> rank x \<le> rank b
     \<and> (\<forall>y \<in> set xs. rank y \<le> rank b)"
proof (induction xs arbitrary: x)
  case (Cons y ys)
  obtain b where b: "first_best rank (Some (if rank x < rank y then y else x)) ys = Some b"
    "b = (if rank x < rank y then y else x) \<or> b \<in> set ys"
    "rank (if rank x < rank y then y else x) \<le> rank b" "\<forall>z \<in> set ys. rank z \<le> rank b"
    using Cons.IH by blast
  show ?case
    by (rule exI [of _ b]) (use b in \<open>auto split: if_splits\<close>)
qed simp

lemma first_best_None_iff [simp]: "first_best rank None xs = None \<longleftrightarrow> xs = []"
proof (cases xs)
  case (Cons x xs')
  then show ?thesis using first_best_Some [of rank x xs'] by auto
qed simp

lemma first_best_optimal:
  assumes "first_best rank None xs = Some b"
  shows "b \<in> set xs \<and> (\<forall>y \<in> set xs. rank y \<le> rank b)"
proof (cases xs)
  case (Cons x xs')
  then show ?thesis using assms first_best_Some [of rank x xs'] by auto
qed (use assms in simp)

lemma first_best_append:
  "first_best rank best (xs @ ys) = first_best rank (first_best rank best xs) ys"
  by (induction rank best xs rule: first_best.induct) simp_all

text \<open>It is the first element of its rank, so it is what \<open>OrderByDescending(rank).First()\<close> gives.\<close>

lemma first_best_hd:
  "first_best rank (Some x) xs = Some b \<Longrightarrow> hd (filter (\<lambda>y. rank y = rank b) (x # xs)) = b"
proof (induction xs arbitrary: x)
  case (Cons y ys)
  let ?z = "if rank x < rank y then y else x"
  have z: "first_best rank (Some ?z) ys = Some b" using Cons.prems by simp
  note IH = Cons.IH [OF z]
  have up: "rank ?z \<le> rank b" using z first_best_Some [of rank ?z ys] by auto
  show ?case
  proof (cases "rank x < rank y")
    case True
    with up have "rank x \<noteq> rank b" by auto
    with True IH show ?thesis by simp
  next
    case False
    then have IH': "hd (filter (\<lambda>y. rank y = rank b) (x # ys)) = b" using IH by simp
    show ?thesis
    proof (cases "rank x = rank b")
      case True
      with IH' show ?thesis by simp
    next
      case x: False
      with up False have "rank y \<noteq> rank b" by auto
      with x IH' show ?thesis by simp
    qed
  qed
qed simp

lemma hd_sort_desc:
  fixes rank :: "'a \<Rightarrow> int"
  assumes "sort_desc rank xs = b # ys"
  shows "hd (filter (\<lambda>y. rank y = rank b) xs) = b \<and> (\<forall>y \<in> set xs. rank y \<le> rank b)"
proof
  have "filter (\<lambda>y. - rank y = - rank b) (sort_desc rank xs) = filter (\<lambda>y. - rank y = - rank b) xs"
    unfolding sort_desc_def by (rule sort_key_stable)
  with assms show "hd (filter (\<lambda>y. rank y = rank b) xs) = b"
    by (simp del: filter.simps(2)) (metis (mono_tags, lifting) filter.simps(2) list.sel(1))
  have "desc rank (b # ys)" using desc_sort_desc [of rank xs] assms by simp
  moreover have "set xs = set (b # ys)" using set_sort_desc [of rank xs] assms by simp
  ultimately show "\<forall>y \<in> set xs. rank y \<le> rank b" by (auto simp: desc_def)
qed

lemma first_best_sort:
  fixes rank :: "'a \<Rightarrow> int"
  shows "first_best rank None xs = (case sort_desc rank xs of [] \<Rightarrow> None | b # _ \<Rightarrow> Some b)"
proof (cases "sort_desc rank xs")
  case Nil
  then have "xs = []" by (metis length_0_conv length_sort_desc)
  then show ?thesis using Nil by simp
next
  case (Cons b ys)
  then obtain x xs' where xs: "xs = x # xs'" by (cases xs) (simp_all add: sort_desc_def)
  then obtain c where c: "first_best rank None xs = Some c"
    using first_best_Some [of rank x xs'] by auto
  have "rank c = rank b"
  proof (rule antisym)
    have "b \<in> set xs" using set_sort_desc [of rank xs] unfolding Cons by auto
    with first_best_optimal [OF c] show "rank b \<le> rank c" by blast
    from first_best_optimal [OF c] hd_sort_desc [OF Cons] show "rank c \<le> rank b" by blast
  qed
  moreover have "first_best rank (Some x) xs' = Some c" using c xs by simp
  note first_best_hd [OF this, folded xs]
  ultimately have "c = b" using hd_sort_desc [OF Cons] by metis
  with c show ?thesis by (simp only: Cons list.case)
qed

text \<open>What the loop has selected for a device, whatever it started from.\<close>

definition candidates ::
  "notification \<Rightarrow> bool \<Rightarrow> string \<Rightarrow> push_subscription list \<Rightarrow> push_subscription list" where
  "candidates n hasAnyAppk d subs =
     filter (\<lambda>sub. is_provider_compatible (sub_Provider sub) n hasAnyAppk \<and> device_key sub = d) subs"

lemma select_loop_at:
  "map_of (select_loop connectedSop n h result subs) d =
     first_best (\<lambda>sub. get_subscription_priority sub connectedSop n) (map_of result d)
       (candidates n h d subs)"
  by (induction connectedSop n h result subs rule: select_loop.induct)
    (auto simp: candidates_def update_conv split: option.splits)

lemma select_loop_distinct:
  "distinct (map fst result) \<Longrightarrow> distinct (map fst (select_loop connectedSop n h result subs))"
  by (induction connectedSop n h result subs rule: select_loop.induct)
    (auto simp: distinct_update split: option.splits)

lemma select_at:
  "map_of (select_subscriptions_by_device subs connectedSop n) d =
     first_best (\<lambda>sub. get_subscription_priority sub connectedSop n) None
       (candidates n (has_any_appk subs n) d subs)"
  by (simp add: select_subscriptions_by_device_def select_loop_at)

lemma select_distinct: "distinct (map fst (select_subscriptions_by_device subs connectedSop n))"
  by (simp add: select_subscriptions_by_device_def select_loop_distinct)

lemma select_in:
  assumes "(d, sub) \<in> set (select_subscriptions_by_device subs connectedSop n)"
  shows "sub \<in> set subs \<and> device_key sub = d
    \<and> is_provider_compatible (sub_Provider sub) n (has_any_appk subs n)"
proof -
  have "map_of (select_subscriptions_by_device subs connectedSop n) d = Some sub"
    using assms by (simp add: select_distinct)
  then show ?thesis
    using first_best_optimal by (fastforce simp: select_at candidates_def)
qed

text \<open>
  C36: For every device the loop of \<open>selectSubscriptionsByDevice\<close> selects what ordering the device's
  compatible subscriptions by descending priority and taking the first one gives (nothing when
  there is none), and a device is selected once.
\<close>

theorem select_is_order_by_priority:
  "map_of (select_subscriptions_by_device subs connectedSop n) d =
     (case sort_desc (\<lambda>sub. get_subscription_priority sub connectedSop n)
        (filter (\<lambda>sub. is_provider_compatible (sub_Provider sub) n (has_any_appk subs n)
           \<and> normalize_sop_device_id (sub_DeviceId sub) = d) subs) of
        [] \<Rightarrow> None | sub # _ \<Rightarrow> Some sub)
   \<and> distinct (map fst (select_subscriptions_by_device subs connectedSop n))"
  by (simp add: select_at candidates_def first_best_sort select_distinct)

text \<open>
  A VoIP push is delivered over PushKit only when the account has a PushKit subscription, and over
  PushKit never otherwise: no Appk subscription is selected for an ordinary notification, and no Apple
  subscription for a VoIP push as soon as there is an Appk one.
\<close>

theorem voip_routing:
  assumes "(d, sub) \<in> set (select_subscriptions_by_device subs connectedSop n)"
  shows "(sub_Provider sub = PushProviderAppk \<longrightarrow> is_voip_push n)
    \<and> (is_voip_push n \<and> (\<exists>s \<in> set subs. sub_Provider s = PushProviderAppk)
        \<longrightarrow> sub_Provider sub \<noteq> PushProviderApple)"
  using select_in [OF assms]
  by (auto simp: is_provider_compatible_def has_any_appk_def list_ex_iff split: if_splits)

definition sample_subscription :: "uuid \<Rightarrow> string \<Rightarrow> push_provider \<Rightarrow> push_subscription" where
  "sample_subscription i device provider =
     \<lparr>Id = i, CreatedAt = 0, UpdatedAt = 0, DeletedAt = None, sub_AccountId = 7,
      sub_DeviceId = device, sub_DeviceToken = ''tok'', sub_DeviceName = None,
      sub_Provider = provider, sub_IsActivated = True, sub_AppId = None, sub_CountDelivered = 0,
      sub_LastUsedAt = None\<rparr>"

definition voip_call :: notification where
  "voip_call =
     \<lparr>Id = 1, CreatedAt = 0, UpdatedAt = 0, DeletedAt = None, ntf_Topic = ''call'', ntf_Title = None,
      ntf_Subtitle = None, ntf_Content = None, ntf_Meta = None, ntf_Priority = 10,
      ntf_ViewedAt = None, ntf_AppId = None, ntf_PushType = Some ''voip'', ntf_AccountId = 7\<rparr>"

theorem voip_routing_witness:
  "is_voip_push voip_call \<and> sub_Provider (sample_subscription 2 ''d'' PushProviderAppk) = PushProviderAppk"
proof -
  have sel: "(''d'', sample_subscription 2 ''d'' PushProviderAppk) \<in> set (select_subscriptions_by_device
      [sample_subscription 1 ''d'' PushProviderApple, sample_subscription 2 ''d'' PushProviderAppk]
      [] voip_call)"
    by code_simp
  from voip_routing [OF sel] show ?thesis by (simp add: sample_subscription_def)
qed

end
