(* ===== verification/Flush.thy ===== *)
theory Flush
  imports Prelude
begin

text \<open>
  The flush buffer of \<open>internal/push/flush.go\<close>: a mutex-guarded slice, drained as a whole by
  \<open>Flush\<close>, whose items are put back behind the newer ones when the handler fails. The handler
  runs outside the lock, so other goroutines enqueue and flush meanwhile: \<open>flush_step\<close> is
  that interleaving, one rule per critical section.
\<close>

section \<open>The buffer\<close>

definition fb_enqueue :: "'a list \<Rightarrow> 'a \<Rightarrow> 'a list" where
  "fb_enqueue items x = items @ [x]"

text \<open>The first critical section of \<open>Flush\<close>: the working batch, and what stays behind.\<close>

definition fb_drain :: "'a list \<Rightarrow> 'a list \<times> 'a list" where
  "fb_drain items = (items, [])"

text \<open>The second critical section, entered when the handler failed.\<close>

definition fb_requeue :: "'a list \<Rightarrow> 'a list \<Rightarrow> 'a list" where
  "fb_requeue items working = items @ working"

definition fb_get_pending_count :: "'a list \<Rightarrow> int" where
  "fb_get_pending_count items = int (length items)"

text \<open>
  \<open>Flush\<close> of a buffer that lives in a bigger state (read with \<open>get\<close>, written with \<open>put\<close>),
  run without interference.
\<close>

definition fb_flush ::
  "('s \<Rightarrow> 'a list) \<Rightarrow> ('a list \<Rightarrow> 's \<Rightarrow> 's) \<Rightarrow> ('a list \<Rightarrow> ('s, unit) prog) \<Rightarrow> ('s, unit) prog"
where
  "fb_flush get put handler =
     bindM (getM get) (\<lambda>items.
       if items = [] then ret ()
       else
         seqM (modifyM (put (snd (fb_drain items))))
         (bindM (attempt (handler (fst (fb_drain items)))) (\<lambda>r.
           case r of
             Inl e \<Rightarrow>
               seqM (modifyM (\<lambda>s. put (fb_requeue (get s) (fst (fb_drain items))) s)) (throw e)
           | Inr _ \<Rightarrow> ret ())))"

section \<open>The contract of a drained buffer\<close>

text \<open>
  What the push service relies on: enqueueing adds one item, draining hands out everything
  that is pending, and a failed batch can be given back, nothing being lost or duplicated.
\<close>

locale drained_buffer =
  fixes pending :: "'b \<Rightarrow> 'a multiset"
    and enqueue :: "'b \<Rightarrow> 'a \<Rightarrow> 'b"
    and drain :: "'b \<Rightarrow> 'a list \<times> 'b"
    and requeue :: "'b \<Rightarrow> 'a list \<Rightarrow> 'b"
  assumes pending_enqueue: "pending (enqueue b x) = add_mset x (pending b)"
    and pending_drain: "drain b = (w, b') \<Longrightarrow> mset w = pending b \<and> pending b' = {#}"
    and pending_requeue: "pending (requeue b w) = pending b + mset w"
begin

lemma drain_conserves: "drain b = (w, b') \<Longrightarrow> mset w + pending b' = pending b"
  using pending_drain by fastforce

lemma failed_flush_conserves:
  "drain b = (w, b') \<Longrightarrow> pending (requeue (foldl enqueue b' xs) w) = pending b + mset xs"
proof -
  assume d: "drain b = (w, b')"
  have "pending (foldl enqueue c xs) = pending c + mset xs" for c
    by (induction xs arbitrary: c) (auto simp: pending_enqueue)
  then show ?thesis
    using pending_drain [OF d] by (simp add: pending_requeue)
qed

end

interpretation fb: drained_buffer mset fb_enqueue fb_drain fb_requeue
  by unfold_locales (auto simp: fb_enqueue_def fb_drain_def fb_requeue_def)

section \<open>Interleaved use\<close>

text \<open>
  \<open>fs_inflight\<close> holds the batches whose handler is running, \<open>fs_handled\<close> the items of the
  handlers that returned nil, \<open>fs_enqueued\<close> everything ever enqueued.
\<close>

record 'a flush_state =
  fs_items :: "'a list"
  fs_inflight :: "'a list list"
  fs_handled :: "'a list"
  fs_enqueued :: "'a list"

definition flush_init :: "'a flush_state" where
  "flush_init = \<lparr>fs_items = [], fs_inflight = [], fs_handled = [], fs_enqueued = []\<rparr>"

inductive flush_step :: "'a flush_state \<Rightarrow> 'a flush_state \<Rightarrow> bool" where
  enqueue:
    "flush_step s (s\<lparr>fs_items := fb_enqueue (fs_items s) x, fs_enqueued := fs_enqueued s @ [x]\<rparr>)"
| flush_begin:
    "fs_items s \<noteq> [] \<Longrightarrow> fb_drain (fs_items s) = (w, rest) \<Longrightarrow>
     flush_step s (s\<lparr>fs_items := rest, fs_inflight := fs_inflight s @ [w]\<rparr>)"
| handler_ok:
    "fs_inflight s = before @ w # after \<Longrightarrow>
     flush_step s (s\<lparr>fs_inflight := before @ after, fs_handled := fs_handled s @ w\<rparr>)"
| handler_failed:
    "fs_inflight s = before @ w # after \<Longrightarrow>
     flush_step s (s\<lparr>fs_inflight := before @ after, fs_items := fb_requeue (fs_items s) w\<rparr>)"

inductive_cases flush_stepE: "flush_step s t"

inductive flush_reachable :: "'a flush_state \<Rightarrow> bool" where
  start: "flush_reachable flush_init"
| step: "flush_reachable s \<Longrightarrow> flush_step s t \<Longrightarrow> flush_reachable t"

text \<open>Every item is pending, being handled, or handled: exactly as often as it was enqueued.\<close>

definition flush_balanced :: "'a flush_state \<Rightarrow> bool" where
  "flush_balanced s \<longleftrightarrow>
     mset (fs_enqueued s) =
       mset (fs_items s) + mset (concat (fs_inflight s)) + mset (fs_handled s)"

lemma flush_step_balanced: "flush_step s t \<Longrightarrow> flush_balanced s \<Longrightarrow> flush_balanced t"
  by (induction rule: flush_step.induct)
    (auto simp: flush_balanced_def fb.pending_enqueue fb.pending_requeue dest: fb.pending_drain)

lemma flush_reachable_balanced: "flush_reachable s \<Longrightarrow> flush_balanced s"
  by (induction rule: flush_reachable.induct)
    (auto simp: flush_balanced_def flush_init_def intro: flush_step_balanced [unfolded flush_balanced_def])

text \<open>A batch in flight is never empty: the early return keeps the handler from an empty batch.\<close>

lemma flush_inflight_nonempty: "flush_reachable s \<Longrightarrow> [] \<notin> set (fs_inflight s)"
proof (induction rule: flush_reachable.induct)
  case start
  then show ?case by (simp add: flush_init_def)
next
  case (step s t)
  from step.hyps(2) step.IH show ?case
    by (cases rule: flush_stepE) (auto simp: fb_drain_def)
qed

text \<open>
  C24: whatever the interleaving of \<open>Enqueue\<close>, \<open>Flush\<close> and failing handlers, no invalid-token
  request is lost and none is handled twice: each item was enqueued exactly as often as it is
  pending, in a running batch, or handled; and a handler never runs on an empty batch.
\<close>

theorem flush_conservation:
  assumes "flush_reachable s"
  shows "mset (fs_enqueued s) =
           mset (fs_items s) + mset (concat (fs_inflight s)) + mset (fs_handled s)
         \<and> (\<forall>w \<in> set (fs_inflight s). w \<noteq> [])"
  using flush_reachable_balanced [OF assms] flush_inflight_nonempty [OF assms]
  by (auto simp: flush_balanced_def)

theorem flush_conservation_witness:
  "\<exists>s. flush_reachable s \<and> fs_items s = [3, 1, 2 :: nat] \<and> fs_enqueued s = [1, 2, 3]
     \<and> mset (fs_enqueued s)
         = mset (fs_items s) + mset (concat (fs_inflight s)) + mset (fs_handled s)"
proof -
  let ?s1 = "\<lparr>fs_items = [1], fs_inflight = [], fs_handled = [], fs_enqueued = [1 :: nat]\<rparr>"
  let ?s2 = "\<lparr>fs_items = [1, 2], fs_inflight = [], fs_handled = [], fs_enqueued = [1, 2 :: nat]\<rparr>"
  let ?s3 = "\<lparr>fs_items = [], fs_inflight = [[1, 2]], fs_handled = [], fs_enqueued = [1, 2 :: nat]\<rparr>"
  let ?s4 = "\<lparr>fs_items = [3], fs_inflight = [[1, 2]], fs_handled = [], fs_enqueued = [1, 2, 3 :: nat]\<rparr>"
  let ?s5 = "\<lparr>fs_items = [3, 1, 2], fs_inflight = [], fs_handled = [], fs_enqueued = [1, 2, 3 :: nat]\<rparr>"
  have "flush_step flush_init ?s1"
    using flush_step.enqueue [of flush_init "1 :: nat"]
    by (simp add: flush_init_def fb_enqueue_def del: One_nat_def)
  moreover have "flush_step ?s1 ?s2"
    using flush_step.enqueue [of ?s1 2] by (simp add: fb_enqueue_def)
  moreover have "flush_step ?s2 ?s3"
    using flush_step.flush_begin [of ?s2 "[1, 2]" "[]"] by (simp add: fb_drain_def)
  moreover have "flush_step ?s3 ?s4"
    using flush_step.enqueue [of ?s3 3] by (simp add: fb_enqueue_def)
  moreover have "flush_step ?s4 ?s5"
    using flush_step.handler_failed [of ?s4 "[]" "[1, 2]" "[]"] by (simp add: fb_requeue_def)
  ultimately have reach: "flush_reachable ?s5"
    by (meson flush_reachable.intros)
  from flush_conservation [OF this] reach show ?thesis
    by (intro exI [of _ ?s5]) simp
qed

end
