(* ===== verification/Push_Send.thy ===== *)
theory Push_Send
  imports Events Senders Push_Select Flush
begin

text \<open>
  \<open>SendPushNotification\<close> and \<open>SendWebSocketNotification\<close> of \<open>internal/push/push.go\<close>: one notification
  to one subscription over its provider, and one envelope to the account's websocket connections.
  A provider's branch returns the outcome so far and the error it reports.
\<close>

section \<open>Providers\<close>

type_synonym sent = "delivery_outcome \<times> go_error option"

definition enqueue_removal :: "push_subscription \<Rightarrow> unit io" where
  "enqueue_removal sub = modifyM (\<lambda>w. w\<lparr>w_removals := fb_enqueue (w_removals w) (Id sub)\<rparr>)"

definition token_is_gone :: "push_subscription \<Rightarrow> sent io" where
  "token_is_gone sub = seqM (enqueue_removal sub) (ret (OutcomeInvalidToken, None))"

definition failed :: "string \<Rightarrow> sent" where
  "failed reason = (OutcomeFailure, Some (ErrText reason))"

text \<open>What an answer of FCM or APNs means.\<close>

definition judge_result :: "(string \<Rightarrow> bool) \<Rightarrow> push_subscription \<Rightarrow> send_result \<Rightarrow> sent io" where
  "judge_result is_invalid sub result =
     (if sr_StatusCode result = 404 \<or> sr_StatusCode result = 410 \<or> is_invalid (sr_Error result) then
        token_is_gone sub
      else if sr_Error result \<noteq> [] then
        ret (failed (''Notification pushed failed ('' @ show_int (sr_StatusCode result) @ '') ''
          @ sr_Error result))
      else ret (OutcomeFailure, None))"

text \<open>A request that got no answer is the error of the branch.\<close>

definition sent_or_failed :: "send_result io \<Rightarrow> (send_result \<Rightarrow> sent io) \<Rightarrow> sent io" where
  "sent_or_failed request judge =
     bindM (attempt request) (\<lambda>r.
       case r of Inl err \<Rightarrow> ret (OutcomeFailure, Some err) | Inr result \<Rightarrow> judge result)"

definition fcm_title :: "notification \<Rightarrow> string" where
  "fcm_title n = (case ntf_Title n of None \<Rightarrow> [] | Some t \<Rightarrow> t)"

definition fcm_body :: "notification \<Rightarrow> string" where
  "fcm_body n =
     (if ntf_Subtitle n \<noteq> None \<or> ntf_Content n \<noteq> None then
        trim_space ((case ntf_Subtitle n of None \<Rightarrow> [] | Some s \<Rightarrow> s) @ [CHR 0x0A]
          @ (case ntf_Content n of None \<Rightarrow> [] | Some c \<Rightarrow> c))
      else [])"

definition send_google ::
  "app_senders option \<Rightarrow> push_subscription \<Rightarrow> notification \<Rightarrow> sent io" where
  "send_google senders sub n =
     (case Option.bind senders as_FCM of
        None \<Rightarrow> ret (failed ''Firebase Cloud Messaging is not initialized.'')
      | Some fcm \<Rightarrow>
          sent_or_failed
            (fcm_send_async (Some fcm) (fcm_payload (sub_DeviceToken sub) (fcm_title n) (fcm_body n)))
            (judge_result is_invalid_fcm_token_error sub))"

definition apns_topic_key :: "notification \<Rightarrow> string" where
  "apns_topic_key n =
     (if is_voip_push n then ''Alert''
      else case ntf_PushType n of Some t \<Rightarrow> t | None \<Rightarrow> ''Alert'')"

definition apns_push_topic :: "app_senders option \<Rightarrow> notification \<Rightarrow> string" where
  "apns_push_topic senders n =
     (case senders of
        None \<Rightarrow> []
      | Some s \<Rightarrow>
          (let topic = topics_lookup (as_Topics s) (apns_topic_key n)
           in if topic = [] then as_DefaultApnsTopic s else topic))"

definition alert_dict :: "notification \<Rightarrow> json_map" where
  "alert_dict n =
     (case ntf_Title n of None \<Rightarrow> [] | Some t \<Rightarrow> [(''title'', JStr t)])
     @ (case ntf_Subtitle n of None \<Rightarrow> [] | Some s \<Rightarrow> [(''subtitle'', JStr s)])
     @ (case ntf_Content n of None \<Rightarrow> [] | Some c \<Rightarrow> [(''body'', JStr c)])"

definition send_apple ::
  "app_senders option \<Rightarrow> push_subscription \<Rightarrow> notification \<Rightarrow> sent io" where
  "send_apple senders sub n =
     (let topic = apns_push_topic senders n in
      case apns_for senders topic of
        Some apns \<Rightarrow>
          if trim_space topic = [] then
            ret (failed ''Apple Push Notification Service is not initialized.'')
          else
            bindM (getM w_outside) (\<lambda>out.
            sent_or_failed
              (apn_send_async apns (sub_DeviceToken sub)
                (apple_payload topic (ntf_Topic n) (alert_dict n) (ntf_Meta n) (ntf_Priority n))
                (o_show_uuid out (Id n)) (ntf_Priority n) ''alert'')
              (judge_result is_invalid_apns_token_error sub))
      | None \<Rightarrow> ret (failed ''Apple Push Notification Service is not initialized.''))"

definition send_appk ::
  "app_senders option \<Rightarrow> push_subscription \<Rightarrow> notification \<Rightarrow> sent io" where
  "send_appk senders sub n =
     (let topic = (case senders of None \<Rightarrow> [] | Some s \<Rightarrow> topics_lookup (as_Topics s) ''VoIP'') in
      case apns_for senders topic of
        Some apns \<Rightarrow>
          if trim_space topic = [] then ret (failed ''Apple PushKit is not initialized.'')
          else
            bindM (getM w_outside) (\<lambda>out.
            sent_or_failed
              (apn_send_async apns (sub_DeviceToken sub) (appk_payload out n)
                (o_show_uuid out (Id n)) (ntf_Priority n) ''voip'')
              (judge_result is_invalid_apns_token_error sub))
      | None \<Rightarrow> ret (failed ''Apple PushKit is not initialized.''))"

text \<open>UnifiedPush: a bare POST to the device token. Redirects are the HTTP client's.\<close>

definition judge_unified :: "push_subscription \<Rightarrow> send_result \<Rightarrow> sent io" where
  "judge_unified sub result =
     (if sr_StatusCode result = 404 \<or> sr_StatusCode result = 410 then token_is_gone sub
      else if sr_StatusCode result < 200 \<or> 300 \<le> sr_StatusCode result then
        ret (failed (''Notification push failed ('' @ show_int (sr_StatusCode result) @ '') ''
          @ sr_Error result))
      else ret (OutcomeFailure, None))"

definition post_unified :: "push_subscription \<Rightarrow> notification \<Rightarrow> send_result io" where
  "post_unified sub n =
     seqM (record_attempt (HttpAttempt (sub_DeviceToken sub) 60
         (if 5 \<le> ntf_Priority n then ''high'' else ''normal'')))
       (bindM external (\<lambda>k. bindM (getM w_outside) (\<lambda>out.
         let (status, text) = o_http out k
         in ret \<lparr>sr_StatusCode = status, sr_Error = text\<rparr>)))"

definition send_unified_push :: "push_subscription \<Rightarrow> notification \<Rightarrow> sent io" where
  "send_unified_push sub n =
     bindM (getM w_outside) (\<lambda>out.
       if \<not> o_http_request out (sub_DeviceToken sub) then ret (failed ''invalid URL'')
       else sent_or_failed (post_unified sub n) (judge_unified sub))"

definition send_by_provider ::
  "app_senders option \<Rightarrow> push_subscription \<Rightarrow> notification \<Rightarrow> sent io" where
  "send_by_provider senders sub n =
     (case sub_Provider sub of
        PushProviderGoogle \<Rightarrow> send_google senders sub n
      | PushProviderApple \<Rightarrow> send_apple senders sub n
      | PushProviderAppk \<Rightarrow> send_appk senders sub n
      | PushProviderUnifiedPush \<Rightarrow> send_unified_push sub n
      | p \<Rightarrow> ret (failed (''Push provider not supported: '' @ show_int (int_of_provider p))))"

section \<open>Sending to one subscription\<close>

definition final_outcome :: "sent \<Rightarrow> delivery_outcome" where
  "final_outcome s = (if s = (OutcomeFailure, None) then OutcomeSuccess else fst s)"

definition result_of :: "go_error option \<Rightarrow> unit io" where
  "result_of e = (case e of None \<Rightarrow> ret () | Some err \<Rightarrow> throw err)"

definition send_push_notification :: "push_subscription \<Rightarrow> notification \<Rightarrow> unit io" where
  "send_push_notification sub n =
     bindM time_now (\<lambda>startedAt.
     bindM (getM apps_of) (\<lambda>apps.
       if sub_Provider sub = PushProviderSop then ret ()
       else
         bindM (send_by_provider (resolve_app_senders apps (sub_AppIdValue sub)) sub n) (\<lambda>sent.
         bindM time_now (\<lambda>endedAt.
         seqM (record_notification (Some n) (provider_name (sub_Provider sub)) (final_outcome sent)
             (milliseconds (endedAt - startedAt)) (snd sent) (Some (Id sub)))
           (result_of (snd sent))))))"

section \<open>Sending to the websockets of the account\<close>

definition send_websocket_notification :: "notification \<Rightarrow> string list \<Rightarrow> unit io" where
  "send_websocket_notification n excludedDeviceIds =
     bindM time_now (\<lambda>startedAt.
     bindM (getM w_outside) (\<lambda>out.
     bindM (attempt (push_websocket_packet (o_show_uuid out (ntf_AccountId n)) ''notifications.new'' n
         excludedDeviceIds (resolve_app_id (o_apps out) (ntf_AppIdValue n) True))) (\<lambda>r.
     bindM time_now (\<lambda>endedAt.
     seqM (record_notification (Some n) ''websocket''
         (case r of Inl _ \<Rightarrow> OutcomeFailure | Inr _ \<Rightarrow> OutcomeSuccess)
         (milliseconds (endedAt - startedAt)) (case r of Inl e \<Rightarrow> Some e | Inr _ \<Rightarrow> None) None)
       (lift_result r)))))"

section \<open>What a push does\<close>

text \<open>Everything a push can touch, blanked out.\<close>

definition push_frame :: "world \<Rightarrow> world" where
  "push_frame w = w\<lparr>w_tick := 0, w_pushes := [], w_removals := [], w_deliveries := []\<rparr>"

lemma push_frame_simps [simp]:
  "push_frame (w\<lparr>w_tick := k\<rparr>) = push_frame w"
  "push_frame (w\<lparr>w_pushes := ps\<rparr>) = push_frame w"
  "push_frame (w\<lparr>w_removals := rs\<rparr>) = push_frame w"
  "push_frame (w\<lparr>w_deliveries := ds\<rparr>) = push_frame w"
  by (simp_all add: push_frame_def)

text \<open>The request is addressed with the token of the subscription.\<close>

definition attempt_to :: "push_subscription \<Rightarrow> push_attempt \<Rightarrow> bool" where
  "attempt_to sub a =
     (case a of
        FcmAttempt s payload \<Rightarrow> \<exists>title body. payload = fcm_payload (sub_DeviceToken sub) title body
      | ApnsAttempt s token payload i priority type \<Rightarrow> token = sub_DeviceToken sub
      | HttpAttempt url ttl urgency \<Rightarrow> url = sub_DeviceToken sub)"

text \<open>What the provider answered at an interaction, and how the code reads an answer.\<close>

definition provider_answer :: "push_provider \<Rightarrow> outside \<Rightarrow> nat \<Rightarrow> send_result" where
  "provider_answer p out k =
     (case p of
        PushProviderGoogle \<Rightarrow>
          \<lparr>sr_StatusCode = fst (o_fcm out k),
           sr_Error = (if 200 \<le> fst (o_fcm out k) \<and> fst (o_fcm out k) < 300 then []
             else extract_fcm_error out (snd (o_fcm out k)))\<rparr>
      | PushProviderUnifiedPush \<Rightarrow> \<lparr>sr_StatusCode = fst (o_http out k), sr_Error = snd (o_http out k)\<rparr>
      | _ \<Rightarrow> \<lparr>sr_StatusCode = fst (o_apns out k), sr_Error = snd (o_apns out k)\<rparr>)"

definition says_gone :: "push_provider \<Rightarrow> send_result \<Rightarrow> bool" where
  "says_gone p res \<longleftrightarrow> sr_StatusCode res \<in> {404, 410}
     \<or> p = PushProviderGoogle \<and> is_invalid_fcm_token_error (sr_Error res)
     \<or> p \<in> {PushProviderApple, PushProviderAppk} \<and> is_invalid_apns_token_error (sr_Error res)"

definition says_sent :: "push_provider \<Rightarrow> send_result \<Rightarrow> bool" where
  "says_sent p res \<longleftrightarrow>
     (if p = PushProviderUnifiedPush then 200 \<le> sr_StatusCode res \<and> sr_StatusCode res < 300
      else sr_Error res = [])"

text \<open>
  A request either fails before anything is on the wire, or puts one attempt on the wire, which
  then ends in an error of the connection or in the provider's answer.
\<close>

definition answer_at :: "push_subscription \<Rightarrow> outside \<Rightarrow> nat \<Rightarrow> go_error + send_result" where
  "answer_at sub out k =
     (case o_fault out k of
        Some e \<Rightarrow> Inl e | None \<Rightarrow> Inr (provider_answer (sub_Provider sub) out k))"

definition requests :: "push_subscription \<Rightarrow> send_result io \<Rightarrow> bool" where
  "requests sub m \<longleftrightarrow> (\<forall>w.
     (\<exists>k e. m w = (Inl e, w\<lparr>w_tick := k\<rparr>))
     \<or> (\<exists>k a. w_tick w \<le> k \<and> attempt_to sub a
          \<and> m w = (answer_at sub (w_outside w) k,
                   w\<lparr>w_pushes := w_pushes w @ [a], w_tick := Suc k\<rparr>)))"

lemma attempt_to_simps [simp]:
  "attempt_to sub (FcmAttempt s (fcm_payload (sub_DeviceToken sub) title body))"
  "attempt_to sub (ApnsAttempt apn (sub_DeviceToken sub) payload i priority type)"
  "attempt_to sub (HttpAttempt (sub_DeviceToken sub) ttl urgency)"
  by (auto simp: attempt_to_def)

lemma requests_fcm:
  assumes "sub_Provider sub = PushProviderGoogle"
  shows "requests sub (fcm_send_async (Some s) (fcm_payload (sub_DeviceToken sub) title body))"
  unfolding requests_def
proof
  fix w :: world
  let ?a = "FcmAttempt s (fcm_payload (sub_DeviceToken sub) title body)"
  let ?m = "fcm_send_async (Some s) (fcm_payload (sub_DeviceToken sub) title body)"
  let ?w = "w\<lparr>w_tick := Suc (w_tick w)\<rparr>"
  let ?f = "\<lambda>k. let (status, raw) = o_fcm (w_outside w) k
    in ret \<lparr>sr_StatusCode = status, sr_Error = (if 200 \<le> status \<and> status < 300 then []
         else extract_fcm_error (w_outside w) raw)\<rparr>"
  show "(\<exists>k e. ?m w = (Inl e, w\<lparr>w_tick := k\<rparr>))
     \<or> (\<exists>k b. w_tick w \<le> k \<and> attempt_to sub b
          \<and> ?m w = (answer_at sub (w_outside w) k, w\<lparr>w_pushes := w_pushes w @ [b], w_tick := Suc k\<rparr>))"
  proof (cases "o_fault (w_outside w) (w_tick w) = None \<and> o_http_request (w_outside w) (fcm_url s)")
    case False
    then have "\<exists>k e. ?m w = (Inl e, w\<lparr>w_tick := k\<rparr>)"
      by (cases "o_fault (w_outside w) (w_tick w)")
        (auto simp: fcm_send_async_def prog_simps external_def Let_def)
    then show ?thesis ..
  next
    case True
    then have "?m w = seqM (record_attempt ?a) (bindM external ?f) ?w"
      by (simp add: fcm_send_async_def bindM_def getM_def wrapM_def external_def Let_def)
    also have "\<dots> = (answer_at sub (w_outside w) (Suc (w_tick w)),
        w\<lparr>w_pushes := w_pushes w @ [?a], w_tick := Suc (Suc (w_tick w))\<rparr>)"
      using assms by (auto simp: record_attempt_def prog_simps external_def answer_at_def Let_def
          provider_answer_def split: option.splits prod.splits)
    finally show ?thesis by (intro disjI2 exI conjI) (auto)
  qed
qed

lemma requests_apn:
  assumes "sub_Provider sub \<in> {PushProviderApple, PushProviderAppk}"
  shows "requests sub (apn_send_async s (sub_DeviceToken sub) payload i p t)"
  unfolding requests_def
proof
  fix w :: world
  show "(\<exists>k e. apn_send_async s (sub_DeviceToken sub) payload i p t w = (Inl e, w\<lparr>w_tick := k\<rparr>))
     \<or> (\<exists>k b. w_tick w \<le> k \<and> attempt_to sub b
          \<and> apn_send_async s (sub_DeviceToken sub) payload i p t w
           = (answer_at sub (w_outside w) k, w\<lparr>w_pushes := w_pushes w @ [b], w_tick := Suc k\<rparr>))"
  proof (rule disjI2, intro exI conjI)
    show "apn_send_async s (sub_DeviceToken sub) payload i p t w
       = (answer_at sub (w_outside w) (w_tick w), w\<lparr>w_pushes := w_pushes w
            @ [ApnsAttempt s (sub_DeviceToken sub) payload i p t], w_tick := Suc (w_tick w)\<rparr>)"
      using assms by (auto simp: apn_send_async_def record_attempt_def prog_simps external_def
          answer_at_def Let_def provider_answer_def split: option.splits prod.splits)
  qed simp_all
qed

lemma requests_unified:
  assumes "sub_Provider sub = PushProviderUnifiedPush"
  shows "requests sub (post_unified sub n)"
  unfolding requests_def
proof
  fix w :: world
  let ?a = "HttpAttempt (sub_DeviceToken sub) 60 (if 5 \<le> ntf_Priority n then ''high'' else ''normal'')"
  show "(\<exists>k e. post_unified sub n w = (Inl e, w\<lparr>w_tick := k\<rparr>))
     \<or> (\<exists>k b. w_tick w \<le> k \<and> attempt_to sub b
          \<and> post_unified sub n w
           = (answer_at sub (w_outside w) k, w\<lparr>w_pushes := w_pushes w @ [b], w_tick := Suc k\<rparr>))"
  proof (rule disjI2, intro exI conjI)
    show "post_unified sub n w
       = (answer_at sub (w_outside w) (w_tick w), w\<lparr>w_pushes := w_pushes w @ [?a], w_tick := Suc (w_tick w)\<rparr>)"
      using assms by (auto simp: post_unified_def record_attempt_def prog_simps external_def
          answer_at_def Let_def provider_answer_def split: option.splits prod.splits)
  qed simp_all
qed

text \<open>What a branch returns, and what it has done by then.\<close>

definition branch_report :: "push_subscription \<Rightarrow> world \<Rightarrow> sent \<Rightarrow> world \<Rightarrow> bool" where
  "branch_report sub w sent w' \<longleftrightarrow>
     push_frame w' = push_frame w \<and> w_deliveries w' = w_deliveries w
     \<and> (fst sent = OutcomeInvalidToken \<and> snd sent = None \<and> w_removals w' = w_removals w @ [Id sub]
       \<or> fst sent = OutcomeFailure \<and> w_removals w' = w_removals w)
     \<and> (w_pushes w' = w_pushes w \<and> snd sent \<noteq> None
       \<or> (\<exists>a k. w_pushes w' = w_pushes w @ [a] \<and> attempt_to sub a \<and> w_tick w \<le> k
           \<and> (case answer_at sub (w_outside w) k of
                Inl e \<Rightarrow> sent = (OutcomeFailure, Some e)
              | Inr res \<Rightarrow>
                  (fst sent = OutcomeInvalidToken \<longleftrightarrow> says_gone (sub_Provider sub) res)
                  \<and> (snd sent = None \<longleftrightarrow>
                       says_gone (sub_Provider sub) res \<or> says_sent (sub_Provider sub) res))))"

definition judges :: "push_subscription \<Rightarrow> (send_result \<Rightarrow> sent io) \<Rightarrow> bool" where
  "judges sub judge \<longleftrightarrow> (\<forall>res.
     if says_gone (sub_Provider sub) res then judge res = token_is_gone sub
     else \<exists>e. judge res = ret (OutcomeFailure, e)
        \<and> (e = None \<longleftrightarrow> says_sent (sub_Provider sub) res))"

lemma judges_google:
  "sub_Provider sub = PushProviderGoogle \<Longrightarrow> judges sub (judge_result is_invalid_fcm_token_error sub)"
  by (auto simp: judges_def judge_result_def says_gone_def says_sent_def failed_def)

lemma judges_apple:
  "sub_Provider sub \<in> {PushProviderApple, PushProviderAppk}
    \<Longrightarrow> judges sub (judge_result is_invalid_apns_token_error sub)"
  by (auto simp: judges_def judge_result_def says_gone_def says_sent_def failed_def)

lemma judges_unified:
  "sub_Provider sub = PushProviderUnifiedPush \<Longrightarrow> judges sub (judge_unified sub)"
  by (auto simp: judges_def judge_unified_def says_gone_def says_sent_def failed_def)

definition reports :: "push_subscription \<Rightarrow> sent io \<Rightarrow> world \<Rightarrow> bool" where
  "reports sub m w \<longleftrightarrow> (\<exists>sent w'. m w = (Inr sent, w') \<and> branch_report sub w sent w')"

lemma run_token_is_gone:
  "token_is_gone sub w = (Inr (OutcomeInvalidToken, None), w\<lparr>w_removals := w_removals w @ [Id sub]\<rparr>)"
  by (simp add: token_is_gone_def enqueue_removal_def fb_enqueue_def prog_simps)

lemma reports_sent:
  assumes "requests sub request" and judge: "judges sub judge"
  shows "reports sub (sent_or_failed request judge) w"
proof -
  from assms(1) consider
      k e where "request w = (Inl e, w\<lparr>w_tick := k\<rparr>)"
    | k a where "w_tick w \<le> k" "attempt_to sub a" "request w = (answer_at sub (w_outside w) k,
        w\<lparr>w_pushes := w_pushes w @ [a], w_tick := Suc k\<rparr>)"
    unfolding requests_def by blast
  then show ?thesis
  proof cases
    case 1
    then have "sent_or_failed request judge w = (Inr (OutcomeFailure, Some e), w\<lparr>w_tick := k\<rparr>)"
      by (simp add: sent_or_failed_def prog_simps)
    then show ?thesis by (auto simp: reports_def branch_report_def)
  next
    case 2
    let ?w1 = "w\<lparr>w_pushes := w_pushes w @ [a], w_tick := Suc k\<rparr>"
    show ?thesis
    proof (cases "answer_at sub (w_outside w) k")
      case (Inl e)
      with 2 have "sent_or_failed request judge w = (Inr (OutcomeFailure, Some e), ?w1)"
        by (simp add: sent_or_failed_def prog_simps)
      with 2 Inl show ?thesis by (auto simp: reports_def branch_report_def)
    next
      case (Inr res)
      with 2 have run: "sent_or_failed request judge w = judge res ?w1"
        by (simp add: sent_or_failed_def prog_simps)
      show ?thesis
      proof (cases "says_gone (sub_Provider sub) res")
        case True
        with judge have "judge res = token_is_gone sub" by (simp add: judges_def)
        with run 2 Inr True show ?thesis
          by (auto simp: reports_def branch_report_def run_token_is_gone)
      next
        case False
        with judge obtain e where "judge res = ret (OutcomeFailure, e)"
            "e = None \<longleftrightarrow> says_sent (sub_Provider sub) res"
          unfolding judges_def by metis
        with run 2 Inr False show ?thesis
          by (auto simp: reports_def branch_report_def ret_def)
      qed
    qed
  qed
qed

lemma reports_failed: "reports sub (ret (failed reason)) w"
  by (simp add: reports_def ret_def failed_def branch_report_def)

lemma reports_outside: "reports sub (f (w_outside w)) w \<Longrightarrow> reports sub (bindM (getM w_outside) f) w"
  by (simp add: reports_def bindM_def getM_def)

lemma reports_google: "sub_Provider sub = PushProviderGoogle \<Longrightarrow> reports sub (send_google senders sub n) w"
  unfolding send_google_def
  by (auto intro!: reports_failed reports_sent requests_fcm judges_google split: option.split)

lemma reports_apple: "sub_Provider sub = PushProviderApple \<Longrightarrow> reports sub (send_apple senders sub n) w"
  unfolding send_apple_def Let_def
  by (auto intro!: reports_failed reports_outside reports_sent requests_apn judges_apple
      split: option.split)

lemma reports_appk: "sub_Provider sub = PushProviderAppk \<Longrightarrow> reports sub (send_appk senders sub n) w"
  unfolding send_appk_def Let_def
  by (auto intro!: reports_failed reports_outside reports_sent requests_apn judges_apple
      split: option.split)

lemma reports_unified:
  "sub_Provider sub = PushProviderUnifiedPush \<Longrightarrow> reports sub (send_unified_push sub n) w"
  unfolding send_unified_push_def
  by (auto intro!: reports_failed reports_outside reports_sent requests_unified judges_unified)

lemma reports_send_by_provider: "reports sub (send_by_provider senders sub n) w"
  unfolding send_by_provider_def
  by (cases "sub_Provider sub")
    (simp_all only: push_provider.case reports_google reports_apple reports_appk reports_unified
      reports_failed)

text \<open>The whole of \<open>SendPushNotification\<close>.\<close>

lemma record_notification_effect:
  assumes "record_notification n provider outcome duration err sub w = (r, w')"
  shows "r = Inr () \<and> push_frame w' = push_frame w \<and> w_pushes w' = w_pushes w
   \<and> w_removals w' = w_removals w
   \<and> (w_deliveries w' = w_deliveries w
     \<or> (\<exists>row. w_deliveries w' = w_deliveries w @ [row]
       \<and> nde_Outcome row = int_of_outcome outcome \<and> nde_SubscriptionID row = sub
       \<and> nde_NotificationID row = map_option Id n \<and> nde_Provider row = provider
       \<and> nde_Error row = truncate_err err))"
  using assms
  by (auto simp: record_notification_def store_record_notification_delivery_def recorder_evals
      push_frame_def split: if_splits prod.splits option.splits)

text \<open>
  The report of one push: what was put on the wire (at most one request, to the subscription's
  token), what the provider answered, whether the subscription was queued for removal, the error,
  and the record.
\<close>

definition verdict :: "push_provider \<Rightarrow> (go_error + send_result) \<Rightarrow> delivery_outcome" where
  "verdict p answer =
     (case answer of
        Inl _ \<Rightarrow> OutcomeFailure
      | Inr res \<Rightarrow>
          if says_gone p res then OutcomeInvalidToken
          else if says_sent p res then OutcomeSuccess else OutcomeFailure)"

definition push_report ::
  "push_subscription \<Rightarrow> notification \<Rightarrow> world \<Rightarrow> (go_error + unit) \<Rightarrow> world \<Rightarrow> bool" where
  "push_report sub n w r w' \<longleftrightarrow> push_frame w' = push_frame w \<and>
     (if sub_Provider sub = PushProviderSop then
        r = Inr () \<and> w_pushes w' = w_pushes w \<and> w_removals w' = w_removals w
        \<and> w_deliveries w' = w_deliveries w
      else
        (\<exists>rows outcome.
          (w_pushes w' = w_pushes w \<and> outcome = OutcomeFailure
           \<or> (\<exists>a k. w_pushes w' = w_pushes w @ [a] \<and> attempt_to sub a \<and> w_tick w \<le> k
                \<and> outcome = verdict (sub_Provider sub) (answer_at sub (w_outside w) k)))
          \<and> (isl r \<longleftrightarrow> outcome = OutcomeFailure)
          \<and> w_removals w' = w_removals w @ (if outcome = OutcomeInvalidToken then [Id sub] else [])
          \<and> w_deliveries w' = w_deliveries w @ rows \<and> length rows \<le> 1
          \<and> (\<forall>row \<in> set rows. nde_Outcome row = int_of_outcome outcome
              \<and> nde_SubscriptionID row = Some (Id sub) \<and> nde_NotificationID row = Some (Id n)
              \<and> nde_Provider row = provider_name (sub_Provider sub)
              \<and> nde_Error row = truncate_err (case r of Inl e \<Rightarrow> Some e | Inr _ \<Rightarrow> None))))"

lemma branch_outcome:
  assumes "branch_report sub w sent w'"
  shows "w_pushes w' = w_pushes w \<and> final_outcome sent = OutcomeFailure
    \<or> (\<exists>a k. w_pushes w' = w_pushes w @ [a] \<and> attempt_to sub a \<and> w_tick w \<le> k
        \<and> final_outcome sent = verdict (sub_Provider sub) (answer_at sub (w_outside w) k))"
    and "snd sent \<noteq> None \<longleftrightarrow> final_outcome sent = OutcomeFailure"
    and "w_removals w' = w_removals w @ (if final_outcome sent = OutcomeInvalidToken then [Id sub] else [])"
    and "push_frame w' = push_frame w" and "w_deliveries w' = w_deliveries w"
proof -
  obtain o' e where sent: "sent = (o', e)" by (cases sent)
  note rep = assms [unfolded branch_report_def sent, simplified]
  show "w_pushes w' = w_pushes w \<and> final_outcome sent = OutcomeFailure
    \<or> (\<exists>a k. w_pushes w' = w_pushes w @ [a] \<and> attempt_to sub a \<and> w_tick w \<le> k
        \<and> final_outcome sent = verdict (sub_Provider sub) (answer_at sub (w_outside w) k))"
    using rep unfolding sent final_outcome_def verdict_def
    by (fastforce split: sum.splits)
  show "snd sent \<noteq> None \<longleftrightarrow> final_outcome sent = OutcomeFailure"
    using rep by (auto simp: sent final_outcome_def)
  show "w_removals w' = w_removals w @ (if final_outcome sent = OutcomeInvalidToken then [Id sub] else [])"
    using rep by (auto simp: sent final_outcome_def)
qed (use assms in \<open>simp_all add: branch_report_def\<close>)

lemma send_push_report:
  assumes run: "send_push_notification sub n w = (r, w')"
  shows "push_report sub n w r w'"
proof (cases "sub_Provider sub = PushProviderSop")
  case True
  with run have "r = Inr () \<and> w' = w\<lparr>w_tick := Suc (w_tick w)\<rparr>"
    by (auto simp: send_push_notification_def time_now_def prog_simps)
  with True show ?thesis by (simp add: push_report_def)
next
  case False
  let ?senders = "resolve_app_senders (apps_of w) (sub_AppIdValue sub)"
  let ?w0 = "w\<lparr>w_tick := Suc (w_tick w)\<rparr>"
  obtain sent w1 where branch: "send_by_provider ?senders sub n ?w0 = (Inr sent, w1)"
    and rep: "branch_report sub ?w0 sent w1"
    using reports_send_by_provider unfolding reports_def by metis
  define duration where "duration = milliseconds
    (o_time (w_outside w1) (w_tick w1) - o_time (w_outside w) (w_tick w))"
  let ?rec = "record_notification (Some n) (provider_name (sub_Provider sub)) (final_outcome sent)
    duration (snd sent) (Some (Id sub))"
  have all: "send_push_notification sub n w = seqM ?rec (result_of (snd sent)) (w1\<lparr>w_tick := Suc (w_tick w1)\<rparr>)"
    using False branch
    by (simp add: send_push_notification_def bindM_def getM_def time_now_def duration_def)
  obtain w2 where rec: "?rec (w1\<lparr>w_tick := Suc (w_tick w1)\<rparr>) = (Inr (), w2)"
    using record_notification_run by blast
  then have out: "r = (case snd sent of None \<Rightarrow> Inr () | Some e \<Rightarrow> Inl e)" "w' = w2"
    using all run by (auto simp: seqM_def bindM_def result_of_def ret_def throw_def split: option.splits)
  note recorded = record_notification_effect [OF rec, simplified]
  note branched = branch_outcome [OF rep, simplified]
  obtain rows where rows: "w_deliveries w' = w_deliveries w @ rows" "length rows \<le> 1"
    "\<forall>row \<in> set rows. nde_Outcome row = int_of_outcome (final_outcome sent)
       \<and> nde_SubscriptionID row = Some (Id sub) \<and> nde_NotificationID row = Some (Id n)
       \<and> nde_Provider row = provider_name (sub_Provider sub) \<and> nde_Error row = truncate_err (snd sent)"
    using recorded branched(5) out(2) by fastforce
  have wire: "w_pushes w' = w_pushes w \<and> final_outcome sent = OutcomeFailure
      \<or> (\<exists>a k. w_pushes w' = w_pushes w @ [a] \<and> attempt_to sub a \<and> w_tick w \<le> k
          \<and> final_outcome sent = verdict (sub_Provider sub) (answer_at sub (w_outside w) k))"
    using branched(1) recorded out(2) by (auto dest: Suc_leD)
  have err: "isl r \<longleftrightarrow> final_outcome sent = OutcomeFailure"
    using branched(2) out(1) by (auto split: option.splits)
  have log: "\<forall>row \<in> set rows. nde_Outcome row = int_of_outcome (final_outcome sent)
      \<and> nde_SubscriptionID row = Some (Id sub) \<and> nde_NotificationID row = Some (Id n)
      \<and> nde_Provider row = provider_name (sub_Provider sub)
      \<and> nde_Error row = truncate_err (case r of Inl e \<Rightarrow> Some e | Inr _ \<Rightarrow> None)"
    using rows(3) out(1) by (auto split: option.splits)
  show ?thesis
    unfolding push_report_def
    using recorded branched(3,4) out(2) False rows(1,2) wire err log
    by (simp only: if_False) blast
qed

text \<open>
  C17: \<open>SendPushNotification\<close> puts at most one request on the wire, addressed with the subscription's
  token, and its outcome is what the provider answered: a token the provider calls gone queues the
  subscription for removal and is not an error, any other refusal, a broken connection and a missing
  sender are errors, the rest is success. The delivery record, when it can be written, holds that
  outcome and that error, and nothing else changes. A SOP subscription does nothing at all.
\<close>

theorem send_push_outcome:
  assumes "send_push_notification sub n w = (r, w')"
  shows "push_report sub n w r w'"
  by (rule send_push_report [OF assms])

definition gone_outside :: outside where
  "gone_outside = quiet_outside\<lparr>o_http := \<lambda>k. (410, ''Gone'')\<rparr>"

theorem send_push_outcome_witness:
  "\<exists>r w'. push_report (sample_subscription 3 ''d'' PushProviderUnifiedPush) voip_call
       (empty_world gone_outside) r w' \<and> r = Inr () \<and> w_removals w' = [3]"
proof -
  let ?run = "send_push_notification (sample_subscription 3 ''d'' PushProviderUnifiedPush) voip_call
    (empty_world gone_outside)"
  have "fst ?run = Inr () \<and> w_removals (snd ?run) = [3]"
    by code_simp
  with send_push_outcome [OF prod.collapse [symmetric], of "sample_subscription 3 ''d'' PushProviderUnifiedPush"
      voip_call "empty_world gone_outside"]
  show ?thesis by blast
qed

end
