(* ===== verification/Push_Deliver.thy ===== *)
theory Push_Deliver
  imports Push_Send Replay "HOL-Library.Sublist"
begin

text \<open>
  \<open>DeliverPushNotification\<close> and \<open>SendNotificationBatch\<close> of \<open>internal/push/push.go\<close>: one notification,
  passed as a pointer into the heap, to everything an account has: the replay, the SOP streams,
  the websocket connections and one push per remaining device. The goroutines of the pushes run
  one after the other in an order the outside chooses.
\<close>

section \<open>Connected devices\<close>

definition device_ids_of :: "push_subscription list \<Rightarrow> string list" where
  "device_ids_of subs =
     keep_first (\<lambda>i. i) [] (filter (\<lambda>i. trim_space i \<noteq> [])
       (map (\<lambda>sub. normalize_sop_device_id (sub_DeviceId sub)) subs))"

definition connected_devices :: "push_subscription list \<Rightarrow> string list io" where
  "connected_devices subs =
     bindM (attempt (get_connected_websocket_device_ids (device_ids_of subs) [])) (\<lambda>r.
       ret (case r of Inl _ \<Rightarrow> [] | Inr connected \<Rightarrow> connected))"

definition is_connected :: "string list \<Rightarrow> push_subscription \<Rightarrow> bool" where
  "is_connected connected sub = (normalize_sop_device_id (sub_DeviceId sub) \<in> set connected)"

definition record_skipped_websocket_deliveries ::
  "notification \<Rightarrow> push_subscription list \<Rightarrow> string list \<Rightarrow> unit io" where
  "record_skipped_websocket_deliveries n subs connected =
     forM subs (\<lambda>sub. whenM (is_connected connected sub)
       (record_notification (Some n) (provider_name (sub_Provider sub)) OutcomeSkipped 0 None
         (Some (Id sub))))"

definition record_sop_delivery_holds ::
  "notification \<Rightarrow> push_subscription list \<Rightarrow> string list \<Rightarrow> unit io" where
  "record_sop_delivery_holds n subs connected =
     forM subs (\<lambda>sub. whenM (sub_Provider sub = PushProviderSop \<and> \<not> is_connected connected sub)
       (record_notification (Some n) ''sop'' OutcomeHeld 0 None (Some (Id sub))))"

section \<open>Delivering to one account\<close>

text \<open>The goroutines: an error is counted and logged, and does not leave the loop.\<close>

definition scheduled :: "push_subscription list \<Rightarrow> push_subscription list io" where
  "scheduled subs =
     bindM (getM w_outside) (\<lambda>out. bindM (getM w_tick) (\<lambda>k.
       let order = o_schedule out k subs
       in ret (if mset order = mset subs then order else subs)))"

definition push_to_devices :: "notification \<Rightarrow> push_subscription list \<Rightarrow> unit io" where
  "push_to_devices n subs =
     bindM (scheduled subs) (\<lambda>order. forM order (\<lambda>sub. swallow (send_push_notification sub n)))"

definition broadcast :: "uuid \<Rightarrow> nref \<Rightarrow> unit io" where
  "broadcast accountID p = modifyM (\<lambda>w. w\<lparr>w_streams := sop_broadcast accountID p (w_streams w)\<rparr>)"

definition deliver_to_devices ::
  "notification \<Rightarrow> push_subscription list \<Rightarrow> string list \<Rightarrow> string list \<Rightarrow> unit io" where
  "deliver_to_devices n subs connectedSop excluded =
     bindM (connected_devices subs) (\<lambda>connected.
     seqM (record_skipped_websocket_deliveries n subs connected)
     (let remaining = filter (\<lambda>sub. \<not> is_connected connected sub) subs;
          byDevice = select_subscriptions_by_device remaining connectedSop n
      in seqM (record_sop_delivery_holds n subs connected)
         (seqM (send_websocket_notification n (build_websocket_exclusions connectedSop excluded))
           (push_to_devices n (map snd byDevice)))))"

definition account_subscriptions :: "notification \<Rightarrow> push_subscription list io" where
  "account_subscriptions n =
     bindM (getM apps_of) (\<lambda>apps.
       list_activated_subscriptions (ntf_AccountId n)
         (Some (resolve_app_id apps (ntf_AppIdValue n) True)) (Some (get_default_app_id apps)))"

definition deliver_to_account :: "string \<Rightarrow> nref \<Rightarrow> string list \<Rightarrow> bool \<Rightarrow> unit io" where
  "deliver_to_account source p excluded isSavable =
     bindM (getM (\<lambda>w. w_heap w p)) (\<lambda>n.
     seqM (record_notification_send (Some n) source)
     (bindM (getM (\<lambda>w. connected_device_ids (w_streams w) (ntf_AccountId n))) (\<lambda>connectedSop.
      bindM (account_subscriptions n) (\<lambda>subs.
      seqM (whenM (should_queue_sop_replay isSavable subs) (swallow (append_notification n)))
      (seqM (broadcast (ntf_AccountId n) p)
       (if subs = [] then send_websocket_notification n excluded
        else deliver_to_devices n subs connectedSop excluded))))))"

definition deliver_push_notification :: "nref \<Rightarrow> string list \<Rightarrow> bool \<Rightarrow> unit io" where
  "deliver_push_notification p excluded isSavable = deliver_to_account ''queue'' p excluded isSavable"

section \<open>Delivering to many accounts\<close>

text \<open>The row saved for one recipient of a batch.\<close>

definition batch_row :: "notification \<Rightarrow> time \<Rightarrow> uuid \<Rightarrow> notification io" where
  "batch_row n now accountID =
     bindM uuid_new (\<lambda>i. ret
       \<lparr>Id = i, CreatedAt = now, UpdatedAt = now, DeletedAt = None, ntf_Topic = ntf_Topic n,
        ntf_Title = ntf_Title n, ntf_Subtitle = ntf_Subtitle n, ntf_Content = ntf_Content n,
        ntf_Meta = ntf_Meta n, ntf_Priority = ntf_Priority n, ntf_ViewedAt = None,
        ntf_AppId = ntf_AppId n, ntf_PushType = ntf_PushType n, ntf_AccountId = accountID\<rparr>)"

definition save_batch :: "notification \<Rightarrow> uuid list \<Rightarrow> unit io" where
  "save_batch n recipients =
     bindM time_now (\<lambda>now. bindM (mapM (batch_row n now) recipients) (\<lambda>rows.
       whenM (rows \<noteq> []) (batch_insert_notifications rows)))"

text \<open>\<open>notification.AccountId = account\<close> writes through the pointer.\<close>

definition set_account :: "nref \<Rightarrow> uuid \<Rightarrow> unit io" where
  "set_account p account =
     modifyM (\<lambda>w. w\<lparr>w_heap := (w_heap w)(p := (w_heap w p)\<lparr>ntf_AccountId := account\<rparr>)\<rparr>)"

definition send_notification_batch :: "nref \<Rightarrow> uuid list \<Rightarrow> bool \<Rightarrow> string list \<Rightarrow> unit io" where
  "send_notification_batch p accounts save excluded =
     bindM (getM (\<lambda>w. w_heap w p)) (\<lambda>n.
     bindM (getM apps_of) (\<lambda>apps.
     seqM (lift_result (validate_app_id apps (resolve_app_id apps (ntf_AppIdValue n) True)))
     (bindM (get_preferences_by_topics accounts (ntf_Topic n)) (\<lambda>preferences.
      let recipients = filter (\<lambda>a. preference_at preferences a \<noteq> PreferenceReject) accounts
      in seqM (whenM save (save_batch n recipients))
         (forM recipients (\<lambda>account.
            seqM (set_account p account)
              (if preference_at preferences account = PreferenceSilent then ret ()
               else deliver_to_account ''batch'' p excluded save)))))))"

section \<open>Facts\<close>

lemma run_scheduled:
  "\<exists>order. scheduled subs w = (Inr order, w) \<and> mset order = mset subs"
  by (auto simp: scheduled_def prog_simps Let_def)

lemma same_device_distinct:
  assumes "mset order = mset (map snd (select_subscriptions_by_device subs connectedSop n))"
  shows "distinct (map device_key order) \<and> set order \<subseteq> set subs"
proof -
  let ?sel = "select_subscriptions_by_device subs connectedSop n"
  have keys: "map device_key (map snd ?sel) = map fst ?sel"
    using select_in by (fastforce simp: comp_def)
  have "mset (map device_key order) = mset (map fst ?sel)"
    using assms by (metis keys mset_map)
  then have "distinct (map device_key order)"
    using select_distinct by (metis mset_eq_imp_distinct_iff)
  moreover have "set order = snd ` set ?sel"
    using mset_eq_setD [OF assms] by simp
  ultimately show ?thesis using select_in by fastforce
qed

text \<open>The pushes: at most one request per subscription, to its token, and always a return.\<close>

lemma then_swallow: "seqM (swallow m) k w = k (snd (m w))"
  by (simp add: seqM_def bindM_def run_swallow)

lemma push_each:
  assumes "forM order (\<lambda>sub. swallow (send_push_notification sub n)) w = (r, w')"
  shows "r = Inr () \<and> push_frame w' = push_frame w \<and> (\<exists>receivers attempts.
    subseq receivers order \<and> list_all2 attempt_to receivers attempts
    \<and> w_pushes w' = w_pushes w @ attempts)"
  using assms
proof (induction order arbitrary: w)
  case Nil
  then show ?case by (auto simp: ret_def)
next
  case (Cons sub order)
  let ?w1 = "snd (send_push_notification sub n w)"
  have rest: "forM order (\<lambda>sub. swallow (send_push_notification sub n)) ?w1 = (r, w')"
    using Cons.prems by (simp only: forM.simps then_swallow)
  have rep: "push_report sub n w (fst (send_push_notification sub n w)) ?w1"
    by (rule send_push_report) simp
  then have frame: "push_frame ?w1 = push_frame w" by (simp add: push_report_def)
  from rep consider "w_pushes ?w1 = w_pushes w"
    | a where "w_pushes ?w1 = w_pushes w @ [a]" "attempt_to sub a"
    by (auto simp: push_report_def split: if_splits)
  then obtain hd_receivers hd_attempts where first: "subseq hd_receivers [sub]"
      "list_all2 attempt_to hd_receivers hd_attempts" "w_pushes ?w1 = w_pushes w @ hd_attempts"
  proof cases
    case 1
    then show ?thesis by (intro that [of "[]" "[]"]) simp_all
  next
    case 2
    then show ?thesis by (intro that [of "[sub]" "[a]"]) simp_all
  qed
  from Cons.IH [OF rest] obtain receivers attempts where more: "subseq receivers order"
      "list_all2 attempt_to receivers attempts" "w_pushes w' = w_pushes ?w1 @ attempts"
      "r = Inr ()" "push_frame w' = push_frame ?w1"
    by blast
  have "subseq (hd_receivers @ receivers) (sub # order)"
    using list_emb_append_mono [OF first(1) more(1)] by simp
  moreover have "list_all2 attempt_to (hd_receivers @ receivers) (hd_attempts @ attempts)"
    using first(2) more(2) by (rule list_all2_appendI)
  ultimately show ?case
    using first more frame by (intro conjI exI) simp_all
qed

lemma push_to_devices_effect:
  assumes "push_to_devices n subs w = (r, w')"
  shows "r = Inr () \<and> push_frame w' = push_frame w \<and> (\<exists>receivers attempts order.
    subseq receivers order \<and> mset order = mset subs \<and> list_all2 attempt_to receivers attempts
    \<and> w_pushes w' = w_pushes w @ attempts)"
proof -
  obtain order where order: "scheduled subs w = (Inr order, w)" "mset order = mset subs"
    using run_scheduled by blast
  then have "forM order (\<lambda>sub. swallow (send_push_notification sub n)) w = (r, w')"
    using assms by (simp add: push_to_devices_def bindM_def)
  from push_each [OF this] order(2) show ?thesis by blast
qed

text \<open>Everything before the pushes leaves them, the removal buffer and the outside alone.\<close>

definition before_pushes :: "world \<Rightarrow> outside \<times> push_attempt list \<times> uuid list \<times> notification" where
  "before_pushes w = (w_outside w, w_pushes w, w_removals w, w_heap w 0)"

lemma keeps_append_part [spec_intros]:
  assumes "steady I" and "\<And>v m. I (v\<lparr>w_replay := m\<rparr>) = I v"
  shows "keeps I (append_notification n)"
  unfolding append_notification_def execute_with_lock_def get_replay_notifications_def
    set_replay_notifications_def
  using assms by (auto intro!: spec_intros keeps_modifyM)

lemma keeps_send_websocket [spec_intros]:
  assumes "steady I" and "\<And>v x. I (v\<lparr>w_published := x\<rparr>) = I v" and "\<And>v. I (v\<lparr>w_deliveries := []\<rparr>) = I v"
  shows "keeps I (send_websocket_notification n excluded)"
  unfolding send_websocket_notification_def push_websocket_packet_def publish_push_def
  using assms by (auto intro!: spec_intros keeps_modifyM)

lemma keeps_connected_devices [spec_intros]: "steady I \<Longrightarrow> keeps I (connected_devices subs)"
  unfolding connected_devices_def get_connected_websocket_device_ids_def Let_def
  by (auto intro!: spec_intros)

lemma keeps_recorded_loops [spec_intros]:
  assumes "steady I" and "\<And>v. I (v\<lparr>w_deliveries := []\<rparr>) = I v"
  shows "keeps I (record_skipped_websocket_deliveries n subs connected)"
    and "keeps I (record_sop_delivery_holds n subs connected)"
  unfolding record_skipped_websocket_deliveries_def record_sop_delivery_holds_def
  by (intro spec_intros assms)+

text \<open>Everything before the pushes leaves them and the outside alone.\<close>

definition unpushed :: "world \<Rightarrow> push_attempt list \<Rightarrow> world \<Rightarrow> bool" where
  "unpushed w0 ps w \<longleftrightarrow> w_outside w = w_outside w0 \<and> w_pushes w = ps \<and> w_heap w = w_heap w0
     \<and> w_subscriptions w = w_subscriptions w0"

lemma unpushed_frame [simp]:
  "steady (unpushed w0 ps)"
  "unpushed w0 ps (v\<lparr>w_deliveries := ds\<rparr>) = unpushed w0 ps v"
  "unpushed w0 ps (v\<lparr>w_sends := ss\<rparr>) = unpushed w0 ps v"
  "unpushed w0 ps (v\<lparr>w_published := x\<rparr>) = unpushed w0 ps v"
  "unpushed w0 ps (v\<lparr>w_replay := m\<rparr>) = unpushed w0 ps v"
  "unpushed w0 ps (v\<lparr>w_streams := y\<rparr>) = unpushed w0 ps v"
  "unpushed w (w_pushes w) w"
  by (simp_all add: unpushed_def steady_def)

lemma keeps_account_subscriptions [spec_intros]: "steady I \<Longrightarrow> keeps I (account_subscriptions n)"
  unfolding account_subscriptions_def list_activated_subscriptions_def by (intro spec_intros)

lemma keeps_broadcast [spec_intros]:
  "(\<And>v x. I (v\<lparr>w_streams := x\<rparr>) = I v) \<Longrightarrow> keeps I (broadcast a p)"
  unfolding broadcast_def by (rule keeps_modifyM) simp

text \<open>Blade's answer for the devices asked about.\<close>

lemma connected_devices_answer:
  assumes "connected_devices subs w = (Inr connected, w')" and "o_blade (w_outside w)"
    and "\<And>k. o_fault (w_outside w) k = None" and "\<And>k ids ns. o_connected (w_outside w) k ids ns = Some C"
    and "sub \<in> set subs" and "trim_space (device_key sub) \<noteq> []"
  shows "connected = C"
proof -
  have "device_key sub \<in> set (distinct_non_empty (device_ids_of subs))"
    using assms(5,6) by (auto simp: distinct_non_empty device_ids_of_def)
  then have "distinct_non_empty (device_ids_of subs) \<noteq> []" by auto
  then show ?thesis
    using assms(1-4)
    by (simp add: connected_devices_def get_connected_websocket_device_ids_def prog_simps external_def Let_def)
qed

lemma subseq_sub: "subseq xs ys \<Longrightarrow> set xs \<subseteq> set ys \<and> (distinct ys \<longrightarrow> distinct xs)"
  by (auto simp: subseq_conv_nths distinct_nthsI dest: in_set_nthsD)

lemma deliver_to_devices_effect:
  assumes "deliver_to_devices n subs connectedSop excluded w = (r, w')"
  shows "\<exists>connected w1 receivers attempts. connected_devices subs w = (Inr connected, w1)
    \<and> list_all2 attempt_to receivers attempts
    \<and> w_pushes w' = w_pushes w @ attempts \<and> distinct (map device_key receivers)
    \<and> set receivers \<subseteq> {sub \<in> set subs. \<not> is_connected connected sub}
    \<and> (isl r \<longrightarrow> attempts = [])"
proof -
  obtain connected w1 where c: "connected_devices subs w = (Inr connected, w1)"
    by (cases "get_connected_websocket_device_ids (device_ids_of subs) [] w")
      (auto simp: connected_devices_def bindM_def attempt_def ret_def)
  define byDevice where "byDevice = map snd (select_subscriptions_by_device
      (filter (\<lambda>sub. \<not> is_connected connected sub) subs) connectedSop n)"
  define prepare where "prepare =
    seqM (record_skipped_websocket_deliveries n subs connected)
      (seqM (record_sop_delivery_holds n subs connected)
        (send_websocket_notification n (build_websocket_exclusions connectedSop excluded)))"
  have run: "seqM prepare (push_to_devices n byDevice) w1 = (r, w')"
    using assms c unfolding prepare_def byDevice_def seqM_assoc
    by (simp add: deliver_to_devices_def Let_def bindM_def)
  have "keeps (unpushed w (w_pushes w)) (connected_devices subs)"
    by (intro spec_intros) simp
  then have u1: "unpushed w (w_pushes w) w1" using c by (rule keeps_run) simp
  have kp: "keeps (unpushed w (w_pushes w)) prepare"
    unfolding prepare_def by (intro spec_intros) simp_all
  show ?thesis
  proof (cases "prepare w1")
    case (Pair q w2)
    with kp u1 have u2: "unpushed w (w_pushes w) w2" by (metis keeps_run)
    show ?thesis
    proof (cases q)
      case (Inl e)
      with run Pair have "r = Inl e \<and> w' = w2" by (simp add: seqM_def bindM_def)
      with u2 c show ?thesis
        by (intro exI [of _ connected] exI [of _ w1] exI [of _ "[]"]) (simp add: unpushed_def)
    next
      case (Inr u)
      with run Pair have push: "push_to_devices n byDevice w2 = (r, w')" by (simp add: seqM_def bindM_def)
      from push_to_devices_effect [OF push] obtain receivers attempts order where p: "r = Inr ()"
        "subseq receivers order" "mset order = mset byDevice" "list_all2 attempt_to receivers attempts"
        "w_pushes w' = w_pushes w2 @ attempts" by blast
      have "distinct (map device_key order) \<and> set order \<subseteq> {sub \<in> set subs. \<not> is_connected connected sub}"
        using same_device_distinct [OF p(3) [unfolded byDevice_def]] by auto
      moreover have "subseq (map device_key receivers) (map device_key order)"
        by (rule subseq_map [OF p(2)])
      ultimately have "distinct (map device_key receivers)
          \<and> set receivers \<subseteq> {sub \<in> set subs. \<not> is_connected connected sub}"
        using subseq_sub [OF p(2)] subseq_sub [of "map device_key receivers"] by blast
      with p u2 c show ?thesis
        by (intro exI [of _ connected] exI [of _ w1] exI [of _ receivers] exI [of _ attempts])
          (simp add: unpushed_def)
    qed
  qed
qed

section \<open>One delivery\<close>

definition active_subscriptions :: "notification \<Rightarrow> world \<Rightarrow> push_subscription list" where
  "active_subscriptions n w =
     map subscription_from_entity
       (filter (\<lambda>r. alive r \<and> se_AccountID r = ntf_AccountId n \<and> se_IsActivated r
           \<and> apply_app_filter (Some (resolve_app_id (apps_of w) (ntf_AppIdValue n) True))
               (Some (get_default_app_id (apps_of w))) (se_AppID r)) (w_subscriptions w))"

lemma account_subscriptions_Inr:
  "account_subscriptions n w = (Inr subs, w') \<Longrightarrow> subs = active_subscriptions n w"
  by (auto simp: account_subscriptions_def list_activated_subscriptions_def active_subscriptions_def
      io_iffs get_default_app_id_def)

lemma active_subscriptions_unpushed:
  "unpushed w ps v \<Longrightarrow> active_subscriptions n v = active_subscriptions n w"
  by (simp add: active_subscriptions_def unpushed_def)

text \<open>
  What a delivery has pushed: to distinct devices, each an active subscription of the account whose
  device Blade did not report as connected when it was asked, one request each; nothing when
  the delivery failed.
\<close>

definition pushed :: "notification \<Rightarrow> world \<Rightarrow> (go_error + unit) \<Rightarrow> world \<Rightarrow> bool" where
  "pushed n w r w' \<longleftrightarrow> (\<exists>receivers attempts connected w1 w2.
     list_all2 attempt_to receivers attempts \<and> w_pushes w' = w_pushes w @ attempts
     \<and> distinct (map device_key receivers)
     \<and> set receivers \<subseteq> {sub \<in> set (active_subscriptions n w). \<not> is_connected connected sub}
     \<and> (receivers \<noteq> [] \<longrightarrow> w_outside w1 = w_outside w
          \<and> connected_devices (active_subscriptions n w) w1 = (Inr connected, w2))
     \<and> (isl r \<longrightarrow> attempts = []))"

lemma pushed_nothing:
  "w_pushes w' = w_pushes w \<Longrightarrow> pushed n w r w'"
  unfolding pushed_def by (intro exI [of _ "[]"]) simp

lemma bindM_getM: "bindM (getM f) k w = k (f w) w"
  by (simp add: bindM_def getM_def)

lemma bindM_after: "m w = (Inr x, w') \<Longrightarrow> bindM m k w = k x w'"
  by (simp add: bindM_def)

lemma seqM_after: "m w = (Inr x, w') \<Longrightarrow> seqM m k w = k w'"
  by (simp add: seqM_def bindM_def)

lemma then_record_send:
  "seqM (record_notification_send n source) m w = m (snd (record_notification_send n source w))"
  using sends.then_record [of "(n, source)"] by simp

lemma deliver_to_account_pushed:
  assumes "deliver_to_account source p excluded isSavable w = (r, w')"
  shows "pushed (w_heap w p) w r w'"
proof -
  define n where "n = w_heap w p"
  define I where "I = unpushed w (w_pushes w)"
  define w0 where "w0 = snd (record_notification_send (Some n) source w)"
  define connectedSop where "connectedSop = connected_device_ids (w_streams w0) (ntf_AccountId n)"
  have I: "steady I" "\<And>v ds. I (v\<lparr>w_deliveries := ds\<rparr>) = I v" "\<And>v ds. I (v\<lparr>w_sends := ds\<rparr>) = I v"
    "\<And>v x. I (v\<lparr>w_published := x\<rparr>) = I v" "\<And>v m. I (v\<lparr>w_replay := m\<rparr>) = I v"
    "\<And>v y. I (v\<lparr>w_streams := y\<rparr>) = I v" "I w"
    by (simp_all add: I_def)
  have "keeps I (record_notification_send (Some n) source)" by (intro spec_intros I)
  then have w0: "I w0" unfolding w0_def using I(7) by (rule keepsD)
  have run: "bindM (account_subscriptions n) (\<lambda>subs.
      seqM (whenM (should_queue_sop_replay isSavable subs) (swallow (append_notification n)))
      (seqM (broadcast (ntf_AccountId n) p)
       (if subs = [] then send_websocket_notification n excluded
        else deliver_to_devices n subs connectedSop excluded))) w0 = (r, w')"
    using assms unfolding deliver_to_account_def connectedSop_def w0_def
    by (simp only: bindM_getM n_def [symmetric] then_record_send)
  have ks: "keeps I (account_subscriptions n)" by (intro spec_intros I)
  show ?thesis
  proof (cases "account_subscriptions n w0")
    case (Pair q w1)
    with ks w0 have w1: "I w1" by (metis keeps_run)
    show ?thesis
    proof (cases q)
      case (Inl e)
      with run Pair have "w' = w1" by (simp add: bindM_def)
      with w1 have "I w'" by simp
      then show ?thesis by (intro pushed_nothing) (simp add: I_def unpushed_def)
    next
      case (Inr subs)
      with Pair w0 have subs: "subs = active_subscriptions n w"
        using account_subscriptions_Inr active_subscriptions_unpushed unfolding I_def by metis
      let ?prepare = "seqM (whenM (should_queue_sop_replay isSavable subs)
          (swallow (append_notification n))) (broadcast (ntf_AccountId n) p)"
      define w2 where "w2 = snd (?prepare w1)"
      have "keeps I ?prepare" by (intro spec_intros I)
      then have w2: "I w2" unfolding w2_def using w1 by (rule keepsD)
      have "fst (?prepare w1) = Inr ()"
        by (simp add: seqM_def bindM_def whenM_def run_swallow broadcast_def modifyM_def ret_def)
      then have prepared: "?prepare w1 = (Inr (), w2)" unfolding w2_def by (metis prod.collapse)
      let ?rest = "if subs = [] then send_websocket_notification n excluded
          else deliver_to_devices n subs connectedSop excluded"
      have "seqM ?prepare ?rest w1 = (r, w')"
        using run unfolding bindM_after [of "account_subscriptions n", OF Pair [unfolded Inr]] seqM_assoc .
      then have rest: "?rest w2 = (r, w')"
        by (simp only: seqM_after [of ?prepare, OF prepared])
      show ?thesis
      proof (cases "subs = []")
        case True
        have "keeps I (send_websocket_notification n excluded)" by (intro spec_intros I)
        moreover have "send_websocket_notification n excluded w2 = (r, w')" using rest True by simp
        ultimately have "I w'" using w2 by (rule keeps_run)
        then show ?thesis by (intro pushed_nothing) (simp add: I_def unpushed_def)
      next
        case False
        with rest have "deliver_to_devices n subs connectedSop excluded w2 = (r, w')" by simp
        from deliver_to_devices_effect [OF this] obtain connected w3 receivers attempts
          where d: "connected_devices subs w2 = (Inr connected, w3)"
            "list_all2 attempt_to receivers attempts" "w_pushes w' = w_pushes w2 @ attempts"
            "distinct (map device_key receivers)"
            "set receivers \<subseteq> {sub \<in> set subs. \<not> is_connected connected sub}"
            "isl r \<longrightarrow> attempts = []" by blast
        have "w_outside w2 = w_outside w" "w_pushes w2 = w_pushes w"
          using w2 by (simp_all add: I_def unpushed_def)
        with d show ?thesis
          unfolding pushed_def n_def [symmetric] subs
          by (intro exI [of _ receivers] exI [of _ attempts] exI [of _ connected] exI [of _ w2]
              exI [of _ w3]) simp
      qed
    qed
  qed
qed

text \<open>
  C15: A delivery pushes at most once per device: its requests go to pairwise different devices, each
  through one active subscription of the account (in the app of the notification) and with the token
  of that subscription. A delivery that fails has pushed nothing (running its job again would not
  push twice, though the queue only logs the error); errors of single devices do not fail it.
\<close>

theorem deliver_one_push_per_device:
  assumes "deliver_push_notification p excluded isSavable w = (r, w')"
  shows "\<exists>receivers attempts. list_all2 attempt_to receivers attempts
    \<and> w_pushes w' = w_pushes w @ attempts
    \<and> distinct (map (\<lambda>sub. normalize_sop_device_id (sub_DeviceId sub)) receivers)
    \<and> set receivers \<subseteq> set (active_subscriptions (w_heap w p) w)
    \<and> (isl r \<longrightarrow> attempts = [])"
  using deliver_to_account_pushed [OF assms [unfolded deliver_push_notification_def]]
  unfolding pushed_def by blast


section \<open>Worlds to compute with\<close>

definition push_outside :: outside where
  "push_outside = quiet_outside\<lparr>o_blade := True, o_connected := \<lambda>k ids ns. Some [''e'']\<rparr>"

text \<open>Account 7 has a device \<open>d\<close> with two subscriptions and a connected device \<open>e\<close>.\<close>

definition push_world :: world where
  "push_world = (empty_world push_outside)\<lparr>
     w_subscriptions := map subscription_entity_from_model
       [sample_subscription 1 ''d'' PushProviderUnifiedPush, sample_subscription 2 ''d:sop'' PushProviderSop,
        sample_subscription 3 ''e'' PushProviderUnifiedPush],
     w_heap := (\<lambda>_. sample_notification 5 7 10), w_heap_next := 1\<rparr>"

lemma push_world_run:
  "fst (deliver_push_notification 0 [] True push_world) = Inr ()"
  "length (w_pushes (snd (deliver_push_notification 0 [] True push_world))) = 1"
  by code_simp+

theorem deliver_one_push_per_device_witness:
  "\<exists>w' receivers attempts. deliver_push_notification 0 [] True push_world = (Inr (), w')
     \<and> list_all2 attempt_to receivers attempts \<and> w_pushes w' = attempts \<and> length attempts = 1"
proof -
  obtain w' where run: "deliver_push_notification 0 [] True push_world = (Inr (), w')"
    using push_world_run(1) by (metis prod.collapse)
  have "w_pushes push_world = []" by (simp add: push_world_def empty_world_def)
  with deliver_one_push_per_device [OF run] push_world_run(2) run show ?thesis by fastforce
qed


section \<open>The notification of a batch is shared\<close>

text \<open>Accounts 1 and 2 each have an SSE connection and no subscription.\<close>

definition batch_world :: world where
  "batch_world = (empty_world quiet_outside)\<lparr>
     w_heap := (\<lambda>_. sample_notification 5 0 10), w_heap_next := 1,
     w_streams := sop_subscribe 12 2 ''y'' (sop_subscribe 11 1 ''x'' new_sop_streams)\<rparr>"


end
