(* ===== verification/Job_Queue.thy ===== *)
theory Job_Queue
  imports World
begin

text \<open>
  \<open>internal/queue/queue.go\<close>: the in-process dispatcher, a channel with a buffer of 1024 jobs and a
  pool of workers. \<open>enqueue\<close> is a producer's call as the sequential programs use it; \<open>queue_step\<close>
  is the channel with all its producers and workers running.
\<close>

section \<open>Producers\<close>

definition buffer_capacity :: nat where
  "buffer_capacity = 1024"

definition new_workers :: "int \<Rightarrow> int" where
  "new_workers workers = (if workers < 1 then 1 else workers)"

text \<open>
  The \<open>select\<close> of \<open>enqueue\<close>: with room in the buffer it may send, and it may also notice that the
  context is done. With a full buffer it waits; as no worker runs during a sequential program the
  context is what ends the wait.
\<close>

definition enqueue :: "job \<Rightarrow> unit io" where
  "enqueue job =
     bindM (getM w_jobs) (\<lambda>jobs.
       if length jobs < buffer_capacity then
         bindM external (\<lambda>k. modifyM (\<lambda>w. w\<lparr>w_jobs := w_jobs w @ [job]\<rparr>))
       else bindM external (\<lambda>k. throw (ErrText ''context deadline exceeded'')))"

definition job_type_email :: int where
  "job_type_email = 0"

definition job_type_push_notification :: int where
  "job_type_push_notification = 1"

definition enqueue_email :: "string \<Rightarrow> string \<Rightarrow> string \<Rightarrow> string \<Rightarrow> unit io" where
  "enqueue_email toName toAddress subject body =
     enqueue
       \<lparr>job_Type = job_type_email,
        job_Email = Some \<lparr>ej_ToName = toName, ej_ToAddress = toAddress, ej_Subject = subject,
          ej_Body = body\<rparr>,
        job_Push = None\<rparr>"

definition enqueue_push_notification :: "nref \<Rightarrow> uuid \<Rightarrow> string list \<Rightarrow> bool \<Rightarrow> unit io" where
  "enqueue_push_notification p userID excluded isSavable =
     seqM (modifyM (\<lambda>w. w\<lparr>w_heap := (w_heap w)(p := (w_heap w p)\<lparr>ntf_AccountId := userID\<rparr>)\<rparr>))
       (enqueue
         \<lparr>job_Type = job_type_push_notification, job_Email = None,
          job_Push = Some \<lparr>pj_Notification = p, pj_ExcludedWebSocketDeviceIDs = excluded,
            pj_IsSavable = isSavable\<rparr>\<rparr>)"

lemma enqueue_Inr:
  "enqueue job w = (Inr u, w') \<longleftrightarrow> length (w_jobs w) < 1024
     \<and> o_fault (w_outside w) (w_tick w) = None
     \<and> w' = w\<lparr>w_tick := Suc (w_tick w), w_jobs := w_jobs w @ [job]\<rparr>"
  by (auto simp: enqueue_def io_iffs buffer_capacity_def)

lemma enqueue_Inl:
  "enqueue job w = (Inl e, w') \<Longrightarrow> w' = w\<lparr>w_tick := Suc (w_tick w)\<rparr>"
  by (auto simp: enqueue_def io_iffs split: if_splits)

section \<open>The channel with its workers\<close>

text \<open>
  \<open>qs_sent\<close> is everything a producer's \<open>enqueue\<close> returned nil for, in the order of the sends;
  \<open>qs_taken\<close> what the workers received, in that order; \<open>qs_running\<close> the jobs whose handler is
  running, one per busy worker; \<open>qs_finished\<close> the jobs whose handler returned (or that had no
  handler); \<open>qs_stopped\<close> counts the workers that left on cancellation.
\<close>

record 'j queue_state =
  qs_buffer :: "'j list"
  qs_sent :: "'j list"
  qs_taken :: "'j list"
  qs_running :: "'j list"
  qs_finished :: "'j list"
  qs_stopped :: nat
  qs_cancelled :: bool

definition queue_init :: "'j queue_state" where
  "queue_init = \<lparr>qs_buffer = [], qs_sent = [], qs_taken = [], qs_running = [], qs_finished = [],
     qs_stopped = 0, qs_cancelled = False\<rparr>"

inductive queue_step :: "nat \<Rightarrow> 'j queue_state \<Rightarrow> 'j queue_state \<Rightarrow> bool" for workers where
  send: "length (qs_buffer s) < buffer_capacity \<Longrightarrow>
     queue_step workers s (s\<lparr>qs_buffer := qs_buffer s @ [j], qs_sent := qs_sent s @ [j]\<rparr>)"
| receive: "qs_buffer s = j # rest \<Longrightarrow> length (qs_running s) + qs_stopped s < workers \<Longrightarrow>
     queue_step workers s (s\<lparr>qs_buffer := rest, qs_taken := qs_taken s @ [j],
       qs_running := qs_running s @ [j]\<rparr>)"
| handled: "qs_running s = before @ j # after \<Longrightarrow>
     queue_step workers s (s\<lparr>qs_running := before @ after, qs_finished := qs_finished s @ [j]\<rparr>)"
| cancel: "queue_step workers s (s\<lparr>qs_cancelled := True\<rparr>)"
| stop: "qs_cancelled s \<Longrightarrow> length (qs_running s) + qs_stopped s < workers \<Longrightarrow>
     queue_step workers s (s\<lparr>qs_stopped := Suc (qs_stopped s)\<rparr>)"

inductive queue_reachable :: "nat \<Rightarrow> 'j queue_state \<Rightarrow> bool" for workers where
  start: "queue_reachable workers queue_init"
| more: "queue_reachable workers s \<Longrightarrow> queue_step workers s s' \<Longrightarrow> queue_reachable workers s'"

inductive_cases queue_stepE: "queue_step workers s s'"

text \<open>Run has returned when every worker has left.\<close>

definition run_returned :: "nat \<Rightarrow> 'j queue_state \<Rightarrow> bool" where
  "run_returned workers s \<longleftrightarrow> qs_stopped s = workers"

definition queue_inv :: "nat \<Rightarrow> 'j queue_state \<Rightarrow> bool" where
  "queue_inv workers s \<longleftrightarrow>
     qs_sent s = qs_taken s @ qs_buffer s
     \<and> mset (qs_taken s) = mset (qs_running s) + mset (qs_finished s)
     \<and> length (qs_buffer s) \<le> buffer_capacity
     \<and> length (qs_running s) + qs_stopped s \<le> workers
     \<and> (0 < qs_stopped s \<longrightarrow> qs_cancelled s)"

lemma queue_inv_step: "queue_inv workers s \<Longrightarrow> queue_step workers s s' \<Longrightarrow> queue_inv workers s'"
  by (erule queue_stepE) (auto simp: queue_inv_def)

lemma queue_inv_reachable: "queue_reachable workers s \<Longrightarrow> queue_inv workers s"
proof (induction rule: queue_reachable.induct)
  case start
  show ?case by (simp add: queue_inv_def queue_init_def)
qed (rule queue_inv_step)

text \<open>
  C4: With any number of producers and workers interleaved in any way: jobs are received in the order
  they were sent; every job a producer was told is queued is exactly one of buffered, running or
  finished, and has been received at most once; the buffer never holds more than 1024 jobs and
  never more handlers run than there are workers. What is still buffered when \<open>Run\<close> has returned
  stays unhandled, and no handler is running then.
\<close>

theorem queue_exactly_once:
  assumes "queue_reachable workers s"
  shows "qs_sent s = qs_taken s @ qs_buffer s
    \<and> mset (qs_sent s) = mset (qs_buffer s) + mset (qs_running s) + mset (qs_finished s)
    \<and> length (qs_buffer s) \<le> 1024 \<and> length (qs_running s) \<le> workers
    \<and> (run_returned workers s \<longrightarrow> qs_running s = []
        \<and> mset (qs_finished s) = mset (qs_taken s))"
  using queue_inv_reachable [OF assms]
  by (auto simp: queue_inv_def run_returned_def buffer_capacity_def)

theorem queue_exactly_once_witness:
  "\<exists>s :: nat queue_state. queue_reachable 1 s \<and> qs_sent s = [5, 6] \<and> qs_running s = [5]
     \<and> qs_sent s = qs_taken s @ qs_buffer s"
proof -
  let ?s1 = "\<lparr>qs_buffer = [5], qs_sent = [5], qs_taken = [], qs_running = [], qs_finished = [],
     qs_stopped = 0, qs_cancelled = False\<rparr> :: nat queue_state"
  let ?s2 = "\<lparr>qs_buffer = [5, 6], qs_sent = [5, 6], qs_taken = [], qs_running = [], qs_finished = [],
     qs_stopped = 0, qs_cancelled = False\<rparr> :: nat queue_state"
  let ?s3 = "\<lparr>qs_buffer = [6], qs_sent = [5, 6], qs_taken = [5], qs_running = [5], qs_finished = [],
     qs_stopped = 0, qs_cancelled = False\<rparr> :: nat queue_state"
  have "queue_step 1 queue_init ?s1"
    using queue_step.send [of queue_init 1 "5 :: nat"] by (simp add: queue_init_def buffer_capacity_def)
  moreover have "queue_step 1 ?s1 ?s2"
    using queue_step.send [of ?s1 1 6] by (simp add: buffer_capacity_def)
  moreover have "queue_step 1 ?s2 ?s3"
    using queue_step.receive [of ?s2 5 "[6]" 1] by simp
  ultimately have reach: "queue_reachable 1 ?s3"
    by (meson queue_reachable.intros)
  from queue_exactly_once [OF this] reach show ?thesis
    by (intro exI [of _ ?s3]) simp
qed

end
