(* ===== verification/Push_Service.thy ===== *)
theory Push_Service
  imports Push_Deliver Job_Queue "HOL-Library.Product_Lexorder"
begin

text \<open>
  The rest of \<open>Service\<close> in \<open>internal/push/push.go\<close>: preferences, the removal buffer, device
  subscriptions, sending one notification through the queue, and marking notifications viewed.
\<close>

section \<open>Preferences\<close>

definition preferences_get :: "uuid \<Rightarrow> string \<Rightarrow> preference_level io" where
  "preferences_get accountID topic =
     bindM (get_preference accountID topic) (\<lambda>pref.
       ret (case pref of None \<Rightarrow> PreferenceNormal | Some p \<Rightarrow> prf_Preference p))"

section \<open>The removal buffer\<close>

definition flush_removal_buffer :: "unit io" where
  "flush_removal_buffer =
     fb_flush w_removals (\<lambda>items w. w\<lparr>w_removals := items\<rparr>)
       (\<lambda>items. bindM (delete_subscriptions_by_ids (keep_first (\<lambda>i. i) [] items)) (\<lambda>count. ret ()))"

section \<open>Devices\<close>

definition unsubscribe_device :: "string \<Rightarrow> unit io" where
  "unsubscribe_device deviceId = delete_subscriptions_by_device deviceId"

text \<open>\<open>logs.CreateActionLog\<close>: sent on the side, and only when the service is configured.\<close>

definition create_action_log :: "string \<Rightarrow> string \<Rightarrow> (string \<times> string) list \<Rightarrow> unit io" where
  "create_action_log accountID action meta =
     bindM (getM w_outside) (\<lambda>out.
       whenM (o_action_log out)
         (swallow (bindM external (\<lambda>_.
           modifyM (\<lambda>w. w\<lparr>w_action_logs := w_action_logs w @ [(accountID, action, meta)]\<rparr>)))))"

definition renew_subscription ::
  "push_subscription \<Rightarrow> string \<Rightarrow> string \<Rightarrow> string option \<Rightarrow> push_provider \<Rightarrow> bool \<Rightarrow> string \<Rightarrow> time \<Rightarrow> time
   \<Rightarrow> push_subscription" where
  "renew_subscription existing deviceId deviceToken deviceName provider isActivated appId now updated =
     existing\<lparr>sub_DeviceId := deviceId, sub_DeviceToken := deviceToken, sub_Provider := provider,
       sub_IsActivated := isActivated, sub_LastUsedAt := time_ptr now, UpdatedAt := updated,
       sub_DeviceName := deviceName, sub_AppId := Some appId\<rparr>"

definition new_subscription ::
  "uuid \<Rightarrow> string \<Rightarrow> string \<Rightarrow> string option \<Rightarrow> push_provider \<Rightarrow> bool \<Rightarrow> string \<Rightarrow> time \<Rightarrow> push_subscription io"
where
  "new_subscription accountID deviceId deviceToken deviceName provider isActivated appId now =
     bindM uuid_new (\<lambda>i. bindM time_now (\<lambda>created. bindM time_now (\<lambda>updated. ret
       \<lparr>Id = i, CreatedAt = created, UpdatedAt = updated, DeletedAt = None,
        sub_AccountId = accountID, sub_DeviceId = deviceId, sub_DeviceToken = deviceToken,
        sub_DeviceName = deviceName, sub_Provider = provider, sub_IsActivated = isActivated,
        sub_AppId = Some appId, sub_CountDelivered = 0, sub_LastUsedAt = time_ptr now\<rparr>)))"

text \<open>\<open>GetExistingSubscription\<close> with its \<open>ErrNotFound\<close> taken for absence.\<close>

definition find_existing :: "uuid \<Rightarrow> string \<Rightarrow> push_provider \<Rightarrow> push_subscription option io" where
  "find_existing accountID deviceId provider =
     bindM (attempt (get_existing_subscription accountID deviceId provider)) (\<lambda>r.
       case r of
         Inl e \<Rightarrow> if errors_is_not_found e then ret None else throw e
       | Inr existing \<Rightarrow> ret (Some existing))"

definition log_first_subscription :: "uuid \<Rightarrow> push_provider \<Rightarrow> unit io" where
  "log_first_subscription accountID provider =
     bindM (count_subscriptions accountID) (\<lambda>existingCount.
     bindM (getM w_outside) (\<lambda>out.
       whenM (existingCount \<le> 1)
         (create_action_log (o_show_uuid out accountID) ''accounts.push.enable''
           [(''provider'', to_lower (provider_string provider))])))"

definition subscribe_for ::
  "uuid \<Rightarrow> string \<Rightarrow> string \<Rightarrow> string option \<Rightarrow> push_provider \<Rightarrow> bool \<Rightarrow> string \<Rightarrow> time \<Rightarrow> push_subscription io"
where
  "subscribe_for accountID deviceId deviceToken deviceName provider isActivated appId now =
     seqM (whenM isActivated (deactivate_subscriptions accountID deviceId provider now))
     (bindM (find_existing accountID deviceId provider) (\<lambda>existing.
       case existing of
         Some e \<Rightarrow>
           bindM time_now (\<lambda>updated.
             let e' = renew_subscription e deviceId deviceToken deviceName provider isActivated appId
                 now updated
             in seqM (update_subscription e') (ret e'))
       | None \<Rightarrow>
           bindM (new_subscription accountID deviceId deviceToken deviceName provider isActivated appId now)
             (\<lambda>subscription.
           seqM (insert_subscription subscription)
           (seqM (log_first_subscription accountID provider)
             (ret subscription)))))"

definition subscribe_device ::
  "string \<Rightarrow> string \<Rightarrow> string option \<Rightarrow> push_provider \<Rightarrow> dy_account \<Rightarrow> bool \<Rightarrow> string \<Rightarrow> push_subscription io"
where
  "subscribe_device deviceId deviceToken deviceName provider account isActivated appId =
     bindM time_now (\<lambda>now.
     bindM (getM w_outside) (\<lambda>out.
       case o_parse_uuid out (da_Id account) of
         None \<Rightarrow> throw (ErrWrap ''parse account id'' (ErrText ''invalid UUID''))
       | Some accountID \<Rightarrow>
           let resolved = resolve_app_id (o_apps out) appId True in
           seqM (lift_result (validate_app_id (o_apps out) resolved))
             (subscribe_for accountID deviceId deviceToken deviceName provider isActivated resolved now)))"

definition new_sop_token :: "string io" where
  "new_sop_token =
     bindM uuid_new (\<lambda>i. bindM (getM w_outside) (\<lambda>out.
       ret (to_lower (filter (\<lambda>c. c \<noteq> CHR ''-'') (o_show_uuid out i)))))"

definition register_sop_token ::
  "string \<Rightarrow> string option \<Rightarrow> dy_account \<Rightarrow> string \<Rightarrow> (string \<times> push_subscription) io" where
  "register_sop_token deviceId deviceName account appId =
     bindM new_sop_token (\<lambda>a. bindM new_sop_token (\<lambda>b.
     bindM (subscribe_device deviceId (a @ b) deviceName PushProviderSop account True appId)
       (\<lambda>subscription. ret (a @ b, subscription))))"

definition push_get_sop_subscription_by_token :: "string \<Rightarrow> push_subscription option io" where
  "push_get_sop_subscription_by_token token =
     bindM (attempt (get_sop_subscription_by_token token)) (\<lambda>r.
       case r of
         Inl e \<Rightarrow> if errors_is_not_found e then ret None else throw e
       | Inr sub \<Rightarrow> ret (Some sub))"

definition better_active :: "push_subscription option \<Rightarrow> push_subscription \<Rightarrow> push_subscription option" where
  "better_active best sub =
     (if \<not> sub_IsActivated sub then best
      else
        (case best of
           None \<Rightarrow> Some sub
         | Some b \<Rightarrow>
             let bestSop = (sub_Provider b = PushProviderSop);
                 subSop = (sub_Provider sub = PushProviderSop)
             in if subSop \<noteq> bestSop then (if subSop then Some sub else best)
                else if UpdatedAt b < UpdatedAt sub then Some sub else best))"

definition get_current_device_active_subscription :: "uuid \<Rightarrow> string \<Rightarrow> push_subscription option io" where
  "get_current_device_active_subscription accountID deviceId =
     bindM (get_current_device_subscriptions accountID deviceId) (\<lambda>subscriptions.
       ret (foldl better_active None subscriptions))"

text \<open>The stream id of \<open>SubscribeSopStream\<close> is a fresh UUID.\<close>

definition subscribe_sop_stream :: "uuid \<Rightarrow> string \<Rightarrow> uuid io" where
  "subscribe_sop_stream accountID deviceId =
     bindM uuid_new (\<lambda>streamID.
     seqM (modifyM (\<lambda>w. w\<lparr>w_streams := sop_subscribe streamID accountID deviceId (w_streams w)\<rparr>))
       (ret streamID))"

definition unsubscribe_sop_stream :: "uuid \<Rightarrow> uuid \<Rightarrow> unit io" where
  "unsubscribe_sop_stream accountID streamID =
     modifyM (\<lambda>w. w\<lparr>w_streams := sop_unsubscribe accountID streamID (w_streams w)\<rparr>)"

section \<open>Sending one notification\<close>

definition with_action_uri :: "json_map option \<Rightarrow> string option \<Rightarrow> json_map" where
  "with_action_uri meta actionUri =
     (let m = (case meta of None \<Rightarrow> [] | Some m \<Rightarrow> m)
      in case actionUri of None \<Rightarrow> m | Some uri \<Rightarrow> AList.update ''action_uri'' (JStr uri) m)"

record send_request =
  sq_AccountID :: uuid
  sq_Topic :: string
  sq_Title :: "string option"
  sq_Subtitle :: "string option"
  sq_Content :: "string option"
  sq_Meta :: "json_map option"
  sq_ActionUri :: "string option"
  sq_IsSilent :: bool
  sq_Save :: bool
  sq_AppId :: string
  sq_PushType :: string

definition new_notification :: "send_request \<Rightarrow> string \<Rightarrow> time \<Rightarrow> uuid \<Rightarrow> notification" where
  "new_notification q appId now i =
     \<lparr>Id = i, CreatedAt = now, UpdatedAt = now, DeletedAt = None, ntf_Topic = sq_Topic q,
      ntf_Title = sq_Title q, ntf_Subtitle = sq_Subtitle q, ntf_Content = sq_Content q,
      ntf_Meta = Some (with_action_uri (sq_Meta q) (sq_ActionUri q)), ntf_Priority = 10,
      ntf_ViewedAt = None, ntf_AppId = Some appId, ntf_PushType = str_ptr_or_nil (sq_PushType q),
      ntf_AccountId = sq_AccountID q\<rparr>"

definition enqueue_delivery :: "nref \<Rightarrow> uuid \<Rightarrow> bool \<Rightarrow> unit io" where
  "enqueue_delivery p accountID save =
     bindM (getM w_outside) (\<lambda>out.
       if \<not> o_enqueuer out then throw (ErrText ''push queue unavailable: enqueuer not configured'')
       else wrapM ''enqueue push notification'' (enqueue_push_notification p accountID [] save))"

definition make_notification :: "send_request \<Rightarrow> string \<Rightarrow> preference_level \<Rightarrow> unit io" where
  "make_notification q appId preference =
     bindM time_now (\<lambda>now. bindM uuid_new (\<lambda>i.
     bindM (alloc_notification (new_notification q appId now i)) (\<lambda>p.
     seqM (whenM (sq_Save q) (store_save_notification (new_notification q appId now i)))
       (whenM (\<not> sq_IsSilent q \<and> preference = PreferenceNormal)
         (enqueue_delivery p (sq_AccountID q) (sq_Save q))))))"

definition send_notification :: "send_request \<Rightarrow> unit io" where
  "send_notification q =
     (if sq_Title q = None \<and> sq_Subtitle q = None \<and> sq_Content q = None then throw ErrEmptyNotification
      else
        bindM (getM apps_of) (\<lambda>apps.
        let appId = resolve_app_id apps (sq_AppId q) True in
        seqM (lift_result (validate_app_id apps appId))
        (bindM (preferences_get (sq_AccountID q) (sq_Topic q)) (\<lambda>preference.
         if preference = PreferenceReject then ret ()
         else make_notification q appId preference))))"

section \<open>Viewed notifications\<close>

definition mark_notifications_viewed :: "notification list \<Rightarrow> time \<Rightarrow> unit io" where
  "mark_notifications_viewed notifications now =
     (let ids = map Id (filter (\<lambda>n. ntf_ViewedAt n = None) notifications)
      in if ids = [] then ret () else store_mark_notifications_viewed ids now)"

definition mark_all_notifications_viewed :: "uuid \<Rightarrow> string \<Rightarrow> unit io" where
  "mark_all_notifications_viewed accountID appId =
     bindM (getM apps_of) (\<lambda>apps. bindM time_now (\<lambda>now.
       store_mark_all_notifications_viewed accountID (Some (resolve_app_id apps appId True))
         (Some (get_default_app_id apps)) now))"

end
