(* ===== verification/Sop.thy ===== *)
theory Sop
  imports Replay Push_Service "HOL-Library.AList"
begin

text \<open>
  \<open>internal/push/sop.go\<close>: the feed of an account's SOP devices, which is what the database holds of
  its notifications joined with the replay buffer. The code collects both in a map by id and sorts
  the values; the order in which Go visits the map, and so the order of notifications created at
  the same instant, is left open by the language, the model takes the order of insertion.
\<close>

section \<open>Listing\<close>

definition replay_ids :: "notification list \<Rightarrow> uuid list" where
  "replay_ids notifications = keep_first (\<lambda>i. i) [] (map Id notifications)"

definition merge_replay :: "notification list \<Rightarrow> (uuid \<times> notification) list" where
  "merge_replay notifications = foldl (\<lambda>m n. AList.update (Id n) n m) [] notifications"

definition merge_newer ::
  "(uuid \<times> notification) list \<Rightarrow> notification \<Rightarrow> (uuid \<times> notification) list" where
  "merge_newer merged n =
     (case map_of merged (Id n) of
        None \<Rightarrow> AList.update (Id n) n merged
      | Some existing \<Rightarrow>
          if CreatedAt existing < CreatedAt n then AList.update (Id n) n merged else merged)"

definition merge_feed :: "notification list \<Rightarrow> notification list \<Rightarrow> (uuid \<times> notification) list" where
  "merge_feed replayed stored = foldl merge_newer (merge_replay replayed) stored"

text \<open>A slice expression \<open>xs[i:j]\<close> on a slice without spare capacity; None is the run-time panic.\<close>

definition go_slice :: "'a list \<Rightarrow> int \<Rightarrow> int \<Rightarrow> 'a list option" where
  "go_slice xs i j =
     (if 0 \<le> i \<and> i \<le> j \<and> j \<le> int (length xs) then Some (take (nat j - nat i) (drop (nat i) xs))
      else None)"

definition sop_page :: "notification list \<Rightarrow> int \<Rightarrow> int \<Rightarrow> notification list option" where
  "sop_page ordered offset take' =
     (let offset' = (if int (length ordered) < offset then int (length ordered) else offset);
          end' = wrap64 (offset' + take')
      in go_slice ordered offset' (if int (length ordered) < end' then int (length ordered) else end'))"

text \<open>The result is None when the slice expression panics.\<close>

definition list_sop_notifications ::
  "uuid \<Rightarrow> int \<Rightarrow> int \<Rightarrow> string \<Rightarrow> (notification list \<times> int) option io" where
  "list_sop_notifications accountID offset take' appId =
     bindM (get_replay_notifications accountID) (\<lambda>replayed.
     bindM (getM apps_of) (\<lambda>apps.
     bindM (list_notifications_for_sop accountID (Some (resolve_app_id apps appId True))
         (Some (get_default_app_id apps)) offset take' (int (length replayed)) (replay_ids replayed))
       (\<lambda>(stored, total, duplicate).
     let ordered = sort_desc CreatedAt (map snd (merge_feed replayed stored))
     in ret (map_option (\<lambda>page. (page, total + int (length replayed) - duplicate))
          (sop_page ordered offset take')))))"

section \<open>The other operations\<close>

definition remove_sop_replay_notifications :: "uuid \<Rightarrow> uuid list \<Rightarrow> unit io" where
  "remove_sop_replay_notifications accountID ids = remove_notifications accountID ids"

definition mark_sop_delivery_read_async :: "uuid \<Rightarrow> uuid list \<Rightarrow> unit io" where
  "mark_sop_delivery_read_async subscriptionID ids = mark_sop_delivery_read subscriptionID ids"

definition save_notification :: "notification \<Rightarrow> unit io" where
  "save_notification n = store_save_notification n"

definition account_copy :: "notification \<Rightarrow> uuid \<Rightarrow> uuid \<Rightarrow> notification" where
  "account_copy n i account =
     \<lparr>Id = i, CreatedAt = CreatedAt n, UpdatedAt = UpdatedAt n, DeletedAt = None,
      ntf_Topic = ntf_Topic n, ntf_Title = ntf_Title n, ntf_Subtitle = ntf_Subtitle n,
      ntf_Content = ntf_Content n, ntf_Meta = ntf_Meta n, ntf_Priority = ntf_Priority n,
      ntf_ViewedAt = None, ntf_AppId = None, ntf_PushType = None, ntf_AccountId = account\<rparr>"

definition save_notification_batch :: "notification \<Rightarrow> uuid list \<Rightarrow> unit io" where
  "save_notification_batch n accounts =
     bindM (mapM (\<lambda>account. bindM uuid_new (\<lambda>i. ret (account_copy n i account))) accounts)
       batch_insert_notifications"

section \<open>Merging\<close>

definition the_newest :: "notification option \<Rightarrow> notification option \<Rightarrow> notification option" where
  "the_newest replayed stored =
     (case (replayed, stored) of
        (Some r, Some s) \<Rightarrow> if CreatedAt r < CreatedAt s then Some s else Some r
      | (Some r, None) \<Rightarrow> Some r
      | (None, s) \<Rightarrow> s)"

lemma distinct_merge_newer: "distinct (map fst m) \<Longrightarrow> distinct (map fst (merge_newer m n))"
  by (auto simp: merge_newer_def distinct_update split: option.splits)

lemma distinct_foldl_newer: "distinct (map fst m) \<Longrightarrow> distinct (map fst (foldl merge_newer m ns))"
  by (induction ns arbitrary: m) (simp_all add: distinct_merge_newer)

lemma distinct_merge_replay_from:
  "distinct (map fst m) \<Longrightarrow> distinct (map fst (foldl (\<lambda>m n. AList.update (Id n) n m) m ns))"
  by (induction ns arbitrary: m) (simp_all add: distinct_update)

lemma distinct_merge_feed: "distinct (map fst (merge_feed replayed stored))"
  unfolding merge_feed_def merge_replay_def
  by (intro distinct_foldl_newer distinct_merge_replay_from) simp

lemma map_of_merge_newer:
  "map_of (merge_newer m n) i = (if i = Id n then the_newest (map_of m i) (Some n) else map_of m i)"
  by (auto simp: merge_newer_def the_newest_def update_conv' split: option.splits)

abbreviation by_id :: "('a notification_scheme) list \<Rightarrow> uuid \<Rightarrow> ('a notification_scheme) option" where
  "by_id ns \<equiv> map_of (map (\<lambda>n. (Id n, n)) ns)"

lemma map_of_foldl_newer:
  "distinct (map Id ns) \<Longrightarrow>
     map_of (foldl merge_newer m ns) i = the_newest (map_of m i) (by_id ns i)"
proof (induction ns arbitrary: m)
  case Nil
  then show ?case by (simp add: the_newest_def split: option.splits)
next
  case (Cons n ns)
  then have "by_id ns (Id n) = None"
    by (simp add: map_of_eq_None_iff image_image)
  with Cons show ?case
    by (auto simp: map_of_merge_newer the_newest_def split: option.splits)
qed

lemma map_of_merge_replay_from:
  "distinct (map Id ns) \<Longrightarrow>
     map_of (foldl (\<lambda>m n. AList.update (Id n) n m) m ns) i
       = (case by_id ns i of None \<Rightarrow> map_of m i | Some n \<Rightarrow> Some n)"
proof (induction ns arbitrary: m)
  case (Cons n ns)
  then have "by_id ns (Id n) = None"
    by (simp add: map_of_eq_None_iff image_image)
  with Cons show ?case
    by (auto simp: update_conv' split: option.splits)
qed simp

lemma map_of_merge_feed:
  assumes "distinct (map Id replayed)" and "distinct (map Id stored)"
  shows "map_of (merge_feed replayed stored) i = the_newest (by_id replayed i) (by_id stored i)"
  using assms by (simp add: merge_feed_def merge_replay_def map_of_foldl_newer map_of_merge_replay_from)
    (simp split: option.split)

end
