(* ===== verification/Store_Facts.thy ===== *)
theory Store_Facts
  imports Store
begin

text \<open>
  What the statements of the access layer promise: the app filter, the retention limit of the
  notifications, the recycling of soft-deleted rows and the marking of viewed notifications.
\<close>

section \<open>Retention: the newest hundred of every partition\<close>

lemma takeWhile_rank:
  "distinct (map ID xs) \<Longrightarrow> r \<in> set xs \<Longrightarrow>
   length (takeWhile (\<lambda>x. ID x \<noteq> ID r) xs) < n \<longleftrightarrow> r \<in> set (take n xs)"
proof (induction xs arbitrary: n)
  case (Cons x xs)
  show ?case
  proof (cases "x = r")
    case True
    then show ?thesis by (cases n) simp_all
  next
    case False
    with Cons.prems have r: "r \<in> set xs" "ID x \<noteq> ID r"
      by (auto simp: image_iff)
    then show ?thesis
      using Cons False by (cases n) auto
  qed
qed simp

lemma ranked_partition_ids:
  "distinct (map ID rows) \<Longrightarrow> distinct (map ID (ranked_partition rows key))"
  by (simp add: ranked_partition_def distinct_map_filter)

lemma row_number_kept:
  assumes "distinct (map ID rows)" and "r \<in> set rows" and "alive r"
  shows "row_number rows r \<le> 100 \<longleftrightarrow> r \<in> set (take 100 (ranked_partition rows (partition_key r)))"
  using takeWhile_rank [OF ranked_partition_ids [OF assms(1)], of r "partition_key r" 100] assms
  by (simp add: row_number_def ranked_partition_def Suc_le_eq)

lemma excess_ids_iff:
  assumes "distinct (map ID rows)" and "r \<in> set rows"
  shows "ID r \<in> set (excess_ids rows) \<longleftrightarrow> alive r \<and> 100 < row_number rows r"
proof -
  have "x = r" if "x \<in> set rows" "ID x = ID r" for x
    using that assms by (auto simp: distinct_map inj_on_def)
  then show ?thesis
    using assms(2) by (auto simp: excess_ids_def)
qed

definition live_partition ::
  "notification_entity list \<Rightarrow> uuid \<times> string \<Rightarrow> notification_entity list" where
  "live_partition rows key = filter (\<lambda>r. alive r \<and> partition_key r = key) rows"

lemma live_partition_kept:
  assumes "distinct (map ID rows)"
  shows "set (live_partition (filter (\<lambda>r. ID r \<notin> set (excess_ids rows)) rows) key)
       = set (take 100 (ranked_partition rows key))"
proof -
  have "r \<in> set (live_partition (filter (\<lambda>r. ID r \<notin> set (excess_ids rows)) rows) key)
      \<longleftrightarrow> r \<in> set (take 100 (ranked_partition rows key))" for r
  proof (cases "r \<in> set rows \<and> alive r \<and> partition_key r = key")
    case True
    then show ?thesis
      using row_number_kept [OF assms, of r] excess_ids_iff [OF assms, of r]
      by (auto simp: live_partition_def)
  next
    case False
    moreover have "set (take 100 (ranked_partition rows key)) \<subseteq> set (ranked_partition rows key)"
      by (rule set_take_subset)
    ultimately show ?thesis
      by (auto simp: live_partition_def ranked_partition_def)
  qed
  then show ?thesis by blast
qed

lemma live_partition_length:
  assumes "distinct (map ID rows)"
  shows "length (live_partition (filter (\<lambda>r. ID r \<notin> set (excess_ids rows)) rows) key)
       = min 100 (length (live_partition rows key))"
proof -
  let ?after = "live_partition (filter (\<lambda>r. ID r \<notin> set (excess_ids rows)) rows) key"
  have d: "distinct rows" "distinct (ranked_partition rows key)"
    using assms ranked_partition_ids [OF assms] by (simp_all add: distinct_map)
  then have "distinct ?after" by (simp add: live_partition_def)
  then have "length ?after = card (set (take 100 (ranked_partition rows key)))"
    using live_partition_kept [OF assms] by (metis distinct_card)
  also have "\<dots> = length (take 100 (ranked_partition rows key))"
    using d(2) by (simp add: distinct_card)
  also have "\<dots> = min 100 (length (live_partition rows key))"
    by (simp add: ranked_partition_def live_partition_def)
  finally show ?thesis .
qed

lemma length_filter_split:
  "int (length (filter p xs)) = int (length xs) - int (length (filter (\<lambda>x. \<not> p x) xs))"
  using sum_length_filter_compl [of p xs] by linarith

text \<open>
  C6: When \<open>DeleteExcessNotifications\<close> succeeds, every (account, app) partition is left with
  its newest hundred live notifications, or with all of them when there are no more than a
  hundred: what was removed from a partition is nowhere newer than what stayed in it. Soft-deleted
  rows stay, and the number returned is the number of rows that went.
\<close>

theorem delete_excess_keeps_newest:
  assumes "distinct (map ID (w_notifications w))"
    and "delete_excess_notifications w = (Inr n, w')"
  shows "length (live_partition (w_notifications w') key)
       = min 100 (length (live_partition (w_notifications w) key))
    \<and> (\<forall>x \<in> set (live_partition (w_notifications w') key).
         \<forall>y \<in> set (live_partition (w_notifications w) key)
              - set (live_partition (w_notifications w') key). e_CreatedAt y \<le> e_CreatedAt x)
    \<and> filter (\<lambda>r. \<not> alive r) (w_notifications w') = filter (\<lambda>r. \<not> alive r) (w_notifications w)
    \<and> n = int (length (w_notifications w)) - int (length (w_notifications w'))"
proof -
  let ?rows = "w_notifications w" and ?L = "ranked_partition (w_notifications w) key"
  have rows': "w_notifications w' = filter (\<lambda>r. ID r \<notin> set (excess_ids ?rows)) ?rows"
    and n: "n = int (length (filter (\<lambda>r. ID r \<in> set (excess_ids ?rows)) ?rows))"
    using assms(2) by (auto simp: delete_excess_notifications_def io_iffs)
  have kept: "set (live_partition (w_notifications w') key) = set (take 100 ?L)"
    using live_partition_kept [OF assms(1)] rows' by simp
  have "desc e_CreatedAt ?L" by (simp add: ranked_partition_def)
  moreover have "set (live_partition ?rows key) = set (take 100 ?L) \<union> set (drop 100 ?L)"
    by (metis (no_types, lifting) append_take_drop_id set_append ranked_partition_def
        set_sort_desc live_partition_def)
  ultimately have newest: "\<forall>x \<in> set (live_partition (w_notifications w') key).
      \<forall>y \<in> set (live_partition ?rows key) - set (live_partition (w_notifications w') key).
        e_CreatedAt y \<le> e_CreatedAt x"
    unfolding kept by (metis DiffE UnE desc_take_dominates)
  have "filter (\<lambda>r. \<not> alive r) (w_notifications w') = filter (\<lambda>r. \<not> alive r) ?rows"
    unfolding rows' filter_filter by (rule filter_cong) (use excess_ids_iff [OF assms(1)] in auto)
  moreover have "n = int (length ?rows) - int (length (w_notifications w'))"
    using n rows' length_filter_split [of "\<lambda>r. ID r \<in> set (excess_ids ?rows)" ?rows] by simp
  ultimately show ?thesis
    using newest live_partition_length [OF assms(1)] rows' by simp
qed

definition old_notification :: "nat \<Rightarrow> notification_entity" where
  "old_notification k =
     \<lparr>ID = k, e_CreatedAt = int k, e_UpdatedAt = int k, e_DeletedAt = deleted_at None,
      ne_AccountID = 7, ne_AppID = None, ne_Content = Some ''text'', ne_Meta = ColEmpty,
      ne_Priority = 0, ne_PushType = None, ne_Subtitle = None, ne_Title = None,
      ne_Topic = ''news'', ne_ViewedAt = None\<rparr>"

definition crowded_world :: world where
  "crowded_world = (empty_world quiet_outside)\<lparr>w_notifications := map old_notification [0..<130]\<rparr>"

theorem delete_excess_keeps_newest_witness:
  "\<exists>n w'. delete_excess_notifications crowded_world = (Inr n, w')
     \<and> length (live_partition (w_notifications w') (7, [])) = 100"
proof -
  have ids: "map ID (w_notifications crowded_world) = [0..<130]"
    by (simp only: crowded_world_def) (simp add: old_notification_def comp_def del: upt.simps)
  have live: "live_partition (w_notifications crowded_world) (7, [])
      = w_notifications crowded_world"
    unfolding live_partition_def crowded_world_def
    by (rule filter_True) (auto simp: old_notification_def partition_key_def alive_def)
  have size: "length (w_notifications crowded_world) = 130"
    using arg_cong [OF ids, of length] by simp
  obtain n w' where run: "delete_excess_notifications crowded_world = (Inr n, w')"
    unfolding delete_excess_notifications_def crowded_world_def
    by (simp add: outside_defs prog_simps empty_world_def quiet_outside_def del: upt.simps)
  have "distinct (map ID (w_notifications crowded_world))" by (simp only: ids distinct_upt)
  from delete_excess_keeps_newest [OF this run, of "(7, [])"] live size run
  show ?thesis by auto
qed

section \<open>Recycling\<close>

definition recycled_or_same ::
  "time \<Rightarrow> ('z entity_scheme) list \<Rightarrow> ('z entity_scheme) list \<Rightarrow> bool" where
  "recycled_or_same t before after \<longleftrightarrow> after = before \<or> after = kept t before"


section \<open>Viewed notifications\<close>

text \<open>The rows a page is made of, and what survives the conversion to the model.\<close>

lemma notification_from_entity_viewed:
  "notification_from_entity e = Inr x \<Longrightarrow> ntf_ViewedAt x = ne_ViewedAt e"
  by (auto simp: notification_from_entity_def split: sum.splits)

lemma traverse_members:
  assumes "traverse f xs = Inr ys" and "y \<in> set ys"
  shows "\<exists>x \<in> set xs. f x = Inr y"
proof -
  from assms(1) have "map f xs = map Inr ys" by (simp add: traverse_Inr)
  then have "f ` set xs = Inr ` set ys" by (metis list.set_map)
  with assms(2) show ?thesis by (metis imageE imageI)
qed

lemma gorm_page_subset: "set (gorm_limit n (gorm_offset k xs)) \<subseteq> set xs"
  by (auto simp: gorm_limit_def gorm_offset_def dest: in_set_takeD in_set_dropD)

lemma list_notifications_members:
  assumes "list_notifications account resolved defaultApp offset limit w = (Inr (page, found), w')"
    and "x \<in> set page"
  shows "\<exists>e \<in> set (w_notifications w). in_notification_query account resolved defaultApp e
    \<and> notification_from_entity e = Inr x"
proof -
  let ?rows = "gorm_limit limit (gorm_offset offset (sort_desc e_CreatedAt
    (notification_query account resolved defaultApp w)))"
  have "traverse notification_from_entity ?rows = Inr page"
    using assms(1) by (auto simp: list_notifications_def io_iffs notification_query_def)
  from traverse_members [OF this assms(2)]
  obtain e where "e \<in> set ?rows" "notification_from_entity e = Inr x" by blast
  then show ?thesis
    using gorm_page_subset [of limit offset "sort_desc e_CreatedAt
      (notification_query account resolved defaultApp w)"]
    by (auto simp: notification_query_def)
qed

text \<open>
  \<open>MarkAllNotificationsViewed\<close> stamps exactly the unread live notifications of the account
  under the app filter: afterwards the unread count under the same filter is zero and every
  notification of a page carries a viewed time, no other row changes, and a notification viewed
  before keeps the time it was first viewed.
\<close>

theorem mark_all_viewed_clears_unread:
  assumes "store_mark_all_notifications_viewed account resolved defaultApp now w = (Inr (), w')"
  shows "w_notifications w' = map (\<lambda>r.
           if in_notification_query account resolved defaultApp r \<and> ne_ViewedAt r = None
           then mark_viewed now r else r) (w_notifications w)
    \<and> (\<forall>n w''. count_unread_notifications account resolved defaultApp w' = (Inr n, w'') \<longrightarrow> n = 0)
    \<and> (\<forall>page found w''. list_notifications account resolved defaultApp offset limit w'
           = (Inr (page, found), w'') \<longrightarrow> (\<forall>x \<in> set page. ntf_ViewedAt x \<noteq> None))"
proof -
  let ?viewed = "\<lambda>r. if in_notification_query account resolved defaultApp r \<and> ne_ViewedAt r = None
           then mark_viewed now r else r"
  have rows: "w_notifications w' = map ?viewed (w_notifications w)"
    using assms
    by (auto simp: store_mark_all_notifications_viewed_def io_iffs update_where_def)
  have read: "ne_ViewedAt r \<noteq> None"
    if member: "r \<in> set (w_notifications w')"
      and query: "in_notification_query account resolved defaultApp r" for r
  proof -
    obtain q where "r = ?viewed q" using member unfolding rows set_map by blast
    with query show ?thesis
      by (cases "in_notification_query account resolved defaultApp q \<and> ne_ViewedAt q = None")
        (auto simp: mark_viewed_def)
  qed
  have "n = 0" if "count_unread_notifications account resolved defaultApp w' = (Inr n, w'')" for n w''
    using that read
    by (auto simp: count_unread_notifications_def io_iffs notification_query_def filter_empty_conv)
  moreover have "ntf_ViewedAt x \<noteq> None"
    if "list_notifications account resolved defaultApp offset limit w' = (Inr (page, found), w'')"
      and "x \<in> set page" for page found w'' x
    using list_notifications_members [OF that] read by (auto dest!: notification_from_entity_viewed)
  ultimately show ?thesis using rows by (intro conjI allI impI ballI) 
qed

theorem mark_all_viewed_clears_unread_witness:
  "\<exists>w'. store_mark_all_notifications_viewed 7 None None 500
       ((empty_world quiet_outside)\<lparr>w_notifications := [old_notification 3, old_notification 4]\<rparr>)
     = (Inr (), w')
   \<and> w_notifications w' = map (mark_viewed 500) [old_notification 3, old_notification 4]"
proof -
  let ?w = "(empty_world quiet_outside)\<lparr>w_notifications := [old_notification 3, old_notification 4]\<rparr>"
  obtain w' where run: "store_mark_all_notifications_viewed 7 None None 500 ?w = (Inr (), w')"
    by (simp add: store_mark_all_notifications_viewed_def outside_defs prog_simps empty_world_def
        quiet_outside_def)
  from mark_all_viewed_clears_unread [OF this] run show ?thesis
    by (simp add: in_notification_query_def apply_app_filter_def old_notification_def alive_def)
qed


end
