(* ===== verification/Sop_Facts.thy ===== *)
theory Sop_Facts
  imports Sop Store_Facts
begin

text \<open>
  What the page of \<open>ListSopNotifications\<close> is: a slice of the whole feed, although the database is
  asked only for as many rows as the page can need.
\<close>

section \<open>The abstract feed\<close>

text \<open>The feed holds for every id the newer of its two copies, the replayed one when they are as old.\<close>

definition in_feed :: "notification list \<Rightarrow> notification list \<Rightarrow> notification \<Rightarrow> bool" where
  "in_feed replayed stored n \<longleftrightarrow>
     the_newest (by_id replayed (Id n)) (by_id stored (Id n)) = Some n"

definition newest_first :: "notification list \<Rightarrow> notification list \<Rightarrow> notification list \<Rightarrow> bool" where
  "newest_first replayed stored feed \<longleftrightarrow>
     set feed = Collect (in_feed replayed stored) \<and> distinct (map Id feed) \<and> desc CreatedAt feed"

abbreviation feed_copies :: "notification list \<Rightarrow> notification list \<Rightarrow> notification list" where
  "feed_copies replayed stored \<equiv> map snd (merge_feed replayed stored)"

lemma by_id_Id: "by_id ns i = Some n \<Longrightarrow> Id n = i \<and> n \<in> set ns"
  by (auto dest!: map_of_SomeD)

lemma by_id_Some: "distinct (map Id ns) \<Longrightarrow> n \<in> set ns \<Longrightarrow> by_id ns (Id n) = Some n"
  by (auto intro!: map_of_is_SomeI simp: comp_def)

lemma by_id_None: "by_id ns i = None \<longleftrightarrow> i \<notin> Id ` set ns"
  by (simp add: map_of_eq_None_iff image_image)

lemma the_newest_Id: "the_newest (by_id r i) (by_id s i) = Some n \<Longrightarrow> Id n = i"
  by (auto simp: the_newest_def split: option.splits if_splits dest!: by_id_Id)

lemma merged_entry:
  assumes "distinct (map Id replayed)" "distinct (map Id stored)"
  shows "(i, n) \<in> set (merge_feed replayed stored) \<longleftrightarrow> i = Id n \<and> in_feed replayed stored n"
proof -
  have "(i, n) \<in> set (merge_feed replayed stored) \<longleftrightarrow> map_of (merge_feed replayed stored) i = Some n"
    using distinct_merge_feed by (simp add: map_of_eq_Some_iff)
  then show ?thesis
    unfolding map_of_merge_feed [OF assms] in_feed_def by (auto dest: the_newest_Id)
qed

lemma set_feed_copies:
  "distinct (map Id replayed) \<Longrightarrow> distinct (map Id stored)
   \<Longrightarrow> set (feed_copies replayed stored) = Collect (in_feed replayed stored)"
  using merged_entry by (force simp: image_iff)

lemma map_Id_feed_copies:
  "distinct (map Id replayed) \<Longrightarrow> distinct (map Id stored)
   \<Longrightarrow> map Id (feed_copies replayed stored) = map fst (merge_feed replayed stored)"
  using merged_entry by (auto simp: comp_def)

lemma distinct_feed_copies:
  "distinct (map Id replayed) \<Longrightarrow> distinct (map Id stored) \<Longrightarrow> distinct (map Id (feed_copies replayed stored))"
  by (simp only: map_Id_feed_copies distinct_merge_feed)

lemma length_feed_copies:
  assumes "distinct (map Id replayed)" "distinct (map Id stored)"
  shows "length (feed_copies replayed stored) = card (Id ` set replayed \<union> Id ` set stored)"
proof -
  have "fst ` set (merge_feed replayed stored) = {i. map_of (merge_feed replayed stored) i \<noteq> None}"
    by (simp add: map_of_eq_None_iff)
  also have "\<dots> = Id ` set replayed \<union> Id ` set stored"
    unfolding map_of_merge_feed [OF assms]
    by (auto simp: the_newest_def by_id_None [symmetric] split: option.splits) (auto simp: by_id_None)
  finally show ?thesis
    using distinct_card [OF distinct_merge_feed [of replayed stored]] by simp
qed

section \<open>Cutting the database off\<close>

lemma desc_map: "desc k xs = desc (\<lambda>x. x) (map k xs)"
  by (simp add: desc_def sorted_wrt_map)

lemma top_dominates:
  assumes "m \<le> length (filter (\<lambda>y. c \<le> k y) xs)" and "x \<in> set (take m (sort_desc k xs))"
  shows "c \<le> k x"
proof (rule ccontr)
  assume low: "\<not> c \<le> k x"
  let ?ys = "sort_desc k xs"
  from assms(2) obtain j where j: "j < m" "j < length ?ys" "x = ?ys ! j"
    by (auto simp: in_set_conv_nth)
  have "filter (\<lambda>y. c \<le> k y) (drop j ?ys) = []"
  proof -
    have "k y \<le> k x" if "y \<in> set (drop j ?ys)" for y
    proof -
      from that obtain i where "i < length ?ys - j" "y = ?ys ! (j + i)"
        by (auto simp: in_set_conv_nth)
      then show ?thesis
        using desc_sort_desc [of k xs] j unfolding desc_def sorted_wrt_iff_nth_less
        by (cases "i = 0") auto
    qed
    with low have "\<not> c \<le> k y" if "y \<in> set (drop j ?ys)" for y
      using that by (meson order_trans)
    then show ?thesis by (simp add: filter_empty_conv)
  qed
  then have "filter (\<lambda>y. c \<le> k y) ?ys = filter (\<lambda>y. c \<le> k y) (take j ?ys)"
    by (metis append_Nil2 append_take_drop_id filter_append)
  then have "length (filter (\<lambda>y. c \<le> k y) ?ys) \<le> j"
    by (metis length_filter_le length_take min.bounded_iff)
  moreover have "length (filter (\<lambda>y. c \<le> k y) ?ys) = length (filter (\<lambda>y. c \<le> k y) xs)"
    by (metis mset_filter mset_sort_desc size_mset)
  ultimately show False using assms(1) j(1) by simp
qed

text \<open>
  The page is cut from the first \<open>m\<close> notifications of the merge; with \<open>m\<close> more rows than there are
  replayed notifications, these first \<open>m\<close> are those of the merge with all rows.
\<close>

lemma the_newest_stored: "\<exists>n. the_newest r (Some s) = Some n \<and> CreatedAt s \<le> CreatedAt n"
  by (cases r) (auto simp: the_newest_def)

lemma by_id_append:
  "by_id (xs @ ys) i = (case by_id xs i of None \<Rightarrow> by_id ys i | Some n \<Rightarrow> Some n)"
  by (simp add: map_add_def)

lemma by_id_cut:
  assumes "distinct (map Id all)"
  shows "by_id (drop N all) i = None \<and> by_id all i = by_id (take N all) i
    \<or> by_id (take N all) i = None \<and> by_id all i = by_id (drop N all) i"
proof -
  have "distinct (map Id (take N all) @ map Id (drop N all))"
    using assms by (metis append_take_drop_id map_append)
  then have "by_id (take N all) i = None \<or> by_id (drop N all) i = None"
    unfolding by_id_None by auto
  then show ?thesis
    using by_id_append [of "take N all" "drop N all" i] by (auto split: option.splits)
qed

lemma stored_rows_dominate:
  assumes "distinct (map Id replayed)" "distinct (map Id all)" "desc CreatedAt all"
    and "m + length replayed \<le> N" and "y \<in> set (drop N all)"
  shows "m \<le> length (filter (\<lambda>x. CreatedAt y \<le> CreatedAt x) (feed_copies replayed (take N all)))"
proof -
  let ?A = "feed_copies replayed (take N all)" and ?hi = "\<lambda>x. CreatedAt y \<le> CreatedAt x"
  have ids: "distinct (map Id (take N all))"
    using assms(2) by (simp add: take_map [symmetric])
  from assms(5) have len: "length (take N all) = N" by (cases "N \<le> length all") auto
  have sub: "Id ` set (take N all) \<subseteq> Id ` set (filter ?hi ?A)"
  proof
    fix i assume "i \<in> Id ` set (take N all)"
    then obtain r where r: "r \<in> set (take N all)" "i = Id r" by blast
    then have r': "by_id (take N all) i = Some r" using by_id_Some [OF ids] by simp
    have old: "CreatedAt y \<le> CreatedAt r" using desc_take_dominates [OF assms(3) r(1) assms(5)] .
    obtain n where n: "the_newest (by_id replayed i) (by_id (take N all) i) = Some n"
        "CreatedAt r \<le> CreatedAt n"
      using the_newest_stored unfolding r' by blast
    then have "Id n = i" by (blast dest: the_newest_Id)
    with n have "n \<in> set ?A" unfolding set_feed_copies [OF assms(1) ids] in_feed_def by simp
    with n old \<open>Id n = i\<close> show "i \<in> Id ` set (filter ?hi ?A)" by force
  qed
  have "N = card (Id ` set (take N all))"
    using ids len by (metis distinct_card length_map set_map)
  also have "\<dots> \<le> card (Id ` set (filter ?hi ?A))" by (rule card_mono [OF _ sub]) simp
  also have "\<dots> \<le> length (filter ?hi ?A)"
    by (rule order_trans [OF card_image_le card_length]) simp
  finally show ?thesis using assms(4) by simp
qed

definition feed_top :: "nat \<Rightarrow> nat \<Rightarrow> notification list \<Rightarrow> notification list \<Rightarrow> notification list" where
  "feed_top m N replayed all = take m (sort_desc CreatedAt (feed_copies replayed (take N all)))"

lemma top_in_copies: "x \<in> set (feed_top m N replayed all) \<Longrightarrow> x \<in> set (feed_copies replayed (take N all))"
  unfolding feed_top_def by (drule in_set_takeD) simp

lemma top_above_cut:
  assumes "distinct (map Id replayed)" "distinct (map Id all)" "desc CreatedAt all"
    and "m + length replayed \<le> N"
    and "y \<in> set (drop N all)" "x \<in> set (feed_top m N replayed all)"
  shows "CreatedAt y \<le> CreatedAt x"
  using top_dominates [OF stored_rows_dominate [OF assms(1-5)]] assms(6) unfolding feed_top_def .

lemma top_in_feed:
  assumes "distinct (map Id replayed)" "distinct (map Id all)" "desc CreatedAt all"
    and "m + length replayed \<le> N" and "x \<in> set (feed_top m N replayed all)"
  shows "in_feed replayed all x"
proof -
  have ids: "distinct (map Id (take N all))"
    using assms(2) by (simp add: take_map [symmetric])
  have x: "the_newest (by_id replayed (Id x)) (by_id (take N all) (Id x)) = Some x"
    using top_in_copies [OF assms(5)] unfolding set_feed_copies [OF assms(1) ids] in_feed_def by simp
  show ?thesis
  proof (cases "by_id (drop N all) (Id x)")
    case None
    then have "by_id all (Id x) = by_id (take N all) (Id x)"
      using by_id_cut [OF assms(2), of N "Id x"] by auto
    with x show ?thesis unfolding in_feed_def by (simp only:)
  next
    case (Some y)
    then have "CreatedAt y \<le> CreatedAt x" using top_above_cut [OF assms(1-4) _ assms(5)] by_id_Id by blast
    with by_id_cut [OF assms(2), of N "Id x"] x Some show ?thesis
      by (auto simp: in_feed_def the_newest_def split: option.splits)
  qed
qed

lemma top_above_rest:
  assumes "distinct (map Id replayed)" "distinct (map Id all)" "desc CreatedAt all"
    and "m + length replayed \<le> N"
    and "in_feed replayed all y" "y \<notin> set (feed_top m N replayed all)"
    and "x \<in> set (feed_top m N replayed all)"
  shows "CreatedAt y \<le> CreatedAt x"
proof -
  let ?A = "feed_copies replayed (take N all)"
  have ids: "distinct (map Id (take N all))"
    using assms(2) by (simp add: take_map [symmetric])
  have "y \<in> set ?A \<or> y \<in> set (drop N all)"
    using by_id_cut [OF assms(2), of N "Id y"] assms(5) unfolding set_feed_copies [OF assms(1) ids]
    by (auto simp: in_feed_def the_newest_def split: option.splits if_splits
        dest: by_id_Id by_id_Id [OF sym])
  moreover have "y \<in> set (drop m (sort_desc CreatedAt ?A))" if "y \<in> set ?A"
    using that assms(6) unfolding feed_top_def by (metis UnE append_take_drop_id set_append set_sort_desc)
  ultimately show ?thesis
    using top_above_cut [OF assms(1-4) _ assms(7)]
      desc_take_dominates [OF desc_sort_desc assms(7) [unfolded feed_top_def]] by blast
qed

lemma page_of_feed:
  assumes "distinct (map Id replayed)" "distinct (map Id all)" "desc CreatedAt all"
    and "m + length replayed \<le> N"
  shows "\<exists>feed. newest_first replayed all feed \<and> take m feed = feed_top m N replayed all"
proof -
  let ?T = "feed_top m N replayed all" and ?B = "feed_copies replayed all"
  let ?rest = "sort_desc CreatedAt (filter (\<lambda>n. n \<notin> set ?T) ?B)"
  have ids: "distinct (map Id (take N all))"
    using assms(2) by (simp add: take_map [symmetric])
  note B = set_feed_copies [OF assms(1,2)]
  have rest: "set ?rest = {n. in_feed replayed all n \<and> n \<notin> set ?T}"
    using B by auto
  have "set (?T @ ?rest) = Collect (in_feed replayed all)"
    unfolding set_append rest using top_in_feed [OF assms] by auto
  moreover have "distinct (map Id (?T @ ?rest))"
  proof -
    have "Id ` set ?T \<inter> Id ` set ?rest = {}"
    proof -
      have False if "x \<in> set ?T" "y \<in> set ?rest" "Id x = Id y" for x y
      proof -
        have "in_feed replayed all y" "y \<notin> set ?T" using that(2) unfolding rest by simp_all
        with top_in_feed [OF assms that(1)] have "x = y" unfolding in_feed_def that(3) by simp
        with that(1) \<open>y \<notin> set ?T\<close> show False by simp
      qed
      then show ?thesis by blast
    qed
    moreover have "distinct (map Id ?T)"
      unfolding feed_top_def take_map [symmetric]
      by (intro distinct_take) (simp only: distinct_map_sort_desc distinct_feed_copies [OF assms(1) ids])
    moreover have "distinct (map Id ?rest)"
      unfolding distinct_map_sort_desc by (intro distinct_map_filter distinct_feed_copies assms)
    ultimately show ?thesis unfolding map_append distinct_append set_map by blast
  qed
  moreover have "desc CreatedAt (?T @ ?rest)"
  proof -
    have "desc CreatedAt ?T" "desc CreatedAt ?rest"
      unfolding feed_top_def by (intro desc_take desc_sort_desc)+
    moreover have "CreatedAt y \<le> CreatedAt x" if "x \<in> set ?T" "y \<in> set ?rest" for x y
      using top_above_rest [OF assms _ _ that(1)] that(2) unfolding rest by blast
    ultimately show ?thesis unfolding desc_def sorted_wrt_append by blast
  qed
  moreover have "take m (?T @ ?rest) = ?T"
  proof (cases "m \<le> length (feed_copies replayed (take N all))")
    case False
    then have "drop N all = []"
      using stored_rows_dominate [OF assms] length_filter_le order_trans
      by (metis list.set_intros(1) neq_Nil_conv)
    then have "take N all = all" by simp
    with False have "?rest = []" by (auto simp: sort_desc_def feed_top_def)
    then show ?thesis by (simp add: feed_top_def)
  qed (simp add: feed_top_def)
  ultimately show ?thesis unfolding newest_first_def by blast
qed

lemma newest_first_length:
  assumes "distinct (map Id replayed)" "distinct (map Id stored)" "newest_first replayed stored feed"
  shows "length feed = card (Id ` set replayed \<union> Id ` set stored)"
proof -
  have "distinct feed" "set feed = set (feed_copies replayed stored)"
    using assms(3) by (auto simp: newest_first_def distinct_map set_feed_copies [OF assms(1,2)] simp del: set_map)
  moreover have "distinct (feed_copies replayed stored)"
    using distinct_feed_copies [OF assms(1,2)] by (metis distinct_map)
  ultimately show ?thesis
    using length_feed_copies [OF assms(1,2)] by (metis distinct_card)
qed

section \<open>The listing\<close>

lemma sop_page_slice:
  assumes "0 \<le> offset" "0 \<le> take'" "offset + take' \<le> 9223372036854775807"
  shows "sop_page xs offset take' = Some (take (nat take') (drop (nat offset) xs))"
proof -
  let ?o = "if int (length xs) < offset then int (length xs) else offset"
  have w: "wrap64 (?o + take') = ?o + take'" by (rule wrap64_id) (use assms in auto)
  show ?thesis
    unfolding sop_page_def Let_def w go_slice_def using assms
    by (auto simp: nat_add_distrib min_def)
qed

text \<open>The replayed notifications a listing sees, and the rows of the account under the app filter.\<close>

definition seen_replay :: "uuid \<Rightarrow> world \<Rightarrow> notification list" where
  "seen_replay accountID w = (if o_cached (w_outside w) (w_tick w) then replay_of w accountID else [])"

definition account_rows :: "uuid \<Rightarrow> string \<Rightarrow> world \<Rightarrow> notification_entity list" where
  "account_rows accountID appId w = sort_desc e_CreatedAt
     (notification_query accountID (Some (resolve_app_id (apps_of w) appId True))
       (Some (get_default_app_id (apps_of w))) w)"

lemma set_replay_ids [simp]: "set (replay_ids ns) = Id ` set ns"
  by (simp add: replay_ids_def)

lemma get_replay_Inr:
  "get_replay_notifications a w = (Inr xs, w') \<Longrightarrow> xs = seen_replay a w
     \<and> w_notifications w' = w_notifications w \<and> w_outside w' = w_outside w"
  by (auto simp: get_replay_notifications_def io_iffs seen_replay_def replay_of_def split: if_splits)

lemma list_for_sop_Inr:
  assumes "list_notifications_for_sop a app dflt offset take' n ids w = (Inr (items, found, duplicate), w')"
  shows "traverse notification_from_entity (gorm_limit (wrap64 (offset + take' + n))
        (sort_desc e_CreatedAt (notification_query a app dflt w))) = Inr items
    \<and> found = int (length (notification_query a app dflt w))
    \<and> duplicate = int (length (filter (\<lambda>r. ID r \<in> set ids) (notification_query a app dflt w)))"
  using assms by (auto simp: list_notifications_for_sop_def io_iffs notification_query_def split: if_splits)

lemma row_of_notification: "notification_from_entity e = Inr n \<Longrightarrow> Id n = ID e \<and> CreatedAt n = e_CreatedAt e"
  by (auto simp: notification_from_entity_def split: sum.splits)

lemma traverse_rows:
  assumes "traverse notification_from_entity rows = Inr ns"
  shows "map Id ns = map ID rows \<and> map CreatedAt ns = map e_CreatedAt rows
    \<and> traverse notification_from_entity (take k rows) = Inr (take k ns)"
proof -
  have "list_all2 (\<lambda>e n. notification_from_entity e = Inr n) rows ns"
    using assms unfolding traverse_Inr
    by (simp add: list_all2_conv_all_nth) (metis length_map nth_map)
  then have "list_all2 (\<lambda>e n. Id n = ID e \<and> CreatedAt n = e_CreatedAt e) rows ns"
    by (rule list_all2_mono) (rule row_of_notification)
  then have "map Id ns = map ID rows" "map CreatedAt ns = map e_CreatedAt rows"
    by (auto simp: list_all2_conv_all_nth intro!: nth_equalityI)
  moreover have "map notification_from_entity (take k rows) = map Inr (take k ns)"
    using assms unfolding traverse_Inr by (metis take_map)
  ultimately show ?thesis unfolding traverse_Inr by blast
qed

lemma list_sop_Inr:
  assumes "list_sop_notifications a offset take' appId w = (Inr r, w')"
  shows "\<exists>items found duplicate w1 w2.
    list_notifications_for_sop a (Some (resolve_app_id (apps_of w) appId True))
      (Some (get_default_app_id (apps_of w))) offset take' (int (length (seen_replay a w)))
      (replay_ids (seen_replay a w)) w1 = (Inr (items, found, duplicate), w2)
    \<and> w_notifications w1 = w_notifications w
    \<and> r = map_option (\<lambda>page. (page, found + int (length (seen_replay a w)) - duplicate))
        (sop_page (sort_desc CreatedAt (feed_copies (seen_replay a w) items)) offset take')"
proof -
  obtain x w1 where read: "get_replay_notifications a w = (x, w1)" by fastforce
  with assms obtain xs where x: "x = Inr xs"
    by (cases x) (auto simp: list_sop_notifications_def bindM_def)
  note seen = get_replay_Inr [OF read [unfolded x]]
  from assms read x seen show ?thesis
    by (auto simp: list_sop_notifications_def bindM_def getM_def Let_def ret_def
        split: prod.splits sum.splits) blast
qed

lemma sop_total:
  assumes "distinct (map Id replayed)" "distinct (map ID (w_notifications w))"
  shows "int (card (Id ` set replayed \<union> ID ` set (notification_query a app dflt w)))
    = int (length (notification_query a app dflt w)) + int (length replayed)
      - int (length (filter (\<lambda>r. ID r \<in> Id ` set replayed) (notification_query a app dflt w)))"
proof -
  let ?q = "notification_query a app dflt w"
  have q: "distinct (map ID ?q)" using assms(2) by (simp add: notification_query_def distinct_map_filter)
  have "card (Id ` set replayed \<inter> ID ` set ?q) = length (filter (\<lambda>r. ID r \<in> Id ` set replayed) ?q)"
  proof -
    have "Id ` set replayed \<inter> ID ` set ?q = ID ` set (filter (\<lambda>r. ID r \<in> Id ` set replayed) ?q)"
      (is "?L = ?R")
    proof (intro set_eqI iffI)
      fix i assume i: "i \<in> ?L"
      then obtain r where "r \<in> set ?q" "i = ID r" by blast
      with i show "i \<in> ?R" by (intro image_eqI [of _ _ r]) auto
    qed auto
    then show ?thesis
      using distinct_card [OF distinct_map_filter [OF q]] by (metis length_map set_map)
  qed
  moreover have "card (Id ` set replayed) = length replayed" "card (ID ` set ?q) = length ?q"
    using distinct_card [OF assms(1)] distinct_card [OF q] by simp_all
  ultimately show ?thesis
    using card_Un_Int [of "Id ` set replayed" "ID ` set ?q"] by simp
qed

text \<open>
  C5: \<open>ListSopNotifications\<close> returns a slice of the feed of the account, the union of the replay buffer
  and all rows of the account under the app filter with the newer copy of every id, in one of the
  orders that have the newest first: asking the database for only \<open>offset + take + |replay|\<close> rows loses
  nothing. The reported total is the length of that feed.
\<close>

theorem sop_page_refines_feed:
  assumes "list_sop_notifications a offset take' appId w = (Inr r, w')"
    and "0 \<le> offset" "0 \<le> take'"
    and "offset + take' + int (length (replay_of w a)) \<le> 9223372036854775807"
    and "distinct (map Id (replay_of w a))" "distinct (map ID (w_notifications w))"
    and "traverse notification_from_entity (account_rows a appId w) = Inr stored"
  shows "\<exists>feed. newest_first (seen_replay a w) stored feed
    \<and> r = Some (take (nat take') (drop (nat offset) feed), int (length feed))"
proof -
  let ?seen = "seen_replay a w" and ?rows = "account_rows a appId w"
  let ?query = "notification_query a (Some (resolve_app_id (apps_of w) appId True))
    (Some (get_default_app_id (apps_of w))) w"
  let ?m = "nat take' + nat offset" and ?N = "nat offset + nat take' + length (seen_replay a w)"
  have seen: "distinct (map Id ?seen)" "length ?seen \<le> length (replay_of w a)"
    using assms(5) by (auto simp: seen_replay_def)
  obtain items found duplicate w1 w2 where run:
    "list_notifications_for_sop a (Some (resolve_app_id (apps_of w) appId True))
      (Some (get_default_app_id (apps_of w))) offset take' (int (length ?seen)) (replay_ids ?seen) w1
      = (Inr (items, found, duplicate), w2)" "w_notifications w1 = w_notifications w"
    "r = map_option (\<lambda>page. (page, found + int (length ?seen) - duplicate))
        (sop_page (sort_desc CreatedAt (feed_copies ?seen items)) offset take')"
    using list_sop_Inr [OF assms(1)] by blast
  have "wrap64 (offset + take' + int (length ?seen)) = offset + take' + int (length ?seen)"
    using assms(2-4) seen(2) by (intro wrap64_id) auto
  then have "traverse notification_from_entity (take ?N ?rows) = Inr items"
    and found: "found = int (length ?query)"
      "duplicate = int (length (filter (\<lambda>r. ID r \<in> Id ` set ?seen) ?query))"
    using list_for_sop_Inr [OF run(1)] run(2) assms(2,3)
    by (simp_all add: account_rows_def gorm_limit_def notification_query_def nat_add_distrib)
  with traverse_rows [OF assms(7)] have items: "items = take ?N stored" by simp
  have sorted: "desc CreatedAt stored" "distinct (map Id stored)"
  proof -
    have "desc e_CreatedAt ?rows" "distinct (map ID ?rows)"
      using assms(6) by (auto simp: account_rows_def notification_query_def distinct_map_filter)
    with traverse_rows [OF assms(7)] show "desc CreatedAt stored" "distinct (map Id stored)"
      unfolding desc_map [of _ stored] desc_map [of _ ?rows] by (auto simp only:)
  qed
  obtain feed where feed: "newest_first ?seen stored feed"
    "take ?m feed = take ?m (sort_desc CreatedAt (feed_copies ?seen items))"
    using page_of_feed [OF seen(1) sorted(2,1), of ?m ?N] unfolding items feed_top_def by auto
  have "sop_page (sort_desc CreatedAt (feed_copies ?seen items)) offset take'
      = Some (take (nat take') (drop (nat offset) feed))"
    using assms(2-4) feed(2) by (simp add: sop_page_slice take_drop)
  moreover have "found + int (length ?seen) - duplicate = int (length feed)"
  proof -
    have "set (map Id stored) = set (map ID ?rows)" using traverse_rows [OF assms(7)] by metis
    then have "Id ` set stored = ID ` set ?query" by (simp add: account_rows_def)
    with newest_first_length [OF seen(1) sorted(2) feed(1)] sop_total [OF seen(1) assms(6)] found
    show ?thesis by simp
  qed
  ultimately show ?thesis using feed(1) run(3) by auto
qed

definition feed_world :: world where
  "feed_world = (empty_world quiet_outside)
     \<lparr>w_notifications := map old_notification [3, 4, 5],
      w_replay := (\<lambda>a. Some [(w_heap (empty_world quiet_outside) 0)\<lparr>Id := 4, CreatedAt := 900\<rparr>])\<rparr>"

theorem sop_page_refines_feed_witness:
  "\<exists>w' feed. list_sop_notifications 7 0 2 '''' feed_world = (Inr (Some (take 2 feed, int (length feed))), w')
     \<and> newest_first (seen_replay 7 feed_world)
         (map (\<lambda>r. projr (notification_from_entity r)) (account_rows 7 '''' feed_world)) feed"
proof -
  let ?rows = "account_rows 7 '''' feed_world"
  have "\<not> isl (fst (list_sop_notifications 7 0 2 '''' feed_world))"
    by code_simp
  then obtain r w' where run: "list_sop_notifications 7 0 2 '''' feed_world = (Inr r, w')"
    by (metis isl_def prod.collapse sum.exhaust_sel)
  have stored: "traverse notification_from_entity ?rows
      = Inr (map (\<lambda>r. projr (notification_from_entity r)) ?rows)"
    by code_simp
  have ids: "distinct (map Id (replay_of feed_world 7))" "distinct (map ID (w_notifications feed_world))"
    "(0::int) + 2 + int (length (replay_of feed_world 7)) \<le> 9223372036854775807"
    by code_simp+
  show ?thesis
    using sop_page_refines_feed [OF run _ _ ids(3,1,2) stored] run by auto
qed

end
