(* ===== verification/Store_Roundtrip.thy ===== *)
theory Store_Roundtrip
  imports Sop_Facts
begin

text \<open>
  Saving notifications and listing them: rows are written from notifications and read back as the same
  notifications.
\<close>

text \<open>What a listing shows of a notification that has been saved.\<close>

definition visible_to :: "uuid \<Rightarrow> string option \<Rightarrow> string option \<Rightarrow> notification \<Rightarrow> bool" where
  "visible_to accountID appID defaultAppID n \<longleftrightarrow>
     DeletedAt n = None \<and> ntf_AccountId n = accountID \<and> apply_app_filter appID defaultAppID (ntf_AppId n)"

lemma row_of_saved:
  assumes "notification_entity_from_model n = Inr e"
  shows "notification_from_entity e = Inr n"
    "in_notification_query a app dflt e \<longleftrightarrow> visible_to a app dflt n"
proof -
  show "notification_from_entity e = Inr n"
    using notification_row_roundtrip [of n] assms by auto
  show "in_notification_query a app dflt e \<longleftrightarrow> visible_to a app dflt n"
    using assms by (auto simp: notification_entity_from_model_def in_notification_query_def visible_to_def
        alive_def split: sum.splits)
qed

lemma saved_rows:
  "traverse notification_entity_from_model ns = Inr es \<Longrightarrow>
   traverse notification_from_entity (filter (in_notification_query a app dflt) es)
     = Inr (filter (visible_to a app dflt) ns)"
  by (induction ns arbitrary: es) (auto simp: row_of_saved split: sum.splits)

lemma traverse_append:
  "traverse f xs = Inr as \<Longrightarrow> traverse f ys = Inr bs \<Longrightarrow> traverse f (xs @ ys) = Inr (as @ bs)"
  by (simp add: traverse_Inr)

text \<open>Decoding commutes with sorting by a column it keeps, and with cutting a page out.\<close>

lemma insort_key_map:
  "k (g x) = j x \<Longrightarrow> (\<And>y. y \<in> set ys \<Longrightarrow> k (g y) = j y)
   \<Longrightarrow> insort_key k (g x) (map g ys) = map g (insort_key j x ys)"
  by (induction ys) auto

lemma sort_desc_map:
  assumes "\<And>x. x \<in> set xs \<Longrightarrow> k (g x) = j x"
  shows "sort_desc k (map g xs) = map g (sort_desc j xs)"
  using assms unfolding sort_desc_def
proof (induction xs)
  case (Cons x xs)
  then have "insort_key (\<lambda>x. - k x) (g x) (map g (sort_key (\<lambda>x. - j x) xs))
      = map g (insort_key (\<lambda>x. - j x) x (sort_key (\<lambda>x. - j x) xs))"
    by (intro insort_key_map) simp_all
  then show ?case using Cons by simp
qed simp

lemma traverse_sort_rows:
  assumes "traverse notification_from_entity rows = Inr ns"
  shows "traverse notification_from_entity (sort_desc e_CreatedAt rows) = Inr (sort_desc CreatedAt ns)"
proof -
  let ?g = "\<lambda>e. projr (notification_from_entity e)"
  have rows: "notification_from_entity e = Inr (?g e)" if "e \<in> set rows" for e
  proof -
    have "notification_from_entity e \<in> set (map notification_from_entity rows)" using that by simp
    then have "notification_from_entity e \<in> set (map Inr ns)"
      using assms unfolding traverse_Inr by (simp only:)
    then show ?thesis by auto
  qed
  have "map projr (map notification_from_entity rows) = map projr (map Inr ns)"
    using assms unfolding traverse_Inr by simp
  then have "ns = map ?g rows" by (simp add: comp_def)
  moreover have "CreatedAt (?g e) = e_CreatedAt e" if "e \<in> set rows" for e
    using rows [OF that] by (metis row_of_notification)
  ultimately have "sort_desc CreatedAt ns = map ?g (sort_desc e_CreatedAt rows)"
    by (simp add: sort_desc_map)
  then show ?thesis using rows by (simp add: traverse_Inr)
qed

lemma traverse_page:
  "traverse f xs = Inr ys \<Longrightarrow> traverse f (gorm_limit n (gorm_offset k xs)) = Inr (gorm_limit n (gorm_offset k ys))"
  unfolding traverse_Inr gorm_limit_def gorm_offset_def by (simp add: take_map [symmetric] drop_map [symmetric])

text \<open>C22: what a batch insert saved, a listing shows. When the insert and the listing both return, the page
  is the one asked for of the notifications that were there before and the new ones that belong to
  the account, pass the app filter and are not deleted, each exactly as it was saved with all its
  fields, newest first; the reported total counts them all.\<close>

theorem save_then_list:
  assumes "batch_insert_notifications ns w = (Inr (), w1)"
    and "list_notifications a app dflt offset take' w1 = (Inr (items, found), w2)"
    and "traverse notification_from_entity (notification_query a app dflt w) = Inr old"
  shows "items = gorm_limit take' (gorm_offset offset
      (sort_desc CreatedAt (old @ filter (visible_to a app dflt) ns)))
    \<and> found = int (length (old @ filter (visible_to a app dflt) ns))"
proof -
  have "\<exists>es. traverse notification_entity_from_model ns = Inr es
      \<and> w_notifications w1 = w_notifications w @ es"
    using assms(1) by (cases "ns = []")
      (auto simp: batch_insert_notifications_def io_iffs db_insert_def split: if_splits)
  then obtain es where es: "traverse notification_entity_from_model ns = Inr es"
    "w_notifications w1 = w_notifications w @ es" by blast
  then have rows: "traverse notification_from_entity (notification_query a app dflt w1)
      = Inr (old @ filter (visible_to a app dflt) ns)"
    using traverse_append [OF assms(3) saved_rows [OF es(1), of a app dflt]]
    by (simp add: notification_query_def)
  let ?q = "notification_query a app dflt w1"
  have "items = gorm_limit take' (gorm_offset offset (sort_desc CreatedAt (old @ filter (visible_to a app dflt) ns)))"
    using assms(2) traverse_page [OF traverse_sort_rows [OF rows], of take' offset]
    by (auto simp: list_notifications_def io_iffs notification_query_def)
  moreover have "found = int (length ?q)"
    using assms(2) by (auto simp: list_notifications_def io_iffs notification_query_def)
  moreover have "length ?q = length (old @ filter (visible_to a app dflt) ns)"
    using rows unfolding traverse_Inr by (metis length_map)
  ultimately show ?thesis by simp
qed

definition saved_note :: "nat \<Rightarrow> uuid \<Rightarrow> notification" where
  "saved_note i account = (w_heap (empty_world quiet_outside) 0)
     \<lparr>Id := i, CreatedAt := int i, ntf_Topic := ''news'', ntf_AccountId := account,
      ntf_Meta := Some [(''k'', JStr ''v'')]\<rparr>"

theorem save_then_list_witness:
  "\<exists>w1 w2. batch_insert_notifications [saved_note 1 7, saved_note 2 8, saved_note 3 7]
        (empty_world quiet_outside) = (Inr (), w1)
     \<and> list_notifications 7 None None 0 8 w1 = (Inr ([saved_note 3 7, saved_note 1 7], 2), w2)"
proof -
  let ?ns = "[saved_note 1 7, saved_note 2 8, saved_note 3 7]"
  have "\<not> isl (fst (batch_insert_notifications ?ns (empty_world quiet_outside)))" by code_simp
  then obtain u :: unit and w1 where "batch_insert_notifications ?ns (empty_world quiet_outside) = (Inr u, w1)"
    using run_exists by blast
  then have save: "batch_insert_notifications ?ns (empty_world quiet_outside) = (Inr (), w1)"
    unfolding unit_eq [of u] .
  have "\<not> isl (fst (list_notifications 7 None None 0 8
      (snd (batch_insert_notifications ?ns (empty_world quiet_outside)))))" by code_simp
  then obtain items found w2 where listing: "list_notifications 7 None None 0 8 w1 = (Inr (items, found), w2)"
    using run_exists [of "list_notifications 7 None None 0 8 w1"] save by auto
  have none: "traverse notification_from_entity (notification_query 7 None None (empty_world quiet_outside)) = Inr []"
    by code_simp
  have shown: "gorm_limit 8 (gorm_offset 0 (sort_desc CreatedAt (filter (visible_to 7 None None) ?ns)))
      = [saved_note 3 7, saved_note 1 7]" "length (filter (visible_to 7 None None) ?ns) = 2"
    by code_simp+
  have "items = [saved_note 3 7, saved_note 1 7] \<and> found = 2"
    using save_then_list [OF save listing none] unfolding append_Nil shown by simp
  then show ?thesis using save listing by auto
qed

end
