(* ===== verification/Email_Send.thy ===== *)
theory Email_Send
  imports Observability
begin

text \<open>
  \<open>internal/email/email.go\<close>: the MIME message, the SMTP conversation (one interaction with the
  outside per command, any of which may fail) and the record of the outcome. A message is in the
  outbox once the server has accepted its data.
\<close>

definition new_email_service :: "email_config \<Rightarrow> go_error + email_config" where
  "new_email_service cfg =
     (if ec_Server cfg = [] then Inl (ErrText ''email service was not configured'') else Inr cfg)"

section \<open>The message\<close>

definition encode_header :: "(string \<Rightarrow> string) \<Rightarrow> string \<Rightarrow> string" where
  "encode_header q_encode value =
     (if \<exists>c \<in> set value. 127 < (of_char c :: nat) then q_encode value else value)"

definition format_address :: "outside \<Rightarrow> string \<Rightarrow> string \<Rightarrow> string" where
  "format_address out name addr =
     (if trim_space name = [] then addr
      else case o_mail_address out name addr of
             Some rendered \<Rightarrow> rendered
           | None \<Rightarrow> encode_header (o_q_encode out) name @ '' <'' @ addr @ ''>'')"

definition crlf :: string where
  "crlf = [CHR 0x0D, CHR 0x0A]"

definition build_message ::
  "string \<Rightarrow> string \<Rightarrow> string \<Rightarrow> string \<Rightarrow> string \<Rightarrow> string \<Rightarrow> string io" where
  "build_message fromName fromAddr toName toAddr subject html =
     bindM (getM w_outside) (\<lambda>out. bindM time_now (\<lambda>now. ret
       (''From: '' @ format_address out fromName fromAddr @ crlf @
        ''To: '' @ format_address out toName toAddr @ crlf @
        ''Subject: '' @ encode_header (o_q_encode out) subject @ crlf @
        ''Date: '' @ o_rfc1123 out now @ crlf @
        ''MIME-Version: 1.0'' @ crlf @
        ''Content-Type: text/html; charset=utf-8'' @ crlf @
        crlf @ html)))"

section \<open>The conversation\<close>

definition join_host_port :: "string \<Rightarrow> string \<Rightarrow> string" where
  "join_host_port host port =
     (if CHR 0x3A \<in> set host then ''['' @ host @ '']:'' @ port else host @ '':'' @ port)"

definition smtp_step :: "string \<Rightarrow> unit io" where
  "smtp_step what = wrapM what (bindM external (\<lambda>_. ret ()))"

definition accept_message :: "smtp_message \<Rightarrow> unit io" where
  "accept_message m = modifyM (\<lambda>w. w\<lparr>w_outbox := w_outbox w @ [m]\<rparr>)"

definition smtp_send :: "email_config \<Rightarrow> string \<Rightarrow> string \<Rightarrow> unit io" where
  "smtp_send cfg message recipientEmail =
     (let addr = join_host_port (ec_Server cfg) (show_int (ec_Port cfg)) in
      seqM (smtp_step ((if ec_UseSsl cfg then ''tls dial '' else ''connect smtp '') @ addr))
     (seqM (whenM (ec_Username cfg \<noteq> []) (smtp_step ''smtp auth''))
     (seqM (smtp_step ''smtp mail'')
     (seqM (smtp_step ''smtp rcpt'')
     (seqM (smtp_step ''smtp data'')
     (seqM (smtp_step ''smtp write'')
     (seqM (smtp_step ''smtp data close'')
     (seqM (accept_message \<lparr>sm_From = ec_FromAddress cfg, sm_To = recipientEmail, sm_Data = message\<rparr>)
     (smtp_step ''smtp quit'')))))))))"

definition outcome_of :: "go_error + 'a \<Rightarrow> delivery_outcome" where
  "outcome_of r = (case r of Inl _ \<Rightarrow> OutcomeFailure | Inr _ \<Rightarrow> OutcomeSuccess)"

definition error_of :: "go_error + 'a \<Rightarrow> go_error option" where
  "error_of r = (case r of Inl e \<Rightarrow> Some e | Inr _ \<Rightarrow> None)"

definition send_email ::
  "email_config \<Rightarrow> string \<Rightarrow> string \<Rightarrow> string \<Rightarrow> string \<Rightarrow> string \<Rightarrow> unit io" where
  "send_email cfg recipientName recipientEmail subject htmlBody source =
     bindM time_now (\<lambda>startedAt.
     bindM (build_message (ec_FromName cfg) (ec_FromAddress cfg) recipientName recipientEmail
         (''['' @ ec_SubjectPrefix cfg @ ''] '' @ subject) htmlBody) (\<lambda>message.
     bindM (attempt (smtp_send cfg message recipientEmail)) (\<lambda>r.
     bindM time_now (\<lambda>endedAt.
     seqM (record_email source (outcome_of r) (milliseconds (endedAt - startedAt)) (error_of r))
       (lift_result r)))))"

section \<open>What a send does\<close>

lemma smtp_step_Inr: "smtp_step what w = (Inr u, w') \<longleftrightarrow>
    w' = w\<lparr>w_tick := Suc (w_tick w)\<rparr> \<and> o_fault (w_outside w) (w_tick w) = None"
  by (auto simp: smtp_step_def io_iffs)

lemma smtp_step_Inl: "smtp_step what w = (Inl e, w') \<longleftrightarrow>
    (\<exists>e'. w' = w\<lparr>w_tick := Suc (w_tick w)\<rparr> \<and> o_fault (w_outside w) (w_tick w) = Some e'
      \<and> e = ErrWrap what e')"
  by (auto simp: smtp_step_def io_iffs)

text \<open>Everything a send can touch, blanked out: the rest is its frame.\<close>

definition mail_frame :: "world \<Rightarrow> world" where
  "mail_frame w = w\<lparr>w_tick := 0, w_outbox := [], w_email_deliveries := []\<rparr>"

lemma mail_frame_tick [simp]: "mail_frame (w\<lparr>w_tick := k\<rparr>) = mail_frame w"
  by (simp add: mail_frame_def)

lemma smtp_send_Inr:
  assumes "smtp_send cfg message recipient w = (Inr u, w')"
  shows "mail_frame w' = mail_frame w \<and> w_email_deliveries w' = w_email_deliveries w
    \<and> w_outbox w' = w_outbox w
        @ [\<lparr>sm_From = ec_FromAddress cfg, sm_To = recipient, sm_Data = message\<rparr>]"
  using assms
  by (auto simp: smtp_send_def Let_def io_iffs smtp_step_Inr accept_message_def mail_frame_def
      split: if_splits)

lemma smtp_send_Inl:
  assumes "smtp_send cfg message recipient w = (Inl e, w')"
  shows "mail_frame w' = mail_frame w \<and> w_email_deliveries w' = w_email_deliveries w
    \<and> (w_outbox w' = w_outbox w \<or> (w_outbox w' = w_outbox w
         @ [\<lparr>sm_From = ec_FromAddress cfg, sm_To = recipient, sm_Data = message\<rparr>]
       \<and> (\<exists>e'. e = ErrWrap ''smtp quit'' e')))"
  using assms
  by (auto simp: smtp_send_def Let_def io_iffs smtp_step_Inr smtp_step_Inl accept_message_def
      mail_frame_def split: if_splits)

lemma record_email_effect:
  assumes "record_email source outcome duration err w = (r, w')"
  shows "mail_frame w' = mail_frame w \<and> w_outbox w' = w_outbox w
   \<and> (w_email_deliveries w' = w_email_deliveries w
     \<or> (\<exists>row. w_email_deliveries w' = w_email_deliveries w @ [row]
       \<and> ede_Outcome row = int_of_outcome outcome \<and> ede_Source row = source
       \<and> ede_Error row = truncate_err err))"
  using assms
  by (auto simp: record_email_def store_record_email_delivery_def recorder_evals mail_frame_def
      split: if_splits prod.splits option.splits)

lemma send_email_run:
  assumes "send_email cfg name recipient subject body source w = (r, w')"
  shows "\<exists>message w2. smtp_send cfg message recipient (w\<lparr>w_tick := w_tick w + 2\<rparr>) = (r, w2)
    \<and> record_email source (outcome_of r) (milliseconds
        (o_time (w_outside w2) (w_tick w2) - o_time (w_outside w) (w_tick w)))
        (error_of r) (w2\<lparr>w_tick := Suc (w_tick w2)\<rparr>) = (Inr (), w')"
proof (cases r)
  case (Inl e)
  with assms show ?thesis
    using emails.never_fails [of "(source, outcome, duration, err)" for outcome duration err]
    by (fastforce simp: send_email_def build_message_def io_iffs)
next
  case (Inr u)
  with assms show ?thesis
    by (fastforce simp: send_email_def build_message_def io_iffs)
qed

lemma send_email_effect:
  assumes "send_email cfg name recipient subject body source w = (r, w')"
  shows "mail_frame w' = mail_frame w
    \<and> (case r of
         Inr _ \<Rightarrow> \<exists>m. w_outbox w' = w_outbox w @ [m] \<and> sm_To m = recipient
       | Inl e \<Rightarrow> w_outbox w' = w_outbox w
           \<or> (\<exists>m e'. w_outbox w' = w_outbox w @ [m] \<and> sm_To m = recipient
                \<and> e = ErrWrap ''smtp quit'' e'))
    \<and> (w_email_deliveries w' = w_email_deliveries w
       \<or> (\<exists>row. w_email_deliveries w' = w_email_deliveries w @ [row] \<and> ede_Source row = source
            \<and> ede_Outcome row = int_of_outcome (outcome_of r)
            \<and> ede_Error row = truncate_err (error_of r)))"
proof -
  obtain message w2 where send: "smtp_send cfg message recipient (w\<lparr>w_tick := w_tick w + 2\<rparr>) = (r, w2)"
    and log: "record_email source (outcome_of r) (milliseconds
        (o_time (w_outside w2) (w_tick w2) - o_time (w_outside w) (w_tick w)))
        (error_of r) (w2\<lparr>w_tick := Suc (w_tick w2)\<rparr>) = (Inr (), w')"
    using send_email_run [OF assms] by blast
  note eff = record_email_effect [OF log]
  show ?thesis
  proof (cases r)
    case (Inl e)
    show ?thesis
      using smtp_send_Inl [OF send [unfolded Inl]] eff unfolding Inl
      by (auto simp: outcome_of_def error_of_def)
  next
    case (Inr u)
    show ?thesis
      using smtp_send_Inr [OF send [unfolded Inr]] eff unfolding Inr
      by (auto simp: outcome_of_def error_of_def)
  qed
qed


text \<open>
  A run in which QUIT is the one command that fails: the message has been accepted and the send is
  reported, and recorded, as a failure.
\<close>

definition sample_email_config :: email_config where
  "sample_email_config =
     \<lparr>ec_Server = ''mx'', ec_Port = 25, ec_UseSsl = False, ec_Username = [], ec_Password = [],
      ec_FromAddress = ''a@b'', ec_FromName = [], ec_SubjectPrefix = ''S''\<rparr>"

definition quit_fails_world :: world where
  "quit_fails_world =
     empty_world (quiet_outside\<lparr>o_fault := \<lambda>k. if k = 8 then Some (ErrText ''EOF'') else None\<rparr>)"


end
