(* ===== verification/Email_Plan.thy ===== *)
theory Email_Plan
  imports Store_Email Email_Send
begin

text \<open>
  \<open>internal/email/plan.go\<close>: e-mails to many accounts, sent in intervals under a capacity per
  interval and per UTC day. The definitions follow the methods of \<open>PlanService\<close> in the order of
  the file; what they promise is in \<open>Email_Plan_Facts\<close>.
\<close>

section \<open>Target accounts\<close>

record create_plan_command =
  cmd_AccountId :: "uuid option"
  cmd_AccountIds :: "uuid list"
  cmd_BroadcastToAll :: bool
  cmd_Subject :: string
  cmd_HtmlBody :: string
  cmd_SendingPlanKey :: "string option"
  cmd_PlannedStartAt :: "time option"
  cmd_MaxEmailsPerInterval :: int
  cmd_IntervalMinutes :: int
  cmd_MaxEmailsPerDay :: "int option"

record target_account =
  ta_accountID :: uuid
  ta_recipientName :: string

definition to_target_account :: "outside \<Rightarrow> dy_account option \<Rightarrow> target_account option" where
  "to_target_account out account =
     (case account of
        None \<Rightarrow> None
      | Some a \<Rightarrow>
          if da_Id a = [] then None
          else case o_parse_uuid out (da_Id a) of
                 None \<Rightarrow> None
               | Some i \<Rightarrow> Some \<lparr>ta_accountID = i,
                   ta_recipientName = (if da_Nick a \<noteq> [] then da_Nick a else da_Name a)\<rparr>)"

definition dedupe_accounts :: "target_account list \<Rightarrow> target_account list" where
  "dedupe_accounts accounts = keep_first ta_accountID [] accounts"

text \<open>
  Paging through all accounts ends only when the account service says so: the loop is a partial
  function, and not returning is the value None.
\<close>

type_synonym 'a partial_io = "world \<Rightarrow> ((go_error + 'a) \<times> world) option"

partial_function (option) list_all_accounts ::
  "string \<Rightarrow> target_account list \<Rightarrow> target_account list partial_io" where
  "list_all_accounts pageToken results w =
     (case external w of
        (Inl e, w') \<Rightarrow> Some (Inl e, w')
      | (Inr k, w') \<Rightarrow>
          (case o_accounts_page (w_outside w') k pageToken of
             None \<Rightarrow> Some (Inr results, w')
           | Some (accounts, token) \<Rightarrow>
               (let results' = results @ List.map_filter (to_target_account (w_outside w')) accounts
                in if token = [] then Some (Inr results', w')
                   else list_all_accounts token results' w')))"

declare list_all_accounts.simps [code]

definition requested_accounts :: "create_plan_command \<Rightarrow> uuid list" where
  "requested_accounts command =
     keep_first (\<lambda>i. i) [] ((case cmd_AccountId command of None \<Rightarrow> [] | Some i \<Rightarrow> [i])
       @ cmd_AccountIds command)"

definition account_service_missing :: go_error where
  "account_service_missing = ErrText ''account service is not configured''"

definition requested_targets :: "uuid list \<Rightarrow> target_account list io" where
  "requested_targets requested =
     bindM external (\<lambda>k. bindM (getM w_outside) (\<lambda>out.
       ret (case o_account_batch out k (map (o_show_uuid out) requested) of
              None \<Rightarrow> []
            | Some accounts \<Rightarrow> dedupe_accounts (List.map_filter (to_target_account out) accounts))))"

definition resolve_target_accounts :: "create_plan_command \<Rightarrow> target_account list partial_io" where
  "resolve_target_accounts command w =
     (if cmd_BroadcastToAll command then
        if \<not> o_accounts (w_outside w) then Some (Inl account_service_missing, w)
        else case list_all_accounts [] [] w of
               None \<Rightarrow> None
             | Some (Inl e, w') \<Rightarrow> Some (Inl e, w')
             | Some (Inr results, w') \<Rightarrow> Some (Inr (dedupe_accounts results), w')
      else let requested = requested_accounts command in
        if requested = [] then Some (Inr [], w)
        else if \<not> o_accounts (w_outside w) then Some (Inl account_service_missing, w)
        else Some (requested_targets requested w))"

section \<open>Views\<close>

record plan_advance_view =
  av_Id :: uuid
  av_IntervalNumber :: int
  av_IsManual :: bool
  av_AttemptedCount :: int
  av_SentCount :: int
  av_SkippedCount :: int
  av_FailedCount :: int
  av_PendingCountAfter :: int
  av_StartedAt :: time
  av_CompletedAt :: time

record plan_view =
  pv_Id :: uuid
  pv_SendingPlanKey :: "string option"
  pv_CreatedByAccountId :: uuid
  pv_Subject :: string
  pv_BroadcastToAll :: bool
  pv_RecipientCount :: int
  pv_MaxEmailsPerInterval :: int
  pv_IntervalMinutes :: int
  pv_MaxEmailsPerDay :: "int option"
  pv_Status :: plan_status
  pv_AdvancedIntervalsCount :: int
  pv_PlannedStartAt :: time
  pv_NextIntervalAt :: "time option"
  pv_LastAdvancedAt :: "time option"
  pv_PausedAt :: "time option"
  pv_CompletedAt :: "time option"
  pv_Counts :: plan_counts
  pv_Advances :: "plan_advance_view list"

type_synonym advance_map = "uuid \<Rightarrow> email_advance list"

fun collect_advances :: "nat \<Rightarrow> advance_map \<Rightarrow> email_advance list \<Rightarrow> advance_map" where
  "collect_advances advanceTake m [] = m"
| "collect_advances advanceTake m (a # as) =
     collect_advances advanceTake
       (if advanceTake \<le> length (m (adv_PlanId a)) then m
        else m(adv_PlanId a := m (adv_PlanId a) @ [a])) as"

definition advance_view :: "email_advance \<Rightarrow> plan_advance_view" where
  "advance_view a =
     \<lparr>av_Id = Id a, av_IntervalNumber = adv_IntervalNumber a, av_IsManual = adv_IsManual a,
      av_AttemptedCount = adv_AttemptedCount a, av_SentCount = adv_SentCount a,
      av_SkippedCount = adv_SkippedCount a, av_FailedCount = adv_FailedCount a,
      av_PendingCountAfter = adv_PendingCountAfter a, av_StartedAt = adv_StartedAt a,
      av_CompletedAt = adv_CompletedAt a\<rparr>"

definition build_plan_view ::
  "count_map \<Rightarrow> advance_map \<Rightarrow> bool \<Rightarrow> email_sending_plan \<Rightarrow> plan_view" where
  "build_plan_view countLookup advanceLookup includeAdvances plan =
     \<lparr>pv_Id = Id plan, pv_SendingPlanKey = plan_SendingPlanKey plan,
      pv_CreatedByAccountId = plan_CreatedByAccountId plan, pv_Subject = plan_Subject plan,
      pv_BroadcastToAll = plan_BroadcastToAll plan, pv_RecipientCount = plan_RecipientCount plan,
      pv_MaxEmailsPerInterval = plan_MaxEmailsPerInterval plan,
      pv_IntervalMinutes = plan_IntervalMinutes plan,
      pv_MaxEmailsPerDay = plan_MaxEmailsPerDay plan, pv_Status = plan_Status plan,
      pv_AdvancedIntervalsCount = plan_AdvancedIntervalsCount plan,
      pv_PlannedStartAt = plan_PlannedStartAt plan, pv_NextIntervalAt = plan_NextIntervalAt plan,
      pv_LastAdvancedAt = plan_LastAdvancedAt plan, pv_PausedAt = plan_PausedAt plan,
      pv_CompletedAt = plan_CompletedAt plan, pv_Counts = counts_at countLookup (Id plan),
      pv_Advances =
        (if includeAdvances then map advance_view (advanceLookup (Id plan)) else [])\<rparr>"

definition build_plan_views ::
  "email_sending_plan list \<Rightarrow> bool \<Rightarrow> nat \<Rightarrow> plan_view list io" where
  "build_plan_views plans includeAdvances advanceTake =
     (if plans = [] then ret []
      else let planIDs = map Id plans in
        bindM (count_recipients_by_status planIDs) (\<lambda>countLookup.
        bindM (if includeAdvances then
                 bindM (list_advances_by_plans planIDs)
                   (\<lambda>advances. ret (collect_advances advanceTake (\<lambda>_. []) advances))
               else ret (\<lambda>_. []))
          (\<lambda>advanceLookup.
        ret (map (build_plan_view countLookup advanceLookup includeAdvances) plans))))"

definition list_plans :: "int \<Rightarrow> int \<Rightarrow> plan_status option \<Rightarrow> (plan_view list \<times> int) io" where
  "list_plans offset take' status =
     bindM (list_email_plans offset take' status) (\<lambda>(plans, n).
     bindM (build_plan_views plans False 20) (\<lambda>views. ret (views, n)))"

definition get_plan :: "uuid \<Rightarrow> plan_view option io" where
  "get_plan planID =
     bindM (get_email_plan planID) (\<lambda>plan.
       case plan of
         None \<Rightarrow> ret None
       | Some p \<Rightarrow> bindM (build_plan_views [p] True 20) (\<lambda>views. ret (Some (hd views))))"

definition plan_not_found :: "uuid \<Rightarrow> 'a io" where
  "plan_not_found planID =
     bindM (getM w_outside) (\<lambda>out.
       throw (ErrText (''email sending plan '' @ o_show_uuid out planID @ '' was not found'')))"

definition get_tracked_plan :: "uuid \<Rightarrow> email_sending_plan io" where
  "get_tracked_plan planID =
     bindM (get_email_plan planID) (\<lambda>plan.
       case plan of None \<Rightarrow> plan_not_found planID | Some p \<Rightarrow> ret p)"

definition get_plan_or_throw :: "uuid \<Rightarrow> plan_view io" where
  "get_plan_or_throw planID =
     bindM (get_plan planID) (\<lambda>view.
       case view of None \<Rightarrow> plan_not_found planID | Some v \<Rightarrow> ret v)"

section \<open>Creating, pausing and resuming a plan\<close>

definition sending_plan_key :: "create_plan_command \<Rightarrow> string option" where
  "sending_plan_key command =
     (case cmd_SendingPlanKey command of
        None \<Rightarrow> None
      | Some k \<Rightarrow> if trim_space k \<noteq> [] then Some (trim_space k) else None)"

definition new_plan ::
  "create_plan_command \<Rightarrow> uuid \<Rightarrow> nat \<Rightarrow> time \<Rightarrow> uuid \<Rightarrow> time \<Rightarrow> time \<Rightarrow> email_sending_plan" where
  "new_plan command createdBy targets plannedStartAt i created updated =
     \<lparr>Id = i, CreatedAt = created, UpdatedAt = updated, DeletedAt = None,
      plan_SendingPlanKey = sending_plan_key command, plan_CreatedByAccountId = createdBy,
      plan_Subject = cmd_Subject command, plan_HtmlBody = cmd_HtmlBody command,
      plan_BroadcastToAll = cmd_BroadcastToAll command, plan_RecipientCount = int targets,
      plan_MaxEmailsPerInterval = cmd_MaxEmailsPerInterval command,
      plan_IntervalMinutes = cmd_IntervalMinutes command,
      plan_MaxEmailsPerDay = cmd_MaxEmailsPerDay command, plan_Status = PlanScheduled,
      plan_AdvancedIntervalsCount = 0, plan_PlannedStartAt = plannedStartAt,
      plan_NextIntervalAt = time_ptr plannedStartAt, plan_LastAdvancedAt = None,
      plan_PausedAt = None, plan_CompletedAt = None\<rparr>"

definition new_recipient :: "uuid \<Rightarrow> target_account \<Rightarrow> email_recipient io" where
  "new_recipient planID target =
     bindM uuid_new (\<lambda>i. bindM time_now (\<lambda>created. bindM time_now (\<lambda>updated. ret
       \<lparr>Id = i, CreatedAt = created, UpdatedAt = updated, DeletedAt = None,
        rcp_PlanId = planID, rcp_AccountId = ta_accountID target,
        rcp_RecipientNameSnapshot = Some (ta_recipientName target),
        rcp_Status = RecipientPending, rcp_AttemptCount = 0, rcp_LastIntervalNumber = None,
        rcp_LastResolvedEmail = None, rcp_LastError = None, rcp_ProcessedAt = None\<rparr>)))"

definition create_plan_for ::
  "create_plan_command \<Rightarrow> uuid \<Rightarrow> target_account list \<Rightarrow> plan_view option io" where
  "create_plan_for command createdBy targets =
     (if targets = [] then throw (ErrText ''No valid target accounts were resolved.'')
      else
        bindM time_now (\<lambda>now.
        bindM uuid_new (\<lambda>i. bindM time_now (\<lambda>created. bindM time_now (\<lambda>updated.
        bindM (mapM (new_recipient i) targets) (\<lambda>recipients.
        seqM (create_email_plan
            (new_plan command createdBy (length targets)
              (case cmd_PlannedStartAt command of None \<Rightarrow> now | Some t \<Rightarrow> t) i created updated)
            recipients)
          (get_plan i)))))))"

definition create_plan ::
  "create_plan_command \<Rightarrow> uuid \<Rightarrow> plan_view option partial_io" where
  "create_plan command createdBy w =
     (case resolve_target_accounts command w of
        None \<Rightarrow> None
      | Some (Inl e, w') \<Rightarrow> Some (Inl e, w')
      | Some (Inr targets, w') \<Rightarrow> Some (create_plan_for command createdBy targets w'))"

definition pause_plan :: "uuid \<Rightarrow> plan_view option io" where
  "pause_plan planID =
     bindM (get_tracked_plan planID) (\<lambda>plan.
       if plan_Status plan = PlanCompleted then throw (ErrText ''Completed plans cannot be paused.'')
       else
         bindM time_now (\<lambda>now. bindM time_now (\<lambda>updated.
         seqM (update_email_plan_status
             (plan\<lparr>plan_Status := PlanPaused, plan_PausedAt := Some now, UpdatedAt := updated\<rparr>))
           (get_plan planID))))"

definition resume_plan :: "uuid \<Rightarrow> plan_view option io" where
  "resume_plan planID =
     bindM (get_tracked_plan planID) (\<lambda>plan.
       if plan_Status plan = PlanCompleted then throw (ErrText ''Completed plans cannot be resumed.'')
       else
         bindM time_now (\<lambda>now. bindM time_now (\<lambda>updated.
         seqM (update_email_plan_status
             (plan\<lparr>plan_Status := PlanScheduled, plan_PausedAt := None,
                plan_NextIntervalAt :=
                  (case plan_NextIntervalAt plan of
                     None \<Rightarrow> time_ptr now
                   | Some t \<Rightarrow> if t < now then time_ptr now else Some t),
                UpdatedAt := updated\<rparr>))
           (get_plan planID))))"

end
