(* ===== verification/Email_Advance.thy ===== *)
theory Email_Advance
  imports Email_Plan
begin

text \<open>
  \<open>AdvancePlanIntervalAsync\<close> of \<open>internal/email/plan.go\<close>: one interval of a sending plan, with the
  choice of a contact per recipient and the capacity of the interval and of the UTC day.
\<close>

section \<open>Contacts\<close>

definition verified_after :: "contact \<Rightarrow> contact \<Rightarrow> bool" where
  "verified_after a b =
     (case ct_VerifiedAt a of
        None \<Rightarrow> False
      | Some ta \<Rightarrow> (case ct_VerifiedAt b of None \<Rightarrow> True | Some tb \<Rightarrow> tb < ta))"

definition better_contact :: "contact \<Rightarrow> contact \<Rightarrow> contact" where
  "better_contact c contact =
     (if ct_IsPrimary c \<noteq> ct_IsPrimary contact then (if ct_IsPrimary c then c else contact)
      else if verified_after c contact then c else contact)"

fun select_contact :: "contact option \<Rightarrow> contact list \<Rightarrow> contact option" where
  "select_contact best [] = best"
| "select_contact best (c # cs) =
     select_contact (case best of None \<Rightarrow> Some c | Some b \<Rightarrow> Some (better_contact c b)) cs"

definition list_contacts :: "uuid \<Rightarrow> contact list io" where
  "list_contacts accountID =
     bindM (getM w_outside) (\<lambda>out.
       if \<not> o_accounts out then ret []
       else bindM (attempt external) (\<lambda>r.
         ret (case r of Inl _ \<Rightarrow> [] | Inr k \<Rightarrow> o_contacts out k accountID)))"

section \<open>Sending to a recipient\<close>

definition recipient_name :: "email_recipient \<Rightarrow> string" where
  "recipient_name r = (case rcp_RecipientNameSnapshot r of None \<Rightarrow> [] | Some n \<Rightarrow> n)"

definition email_send :: "email_recipient \<Rightarrow> string \<Rightarrow> string \<Rightarrow> string \<Rightarrow> unit io" where
  "email_send recipient toAddress subject htmlBody =
     bindM (getM w_outside) (\<lambda>out.
       case o_email out of
         None \<Rightarrow> throw (ErrText ''Email service is not configured.'')
       | Some cfg \<Rightarrow>
           send_email cfg (recipient_name recipient) toAddress subject htmlBody ''sending_plan'')"

definition truncate_to :: "string \<Rightarrow> nat \<Rightarrow> string" where
  "truncate_to value maxLength = (if length value \<le> maxLength then value else take maxLength value)"

record tally =
  tl_attempted :: int
  tl_sent :: int
  tl_skipped :: int
  tl_failed :: int

definition no_tally :: tally where
  "no_tally = \<lparr>tl_attempted = 0, tl_sent = 0, tl_skipped = 0, tl_failed = 0\<rparr>"

definition process_recipient ::
  "email_sending_plan \<Rightarrow> int \<Rightarrow> tally \<Rightarrow> email_recipient \<Rightarrow> (tally \<times> email_recipient) io" where
  "process_recipient plan intervalNumber t recipient =
     (let r = recipient\<lparr>rcp_AttemptCount := rcp_AttemptCount recipient + 1,
                rcp_LastIntervalNumber := Some intervalNumber\<rparr> in
      bindM (list_contacts (rcp_AccountId r)) (\<lambda>contacts.
      case select_contact None contacts of
        None \<Rightarrow>
          bindM time_now (\<lambda>processed. bindM time_now (\<lambda>updated.
            let r' = r\<lparr>rcp_Status := RecipientSkipped,
                  rcp_LastError := Some ''No verified email contact is available.'',
                  rcp_ProcessedAt := Some processed, UpdatedAt := updated\<rparr>
            in seqM (update_recipient r') (ret (t\<lparr>tl_skipped := tl_skipped t + 1\<rparr>, r'))))
      | Some contact \<Rightarrow>
          let r1 = r\<lparr>rcp_LastResolvedEmail := Some (ct_Content contact)\<rparr> in
          bindM (attempt (email_send r1 (ct_Content contact) (plan_Subject plan) (plan_HtmlBody plan)))
            (\<lambda>res. bindM time_now (\<lambda>processed. bindM time_now (\<lambda>updated.
            let (r', t') =
              (case res of
                 Inl err \<Rightarrow>
                   (r1\<lparr>rcp_Status := RecipientFailed,
                      rcp_LastError := Some (truncate_to (error_text err) 4096)\<rparr>,
                    t\<lparr>tl_attempted := tl_attempted t + 1, tl_failed := tl_failed t + 1\<rparr>)
               | Inr _ \<Rightarrow>
                   (r1\<lparr>rcp_Status := RecipientSent, rcp_LastError := None\<rparr>,
                    t\<lparr>tl_attempted := tl_attempted t + 1, tl_sent := tl_sent t + 1\<rparr>));
                r'' = r'\<lparr>rcp_ProcessedAt := Some processed, UpdatedAt := updated\<rparr>
            in seqM (update_recipient r'') (ret (t', r'')))))))"

fun process_recipients ::
  "email_sending_plan \<Rightarrow> int \<Rightarrow> int \<Rightarrow> tally \<Rightarrow> email_recipient list
   \<Rightarrow> (tally \<times> email_recipient list) io" where
  "process_recipients plan sendCapacity intervalNumber t [] = ret (t, [])"
| "process_recipients plan sendCapacity intervalNumber t (r # rs) =
     (if sendCapacity \<le> tl_attempted t then ret (t, r # rs)
      else bindM (process_recipient plan intervalNumber t r) (\<lambda>(t', r').
           bindM (process_recipients plan sendCapacity intervalNumber t' rs) (\<lambda>(t'', rs').
           ret (t'', r' # rs'))))"

section \<open>The capacity of the day\<close>

definition day_length :: int where
  "day_length = 86400000000000"

definition get_start_of_utc_day :: "time \<Rightarrow> time" where
  "get_start_of_utc_day t = (t div day_length) * day_length"

definition get_start_of_next_utc_day :: "time \<Rightarrow> time" where
  "get_start_of_next_utc_day t = get_start_of_utc_day t + day_length"

definition get_remaining_daily_capacity :: "email_sending_plan \<Rightarrow> time \<Rightarrow> int option io" where
  "get_remaining_daily_capacity plan now =
     (case plan_MaxEmailsPerDay plan of
        None \<Rightarrow> ret None
      | Some perDay \<Rightarrow>
          bindM (sum_attempted_today (Id plan) (get_start_of_utc_day now)
              (get_start_of_next_utc_day now))
            (\<lambda>attemptedToday.
              let remaining = perDay - attemptedToday
              in ret (Some (if remaining < 0 then 0 else remaining))))"

section \<open>Advancing a plan\<close>

text \<open>\<open>now.Add(time.Duration(plan.IntervalMinutes) * time.Minute)\<close>: the product wraps at 64 bits.\<close>

definition after_interval :: "email_sending_plan \<Rightarrow> time \<Rightarrow> time" where
  "after_interval plan now = now + wrap64 (plan_IntervalMinutes plan * 60000000000)"

definition send_capacity :: "email_sending_plan \<Rightarrow> int option \<Rightarrow> int" where
  "send_capacity plan remaining =
     (case remaining of
        Some r \<Rightarrow> if r < plan_MaxEmailsPerInterval plan then r else plan_MaxEmailsPerInterval plan
      | None \<Rightarrow> plan_MaxEmailsPerInterval plan)"

definition complete_without_pending :: "email_sending_plan \<Rightarrow> unit io" where
  "complete_without_pending plan =
     bindM (case plan_CompletedAt plan of None \<Rightarrow> time_now | Some t \<Rightarrow> ret t) (\<lambda>completed.
     bindM time_now (\<lambda>updated.
       update_email_plan_status
         (plan\<lparr>plan_Status := PlanCompleted, plan_CompletedAt := Some completed,
            plan_NextIntervalAt := None, UpdatedAt := updated\<rparr>)))"

definition postpone_to_next_day :: "email_sending_plan \<Rightarrow> time \<Rightarrow> unit io" where
  "postpone_to_next_day plan now =
     bindM time_now (\<lambda>updated.
       update_email_plan_status
         ((if plan_Status plan \<noteq> PlanPaused
           then plan\<lparr>plan_NextIntervalAt := time_ptr (get_start_of_next_utc_day now)\<rparr> else plan)
          \<lparr>UpdatedAt := updated\<rparr>))"

definition new_advance ::
  "email_sending_plan \<Rightarrow> int \<Rightarrow> bool \<Rightarrow> tally \<Rightarrow> int \<Rightarrow> time \<Rightarrow> email_advance io" where
  "new_advance plan intervalNumber isManual t pendingCountAfter now =
     bindM uuid_new (\<lambda>i. bindM time_now (\<lambda>created. bindM time_now (\<lambda>updated.
     bindM time_now (\<lambda>completed. ret
       \<lparr>Id = i, CreatedAt = created, UpdatedAt = updated, DeletedAt = None,
        adv_PlanId = Id plan, adv_IntervalNumber = intervalNumber, adv_IsManual = isManual,
        adv_AttemptedCount = tl_attempted t, adv_SentCount = tl_sent t,
        adv_SkippedCount = tl_skipped t, adv_FailedCount = tl_failed t,
        adv_PendingCountAfter = pendingCountAfter, adv_StartedAt = now,
        adv_CompletedAt = completed\<rparr>))))"

text \<open>The interval is recorded only when it attempted or skipped someone.\<close>

definition record_advance ::
  "email_sending_plan \<Rightarrow> int \<Rightarrow> bool \<Rightarrow> tally \<Rightarrow> int \<Rightarrow> time \<Rightarrow> email_sending_plan io" where
  "record_advance plan intervalNumber isManual t pendingCountAfter now =
     (if 0 < tl_attempted t \<or> 0 < tl_skipped t \<or> 0 < tl_failed t then
        bindM (new_advance plan intervalNumber isManual t pendingCountAfter now) (\<lambda>advance.
        seqM (insert_advance advance)
          (bindM time_now (\<lambda>lastAdvanced.
            ret (plan\<lparr>plan_AdvancedIntervalsCount := intervalNumber,
                   plan_LastAdvancedAt := Some lastAdvanced\<rparr>))))
      else ret plan)"

definition remaining_after :: "int option \<Rightarrow> tally \<Rightarrow> int option" where
  "remaining_after remaining t =
     map_option (\<lambda>r. if r - tl_attempted t < 0 then 0 else r - tl_attempted t) remaining"

definition reschedule ::
  "email_sending_plan \<Rightarrow> int option \<Rightarrow> tally \<Rightarrow> int \<Rightarrow> time \<Rightarrow> email_sending_plan io" where
  "reschedule plan remaining t pendingCountAfter now =
     (if pendingCountAfter = 0 then
        bindM time_now (\<lambda>completed.
          ret (plan\<lparr>plan_Status := PlanCompleted, plan_CompletedAt := Some completed,
                 plan_NextIntervalAt := None\<rparr>))
      else if plan_Status plan = PlanPaused then
        ret (plan\<lparr>plan_NextIntervalAt := time_ptr (after_interval plan now)\<rparr>)
      else
        ret (plan\<lparr>plan_Status := PlanScheduled,
               plan_NextIntervalAt := time_ptr
                 (if plan_MaxEmailsPerDay plan \<noteq> None \<and> remaining_after remaining t = Some 0
                  then get_start_of_next_utc_day now else after_interval plan now)\<rparr>))"

definition count_still_pending :: "email_recipient list \<Rightarrow> int" where
  "count_still_pending recipients =
     int (length (filter (\<lambda>r. rcp_Status r = RecipientPending) recipients))"

definition run_interval ::
  "email_sending_plan \<Rightarrow> bool \<Rightarrow> time \<Rightarrow> int option \<Rightarrow> unit io" where
  "run_interval plan isManual now remaining =
     bindM (list_pending_recipients (Id plan)) (\<lambda>recipients.
     let intervalNumber = plan_AdvancedIntervalsCount plan + 1 in
     bindM (process_recipients plan (send_capacity plan remaining) intervalNumber no_tally recipients)
       (\<lambda>(t, recipients').
     let pendingCountAfter = count_still_pending recipients' in
     bindM (record_advance plan intervalNumber isManual t pendingCountAfter now) (\<lambda>plan'.
     bindM (reschedule plan' remaining t pendingCountAfter now) (\<lambda>plan''.
     bindM time_now (\<lambda>updated.
       update_email_plan_status (plan''\<lparr>UpdatedAt := updated\<rparr>))))))"

definition advance_guard :: "email_sending_plan \<Rightarrow> bool \<Rightarrow> time \<Rightarrow> go_error option" where
  "advance_guard plan isManual now =
     (if plan_Status plan = PlanCompleted then Some (ErrText ''Completed plans cannot be advanced.'')
      else if \<not> isManual \<and> plan_Status plan = PlanPaused then
        Some (ErrText ''Paused plans cannot be advanced automatically.'')
      else if \<not> isManual \<and> (case plan_NextIntervalAt plan of None \<Rightarrow> False | Some t \<Rightarrow> now < t) then
        Some (ErrText ''The next interval is not due yet.'')
      else None)"

definition advance_plan_interval :: "uuid \<Rightarrow> bool \<Rightarrow> plan_view option io" where
  "advance_plan_interval planID isManual =
     bindM (get_tracked_plan planID) (\<lambda>plan.
     bindM time_now (\<lambda>now.
     case advance_guard plan isManual now of
       Some e \<Rightarrow> throw e
     | None \<Rightarrow>
         bindM (count_pending_recipients planID) (\<lambda>pendingCountBefore.
         seqM
          (if pendingCountBefore = 0 then complete_without_pending plan
           else bindM (get_remaining_daily_capacity plan now) (\<lambda>remaining.
             if remaining = Some 0 then postpone_to_next_day plan now
             else run_interval plan isManual now remaining))
          (get_plan planID))))"

text \<open>A plan that fails is logged and the next one goes on.\<close>

definition advance_due_plans :: "unit io" where
  "advance_due_plans =
     bindM time_now (\<lambda>now.
     bindM (list_due_plans now) (\<lambda>plans.
       forM plans (\<lambda>plan. swallow (advance_plan_interval (Id plan) False))))"

end
