(* ===== verification/Email_Plan_Facts.thy ===== *)
theory Email_Plan_Facts
  imports Email_Advance "HOL-Library.Option_ord" "HOL-Library.Product_Lexorder"
begin

text \<open>
  What the sending plans promise: the choice of the contact, the accounting of an interval, the
  limits per interval and per day, and the states of a plan.
\<close>

section \<open>The chosen contact\<close>

text \<open>Primary before secondary, then the latest verification; the first of equals.\<close>

definition contact_rank :: "contact \<Rightarrow> bool \<times> time option" where
  "contact_rank c = (ct_IsPrimary c, ct_VerifiedAt c)"

lemma verified_after_less: "verified_after a b \<longleftrightarrow> ct_VerifiedAt b < ct_VerifiedAt a"
  by (auto simp: verified_after_def split: option.splits)

lemma better_contact_rank:
  "better_contact c b = (if contact_rank b < contact_rank c then c else b)"
  by (auto simp: better_contact_def contact_rank_def verified_after_less less_prod_def')

lemma select_contact_Some:
  "\<exists>c. select_contact (Some b) cs = Some c \<and> c \<in> set (b # cs)
     \<and> find (\<lambda>x. contact_rank x = contact_rank c) (b # cs) = Some c
     \<and> (\<forall>x \<in> set (b # cs). contact_rank x \<le> contact_rank c)"
proof (induction cs arbitrary: b)
  case (Cons x cs)
  let ?b = "better_contact x b"
  obtain c where c: "select_contact (Some ?b) cs = Some c" "c \<in> set (?b # cs)"
    "find (\<lambda>x. contact_rank x = contact_rank c) (?b # cs) = Some c"
    "\<forall>y \<in> set (?b # cs). contact_rank y \<le> contact_rank c"
    using Cons.IH [of ?b] by blast
  have "contact_rank b \<le> contact_rank c" "contact_rank x \<le> contact_rank c"
    using c(4) by (auto simp: better_contact_rank split: if_splits)
  with c show ?case
    by (auto simp: better_contact_rank split: if_splits)
qed simp

text \<open>
  Among the verified contacts of a recipient, an interval writes to one of the highest rank (a
  primary contact before any other, then the latest verification), the first such in the list; it
  finds none only when there is none.
\<close>

theorem select_contact_best:
  "(select_contact None cs = None \<longleftrightarrow> cs = [])
   \<and> (\<forall>c. select_contact None cs = Some c \<longrightarrow>
        find (\<lambda>x. contact_rank x = contact_rank c) cs = Some c
        \<and> (\<forall>x \<in> set cs. contact_rank x \<le> contact_rank c))"
proof (cases cs)
  case (Cons b bs)
  obtain c where "select_contact (Some b) bs = Some c"
    "find (\<lambda>x. contact_rank x = contact_rank c) (b # bs) = Some c"
    "\<forall>x \<in> set (b # bs). contact_rank x \<le> contact_rank c"
    using select_contact_Some [of b bs] by blast
  then show ?thesis unfolding Cons by simp
qed simp

theorem select_contact_best_witness:
  "\<exists>c. select_contact None
     [\<lparr>ct_Content = ''a'', ct_IsPrimary = False, ct_VerifiedAt = Some 9\<rparr>,
      \<lparr>ct_Content = ''b'', ct_IsPrimary = True, ct_VerifiedAt = None\<rparr>,
      \<lparr>ct_Content = ''c'', ct_IsPrimary = True, ct_VerifiedAt = Some 3\<rparr>] = Some c
   \<and> (True, Some 3) \<le> contact_rank c"
proof -
  let ?cs = "[\<lparr>ct_Content = ''a'', ct_IsPrimary = False, ct_VerifiedAt = Some 9\<rparr>,
      \<lparr>ct_Content = ''b'', ct_IsPrimary = True, ct_VerifiedAt = None\<rparr>,
      \<lparr>ct_Content = ''c'', ct_IsPrimary = True, ct_VerifiedAt = Some 3\<rparr>]"
  obtain c where c: "select_contact None ?cs = Some c"
    using select_contact_best [of ?cs] by (cases "select_contact None ?cs") auto
  then have "\<forall>x \<in> set ?cs. contact_rank x \<le> contact_rank c"
    using select_contact_best [of ?cs] by blast
  then have "(True, Some 3) \<le> contact_rank c" by (simp add: contact_rank_def)
  with c show ?thesis by blast
qed

section \<open>One recipient\<close>

definition pending_rows :: "uuid \<Rightarrow> world \<Rightarrow> recipient_entity list" where
  "pending_rows planID w = filter (is_pending planID) (w_recipients w)"

text \<open>What an interval touches while it walks the recipients, blanked out.\<close>

definition interval_frame :: "world \<Rightarrow> world" where
  "interval_frame w =
     w\<lparr>w_tick := 0, w_outbox := [], w_email_deliveries := [], w_recipients := []\<rparr>"

lemma interval_frame_tick [simp]: "interval_frame (w\<lparr>w_tick := k\<rparr>) = interval_frame w"
  by (simp add: interval_frame_def)

lemma interval_frame_mail:
  "mail_frame w' = mail_frame w \<Longrightarrow> interval_frame w' = interval_frame w \<and> w_recipients w' = w_recipients w"
  unfolding mail_frame_def interval_frame_def
  by (drule arg_cong [of _ _ "\<lambda>w. (w\<lparr>w_recipients := []\<rparr>, w_recipients w)"]) simp

lemma list_contacts_run:
  "\<exists>cs k. list_contacts a w = (Inr cs, w\<lparr>w_tick := k\<rparr>)"
proof (cases "o_accounts (w_outside w)")
  case True
  then show ?thesis
    by (auto simp: list_contacts_def prog_simps external_def Let_def split: option.splits)
next
  case False
  then have "list_contacts a w = (Inr [], w\<lparr>w_tick := w_tick w\<rparr>)"
    by (simp add: list_contacts_def prog_simps)
  then show ?thesis by blast
qed

lemma email_send_effect:
  assumes "email_send r to subject body w = (q, w')"
  shows "interval_frame w' = interval_frame w \<and> w_recipients w' = w_recipients w
    \<and> (\<exists>ms. w_outbox w' = w_outbox w @ ms \<and> length ms \<le> 1 \<and> (q = Inr () \<longrightarrow> length ms = 1))"
proof (cases "o_email (w_outside w)")
  case None
  then show ?thesis using assms by (auto simp: email_send_def io_iffs prog_simps)
next
  case (Some cfg)
  then have "send_email cfg (recipient_name r) to subject body ''sending_plan'' w = (q, w')"
    using assms by (simp add: email_send_def prog_simps)
  note eff = send_email_effect [OF this]
  note frame = interval_frame_mail [OF eff [THEN conjunct1]]
  show ?thesis
  proof (cases q)
    case (Inl e)
    with eff frame show ?thesis by auto
  next
    case (Inr u)
    with eff frame show ?thesis by auto
  qed
qed

lemma pending_rows_update:
  assumes "rcp_Status r' \<noteq> RecipientPending" and "recipient_status_ok (rcp_Status r')"
  shows "filter (is_pending p) (update_where (\<lambda>x. alive x \<and> ID x = i) (set_recipient_columns r') rows)
    = filter (\<lambda>x. ID x \<noteq> i) (filter (is_pending p) rows)"
proof (induction rows)
  case (Cons x rows)
  have "int_of_recipient_status (rcp_Status r') \<noteq> int_of_recipient_status RecipientPending"
    using assms by (metis recipient_status_of_int_of_recipient_status recipient_status_of_int.simps
        int_of_recipient_status.simps(1))
  with Cons show ?case
    by (auto simp: is_pending_def set_recipient_columns_def alive_def)
qed simp

text \<open>The write-back of a processed recipient.\<close>

lemma update_recipient_effect:
  assumes "update_recipient r' w = (res, w')"
    and "rcp_Status r' \<noteq> RecipientPending" and "recipient_status_ok (rcp_Status r')"
  shows "interval_frame w' = interval_frame w \<and> w_outbox w' = w_outbox w
    \<and> (case res of
         Inl e \<Rightarrow> w_recipients w' = w_recipients w
       | Inr _ \<Rightarrow> \<forall>p. pending_rows p w' = filter (\<lambda>x. ID x \<noteq> Id r') (pending_rows p w))"
  using assms(1) pending_rows_update [OF assms(2,3)]
  by (cases res) (auto simp: update_recipient_def io_iffs interval_frame_def pending_rows_def)

text \<open>How a processed recipient moves the tally, and the messages accepted meanwhile.\<close>

definition tally_step :: "tally \<Rightarrow> tally \<Rightarrow> nat \<Rightarrow> bool" where
  "tally_step t t' msgs \<longleftrightarrow>
     t' = t\<lparr>tl_skipped := tl_skipped t + 1\<rparr> \<and> msgs = 0
     \<or> t' = t\<lparr>tl_attempted := tl_attempted t + 1, tl_failed := tl_failed t + 1\<rparr> \<and> msgs \<le> 1
     \<or> t' = t\<lparr>tl_attempted := tl_attempted t + 1, tl_sent := tl_sent t + 1\<rparr> \<and> msgs = 1"

definition recipient_processed ::
  "tally \<Rightarrow> email_recipient \<Rightarrow> go_error + tally \<times> email_recipient \<Rightarrow> world \<Rightarrow> world \<Rightarrow> bool" where
  "recipient_processed t r res w w' \<longleftrightarrow>
     interval_frame w' = interval_frame w
     \<and> (\<exists>ms. w_outbox w' = w_outbox w @ ms \<and> length ms \<le> 1
          \<and> (case res of
               Inl e \<Rightarrow> w_recipients w' = w_recipients w
             | Inr (t', r') \<Rightarrow> Id r' = Id r \<and> rcp_Status r' \<noteq> RecipientPending
                 \<and> tally_step t t' (length ms)
                 \<and> (\<forall>p. pending_rows p w' = filter (\<lambda>x. ID x \<noteq> Id r) (pending_rows p w))))"

lemma write_back_processed:
  assumes "seqM (update_recipient r') (ret (t', r')) w1 = (res, w')"
    and "Id r' = Id r"
    and "rcp_Status r' \<in> {RecipientSkipped, RecipientFailed, RecipientSent}"
    and "interval_frame w1 = interval_frame w" and "w_recipients w1 = w_recipients w"
    and "w_outbox w1 = w_outbox w @ ms" and "length ms \<le> 1" and "tally_step t t' (length ms)"
  shows "recipient_processed t r res w w'"
proof -
  obtain q where upd: "update_recipient r' w1 = (q, w')"
    and res: "res = (case q of Inl e \<Rightarrow> Inl e | Inr _ \<Rightarrow> Inr (t', r'))"
    using assms(1) by (auto simp: seqM_def bindM_def ret_def split: prod.splits sum.splits)
  have ok: "rcp_Status r' \<noteq> RecipientPending" "recipient_status_ok (rcp_Status r')"
    using assms(3) by (auto simp: recipient_status_ok_def)
  have rows: "pending_rows p w1 = pending_rows p w" for p
    using assms(5) by (simp add: pending_rows_def)
  show ?thesis
    using update_recipient_effect [OF upd ok] assms(2,4-8) ok(1)
    by (cases q) (simp_all add: recipient_processed_def res rows)
qed

lemma process_recipient_effect:
  assumes "process_recipient plan n t r w = (res, w')"
  shows "recipient_processed t r res w w'"
proof -
  obtain cs k where contacts: "list_contacts (rcp_AccountId r) w = (Inr cs, w\<lparr>w_tick := k\<rparr>)"
    using list_contacts_run by blast
  show ?thesis
  proof (cases "select_contact None cs")
    case None
    show ?thesis
      using assms
      by (simp add: process_recipient_def bindM_def contacts None time_now_def Let_def)
        (erule write_back_processed [where ms = "[]"]; simp add: tally_step_def)
  next
    case (Some c)
    let ?r = "r\<lparr>rcp_AttemptCount := rcp_AttemptCount r + 1, rcp_LastIntervalNumber := Some n,
      rcp_LastResolvedEmail := Some (ct_Content c)\<rparr>"
    obtain q w1 where sent: "email_send ?r (ct_Content c) (plan_Subject plan) (plan_HtmlBody plan)
        (w\<lparr>w_tick := k\<rparr>) = (q, w1)"
      by (meson surj_pair)
    obtain ms where ms: "w_outbox w1 = w_outbox w @ ms" "length ms \<le> 1"
        "q = Inr () \<longrightarrow> length ms = 1"
      and frame: "interval_frame w1 = interval_frame w" "w_recipients w1 = w_recipients w"
      using email_send_effect [OF sent] by auto
    show ?thesis
      using assms ms frame
      by (cases q)
        (simp_all add: process_recipient_def bindM_def contacts Some time_now_def Let_def attempt_def
          sent, (erule write_back_processed [where ms = ms]; simp add: tally_step_def)+)
  qed
qed

section \<open>All recipients of an interval\<close>

text \<open>
  \<open>processed\<close> of the recipients are done with, in their order; the tally says how; as many messages
  were accepted as were sent, or a few more among the failed.
\<close>

definition interval_walked ::
  "int \<Rightarrow> tally \<Rightarrow> email_recipient list \<Rightarrow> tally \<Rightarrow> email_recipient list \<Rightarrow> world \<Rightarrow> world \<Rightarrow> bool" where
  "interval_walked sendCapacity t rs t' rs' w w' \<longleftrightarrow>
     (\<exists>k ms. k \<le> length rs \<and> map Id rs' = map Id rs \<and> drop k rs' = drop k rs
       \<and> (\<forall>r \<in> set (take k rs'). rcp_Status r \<noteq> RecipientPending)
       \<and> int k = (tl_attempted t' - tl_attempted t) + (tl_skipped t' - tl_skipped t)
       \<and> tl_attempted t' - tl_attempted t = (tl_sent t' - tl_sent t) + (tl_failed t' - tl_failed t)
       \<and> tl_attempted t' \<le> max sendCapacity (tl_attempted t)
       \<and> tl_sent t \<le> tl_sent t' \<and> tl_failed t \<le> tl_failed t' \<and> tl_skipped t \<le> tl_skipped t'
       \<and> (k < length rs \<longrightarrow> sendCapacity \<le> tl_attempted t')
       \<and> w_outbox w' = w_outbox w @ ms
       \<and> tl_sent t' - tl_sent t \<le> int (length ms)
       \<and> int (length ms) \<le> tl_attempted t' - tl_attempted t
       \<and> (\<forall>p. pending_rows p w'
            = filter (\<lambda>x. ID x \<notin> Id ` set (take k rs)) (pending_rows p w)))"

lemma interval_walked_stop: "interval_walked sendCapacity t rs t rs w w"
  if "rs = [] \<or> sendCapacity \<le> tl_attempted t"
  using that by (auto simp: interval_walked_def intro!: exI [of _ 0])

lemma interval_walked_step:
  assumes one: "recipient_processed t r (Inr (t1, r1)) w w1"
    and more: "interval_walked sendCapacity t1 rs t' rs1 w1 w'"
    and room: "tl_attempted t < sendCapacity"
  shows "interval_walked sendCapacity t (r # rs) t' (r1 # rs1) w w'"
proof -
  obtain ms1 where ms1: "w_outbox w1 = w_outbox w @ ms1" "tally_step t t1 (length ms1)"
    and r1: "Id r1 = Id r" "rcp_Status r1 \<noteq> RecipientPending"
      "\<forall>p. pending_rows p w1 = filter (\<lambda>x. ID x \<noteq> Id r) (pending_rows p w)"
    using one by (auto simp: recipient_processed_def)
  obtain k ms where k: "k \<le> length rs" "map Id rs1 = map Id rs" "drop k rs1 = drop k rs"
      "\<forall>r \<in> set (take k rs1). rcp_Status r \<noteq> RecipientPending"
      "k < length rs \<longrightarrow> sendCapacity \<le> tl_attempted t'"
    and tally: "int k = (tl_attempted t' - tl_attempted t1) + (tl_skipped t' - tl_skipped t1)"
      "tl_attempted t' - tl_attempted t1 = (tl_sent t' - tl_sent t1) + (tl_failed t' - tl_failed t1)"
      "tl_attempted t' \<le> max sendCapacity (tl_attempted t1)"
      "tl_sent t1 \<le> tl_sent t'" "tl_failed t1 \<le> tl_failed t'" "tl_skipped t1 \<le> tl_skipped t'"
    and ms: "w_outbox w' = w_outbox w1 @ ms" "tl_sent t' - tl_sent t1 \<le> int (length ms)"
      "int (length ms) \<le> tl_attempted t' - tl_attempted t1"
    and rows: "\<forall>p. pending_rows p w' = filter (\<lambda>x. ID x \<notin> Id ` set (take k rs)) (pending_rows p w1)"
    using more by (auto simp: interval_walked_def)
  have pending: "\<forall>p. pending_rows p w' = filter (\<lambda>x. ID x \<notin> Id ` set (take (Suc k) (r # rs)))
      (pending_rows p w)"
    using rows r1(3) by (auto simp: conj_commute intro!: filter_cong)
  show ?thesis
    unfolding interval_walked_def
    using k tally ms pending r1 ms1 room
    by (intro exI [of _ "Suc k"] exI [of _ "ms1 @ ms"]) (auto simp: tally_step_def)
qed

lemma process_recipients_effect:
  assumes "process_recipients plan sendCapacity n t rs w = (Inr (t', rs'), w')"
  shows "interval_frame w' = interval_frame w \<and> interval_walked sendCapacity t rs t' rs' w w'"
  using assms
proof (induction plan sendCapacity n t rs arbitrary: w t' rs' w' rule: process_recipients.induct)
  case (1 plan sendCapacity n t)
  then show ?case by (simp add: io_iffs interval_walked_stop)
next
  case (2 plan sendCapacity n t r rs)
  show ?case
  proof (cases "sendCapacity \<le> tl_attempted t")
    case True
    with 2(2) show ?thesis
      by (auto simp: io_iffs intro!: interval_walked_stop)
  next
    case False
    then obtain t1 r1 w1 rs1 where one: "process_recipient plan n t r w = (Inr (t1, r1), w1)"
      and more: "process_recipients plan sendCapacity n t1 rs w1 = (Inr (t', rs1), w')"
      and rs': "rs' = r1 # rs1"
      using 2(2) by (auto simp: io_iffs split: prod.splits)
    have walked: "recipient_processed t r (Inr (t1, r1)) w w1"
      by (rule process_recipient_effect [OF one])
    moreover have "interval_frame w' = interval_frame w1
        \<and> interval_walked sendCapacity t1 rs t' rs1 w1 w'"
      using 2(1) [OF False more] by blast
    ultimately show ?thesis
      using interval_walked_step [of t r t1 r1 w w1] False rs'
      by (auto simp: recipient_processed_def)
  qed
qed

section \<open>One interval\<close>

lemma filter_not_in_take:
  "distinct (map g xs) \<Longrightarrow> filter (\<lambda>x. g x \<notin> g ` set (take k xs)) xs = drop k xs"
proof (induction xs arbitrary: k)
  case (Cons x xs)
  show ?case
  proof (cases k)
    case (Suc n)
    with Cons have "filter (\<lambda>y. g y \<notin> g ` set (take k (x # xs))) xs
        = filter (\<lambda>y. g y \<notin> g ` set (take n xs)) xs"
      by (intro filter_cong) (auto, metis rev_image_eqI)
    with Cons Suc show ?thesis by simp
  qed simp
qed simp

text \<open>The recipients an interval reads: the pending rows in the order of the query.\<close>

definition pending_in_order :: "uuid \<Rightarrow> world \<Rightarrow> recipient_entity list" where
  "pending_in_order planID w = sort_key e_CreatedAt (sort_key ID (pending_rows planID w))"

lemma mset_pending_in_order: "mset (pending_in_order p w) = mset (pending_rows p w)"
  unfolding pending_in_order_def by (simp only: mset_sort)

lemma set_pending_in_order: "set (pending_in_order p w) = set (pending_rows p w)"
  using mset_pending_in_order by (metis mset_eq_setD)

lemma length_pending_in_order: "length (pending_in_order p w) = length (pending_rows p w)"
  using mset_pending_in_order by (metis size_mset)

lemma pending_rows_walked:
  assumes "distinct (map ID (w_recipients w))"
  shows "length (filter (\<lambda>x. ID x \<notin> ID ` set (take k (pending_in_order p w))) (pending_rows p w))
    = length (pending_rows p w) - k"
proof -
  have "distinct (map ID (pending_rows p w))"
    using assms by (simp add: pending_rows_def distinct_map_filter)
  then have ids: "distinct (map ID (pending_in_order p w))"
    using mset_pending_in_order by (metis mset_map mset_eq_imp_distinct_iff)
  have "length (filter q (pending_rows p w)) = length (filter q (pending_in_order p w))" for q
    using mset_pending_in_order by (metis mset_filter size_mset)
  then show ?thesis
    using filter_not_in_take [OF ids, of k] by (simp add: length_pending_in_order)
qed

lemma count_still_pending_walked:
  assumes "\<forall>r \<in> set rs. rcp_Status r = RecipientPending" and "k \<le> length rs"
    and "length rs' = length rs" and "drop k rs' = drop k rs"
    and "\<forall>r \<in> set (take k rs'). rcp_Status r \<noteq> RecipientPending"
  shows "count_still_pending rs' = int (length rs) - int k"
proof -
  have "filter (\<lambda>r. rcp_Status r = RecipientPending) (take k rs' @ drop k rs') = drop k rs"
    using assms(1,4,5) in_set_dropD by (fastforce simp: filter_empty_conv intro!: filter_True)
  then show ?thesis using assms(2) by (simp add: count_still_pending_def)
qed

lemma list_pending_recipients_run:
  "list_pending_recipients p w = (r, w1) \<Longrightarrow> w1 = w\<lparr>w_tick := Suc (w_tick w)\<rparr>
    \<and> (case r of Inl e \<Rightarrow> True | Inr rs \<Rightarrow> rs = map recipient_from_entity (pending_in_order p w))"
  by (cases r) (auto simp: list_pending_recipients_def io_iffs pending_in_order_def pending_rows_def)

lemma pending_from_entity:
  "r \<in> set (map recipient_from_entity (pending_in_order p w)) \<Longrightarrow> rcp_Status r = RecipientPending"
  by (auto simp: set_pending_in_order pending_rows_def is_pending_def)

text \<open>
  The report of an interval of plan \<open>p\<close> that had room for \<open>capacity\<close>: how the pending recipients,
  the outbox and the recorded intervals moved.
\<close>

definition interval_report :: "uuid \<Rightarrow> int \<Rightarrow> time \<Rightarrow> tally \<Rightarrow> world \<Rightarrow> world \<Rightarrow> bool" where
  "interval_report p capacity now t w w' \<longleftrightarrow>
     0 \<le> tl_sent t \<and> 0 \<le> tl_failed t \<and> 0 \<le> tl_skipped t
     \<and> tl_attempted t = tl_sent t + tl_failed t
     \<and> tl_attempted t \<le> max 0 capacity
     \<and> int (length (pending_rows p w'))
         = int (length (pending_rows p w)) - tl_attempted t - tl_skipped t
     \<and> (0 < length (pending_rows p w') \<longrightarrow> capacity \<le> tl_attempted t)
     \<and> (\<exists>ms. w_outbox w' = w_outbox w @ ms \<and> tl_sent t \<le> int (length ms)
          \<and> int (length ms) \<le> tl_attempted t)
     \<and> (if tl_attempted t + tl_skipped t = 0 then w_advances w' = w_advances w
        else \<exists>a. w_advances w' = w_advances w @ [a] \<and> alive a \<and> ae_PlanID a = p
          \<and> ae_StartedAt a = now \<and> ae_AttemptedCount a = tl_attempted t
          \<and> ae_SentCount a = tl_sent t \<and> ae_FailedCount a = tl_failed t
          \<and> ae_SkippedCount a = tl_skipped t
          \<and> ae_PendingCountAfter a = int (length (pending_rows p w')))"

text \<open>How the plan's own row comes out of an interval.\<close>

definition plan_after_interval ::
  "email_sending_plan \<Rightarrow> int option \<Rightarrow> tally \<Rightarrow> int \<Rightarrow> time \<Rightarrow> email_sending_plan \<Rightarrow> bool" where
  "plan_after_interval plan remaining t pendingCountAfter now plan' \<longleftrightarrow>
     Id plan' = Id plan
     \<and> plan_AdvancedIntervalsCount plan' = plan_AdvancedIntervalsCount plan
         + (if tl_attempted t + tl_skipped t = 0 then 0 else 1)
     \<and> (if pendingCountAfter = 0 then
          plan_Status plan' = PlanCompleted \<and> plan_NextIntervalAt plan' = None
          \<and> plan_CompletedAt plan' \<noteq> None
        else
          plan_Status plan' = (if plan_Status plan = PlanPaused then PlanPaused else PlanScheduled)
          \<and> plan_NextIntervalAt plan' = time_ptr
             (if plan_Status plan \<noteq> PlanPaused \<and> plan_MaxEmailsPerDay plan \<noteq> None
                 \<and> remaining_after remaining t = Some 0
              then get_start_of_next_utc_day now else after_interval plan now))"

lemma record_advance_effect:
  assumes "record_advance plan n manual t pend now w = (Inr plan', w')"
    and "0 \<le> tl_attempted t" and "0 \<le> tl_skipped t" and "0 \<le> tl_failed t"
    and "tl_failed t \<le> tl_attempted t"
  shows "w_recipients w' = w_recipients w \<and> w_outbox w' = w_outbox w \<and> w_plans w' = w_plans w
    \<and> (if tl_attempted t + tl_skipped t = 0 then w_advances w' = w_advances w \<and> plan' = plan
       else (\<exists>a. w_advances w' = w_advances w @ [a] \<and> alive a \<and> ae_PlanID a = Id plan
          \<and> ae_StartedAt a = now \<and> ae_AttemptedCount a = tl_attempted t
          \<and> ae_SentCount a = tl_sent t \<and> ae_FailedCount a = tl_failed t
          \<and> ae_SkippedCount a = tl_skipped t \<and> ae_PendingCountAfter a = pend)
        \<and> (\<exists>last. plan' = plan\<lparr>plan_AdvancedIntervalsCount := n, plan_LastAdvancedAt := Some last\<rparr>))"
proof (cases "tl_attempted t + tl_skipped t = 0")
  case True
  with assms(2-) have "\<not> (0 < tl_attempted t \<or> 0 < tl_skipped t \<or> 0 < tl_failed t)" by linarith
  with assms(1) True show ?thesis by (auto simp: record_advance_def io_iffs)
next
  case False
  with assms(2-) have "0 < tl_attempted t \<or> 0 < tl_skipped t \<or> 0 < tl_failed t" by linarith
  with assms(1) False show ?thesis
    by (auto simp: record_advance_def new_advance_def insert_advance_def db_insert_def io_iffs
        advance_entity_from_model_def alive_def split: if_splits)
qed

lemma reschedule_effect:
  assumes "reschedule plan remaining t pend now w = (Inr plan', w')"
  shows "w_plans w' = w_plans w \<and> w_recipients w' = w_recipients w \<and> w_outbox w' = w_outbox w
     \<and> w_advances w' = w_advances w \<and> Id plan' = Id plan
     \<and> plan_AdvancedIntervalsCount plan' = plan_AdvancedIntervalsCount plan
     \<and> (if pend = 0 then
          plan_Status plan' = PlanCompleted \<and> plan_NextIntervalAt plan' = None
          \<and> plan_CompletedAt plan' \<noteq> None
        else
          plan_Status plan' = (if plan_Status plan = PlanPaused then PlanPaused else PlanScheduled)
          \<and> plan_NextIntervalAt plan' = time_ptr
             (if plan_Status plan \<noteq> PlanPaused \<and> plan_MaxEmailsPerDay plan \<noteq> None
                 \<and> remaining_after remaining t = Some 0
              then get_start_of_next_utc_day now else after_interval plan now))"
  using assms by (auto simp: reschedule_def io_iffs split: if_splits)

lemma update_email_plan_status_Inr:
  "update_email_plan_status plan w = (Inr u, w') \<Longrightarrow>
   w' = w\<lparr>w_tick := Suc (w_tick w), w_plans :=
     update_where (\<lambda>r. alive r \<and> ID r = Id plan) (set_plan_columns plan) (w_plans w)\<rparr>"
  by (auto simp: update_email_plan_status_def io_iffs)

lemma interval_frame_sel:
  assumes "interval_frame w' = interval_frame w"
  shows "w_advances w' = w_advances w" "w_plans w' = w_plans w" "w_outside w' = w_outside w"
  using arg_cong [OF assms, of w_advances] arg_cong [OF assms, of w_plans]
    arg_cong [OF assms, of w_outside]
  by (simp_all add: interval_frame_def)

lemma run_interval_effect:
  assumes run: "run_interval plan manual now remaining w = (Inr u, w')"
    and ids: "distinct (map ID (w_recipients w))"
  shows "\<exists>t plan'. interval_report (Id plan) (send_capacity plan remaining) now t w w'
    \<and> plan_after_interval plan remaining t (int (length (pending_rows (Id plan) w'))) now plan'
    \<and> w_plans w' = update_where (\<lambda>r. alive r \<and> ID r = Id plan) (set_plan_columns plan') (w_plans w)"
proof -
  let ?p = "Id plan" and ?n = "plan_AdvancedIntervalsCount plan + 1"
  let ?rs = "map recipient_from_entity (pending_in_order ?p w)"
  obtain w1 t rs' w2 p1 w3 p2 w4 where
    l: "list_pending_recipients ?p w = (Inr ?rs, w1)"
    and walk: "process_recipients plan (send_capacity plan remaining) ?n no_tally ?rs w1
      = (Inr (t, rs'), w2)"
    and rec: "record_advance plan ?n manual t (count_still_pending rs') now w2 = (Inr p1, w3)"
    and res: "reschedule p1 remaining t (count_still_pending rs') now w3 = (Inr p2, w4)"
    and upd: "update_email_plan_status (p2\<lparr>UpdatedAt := o_time (w_outside w4) (w_tick w4)\<rparr>)
      (w4\<lparr>w_tick := Suc (w_tick w4)\<rparr>) = (Inr u, w')"
    using run list_pending_recipients_run
    by (fastforce simp: run_interval_def io_iffs Let_def split: prod.splits)
  have w1: "w1 = w\<lparr>w_tick := Suc (w_tick w)\<rparr>" using list_pending_recipients_run [OF l] by simp
  have frame: "interval_frame w2 = interval_frame w"
    and walked: "interval_walked (send_capacity plan remaining) no_tally ?rs t rs' w1 w2"
    using process_recipients_effect [OF walk] w1 by auto
  obtain k ms where k: "k \<le> length ?rs" "map Id rs' = map Id ?rs" "drop k rs' = drop k ?rs"
      "\<forall>r \<in> set (take k rs'). rcp_Status r \<noteq> RecipientPending"
      "k < length ?rs \<longrightarrow> send_capacity plan remaining \<le> tl_attempted t"
    and tally: "int k = tl_attempted t + tl_skipped t" "tl_attempted t = tl_sent t + tl_failed t"
      "tl_attempted t \<le> max (send_capacity plan remaining) 0"
      "0 \<le> tl_sent t" "0 \<le> tl_failed t" "0 \<le> tl_skipped t"
    and ms: "w_outbox w2 = w_outbox w @ ms" "tl_sent t \<le> int (length ms)"
      "int (length ms) \<le> tl_attempted t"
    and rows: "pending_rows ?p w2 = filter (\<lambda>x. ID x \<notin> Id ` set (take k ?rs)) (pending_rows ?p w1)"
    using walked w1 by (auto simp: interval_walked_def no_tally_def)
  have taken: "Id ` set (take k ?rs) = ID ` set (take k (pending_in_order ?p w))"
    by (auto simp: take_map image_image)
  have same: "pending_rows ?p w1 = pending_rows ?p w" by (simp add: w1 pending_rows_def)
  have left: "int (length (pending_rows ?p w2)) = int (length (pending_rows ?p w)) - int k"
    using pending_rows_walked [OF ids, of k ?p] k(1)
    by (simp add: rows taken same length_pending_in_order)
  have "length rs' = length ?rs" using k(2) by (metis length_map)
  then have still: "count_still_pending rs' = int (length (pending_rows ?p w2))"
    using count_still_pending_walked [of ?rs k rs'] pending_from_entity k left
    by (simp add: length_pending_in_order)
  let ?p3 = "p2\<lparr>UpdatedAt := o_time (w_outside w4) (w_tick w4)\<rparr>"
  have recorded: "w_recipients w3 = w_recipients w2 \<and> w_outbox w3 = w_outbox w2 \<and> w_plans w3 = w_plans w2
    \<and> (if tl_attempted t + tl_skipped t = 0 then w_advances w3 = w_advances w2 \<and> p1 = plan
       else (\<exists>a. w_advances w3 = w_advances w2 @ [a] \<and> alive a \<and> ae_PlanID a = ?p
          \<and> ae_StartedAt a = now \<and> ae_AttemptedCount a = tl_attempted t
          \<and> ae_SentCount a = tl_sent t \<and> ae_FailedCount a = tl_failed t
          \<and> ae_SkippedCount a = tl_skipped t
          \<and> ae_PendingCountAfter a = int (length (pending_rows ?p w2)))
        \<and> (\<exists>last. p1 = plan\<lparr>plan_AdvancedIntervalsCount := ?n, plan_LastAdvancedAt := Some last\<rparr>))"
    unfolding still [symmetric] using tally by (intro record_advance_effect [OF rec]) linarith+
  note resched = reschedule_effect [OF res, unfolded still]
    and upd' = update_email_plan_status_Inr [OF upd] and fr = interval_frame_sel [OF frame]
  have rows': "pending_rows ?p w' = pending_rows ?p w2"
    using recorded resched by (simp add: upd' pending_rows_def)
  have base: "p1 = plan \<or> (\<exists>last. p1 = plan\<lparr>plan_AdvancedIntervalsCount := ?n,
      plan_LastAdvancedAt := Some last\<rparr>)"
    using recorded by (auto split: if_splits)
  have room: "0 < length (pending_rows ?p w2) \<longrightarrow> send_capacity plan remaining \<le> tl_attempted t"
    using left k(5) by (simp only: length_map length_pending_in_order) linarith
  have "interval_report ?p (send_capacity plan remaining) now t w w'"
    unfolding interval_report_def rows'
    using tally ms left room recorded resched upd' fr by auto
  moreover have "plan_after_interval plan remaining t (int (length (pending_rows ?p w'))) now ?p3"
    unfolding plan_after_interval_def rows' using resched base recorded
    by (auto simp: after_interval_def split: if_splits)
  moreover have "w_plans w' = update_where (\<lambda>r. alive r \<and> ID r = ?p) (set_plan_columns ?p3) (w_plans w)"
    using recorded resched base upd' fr by auto
  ultimately show ?thesis by blast
qed

section \<open>Advancing a plan\<close>

definition plan_row :: "uuid \<Rightarrow> world \<Rightarrow> plan_entity option" where
  "plan_row p w = find (\<lambda>r. alive r \<and> ID r = p) (w_plans w)"

text \<open>Reading a plan back changes nothing.\<close>

definition only_ticks :: "'a io \<Rightarrow> bool" where
  "only_ticks m \<longleftrightarrow> (\<forall>w. \<exists>k. snd (m w) = w\<lparr>w_tick := k\<rparr>)"

lemma only_ticks_ret [spec_intros]: "only_ticks (ret x)"
  unfolding only_ticks_def by (simp add: ret_def) (metis world.surjective world.update_convs(2))

lemma only_ticks_throw [spec_intros]: "only_ticks (throw e)"
  unfolding only_ticks_def by (simp add: throw_def) (metis world.surjective world.update_convs(2))

lemma only_ticks_getM [spec_intros]: "only_ticks (getM f)"
  unfolding only_ticks_def by (simp add: getM_def) (metis world.surjective world.update_convs(2))

lemma only_ticks_db_query [spec_intros]: "only_ticks (db_query f)"
  by (auto simp: only_ticks_def db_query_def prog_simps external_def Let_def split: option.splits)

lemma only_ticks_bindM [spec_intros]:
  assumes "only_ticks m" and "\<And>x. only_ticks (f x)"
  shows "only_ticks (bindM m f)"
  unfolding only_ticks_def
proof
  fix w
  obtain k where k: "snd (m w) = w\<lparr>w_tick := k\<rparr>" using assms(1) by (auto simp: only_ticks_def)
  show "\<exists>k. snd (bindM m f w) = w\<lparr>w_tick := k\<rparr>"
  proof (cases "m w")
    case (Pair r w1)
    show ?thesis
    proof (cases r)
      case (Inr x)
      obtain k' where "snd (f x w1) = w1\<lparr>w_tick := k'\<rparr>"
        using assms(2) by (auto simp: only_ticks_def)
      with Pair Inr k show ?thesis by (auto simp: bindM_def)
    qed (use Pair k in \<open>auto simp: bindM_def\<close>)
  qed
qed

lemma only_ticks_case_option [spec_intros]:
  "only_ticks m \<Longrightarrow> (\<And>y. only_ticks (f y)) \<Longrightarrow> only_ticks (case x of None \<Rightarrow> m | Some y \<Rightarrow> f y)"
  by (cases x) simp_all

lemma only_ticks_get_plan: "only_ticks (get_plan p)"
  by (auto simp: get_plan_def get_email_plan_def build_plan_views_def count_recipients_by_status_def
      list_advances_by_plans_def Let_def intro!: spec_intros)

lemma only_ticks_run: "only_ticks m \<Longrightarrow> m w = (r, w') \<Longrightarrow> \<exists>k. w' = w\<lparr>w_tick := k\<rparr>"
  unfolding only_ticks_def by (metis snd_conv)

lemma get_remaining_run:
  assumes "get_remaining_daily_capacity plan now w = (Inr remaining, w')"
  shows "(\<exists>k. w' = w\<lparr>w_tick := k\<rparr>) \<and> remaining = map_option (\<lambda>m. max 0 (m - attempted_between (Id plan)
     (get_start_of_utc_day now) (get_start_of_next_utc_day now) (w_advances w)))
     (plan_MaxEmailsPerDay plan)"
proof (cases "plan_MaxEmailsPerDay plan")
  case None
  then have "w' = w\<lparr>w_tick := w_tick w\<rparr>" "remaining = None"
    using assms by (simp_all add: get_remaining_daily_capacity_def io_iffs)
  with None show ?thesis by (intro conjI exI [of _ "w_tick w"]) auto
next
  case (Some m)
  then show ?thesis
    using assms
    by (auto simp: get_remaining_daily_capacity_def sum_attempted_today_def io_iffs Let_def max_def)
qed

text \<open>The three ways an advance can go through.\<close>

definition advance_branch ::
  "email_sending_plan \<Rightarrow> bool \<Rightarrow> time \<Rightarrow> world \<Rightarrow> world \<Rightarrow> bool" where
  "advance_branch plan manual now w1 w2 \<longleftrightarrow>
     pending_rows (Id plan) w1 = [] \<and> complete_without_pending plan w1 = (Inr (), w2)
     \<or> pending_rows (Id plan) w1 \<noteq> [] \<and> (\<exists>remaining w1'.
         get_remaining_daily_capacity plan now w1 = (Inr remaining, w1')
         \<and> (if remaining = Some 0 then postpone_to_next_day plan now w1' = (Inr (), w2)
            else run_interval plan manual now remaining w1' = (Inr (), w2)))"

lemma advance_plan_interval_run:
  assumes "advance_plan_interval p manual w = (Inr v, w')"
  shows "\<exists>row w2 k. plan_row p w = Some row \<and> ID row = p
    \<and> advance_guard (plan_from_entity row) manual (o_time (w_outside w) (Suc (w_tick w))) = None
    \<and> advance_branch (plan_from_entity row) manual (o_time (w_outside w) (Suc (w_tick w)))
        (w\<lparr>w_tick := Suc (Suc (Suc (w_tick w)))\<rparr>) w2
    \<and> w' = w2\<lparr>w_tick := k\<rparr>"
proof -
  let ?now = "o_time (w_outside w) (Suc (w_tick w))"
  let ?w1 = "w\<lparr>w_tick := Suc (Suc (Suc (w_tick w)))\<rparr>"
  obtain row w2 where row: "plan_row p w = Some row"
    and guard: "advance_guard (plan_from_entity row) manual ?now = None"
    and body: "(if pending_rows p w = [] then complete_without_pending (plan_from_entity row)
        else bindM (get_remaining_daily_capacity (plan_from_entity row) ?now) (\<lambda>remaining.
             if remaining = Some 0 then postpone_to_next_day (plan_from_entity row) ?now
             else run_interval (plan_from_entity row) manual ?now remaining)) ?w1 = (Inr (), w2)"
    and view: "get_plan p w2 = (Inr v, w')"
    using assms
    by (auto simp: advance_plan_interval_def get_tracked_plan_def get_email_plan_def
        count_pending_recipients_def plan_row_def pending_rows_def plan_not_found_def io_iffs
        split: option.splits cong: if_cong)
  have "ID row = p" using row by (auto simp: plan_row_def find_Some_iff)
  then have "advance_branch (plan_from_entity row) manual ?now ?w1 w2"
    using body by (auto simp: advance_branch_def pending_rows_def bindM_Inr split: if_splits)
  then show ?thesis
    using row guard \<open>ID row = p\<close> only_ticks_run [OF only_ticks_get_plan view] by blast
qed

definition remaining_today :: "email_sending_plan \<Rightarrow> time \<Rightarrow> world \<Rightarrow> int option" where
  "remaining_today plan now w =
     map_option (\<lambda>m. max 0 (m - attempted_between (Id plan) (get_start_of_utc_day now)
       (get_start_of_next_utc_day now) (w_advances w))) (plan_MaxEmailsPerDay plan)"

lemma complete_without_pending_effect:
  assumes "complete_without_pending plan w = (Inr u, w')"
  shows "\<exists>plan'. plan_Status plan' = PlanCompleted \<and> plan_NextIntervalAt plan' = None
    \<and> w_plans w' = update_where (\<lambda>r. alive r \<and> ID r = Id plan) (set_plan_columns plan') (w_plans w)
    \<and> w_recipients w' = w_recipients w \<and> w_outbox w' = w_outbox w \<and> w_advances w' = w_advances w"
proof -
  obtain t k where "update_email_plan_status (plan\<lparr>plan_Status := PlanCompleted,
      plan_CompletedAt := Some t, plan_NextIntervalAt := None,
      UpdatedAt := o_time (w_outside w) k\<rparr>) (w\<lparr>w_tick := Suc k\<rparr>) = (Inr u, w')"
    using assms
    by (cases "plan_CompletedAt plan") (auto simp: complete_without_pending_def io_iffs)
  from update_email_plan_status_Inr [OF this] show ?thesis
    by (intro exI [of _ "plan\<lparr>plan_Status := PlanCompleted, plan_CompletedAt := Some t,
      plan_NextIntervalAt := None, UpdatedAt := o_time (w_outside w) k\<rparr>"]) simp
qed

lemma postpone_to_next_day_effect:
  assumes "postpone_to_next_day plan now w = (Inr u, w')"
  shows "\<exists>plan'. plan_Status plan' = plan_Status plan
    \<and> (plan_Status plan \<noteq> PlanPaused \<longrightarrow>
         plan_NextIntervalAt plan' = time_ptr (get_start_of_next_utc_day now))
    \<and> w_plans w' = update_where (\<lambda>r. alive r \<and> ID r = Id plan) (set_plan_columns plan') (w_plans w)
    \<and> w_recipients w' = w_recipients w \<and> w_outbox w' = w_outbox w \<and> w_advances w' = w_advances w"
proof -
  let ?plan = "(if plan_Status plan \<noteq> PlanPaused
           then plan\<lparr>plan_NextIntervalAt := time_ptr (get_start_of_next_utc_day now)\<rparr> else plan)
          \<lparr>UpdatedAt := o_time (w_outside w) (w_tick w)\<rparr>"
  have "update_email_plan_status ?plan (w\<lparr>w_tick := Suc (w_tick w)\<rparr>) = (Inr u, w')"
    using assms by (simp add: postpone_to_next_day_def io_iffs cong: if_cong)
  from update_email_plan_status_Inr [OF this] show ?thesis
    by (intro exI [of _ ?plan]) simp
qed

lemma pending_rows_tick [simp]: "pending_rows p (w\<lparr>w_tick := k\<rparr>) = pending_rows p w"
  by (simp add: pending_rows_def)

lemma interval_report_tick [simp]:
  "interval_report p c now t (w\<lparr>w_tick := k\<rparr>) w' = interval_report p c now t w w'"
  "interval_report p c now t w (w'\<lparr>w_tick := k\<rparr>) = interval_report p c now t w w'"
  unfolding interval_report_def by (simp_all cong: if_cong)

lemma interval_report_idle:
  assumes "w_recipients w' = w_recipients w" and "w_outbox w' = w_outbox w"
    and "w_advances w' = w_advances w" and "pending_rows p w = [] \<or> capacity \<le> 0"
  shows "interval_report p capacity now no_tally w w'"
proof -
  have "pending_rows p w' = pending_rows p w" using assms(1) by (simp add: pending_rows_def)
  with assms show ?thesis by (auto simp: interval_report_def no_tally_def)
qed

text \<open>The whole of an advance that went through, as one report.\<close>

definition advance_report :: "uuid \<Rightarrow> bool \<Rightarrow> time \<Rightarrow> email_sending_plan \<Rightarrow> tally \<Rightarrow> email_sending_plan
    \<Rightarrow> world \<Rightarrow> world \<Rightarrow> bool" where
  "advance_report p manual now plan t plan' w w' \<longleftrightarrow>
     advance_guard plan manual now = None
     \<and> interval_report p (send_capacity plan (remaining_today plan now w)) now t w w'
     \<and> w_plans w' = update_where (\<lambda>r. alive r \<and> ID r = p) (set_plan_columns plan') (w_plans w)
     \<and> (if pending_rows p w' = [] then plan_Status plan' = PlanCompleted \<and> plan_NextIntervalAt plan' = None
        else int_of_plan_status (plan_Status plan') \<noteq> int_of_plan_status PlanCompleted)"

lemma advance_report_tick [simp]:
  "advance_report p manual now plan t plan' (w\<lparr>w_tick := k\<rparr>) w'
     = advance_report p manual now plan t plan' w w'"
  "advance_report p manual now plan t plan' w (w'\<lparr>w_tick := k\<rparr>)
     = advance_report p manual now plan t plan' w w'"
  by (simp_all add: advance_report_def remaining_today_def)

lemma advance_branch_effect:
  assumes branch: "advance_branch plan manual now w w'"
    and guard: "advance_guard plan manual now = None"
    and ids: "distinct (map ID (w_recipients w))"
    and known: "int_of_plan_status (plan_Status plan) \<noteq> int_of_plan_status PlanCompleted"
  shows "\<exists>t plan'. advance_report (Id plan) manual now plan t plan' w w'"
  using branch unfolding advance_branch_def
proof (elim disjE conjE exE)
  assume none: "pending_rows (Id plan) w = []"
    and fin: "complete_without_pending plan w = (Inr (), w')"
  obtain plan' where "plan_Status plan' = PlanCompleted" "plan_NextIntervalAt plan' = None"
    and eff: "w_plans w' = update_where (\<lambda>r. alive r \<and> ID r = Id plan) (set_plan_columns plan') (w_plans w)"
    "w_recipients w' = w_recipients w" "w_outbox w' = w_outbox w" "w_advances w' = w_advances w"
    using complete_without_pending_effect [OF fin] by auto
  moreover have "pending_rows (Id plan) w' = []" using eff none by (simp add: pending_rows_def)
  moreover have "interval_report (Id plan) c now no_tally w w'" for c
    using eff none by (intro interval_report_idle) auto
  ultimately show ?thesis
    using guard by (intro exI [of _ no_tally] exI [of _ plan']) (simp add: advance_report_def)
next
  fix remaining w1
  assume some: "pending_rows (Id plan) w \<noteq> []"
    and rem: "get_remaining_daily_capacity plan now w = (Inr remaining, w1)"
    and rest: "if remaining = Some 0 then postpone_to_next_day plan now w1 = (Inr (), w')
      else run_interval plan manual now remaining w1 = (Inr (), w')"
  obtain k where w1: "w1 = w\<lparr>w_tick := k\<rparr>" and remaining: "remaining = remaining_today plan now w"
    using get_remaining_run [OF rem] by (auto simp: remaining_today_def)
  show ?thesis
  proof (cases "remaining = Some 0")
    case True
    then obtain plan' where status: "plan_Status plan' = plan_Status plan"
      and eff: "w_plans w' = update_where (\<lambda>r. alive r \<and> ID r = Id plan) (set_plan_columns plan') (w_plans w)"
      "w_recipients w' = w_recipients w" "w_outbox w' = w_outbox w" "w_advances w' = w_advances w"
      using rest postpone_to_next_day_effect [of plan now w1 "()" w'] w1 by auto
    have "interval_report (Id plan) (send_capacity plan (Some 0)) now no_tally w w'"
      using eff by (intro interval_report_idle) (auto simp: send_capacity_def)
    moreover have "pending_rows (Id plan) w' \<noteq> []" using eff some by (simp add: pending_rows_def)
    ultimately show ?thesis
      using guard eff status known True remaining
      by (intro exI [of _ no_tally] exI [of _ plan']) (simp add: advance_report_def)
  next
    case False
    then have "run_interval plan manual now remaining w1 = (Inr (), w')" using rest by simp
    from run_interval_effect [OF this] ids w1 obtain t plan' where
      "interval_report (Id plan) (send_capacity plan remaining) now t w w'"
      "plan_after_interval plan remaining t (int (length (pending_rows (Id plan) w'))) now plan'"
      "w_plans w' = update_where (\<lambda>r. alive r \<and> ID r = Id plan) (set_plan_columns plan') (w_plans w)"
      by auto
    then show ?thesis
      using guard remaining
      by (intro exI [of _ t] exI [of _ plan'])
        (auto simp: advance_report_def plan_after_interval_def split: if_splits)
  qed
qed

lemma advance_guard_known:
  "advance_guard (plan_from_entity row) manual now = None \<Longrightarrow>
   int_of_plan_status (plan_Status (plan_from_entity row)) \<noteq> int_of_plan_status PlanCompleted"
  by (auto simp: advance_guard_def enum_of_int)

lemma advance_interval_effect:
  assumes run: "advance_plan_interval p manual w = (Inr v, w')"
    and ids: "distinct (map ID (w_recipients w))"
  shows "\<exists>row t plan'. plan_row p w = Some row
    \<and> advance_report p manual (o_time (w_outside w) (Suc (w_tick w))) (plan_from_entity row) t plan' w w'"
proof -
  let ?now = "o_time (w_outside w) (Suc (w_tick w))"
  obtain row w2 k where row: "plan_row p w = Some row" "ID row = p"
    and guard: "advance_guard (plan_from_entity row) manual ?now = None"
    and branch: "advance_branch (plan_from_entity row) manual ?now
      (w\<lparr>w_tick := Suc (Suc (Suc (w_tick w)))\<rparr>) w2"
    and w': "w' = w2\<lparr>w_tick := k\<rparr>"
    using advance_plan_interval_run [OF run] by blast
  show ?thesis
    using advance_branch_effect [OF branch guard _ advance_guard_known [OF guard]] ids row w' by auto
qed

text \<open>
  C18: One advance of a plan: with \<open>sent\<close>, \<open>failed\<close> and \<open>skipped\<close> recipients, it attempts at most
  \<open>MaxEmailsPerInterval\<close> e-mails; exactly the recipients counted leave the pending state; the
  server has accepted a message for each recipient counted as sent, and at most one for each
  attempted; and one interval with these counts is recorded, unless nobody was counted.
\<close>

theorem advance_interval_accounting:
  assumes "advance_plan_interval p manual w = (Inr v, w')"
    and "distinct (map ID (w_recipients w))"
  shows "\<exists>row sent failed skipped ms. plan_row p w = Some row
    \<and> 0 \<le> sent \<and> 0 \<le> failed \<and> 0 \<le> skipped
    \<and> sent + failed \<le> max 0 (ple_MaxEmailsPerInterval row)
    \<and> int (length (pending_rows p w'))
        = int (length (pending_rows p w)) - (sent + failed + skipped)
    \<and> w_outbox w' = w_outbox w @ ms \<and> sent \<le> int (length ms) \<and> int (length ms) \<le> sent + failed
    \<and> (if sent + failed + skipped = 0 then w_advances w' = w_advances w
       else \<exists>a. w_advances w' = w_advances w @ [a] \<and> ae_PlanID a = p
          \<and> ae_AttemptedCount a = sent + failed \<and> ae_SentCount a = sent
          \<and> ae_FailedCount a = failed \<and> ae_SkippedCount a = skipped
          \<and> ae_PendingCountAfter a = int (length (pending_rows p w')))"
proof -
  obtain row t plan' where row: "plan_row p w = Some row"
    and rep: "advance_report p manual (o_time (w_outside w) (Suc (w_tick w)))
      (plan_from_entity row) t plan' w w'"
    using advance_interval_effect [OF assms] by blast
  have cap: "send_capacity (plan_from_entity row) r \<le> ple_MaxEmailsPerInterval row" for r
    by (auto simp: send_capacity_def split: option.splits)
  note rep = rep [unfolded advance_report_def interval_report_def]
  obtain ms where ms: "w_outbox w' = w_outbox w @ ms" "tl_sent t \<le> int (length ms)"
      "int (length ms) \<le> tl_attempted t"
    using rep by blast
  have room: "tl_sent t + tl_failed t \<le> max 0 (ple_MaxEmailsPerInterval row)"
    using rep cap [of "remaining_today (plan_from_entity row)
      (o_time (w_outside w) (Suc (w_tick w))) w"] by linarith
  show ?thesis
  proof (rule exI [of _ row], rule exI [of _ "tl_sent t"], rule exI [of _ "tl_failed t"],
      rule exI [of _ "tl_skipped t"], rule exI [of _ ms], intro conjI)
    show "if tl_sent t + tl_failed t + tl_skipped t = 0 then w_advances w' = w_advances w
       else \<exists>a. w_advances w' = w_advances w @ [a] \<and> ae_PlanID a = p
          \<and> ae_AttemptedCount a = tl_sent t + tl_failed t \<and> ae_SentCount a = tl_sent t
          \<and> ae_FailedCount a = tl_failed t \<and> ae_SkippedCount a = tl_skipped t
          \<and> ae_PendingCountAfter a = int (length (pending_rows p w'))"
      using rep by (metis (no_types, lifting))
  qed (use row rep ms room in simp_all)
qed

lemma start_of_utc_day: "get_start_of_utc_day t \<le> t" "t < get_start_of_next_utc_day t"
proof -
  have "(t div day_length) * day_length = t - t mod day_length"
    by (simp add: minus_mod_eq_div_mult)
  moreover have "0 \<le> t mod day_length" "t mod day_length < day_length"
    by (simp_all add: day_length_def)
  ultimately show "get_start_of_utc_day t \<le> t" "t < get_start_of_next_utc_day t"
    by (simp_all add: get_start_of_utc_day_def get_start_of_next_utc_day_def)
qed


section \<open>A small plan to compute with\<close>

definition plan_outside :: outside where
  "plan_outside = quiet_outside\<lparr>o_email := Some sample_email_config,
     o_contacts := \<lambda>k a. [\<lparr>ct_Content = ''c@d'', ct_IsPrimary = True, ct_VerifiedAt = None\<rparr>]\<rparr>"

definition sample_plan_row :: plan_entity where
  "sample_plan_row =
     \<lparr>ID = 1, e_CreatedAt = 0, e_UpdatedAt = 0, e_DeletedAt = deleted_at None,
      ple_SendingPlanKey = None, ple_CreatedByAccountID = 9, ple_Subject = ''s'',
      ple_HTMLBody = ''b'', ple_BroadcastToAll = False, ple_RecipientCount = 2,
      ple_MaxEmailsPerInterval = 1, ple_IntervalMinutes = 5, ple_MaxEmailsPerDay = Some 1,
      ple_Status = 0, ple_AdvancedIntervalsCount = 0, ple_PlannedStartAt = 0,
      ple_NextIntervalAt = Some 0, ple_LastAdvancedAt = None, ple_PausedAt = None,
      ple_CompletedAt = None\<rparr>"

definition sample_recipient_row :: "uuid \<Rightarrow> recipient_entity" where
  "sample_recipient_row i =
     \<lparr>ID = i, e_CreatedAt = 0, e_UpdatedAt = 0, e_DeletedAt = deleted_at None,
      re_PlanID = 1, re_AccountID = i, re_RecipientNameSnapshot = None, re_Status = 0,
      re_AttemptCount = 0, re_LastIntervalNumber = None, re_LastResolvedEmail = None,
      re_LastError = None, re_ProcessedAt = None\<rparr>"

definition plan_world :: "outside \<Rightarrow> world" where
  "plan_world out = (empty_world out)\<lparr>w_plans := [sample_plan_row],
     w_recipients := [sample_recipient_row 11, sample_recipient_row 12]\<rparr>"

lemma plan_world_advances: "\<not> isl (fst (advance_plan_interval 1 False (plan_world plan_outside)))"
  by code_simp

theorem advance_interval_accounting_witness:
  "\<exists>v w' sent failed. advance_plan_interval 1 False (plan_world plan_outside) = (Inr v, w')
     \<and> sent + failed \<le> max 0 (1 :: int) \<and> int (length (w_outbox w')) \<le> sent + failed"
proof -
  obtain v w' where run: "advance_plan_interval 1 False (plan_world plan_outside) = (Inr v, w')"
    using run_exists [OF plan_world_advances] by blast
  have "distinct (map ID (w_recipients (plan_world plan_outside)))"
    and "plan_row 1 (plan_world plan_outside) = Some sample_plan_row"
    and "w_outbox (plan_world plan_outside) = []"
    by (simp_all add: plan_world_def sample_recipient_row_def sample_plan_row_def plan_row_def
        alive_def empty_world_def)
  with advance_interval_accounting [OF run] run show ?thesis
    by (auto simp: sample_plan_row_def)
qed


end
