(* ===== verification/Email_Plan_Invariant.thy ===== *)
theory Email_Plan_Invariant
  imports Email_Plan_Facts
begin

text \<open>
  The life of the sending plans under any sequence of operations and any failures of the outside:
  a completed plan has nobody left to write to, and stays completed.
\<close>

section \<open>The invariant\<close>

definition plans_inv :: "world \<Rightarrow> bool" where
  "plans_inv w \<longleftrightarrow>
     distinct (map ID (w_recipients w)) \<and> distinct (map ID (w_plans w))
     \<and> (\<forall>row \<in> set (w_plans w). alive row \<and> ple_Status row = int_of_plan_status PlanCompleted
          \<longrightarrow> pending_rows (ID row) w = [])"

lemma plans_inv_tick [simp]: "plans_inv (w\<lparr>w_tick := k\<rparr>) = plans_inv w"
  by (simp add: plans_inv_def)

text \<open>The parts of the state the invariant reads, and a change of one plan's row.\<close>

lemma set_plan_columns_sel [simp]:
  "ID (set_plan_columns plan r) = ID r"
  "alive (set_plan_columns plan r) = alive r"
  "ple_Status (set_plan_columns plan r) = int_of_plan_status (plan_Status plan)"
  by (simp_all add: set_plan_columns_def alive_def)

lemma set_recipient_columns_sel [simp]: "ID (set_recipient_columns r x) = ID x"
  by (simp add: set_recipient_columns_def)

lemma plans_inv_update:
  assumes inv: "plans_inv w"
    and plans: "w_plans w' = update_where (\<lambda>r. alive r \<and> ID r = p) (set_plan_columns plan) (w_plans w)"
    and ids: "map ID (w_recipients w') = map ID (w_recipients w)"
    and shrink: "\<And>q. pending_rows q w = [] \<Longrightarrow> pending_rows q w' = []"
    and fin: "int_of_plan_status (plan_Status plan) = int_of_plan_status PlanCompleted
      \<Longrightarrow> pending_rows p w' = []"
  shows "plans_inv w'"
proof -
  have "map ID (w_plans w') = map ID (w_plans w)"
    unfolding plans by (rule map_update_where) simp
  then have "distinct (map ID (w_plans w'))" "distinct (map ID (w_recipients w'))"
    using inv ids by (simp_all add: plans_inv_def)
  moreover have "pending_rows (ID row) w' = []"
    if "row \<in> set (w_plans w')" "alive row" "ple_Status row = int_of_plan_status PlanCompleted" for row
    using that inv shrink fin by (auto simp: plans in_update_where plans_inv_def split: if_splits)
  ultimately show ?thesis by (simp add: plans_inv_def)
qed

lemma plans_inv_same:
  assumes "plans_inv w" and "w_plans w' = w_plans w"
    and "map ID (w_recipients w') = map ID (w_recipients w)"
    and "\<And>q. pending_rows q w = [] \<Longrightarrow> pending_rows q w' = []"
  shows "plans_inv w'"
  using assms by (auto simp: plans_inv_def)

section \<open>Walking the recipients, whatever fails\<close>

lemma keeps_ids_update_recipient:
  "keeps (\<lambda>w. map ID (w_recipients w) = ids) (update_recipient r)"
  unfolding update_recipient_def
  by (rule keeps_db_exec) (auto simp: map_update_where intro: steadyI)

text \<open>What survives sending an e-mail.\<close>

lemma keeps_email_send:
  assumes "\<And>w w'. interval_frame w' = interval_frame w \<Longrightarrow> w_recipients w' = w_recipients w \<Longrightarrow> I w' = I w"
  shows "keeps I (email_send r to subject body)"
proof (rule keepsI)
  fix w assume "I w"
  obtain q w' where run: "email_send r to subject body w = (q, w')" by (meson surj_pair)
  have "I w' = I w"
    by (rule assms) (use email_send_effect [OF run] in blast)+
  then show "I (snd (email_send r to subject body w))" using \<open>I w\<close> run by simp
qed

lemma keeps_list_contacts: "steady I \<Longrightarrow> keeps I (list_contacts a)"
  by (auto simp: list_contacts_def intro!: spec_intros)

lemma keeps_ids_process_recipient:
  "keeps (\<lambda>w. map ID (w_recipients w) = ids) (process_recipient plan n t r)"
  unfolding process_recipient_def Let_def
  by (intro spec_intros keeps_list_contacts keeps_email_send keeps_ids_update_recipient steadyI)
    simp_all

lemma process_recipient_safe:
  assumes "process_recipient plan n t r w = (res, w')"
  shows "interval_frame w' = interval_frame w" "pending_rows q w = [] \<Longrightarrow> pending_rows q w' = []"
proof -
  have eff: "recipient_processed t r res w w'" by (rule process_recipient_effect [OF assms])
  then show "interval_frame w' = interval_frame w" by (simp add: recipient_processed_def)
  show "pending_rows q w' = []" if "pending_rows q w = []"
  proof (cases res)
    case (Inl e)
    then show ?thesis using eff that by (auto simp: recipient_processed_def pending_rows_def)
  next
    case (Inr x)
    then show ?thesis using eff that by (cases x) (auto simp: recipient_processed_def)
  qed
qed

lemma keeps_pending_process_recipient:
  "keeps (\<lambda>w. pending_rows q w = []) (process_recipient plan n t r)"
  by (rule keepsI) (rule process_recipient_safe(2) [OF prod.collapse [symmetric]])

lemma keeps_plans_process_recipient:
  "keeps (\<lambda>w. w_plans w = ps) (process_recipient plan n t r)"
  by (rule keepsI)
    (simp add: interval_frame_sel(2) [OF process_recipient_safe(1) [OF prod.collapse [symmetric]]])

lemma keeps_process_recipients:
  "(\<And>t r. keeps I (process_recipient plan n t r)) \<Longrightarrow> keeps I (process_recipients plan c n t rs)"
  by (induction plan c n t rs rule: process_recipients.induct) (auto intro!: spec_intros)

section \<open>The invariant of every operation\<close>

text \<open>
  \<open>quiet\<close>: the predicate reads neither the recorded intervals nor the number of interactions.
\<close>

lemma keeps_insert_advance:
  assumes "steady I" and "\<And>w rows. I (w\<lparr>w_advances := rows\<rparr>) = I w"
  shows "keeps I (insert_advance a)"
  using assms unfolding insert_advance_def db_insert_def
  by (intro spec_intros keeps_modifyM) simp_all

lemma keeps_record_advance:
  assumes "steady I" and "\<And>w rows. I (w\<lparr>w_advances := rows\<rparr>) = I w"
  shows "keeps I (record_advance plan n manual t pend now)"
  using assms unfolding record_advance_def new_advance_def
  by (intro spec_intros keeps_insert_advance)

lemma keeps_reschedule: "steady I \<Longrightarrow> keeps I (reschedule plan remaining t pend now)"
  unfolding reschedule_def by (intro spec_intros)

lemma keeps_update_plan_status:
  assumes "steady I" and "\<And>w rows. I (w\<lparr>w_plans := rows\<rparr>) = I w"
  shows "keeps I (update_email_plan_status plan)"
  using assms unfolding update_email_plan_status_def by (intro keeps_db_exec) simp_all

lemma keeps_run_interval:
  assumes "steady I" and "\<And>w rows. I (w\<lparr>w_advances := rows\<rparr>) = I w"
    and "\<And>w rows. I (w\<lparr>w_plans := rows\<rparr>) = I w"
    and "\<And>n t r. keeps I (process_recipient plan n t r)"
  shows "keeps I (run_interval plan manual now remaining)"
  using assms unfolding run_interval_def list_pending_recipients_def Let_def
  by (intro spec_intros keeps_process_recipients keeps_record_advance keeps_reschedule
      keeps_update_plan_status)

lemma atomic_run_interval: "atomic w_plans (run_interval plan manual now remaining)"
  unfolding run_interval_def list_pending_recipients_def Let_def update_email_plan_status_def
  by (intro atomic_bindM atomic_case_prod atomic_db_exec fixedI spec_intros keeps_process_recipients
      keeps_plans_process_recipient keeps_record_advance keeps_reschedule steadyI) simp_all

lemma run_interval_safe:
  assumes "run_interval plan manual now remaining w = (res, w')"
  shows "map ID (w_recipients w') = map ID (w_recipients w)"
    and "pending_rows q w = [] \<Longrightarrow> pending_rows q w' = []"
    and "isl res \<Longrightarrow> w_plans w' = w_plans w"
proof -
  show "map ID (w_recipients w') = map ID (w_recipients w)"
    by (rule keeps_run [OF keeps_run_interval assms refl])
      (auto intro: steadyI keeps_ids_process_recipient)
  show "pending_rows q w = [] \<Longrightarrow> pending_rows q w' = []"
    by (rule keeps_run [OF keeps_run_interval assms])
      (auto intro: steadyI keeps_pending_process_recipient [unfolded pending_rows_def]
        simp: pending_rows_def)
  show "isl res \<Longrightarrow> w_plans w' = w_plans w"
    using assms atomic_run [OF atomic_run_interval] by (cases res) auto
qed

text \<open>The end of an advance: the plan's own row.\<close>

lemma plans_inv_update_status:
  assumes "plans_inv w" and run: "update_email_plan_status plan w = (res, w')"
    and "int_of_plan_status (plan_Status plan) = int_of_plan_status PlanCompleted
      \<Longrightarrow> pending_rows (Id plan) w = []"
  shows "plans_inv w'"
proof (cases res)
  case (Inl e)
  then show ?thesis using run assms(1) by (auto simp: update_email_plan_status_def io_iffs)
next
  case (Inr u)
  have w': "w' = w\<lparr>w_tick := Suc (w_tick w), w_plans :=
      update_where (\<lambda>r. alive r \<and> ID r = Id plan) (set_plan_columns plan) (w_plans w)\<rparr>"
    using update_email_plan_status_Inr run Inr by simp
  show ?thesis
    using assms w'
    by (intro plans_inv_update [OF assms(1), of _ "Id plan" plan]) (auto simp: pending_rows_def)
qed

lemma plans_inv_complete:
  assumes "plans_inv w" and "pending_rows (Id plan) w = []"
    and "complete_without_pending plan w = (res, w')"
  shows "plans_inv w'"
proof (cases "plan_CompletedAt plan")
  case None
  then show ?thesis
    using assms(3) plans_inv_update_status [of "w\<lparr>w_tick := Suc (Suc (w_tick w))\<rparr>"] assms(1,2)
    by (simp add: complete_without_pending_def bindM_def time_now_def)
next
  case (Some t)
  then show ?thesis
    using assms(3) plans_inv_update_status [of "w\<lparr>w_tick := Suc (w_tick w)\<rparr>"] assms(1,2)
    by (simp add: complete_without_pending_def bindM_def time_now_def ret_def)
qed

lemma plans_inv_postpone:
  assumes "plans_inv w"
    and "int_of_plan_status (plan_Status plan) \<noteq> int_of_plan_status PlanCompleted"
    and "postpone_to_next_day plan now w = (res, w')"
  shows "plans_inv w'"
proof -
  let ?plan = "(if plan_Status plan \<noteq> PlanPaused
           then plan\<lparr>plan_NextIntervalAt := time_ptr (get_start_of_next_utc_day now)\<rparr> else plan)
          \<lparr>UpdatedAt := o_time (w_outside w) (w_tick w)\<rparr>"
  have "update_email_plan_status ?plan (w\<lparr>w_tick := Suc (w_tick w)\<rparr>) = (res, w')"
    using assms(3) by (simp add: postpone_to_next_day_def bindM_def time_now_def)
  then show ?thesis
    by (rule plans_inv_update_status [rotated]) (use assms(1,2) in auto)
qed

lemma plans_inv_run_interval:
  assumes inv: "plans_inv w" and run: "run_interval plan manual now remaining w = (res, w')"
  shows "plans_inv w'"
proof (cases res)
  case (Inl e)
  then show ?thesis
    using plans_inv_same [OF inv] run_interval_safe [OF run] by simp
next
  case (Inr u)
  have ids: "distinct (map ID (w_recipients w))" using inv by (simp add: plans_inv_def)
  obtain t plan' where
    after: "plan_after_interval plan remaining t (int (length (pending_rows (Id plan) w'))) now plan'"
    and plans: "w_plans w' = update_where (\<lambda>r. alive r \<and> ID r = Id plan) (set_plan_columns plan') (w_plans w)"
    using run_interval_effect [OF run [unfolded Inr] ids] by blast
  have "pending_rows (Id plan) w' = []"
    if "int_of_plan_status (plan_Status plan') = int_of_plan_status PlanCompleted"
    using after that by (auto simp: plan_after_interval_def split: if_splits)
  then show ?thesis
    using run_interval_safe(1,2) [OF run] by (intro plans_inv_update [OF inv plans]) auto
qed

section \<open>The operations keep the invariant\<close>

lemma keeps_only_ticks: "only_ticks m \<Longrightarrow> steady I \<Longrightarrow> keeps I m"
  unfolding only_ticks_def by (rule keepsI) (metis steadyD)

lemma steady_plans_inv: "steady plans_inv"
  by (rule steadyI) simp

lemma keeps_get_plan: "keeps plans_inv (get_plan p)"
  by (rule keeps_only_ticks [OF only_ticks_get_plan steady_plans_inv])

lemma only_ticks_tracked: "only_ticks (get_tracked_plan p)"
  by (auto simp: get_tracked_plan_def get_email_plan_def plan_not_found_def intro!: spec_intros)

lemma keeps_tracked: "keeps plans_inv (get_tracked_plan p)"
  by (rule keeps_only_ticks [OF only_ticks_tracked steady_plans_inv])

lemma returns_tracked:
  "returns (\<lambda>plan. Id plan = p \<and> (\<exists>row. plan = plan_from_entity row)) (get_tracked_plan p)"
  by (auto simp: returns_def get_tracked_plan_def get_email_plan_def plan_not_found_def io_iffs
      find_Some_iff split: option.splits)

lemma keeps_update_open_plan:
  "int_of_plan_status (plan_Status plan) \<noteq> int_of_plan_status PlanCompleted \<Longrightarrow>
   keeps plans_inv (update_email_plan_status plan)"
  by (rule keepsI, rule plans_inv_update_status [OF _ prod.collapse [symmetric]]) auto

lemma keeps_pause: "keeps plans_inv (pause_plan p)"
  unfolding pause_plan_def
  by (intro spec_intros keeps_tracked keeps_get_plan keeps_update_open_plan steady_plans_inv) simp

lemma keeps_resume: "keeps plans_inv (resume_plan p)"
  unfolding resume_plan_def
  by (intro spec_intros keeps_tracked keeps_get_plan keeps_update_open_plan steady_plans_inv) simp

lemma keeps_advance_body:
  assumes plan: "plan = plan_from_entity row" "Id plan = p"
    and guard: "advance_guard plan manual now = None"
  shows "keeps plans_inv (bindM (count_pending_recipients p) (\<lambda>pendingCountBefore. seqM
      (if pendingCountBefore = 0 then complete_without_pending plan
       else bindM (get_remaining_daily_capacity plan now) (\<lambda>remaining.
         if remaining = Some 0 then postpone_to_next_day plan now
         else run_interval plan manual now remaining))
      (get_plan p)))"
proof (rule keepsI)
  fix w assume inv: "plans_inv w"
  let ?body = "if pending_rows p w = [] then complete_without_pending plan
       else bindM (get_remaining_daily_capacity plan now) (\<lambda>remaining.
         if remaining = Some 0 then postpone_to_next_day plan now
         else run_interval plan manual now remaining)"
  let ?w1 = "w\<lparr>w_tick := Suc (w_tick w)\<rparr>"
  have known: "int_of_plan_status (plan_Status plan) \<noteq> int_of_plan_status PlanCompleted"
    using advance_guard_known guard plan(1) by metis
  have body: "plans_inv (snd (?body ?w1))"
  proof (cases "pending_rows p w = []")
    case True
    with plan(2) inv show ?thesis
      using plans_inv_complete [of ?w1 plan, OF _ _ prod.collapse [symmetric]] by simp
  next
    case False
    have "keeps plans_inv (bindM (get_remaining_daily_capacity plan now) (\<lambda>remaining.
         if remaining = Some 0 then postpone_to_next_day plan now
         else run_interval plan manual now remaining))"
      unfolding get_remaining_daily_capacity_def sum_attempted_today_def Let_def
      using plans_inv_postpone [OF _ known prod.collapse [symmetric]]
        plans_inv_run_interval [OF _ prod.collapse [symmetric]]
      by (intro spec_intros steady_plans_inv) (auto intro: keepsI)
    with False inv show ?thesis by (simp add: keeps_def)
  qed
  have "plans_inv (snd (seqM ?body (get_plan p) ?w1))"
    using body keeps_get_plan [of p]
    by (auto simp: seqM_def bindM_def keeps_def split: prod.splits sum.splits)
  then show "plans_inv (snd (bindM (count_pending_recipients p) (\<lambda>pendingCountBefore. seqM
      (if pendingCountBefore = 0 then complete_without_pending plan
       else bindM (get_remaining_daily_capacity plan now) (\<lambda>remaining.
         if remaining = Some 0 then postpone_to_next_day plan now
         else run_interval plan manual now remaining))
      (get_plan p)) w))"
    using inv
    by (auto simp: count_pending_recipients_def db_query_def bindM_def external_def getM_def
        Let_def pending_rows_def split: option.splits)
qed

lemma keeps_advance: "keeps plans_inv (advance_plan_interval p manual)"
  unfolding advance_plan_interval_def
  by (rule keeps_bindM_when [OF keeps_tracked returns_tracked])
    (elim conjE exE, rule keeps_bindM [OF keeps_time_now [OF steady_plans_inv]],
      rule keeps_case_option, auto intro: keeps_advance_body keeps_throw)

lemma keeps_advance_due: "keeps plans_inv advance_due_plans"
  unfolding advance_due_plans_def list_due_plans_def
  by (intro spec_intros steady_plans_inv keeps_advance)

section \<open>Creating a plan\<close>

text \<open>While the rows of a new plan go in, no completed plan has its identity.\<close>

definition open_plan :: "uuid \<Rightarrow> world \<Rightarrow> bool" where
  "open_plan p w \<longleftrightarrow> plans_inv w
     \<and> (\<forall>row \<in> set (w_plans w). ID row = p \<longrightarrow> ple_Status row \<noteq> int_of_plan_status PlanCompleted)"

lemma insert_plan_open:
  assumes "plans_inv w" and "insert_plan plan w = (Inr u, w')" and "plan_Status plan = PlanScheduled"
  shows "open_plan (Id plan) w'"
  using assms
  by (auto simp: open_plan_def plans_inv_def insert_plan_def db_insert_def io_iffs pending_rows_def
      plan_entity_from_model_def image_iff split: if_splits)

lemma insert_recipient_open:
  assumes "open_plan p w" and "insert_recipient r w = (Inr u, w')" and "rcp_PlanId r = p"
  shows "open_plan p w'"
  using assms
  by (auto simp: open_plan_def plans_inv_def insert_recipient_def db_insert_def io_iffs
      pending_rows_def is_pending_def recipient_entity_from_model_def split: if_splits)

lemma forM_insert_open:
  "open_plan p w \<Longrightarrow> forM rs insert_recipient w = (Inr u, w') \<Longrightarrow> \<forall>r \<in> set rs. rcp_PlanId r = p
   \<Longrightarrow> open_plan p w'"
proof (induction rs arbitrary: w)
  case (Cons r rs)
  then show ?case by (auto simp: seqM_Inr dest: insert_recipient_open)
qed (simp add: io_iffs)

lemma keeps_create_email_plan:
  assumes "plan_Status plan = PlanScheduled" and "\<forall>r \<in> set rs. rcp_PlanId r = Id plan"
  shows "keeps plans_inv (create_email_plan plan rs)"
proof (rule keepsI)
  fix w assume inv: "plans_inv w"
  obtain res w' where run: "create_email_plan plan rs w = (res, w')" by (meson surj_pair)
  have "plans_inv w'"
  proof (cases res)
    case (Inl e)
    then show ?thesis
      using transaction_Inl run inv unfolding create_email_plan_def by fastforce
  next
    case (Inr u)
    then obtain w1 w2 k where "seqM (insert_plan plan) (forM rs insert_recipient)
        (w\<lparr>w_tick := w1\<rparr>) = (Inr (), w2)" "w' = w2\<lparr>w_tick := k\<rparr>"
      using run by (auto simp: create_email_plan_def transaction_Inr external_Inr)
    moreover from this obtain w3 where "insert_plan plan (w\<lparr>w_tick := w1\<rparr>) = (Inr (), w3)"
      "forM rs insert_recipient w3 = (Inr (), w2)"
      by (auto simp: seqM_Inr)
    then have "open_plan (Id plan) w2"
      using insert_plan_open [of "w\<lparr>w_tick := w1\<rparr>" plan] forM_insert_open inv assms by simp
    ultimately show ?thesis by (simp add: open_plan_def)
  qed
  then show "plans_inv (snd (create_email_plan plan rs w))" by (simp add: run)
qed

lemma returns_new_recipients:
  "returns (\<lambda>rs. \<forall>r \<in> set rs. rcp_PlanId r = i) (mapM (new_recipient i) targets)"
  by (rule returns_mapM) (auto simp: returns_def new_recipient_def io_iffs)

lemma keeps_create_plan_for: "keeps plans_inv (create_plan_for command createdBy targets)"
  unfolding create_plan_for_def
  by (intro keeps_if keeps_throw keeps_bindM keeps_time_now keeps_uuid_new steady_plans_inv
      keeps_bindM_when [OF _ returns_new_recipients] keeps_seqM keeps_get_plan
      keeps_create_email_plan keeps_mapM)
    (auto simp: new_plan_def new_recipient_def intro!: spec_intros steady_plans_inv)

lemma list_all_accounts_ticks:
  assumes "list_all_accounts token acc w = Some r"
  shows "\<exists>k. snd r = w\<lparr>w_tick := k\<rparr>"
proof (rule list_all_accounts.raw_induct
    [where P = "\<lambda>token acc w r. \<exists>k. snd r = w\<lparr>w_tick := k\<rparr>", OF _ assms])
  fix rec token acc w and y :: "(go_error + target_account list) \<times> world"
  assume IH: "\<And>token acc w y. rec token acc w = Some y \<Longrightarrow> \<exists>k. snd y = w\<lparr>w_tick := k\<rparr>"
    and body: "(case external w of
        (Inl e, w') \<Rightarrow> Some (Inl e, w')
      | (Inr k, w') \<Rightarrow>
          (case o_accounts_page (w_outside w') k token of
             None \<Rightarrow> Some (Inr acc, w')
           | Some (accounts, next_token) \<Rightarrow>
               (let results' = acc @ List.map_filter (to_target_account (w_outside w')) accounts
                in if next_token = [] then Some (Inr results', w')
                   else rec next_token results' w'))) = Some y"
  obtain q w1 where ext: "external w = (q, w1)" by (meson surj_pair)
  then have w1: "w1 = w\<lparr>w_tick := Suc (w_tick w)\<rparr>"
    by (cases q) (auto simp: io_iffs)
  show "\<exists>k. snd y = w\<lparr>w_tick := k\<rparr>"
    using body IH [of _ _ w1] unfolding ext w1
    by (auto simp: Let_def split: sum.splits option.splits if_splits prod.splits)
qed

lemma resolve_target_accounts_ticks:
  assumes "resolve_target_accounts command w = Some r"
  shows "\<exists>k. snd r = w\<lparr>w_tick := k\<rparr>"
proof -
  have same: "\<exists>k. w = w\<lparr>w_tick := k\<rparr>" by (rule exI [of _ "w_tick w"]) simp
  have "only_ticks external"
    by (auto simp: only_ticks_def external_def Let_def split: option.splits)
  then have "only_ticks (requested_targets ids)" for ids
    unfolding requested_targets_def by (intro spec_intros)
  then show ?thesis
    using assms same list_all_accounts_ticks [of "[]" "[]" w]
    by (fastforce simp: resolve_target_accounts_def only_ticks_def Let_def
        split: if_splits option.splits sum.splits prod.splits)
qed

section \<open>Every sequence of operations\<close>

datatype plan_op =
    OpCreate create_plan_command uuid
  | OpPause uuid
  | OpResume uuid
  | OpAdvance uuid bool
  | OpAdvanceDue

text \<open>A creation that never returns changes nothing.\<close>

fun plan_op_run :: "world \<Rightarrow> plan_op \<Rightarrow> world" where
  "plan_op_run w (OpCreate command createdBy) =
     (case create_plan command createdBy w of None \<Rightarrow> w | Some (r, w') \<Rightarrow> w')"
| "plan_op_run w (OpPause p) = snd (pause_plan p w)"
| "plan_op_run w (OpResume p) = snd (resume_plan p w)"
| "plan_op_run w (OpAdvance p manual) = snd (advance_plan_interval p manual w)"
| "plan_op_run w OpAdvanceDue = snd (advance_due_plans w)"

lemma plans_inv_op: "plans_inv w \<Longrightarrow> plans_inv (plan_op_run w op)"
proof (cases op)
  case (OpCreate command createdBy)
  assume inv: "plans_inv w"
  have "plans_inv w'" if "create_plan command createdBy w = Some (r, w')" for r w'
  proof (cases "resolve_target_accounts command w")
    case (Some q)
    then obtain k where "snd q = w\<lparr>w_tick := k\<rparr>" using resolve_target_accounts_ticks by blast
    with inv have "plans_inv (snd q)" by simp
    then show ?thesis
      using that Some keepsD [OF keeps_create_plan_for]
      by (auto simp: create_plan_def split: prod.splits sum.splits) (metis snd_conv)
  qed (use that in \<open>simp add: create_plan_def\<close>)
  with inv OpCreate show ?thesis by (auto split: option.splits)
qed (auto intro: keepsD keeps_pause keeps_resume keeps_advance keeps_advance_due)

lemma plans_inv_ops: "plans_inv w \<Longrightarrow> plans_inv (foldl plan_op_run w ops)"
  by (induction ops arbitrary: w) (simp_all add: plans_inv_op)

lemma plans_inv_empty: "plans_inv (empty_world out)"
  by (simp add: plans_inv_def empty_world_def)

text \<open>
  C19: Whatever sequence of creations, pauses, resumptions and advances the service has gone
  through, and whatever failed on the way (statements, the account service, the SMTP server), a
  plan that is marked completed has no pending recipient left, and no two plans or recipients
  share an identity.
\<close>

theorem completed_plans_are_done:
  assumes "w = foldl plan_op_run (empty_world out) ops"
    and "row \<in> set (w_plans w)" and "alive row" and "plan_status_of_int (ple_Status row) = PlanCompleted"
  shows "pending_rows (ID row) w = [] \<and> distinct (map ID (w_plans w)) \<and> distinct (map ID (w_recipients w))"
  using plans_inv_ops [OF plans_inv_empty, of out ops] assms by (auto simp: plans_inv_def)

definition sample_command :: create_plan_command where
  "sample_command =
     \<lparr>cmd_AccountId = Some 5, cmd_AccountIds = [], cmd_BroadcastToAll = False, cmd_Subject = ''s'',
      cmd_HtmlBody = ''b'', cmd_SendingPlanKey = None, cmd_PlannedStartAt = Some 0,
      cmd_MaxEmailsPerInterval = 2, cmd_IntervalMinutes = 5, cmd_MaxEmailsPerDay = None\<rparr>"

definition accounts_outside :: outside where
  "accounts_outside = quiet_outside\<lparr>o_parse_uuid := \<lambda>s. Some 5,
     o_account_batch := \<lambda>k ids. Some [Some \<lparr>da_Id = ''5'', da_Name = ''n'', da_Nick = [],
       da_IsSuperuser = False\<rparr>]\<rparr>"

lemma sample_run_completes:
  "case w_plans (foldl plan_op_run (empty_world accounts_outside)
     [OpCreate sample_command 9, OpAdvance 1002 True]) of
     [row] \<Rightarrow> alive row \<and> ple_Status row = 2 | _ \<Rightarrow> False"
  by code_simp

theorem completed_plans_are_done_witness:
  "\<exists>w row. w = foldl plan_op_run (empty_world accounts_outside)
       [OpCreate sample_command 9, OpAdvance 1002 True]
     \<and> row \<in> set (w_plans w) \<and> ple_Status row = 2 \<and> pending_rows (ID row) w = []"
proof -
  let ?ops = "[OpCreate sample_command 9, OpAdvance 1002 True]"
  let ?w = "foldl plan_op_run (empty_world accounts_outside) ?ops"
  obtain row where rows: "w_plans ?w = [row]" "ple_Status row = 2" "alive row"
    using sample_run_completes by (auto split: list.splits)
  have "pending_rows (ID row) ?w = []"
    by (rule completed_plans_are_done [OF refl, of row accounts_outside ?ops, THEN conjunct1])
      (use rows in simp_all)
  with rows show ?thesis by (metis list.set_intros(1))
qed

section \<open>The states of a plan\<close>

text \<open>
  C20: A completed plan is final: pausing it, resuming it or advancing it (by hand or on schedule) is
  an error that changes nothing.
\<close>

theorem completed_plan_is_final:
  assumes "plan_row p w = Some row" and "ple_Status row = int_of_plan_status PlanCompleted"
  shows "\<forall>run \<in> {pause_plan p, resume_plan p, advance_plan_interval p True, advance_plan_interval p False}.
    \<exists>e k. run w = (Inl e, w\<lparr>w_tick := k\<rparr>)"
proof -
  have status: "plan_Status (plan_from_entity row) = PlanCompleted" using assms(2) by simp
  show ?thesis
  proof (cases "o_fault (w_outside w) (w_tick w)")
    case None
    then have "get_tracked_plan p w = (Inr (plan_from_entity row), w\<lparr>w_tick := Suc (w_tick w)\<rparr>)"
      using assms(1)
      by (simp add: get_tracked_plan_def get_email_plan_def db_query_def external_def prog_simps
          plan_row_def Let_def)
    then show ?thesis
      using status
      by (auto simp: pause_plan_def resume_plan_def advance_plan_interval_def bindM_def throw_def
          time_now_def advance_guard_def)
  next
    case (Some e)
    then have "get_tracked_plan p w = (Inl e, w\<lparr>w_tick := Suc (w_tick w)\<rparr>)"
      by (simp add: get_tracked_plan_def get_email_plan_def db_query_def external_def prog_simps Let_def)
    then show ?thesis
      by (auto simp: pause_plan_def resume_plan_def advance_plan_interval_def bindM_def)
  qed
qed

theorem completed_plan_is_final_witness:
  "\<exists>e k. advance_plan_interval 1 True ((plan_world plan_outside)
      \<lparr>w_plans := [sample_plan_row\<lparr>ple_Status := 2\<rparr>]\<rparr>)
     = (Inl e, (plan_world plan_outside)\<lparr>w_plans := [sample_plan_row\<lparr>ple_Status := 2\<rparr>], w_tick := k\<rparr>)"
proof -
  let ?w = "(plan_world plan_outside)\<lparr>w_plans := [sample_plan_row\<lparr>ple_Status := 2\<rparr>]\<rparr>"
  have "plan_row 1 ?w = Some (sample_plan_row\<lparr>ple_Status := 2\<rparr>)"
    by (simp add: plan_row_def sample_plan_row_def alive_def)
  from completed_plan_is_final [OF this] show ?thesis by auto
qed

definition write_back_fails :: outside where
  "write_back_fails = plan_outside\<lparr>o_fault := \<lambda>k. if k = 22 then Some (ErrText ''gone'') else None\<rparr>"


end
