(* ===== verification/Email_Paging.thy ===== *)
theory Email_Paging
  imports Email_Plan
begin

text \<open>
  When paging through all accounts ends, and what it collects: the only loop of the service whose end
  is in the hands of another one.
\<close>

text \<open>
  \<open>paging_ends out k token n\<close>: the account service, asked from interaction \<open>k\<close> on with \<open>token\<close>, fails,
  answers with no page or with a last page within \<open>n\<close> calls. \<open>collected\<close> is what its pages hold.
\<close>

fun paging_ends :: "outside \<Rightarrow> nat \<Rightarrow> string \<Rightarrow> nat \<Rightarrow> bool" where
  "paging_ends out k token 0 = False"
| "paging_ends out k token (Suc n) =
     (case o_fault out k of
        Some e \<Rightarrow> True
      | None \<Rightarrow>
          (case o_accounts_page out k token of
             None \<Rightarrow> True
           | Some (accounts, next_token) \<Rightarrow>
               next_token = [] \<or> paging_ends out (Suc k) next_token n))"

fun collected :: "outside \<Rightarrow> nat \<Rightarrow> string \<Rightarrow> nat \<Rightarrow> target_account list" where
  "collected out k token 0 = []"
| "collected out k token (Suc n) =
     (case o_accounts_page out k token of
        None \<Rightarrow> []
      | Some (accounts, next_token) \<Rightarrow>
          List.map_filter (to_target_account out) accounts
          @ (if next_token = [] then [] else collected out (Suc k) next_token n))"

lemma w_outside_tick [simp]: "w_outside (w\<lparr>w_tick := k\<rparr>) = w_outside w"
  by simp

lemma paging_returns:
  "paging_ends (w_outside w) (w_tick w) token n \<Longrightarrow> \<exists>r w'. list_all_accounts token results w = Some (r, w')"
proof (induction n arbitrary: token results w)
  case (Suc n)
  show ?case
  proof (cases "o_fault (w_outside w) (w_tick w)")
    case (Some e)
    then show ?thesis by (simp add: list_all_accounts.simps external_def Let_def)
  next
    case None
    show ?thesis
    proof (cases "o_accounts_page (w_outside w) (w_tick w) token")
      case (Some page)
      obtain accounts t where page: "page = (accounts, t)" by fastforce
      then show ?thesis
        using None Some Suc.prems Suc.IH [of "w\<lparr>w_tick := Suc (w_tick w)\<rparr>" t
            "results @ List.map_filter (to_target_account (w_outside w)) accounts"]
        by (auto simp: list_all_accounts.simps [of token] external_def Let_def)
    qed (use None in \<open>simp add: list_all_accounts.simps external_def Let_def\<close>)
  qed
qed simp

text \<open>Conversely a call that returned saw the end of the pages, and returned what they hold.\<close>

lemma paging_returned:
  "list_all_accounts token results w = Some run \<Longrightarrow>
   \<exists>n. paging_ends (w_outside w) (w_tick w) token n
     \<and> (\<forall>found. fst run = Inr found \<longrightarrow> found = results @ collected (w_outside w) (w_tick w) token n)"
proof (erule list_all_accounts.raw_induct [rotated])
  fix rec token results w run
  assume IH: "\<And>token results w run. rec token results w = Some run \<Longrightarrow>
      \<exists>n. paging_ends (w_outside w) (w_tick w) token n
        \<and> (\<forall>found. fst run = Inr found \<longrightarrow> found = results @ collected (w_outside w) (w_tick w) token n)"
    and body: "(case external w of (Inl e, w') \<Rightarrow> Some (Inl e, w')
      | (Inr k, w') \<Rightarrow>
          (case o_accounts_page (w_outside w') k token of
             None \<Rightarrow> Some (Inr results, w')
           | Some (accounts, token) \<Rightarrow>
               (let results' = results @ List.map_filter (to_target_account (w_outside w')) accounts
                in if token = [] then Some (Inr results', w') else rec token results' w'))) = Some run"
  show "\<exists>n. paging_ends (w_outside w) (w_tick w) token n
        \<and> (\<forall>found. fst run = Inr found \<longrightarrow> found = results @ collected (w_outside w) (w_tick w) token n)"
  proof (cases "o_fault (w_outside w) (w_tick w)")
    case (Some e)
    then show ?thesis
      using body by (intro exI [of _ "Suc 0"]) (auto simp: external_def Let_def)
  next
    case None
    show ?thesis
    proof (cases "o_accounts_page (w_outside w) (w_tick w) token")
      case None': None
      then show ?thesis
        using body None by (intro exI [of _ "Suc 0"]) (auto simp: external_def Let_def)
    next
      case (Some page)
      obtain accounts t where page: "page = (accounts, t)" by fastforce
      let ?w = "w\<lparr>w_tick := Suc (w_tick w)\<rparr>"
      let ?results = "results @ List.map_filter (to_target_account (w_outside w)) accounts"
      show ?thesis
      proof (cases "t = []")
        case True
        then show ?thesis
          using body None Some page
          by (intro exI [of _ "Suc 0"]) (auto simp: external_def Let_def)
      next
        case False
        then have "rec t ?results ?w = Some run"
          using body None Some page by (simp add: external_def Let_def)
        from IH [OF this] obtain n where "paging_ends (w_outside w) (Suc (w_tick w)) t n"
          "\<forall>found. fst run = Inr found \<longrightarrow> found = ?results @ collected (w_outside w) (Suc (w_tick w)) t n" by auto
        then show ?thesis
          using None Some page False by (intro exI [of _ "Suc n"]) auto
      qed
    qed
  qed
qed

text \<open>Two kinds of account services: one whose tokens count down, and one that repeats itself.\<close>

lemma paging_ends_by_rank:
  assumes "\<And>k token accounts t. o_accounts_page out k token = Some (accounts, t) \<Longrightarrow> t = [] \<or> rank t < (rank token :: nat)"
  shows "paging_ends out k token (Suc (rank token))"
proof (induction "rank token" arbitrary: k token rule: less_induct)
  case less
  have more: "paging_ends out j u n \<Longrightarrow> n \<le> m \<Longrightarrow> paging_ends out j u m" for j u n m
  proof (induction n arbitrary: j u m)
    case (Suc n)
    then obtain m' where "m = Suc m'" "n \<le> m'" by (cases m) auto
    then show ?case using Suc by (auto split: option.splits)
  qed simp
  show ?case
  proof (cases "o_accounts_page out k token")
    case (Some page)
    obtain accounts t where page: "page = (accounts, t)" by fastforce
    then show ?thesis
      using assms [of k token accounts t] Some less [of t] more [of "Suc k" t "Suc (rank t)" "rank token"]
      by (auto simp: Suc_le_eq split: option.splits)
  qed (simp split: option.splits)
qed

lemma repeated_token_never_ends:
  assumes "\<And>k. o_fault out k = None" and "\<And>k token. o_accounts_page out k token = Some (accounts, t)" "t \<noteq> []"
  shows "\<not> paging_ends out k token n"
  using assms by (induction n arbitrary: k token) simp_all

lemma list_all_accounts_iff:
  "(\<exists>run. list_all_accounts token results w = Some run) \<longleftrightarrow> (\<exists>n. paging_ends (w_outside w) (w_tick w) token n)"
  using paging_returns [of w token _ results] paging_returned [of token results w] by blast

text \<open>C28: creating a plan returns, with a plan or an error, exactly when it does not broadcast or the
  account service ends its pages, fails or is not configured; and a broadcast that resolved its targets
  resolved them to the accounts on all the pages, each once.\<close>

theorem create_plan_returns_iff:
  "((\<exists>run. create_plan command createdBy w = Some run)
    \<longleftrightarrow> (if cmd_BroadcastToAll command \<and> o_accounts (w_outside w)
        then \<exists>n. paging_ends (w_outside w) (w_tick w) [] n else True))
   \<and> (case resolve_target_accounts command w of
        Some (Inr targets, w') \<Rightarrow>
          if cmd_BroadcastToAll command
          then \<exists>n. paging_ends (w_outside w) (w_tick w) [] n
            \<and> targets = dedupe_accounts (collected (w_outside w) (w_tick w) [] n)
          else True
      | _ \<Rightarrow> True)"
proof -
  have "create_plan command createdBy w = None \<longleftrightarrow> resolve_target_accounts command w = None"
    by (auto simp: create_plan_def split: option.splits sum.splits)
  moreover have "resolve_target_accounts command w = None
      \<longleftrightarrow> cmd_BroadcastToAll command \<and> o_accounts (w_outside w) \<and> list_all_accounts [] [] w = None"
    by (auto simp: resolve_target_accounts_def Let_def split: option.splits sum.splits)
  ultimately have "(\<exists>run. create_plan command createdBy w = Some run)
      \<longleftrightarrow> (if cmd_BroadcastToAll command \<and> o_accounts (w_outside w)
          then \<exists>n. paging_ends (w_outside w) (w_tick w) [] n else True)"
    using list_all_accounts_iff [of "[]" "[]" w] by (auto simp flip: not_None_eq)
  moreover have "\<exists>n. paging_ends (w_outside w) (w_tick w) [] n
      \<and> targets = dedupe_accounts (collected (w_outside w) (w_tick w) [] n)"
    if "cmd_BroadcastToAll command" "resolve_target_accounts command w = Some (Inr targets, w')" for targets w'
    using that paging_returned [of "[]" "[]" w]
    by (force simp: resolve_target_accounts_def split: option.splits sum.splits if_splits)
  ultimately show ?thesis by (auto split: option.splits sum.splits)
qed

end
