(* ===== verification/Dispatch.thy ===== *)
theory Dispatch
  imports Email_Send Push_Service
begin

text \<open>
  How a queued job is handled: \<open>dispatch\<close> of \<open>internal/queue/queue.go\<close> with the handler
  \<open>pushQueueHandler\<close> that \<open>cmd/metoer/main.go\<close> registers, and the log level of the latter.
\<close>

section \<open>The log level\<close>

datatype log_level = LevelError | LevelWarn | LevelInfo | LevelDebug

definition parse_log_level :: "string \<Rightarrow> log_level" where
  "parse_log_level v =
     (let l = to_lower (trim_space v) in
      if l = ''error'' then LevelError
      else if l = ''warn'' \<or> l = ''warning'' then LevelWarn
      else if l = ''info'' then LevelInfo
      else LevelDebug)"

text \<open>The order of \<open>slog\<close>: a record is written when its level is at least the one of the handler.\<close>

fun slog_level :: "log_level \<Rightarrow> int" where
  "slog_level LevelDebug = -4"
| "slog_level LevelInfo = 0"
| "slog_level LevelWarn = 4"
| "slog_level LevelError = 8"

instantiation log_level :: linorder
begin

definition "l \<le> m \<longleftrightarrow> slog_level l \<le> slog_level m" for l m :: log_level

definition "l < m \<longleftrightarrow> slog_level l < slog_level m" for l m :: log_level

instance
proof
  show "l = m" if "l \<le> m" "m \<le> l" for l m :: log_level
    using that unfolding less_eq_log_level_def by (cases l; cases m; simp)
qed (auto simp: less_eq_log_level_def less_log_level_def)

end

lemma debug_is_least: "LevelDebug \<le> l" for l :: log_level
  by (cases l) (simp_all add: less_eq_log_level_def)

text \<open>A name that is none of the four writes everything, as the empty one does.\<close>

lemma parse_log_level_default:
  "to_lower (trim_space v) \<notin> {''error'', ''warn'', ''warning'', ''info''} \<Longrightarrow> parse_log_level v \<le> l"
  by (simp add: parse_log_level_def Let_def debug_is_least)

section \<open>The handler\<close>

definition push_queue_handler :: "job \<Rightarrow> unit io" where
  "push_queue_handler job =
     (if job_Type job = job_type_email then
        bindM (getM w_outside) (\<lambda>out.
        case o_email out of
          None \<Rightarrow> ret ()
        | Some cfg \<Rightarrow>
            (case job_Email job of
               None \<Rightarrow> ret ()
             | Some email \<Rightarrow>
                 send_email cfg (ej_ToName email) (ej_ToAddress email) (ej_Subject email)
                   (ej_Body email) ''queue''))
      else if job_Type job = job_type_push_notification then
        (case job_Push job of
           None \<Rightarrow> ret ()
         | Some p \<Rightarrow>
             deliver_push_notification (pj_Notification p) (pj_ExcludedWebSocketDeviceIDs p)
               (pj_IsSavable p))
      else ret ())"

text \<open>An error of the handler is logged, and the job is gone.\<close>

definition dispatch :: "(job \<Rightarrow> unit io) option \<Rightarrow> job option \<Rightarrow> unit io" where
  "dispatch handler job =
     (case job of
        None \<Rightarrow> ret ()
      | Some j \<Rightarrow> (case handler of None \<Rightarrow> ret () | Some h \<Rightarrow> swallow (h j)))"

text \<open>One turn of a worker that finds a job in the channel.\<close>

definition worker_turn :: "unit io" where
  "worker_turn =
     bindM (getM w_jobs) (\<lambda>jobs.
       case jobs of
         [] \<Rightarrow> ret ()
       | j # rest \<Rightarrow>
           seqM (modifyM (\<lambda>w. w\<lparr>w_jobs := rest\<rparr>)) (dispatch (Some push_queue_handler) (Some j)))"

section \<open>The file events\<close>

text \<open>
  \<open>internal/events/filesystem.go\<close>: one message of the consumer. The result is what the bus acts on:
  nil acknowledges it, an error leaves it to be delivered again. \<open>unmarshal\<close> is the JSON decoder.
\<close>

record file_event =
  fev_FileId :: string
  fev_TaskId :: string
  fev_AccountId :: string
  fev_Status :: int

definition consume_file_event :: "(string \<Rightarrow> file_event option) \<Rightarrow> string \<Rightarrow> unit io" where
  "consume_file_event unmarshal payload =
     (case unmarshal payload of
        None \<Rightarrow> ret ()
      | Some ev \<Rightarrow>
          bindM time_now (\<lambda>started. bindM (apply_file_reference_updates (fev_FileId ev)) (\<lambda>count.
            bindM time_now (\<lambda>ended. ret ()))))"

end
