(* ===== verification/Push_Batch.thy ===== *)
theory Push_Batch
  imports Push_Deliver
begin

text \<open>
  What \<open>SendNotificationBatch\<close> of \<open>internal/push/push.go\<close> saves: one row per account that does not
  reject the topic, in the order of the accounts, whatever happens to the deliveries afterwards.
\<close>

section \<open>Deliveries leave the notifications alone\<close>

lemma keeps_send_push:
  assumes "\<And>v v'. push_frame v' = push_frame v \<Longrightarrow> I v' = I v"
  shows "keeps I (send_push_notification sub n)"
proof (rule keepsI)
  fix w assume "I w"
  moreover have "push_frame (snd (send_push_notification sub n w)) = push_frame w"
    using send_push_report [OF prod.collapse [symmetric], of sub n w] by (simp add: push_report_def)
  ultimately show "I (snd (send_push_notification sub n w))" using assms by blast
qed

lemma keeps_push_to_devices:
  assumes "\<And>v v'. push_frame v' = push_frame v \<Longrightarrow> I v' = I v"
  shows "keeps I (push_to_devices n subs)"
  unfolding push_to_devices_def scheduled_def Let_def
  by (intro spec_intros keeps_send_push assms)

definition rows_are :: "notification_entity list \<Rightarrow> world \<Rightarrow> bool" where
  "rows_are rows w \<longleftrightarrow> w_notifications w = rows"

lemma rows_are_frame [simp]:
  "steady (rows_are rows)"
  "rows_are rows (v\<lparr>w_deliveries := ds\<rparr>) = rows_are rows v"
  "rows_are rows (v\<lparr>w_sends := ss\<rparr>) = rows_are rows v"
  "rows_are rows (v\<lparr>w_published := x\<rparr>) = rows_are rows v"
  "rows_are rows (v\<lparr>w_replay := m\<rparr>) = rows_are rows v"
  "rows_are rows (v\<lparr>w_streams := y\<rparr>) = rows_are rows v"
  "rows_are rows (v\<lparr>w_heap := h\<rparr>) = rows_are rows v"
  by (simp_all add: rows_are_def steady_def)

lemma rows_are_push_frame: "push_frame v' = push_frame v \<Longrightarrow> rows_are rows v' = rows_are rows v"
proof -
  have "w_notifications (push_frame x) = w_notifications x" for x by (simp add: push_frame_def)
  then show "push_frame v' = push_frame v \<Longrightarrow> ?thesis" unfolding rows_are_def by metis
qed

lemma keeps_rows_push: "keeps (rows_are rows) (push_to_devices n subs)"
  by (rule keeps_push_to_devices) (rule rows_are_push_frame)

lemma keeps_rows_deliver: "keeps (rows_are rows) (deliver_to_account source p excluded isSavable)"
  unfolding deliver_to_account_def deliver_to_devices_def Let_def
  by (intro spec_intros keeps_rows_push) simp_all

lemma keeps_rows_set_account: "keeps (rows_are rows) (set_account p a)"
  unfolding set_account_def by (rule keeps_modifyM) simp

section \<open>The rows\<close>

text \<open>A row that is a fresh, unread copy of the notification for the account.\<close>

definition saved_copy :: "notification \<Rightarrow> uuid \<Rightarrow> notification_entity \<Rightarrow> bool" where
  "saved_copy n a e \<longleftrightarrow> alive e \<and> ne_AccountID e = a \<and> ne_Topic e = ntf_Topic n
     \<and> ne_Title e = ntf_Title n \<and> ne_Subtitle e = ntf_Subtitle n \<and> ne_Content e = ntf_Content n
     \<and> ne_Priority e = ntf_Priority n \<and> ne_AppID e = ntf_AppId n \<and> ne_PushType e = ntf_PushType n
     \<and> ne_ViewedAt e = None \<and> decode_json (ne_Meta e) = Inr (ntf_Meta n)"

lemma batch_rows_run:
  "\<exists>rows. mapM (batch_row n now) accounts w = (Inr rows, w\<lparr>w_tick := w_tick w + length accounts\<rparr>)
     \<and> (\<exists>es. traverse notification_entity_from_model rows = Inr es
          \<and> list_all2 (saved_copy n) accounts es)"
proof (induction accounts arbitrary: w)
  case Nil
  then show ?case by (simp add: ret_def)
next
  case (Cons a accounts)
  let ?w = "w\<lparr>w_tick := Suc (w_tick w)\<rparr>"
  define row where "row = \<lparr>Id = o_uuid (w_outside w) (w_tick w), CreatedAt = now, UpdatedAt = now,
    DeletedAt = None, ntf_Topic = ntf_Topic n, ntf_Title = ntf_Title n, ntf_Subtitle = ntf_Subtitle n,
    ntf_Content = ntf_Content n, ntf_Meta = ntf_Meta n, ntf_Priority = ntf_Priority n,
    ntf_ViewedAt = None, ntf_AppId = ntf_AppId n, ntf_PushType = ntf_PushType n, ntf_AccountId = a\<rparr>"
  obtain rows es where IH: "mapM (batch_row n now) accounts ?w
      = (Inr rows, ?w\<lparr>w_tick := w_tick ?w + length accounts\<rparr>)"
    "traverse notification_entity_from_model rows = Inr es" "list_all2 (saved_copy n) accounts es"
    using Cons.IH by blast
  have "batch_row n now a w = (Inr row, ?w)"
    by (simp add: batch_row_def row_def bindM_def uuid_new_def ret_def)
  then have "mapM (batch_row n now) (a # accounts) w
      = (Inr (row # rows), w\<lparr>w_tick := w_tick w + length (a # accounts)\<rparr>)"
    using IH(1) by (simp add: bindM_def ret_def)
  moreover obtain e where "notification_entity_from_model row = Inr e" "saved_copy n a e"
    by (auto simp: notification_entity_from_model_def encode_json_def row_def saved_copy_def alive_def
        decode_json_def split: option.splits)
  ultimately show ?case using IH(2,3) by auto
qed

lemma save_batch_effect:
  assumes "save_batch n recipients w = (r, w')"
  shows "(case r of
      Inl e \<Rightarrow> w_notifications w' = w_notifications w
    | Inr _ \<Rightarrow> \<exists>es. w_notifications w' = w_notifications w @ es \<and> list_all2 (saved_copy n) recipients es)
    \<and> w_heap w' = w_heap w"
proof -
  let ?w1 = "w\<lparr>w_tick := Suc (w_tick w)\<rparr>"
  obtain rows es where rows: "mapM (batch_row n (o_time (w_outside w) (w_tick w))) recipients ?w1
      = (Inr rows, ?w1\<lparr>w_tick := w_tick ?w1 + length recipients\<rparr>)"
    "traverse notification_entity_from_model rows = Inr es" "list_all2 (saved_copy n) recipients es"
    using batch_rows_run by blast
  have "length rows = length es"
    using rows(2) unfolding traverse_Inr by (metis length_map)
  then have none: "rows = [] \<Longrightarrow> es = []" by simp
  have run: "whenM (rows \<noteq> []) (batch_insert_notifications rows)
      (?w1\<lparr>w_tick := w_tick ?w1 + length recipients\<rparr>) = (r, w')"
    using assms rows(1) by (simp add: save_batch_def bindM_def time_now_def)
  show ?thesis
    using run rows(2,3) none
    by (cases r) (auto simp: whenM_iff batch_insert_notifications_def db_insert_def io_iffs
        split: if_splits)
qed

text \<open>The accounts of the batch whose preference for the topic is not to reject it.\<close>

definition batch_preferences :: "uuid list \<Rightarrow> string \<Rightarrow> world \<Rightarrow> preference_map" where
  "batch_preferences accounts topic w =
     collect_preferences Map.empty
       (filter (\<lambda>r. alive r \<and> pe_AccountID r \<in> set accounts \<and> pe_Topic r = topic) (w_preferences w))"

definition accepting :: "uuid list \<Rightarrow> string \<Rightarrow> world \<Rightarrow> uuid list" where
  "accepting accounts topic w =
     filter (\<lambda>a. preference_at (batch_preferences accounts topic w) a \<noteq> PreferenceReject) accounts"

lemma get_preferences_Inr:
  "get_preferences_by_topics accounts topic w = (Inr m, w')
    \<Longrightarrow> m = batch_preferences accounts topic w \<and> (\<exists>k. w' = w\<lparr>w_tick := k\<rparr>)"
  by (cases "accounts = []")
    (auto simp: get_preferences_by_topics_def batch_preferences_def io_iffs intro: exI [of _ "w_tick w"])

lemma get_preferences_Inl:
  "get_preferences_by_topics accounts topic w = (Inl e, w') \<Longrightarrow> (\<exists>k. w' = w\<lparr>w_tick := k\<rparr>)"
  by (auto simp: get_preferences_by_topics_def io_iffs split: if_splits)

lemma keeps_rows_deliveries:
  "keeps (rows_are rows) (forM recipients (\<lambda>account.
     seqM (set_account p account)
       (if preference_at m account = PreferenceSilent then ret ()
        else deliver_to_account ''batch'' p excluded isSavable)))"
  by (intro spec_intros keeps_rows_set_account keeps_rows_deliver)

lemma batch_rows:
  assumes "send_notification_batch p accounts True excluded w = (r, w')"
    and n: "n = w_heap w p"
  shows "w_notifications w' = w_notifications w \<and> isl r
    \<or> (\<exists>es. w_notifications w' = w_notifications w @ es
        \<and> list_all2 (saved_copy n) (accepting accounts (ntf_Topic n) w) es)"
proof -
  let ?deliver = "\<lambda>m. forM (filter (\<lambda>a. preference_at m a \<noteq> PreferenceReject) accounts) (\<lambda>account.
     seqM (set_account p account)
       (if preference_at m account = PreferenceSilent then ret ()
        else deliver_to_account ''batch'' p excluded True))"
  let ?valid = "validate_app_id (apps_of w) (resolve_app_id (apps_of w) (ntf_AppIdValue n) True)"
  let ?rest = "bindM (get_preferences_by_topics accounts (ntf_Topic n)) (\<lambda>m.
      seqM (save_batch n (filter (\<lambda>a. preference_at m a \<noteq> PreferenceReject) accounts)) (?deliver m))"
  have run: "seqM (lift_result ?valid) ?rest w = (r, w')"
    using assms by (simp add: send_notification_batch_def bindM_getM Let_def whenM_def)
  show ?thesis
  proof (cases ?valid)
    case (Inl e)
    with run have "r = Inl e \<and> w' = w" by (auto simp: seqM_def bindM_def lift_result_def)
    then show ?thesis by simp
  next
    case (Inr u)
    then have run: "?rest w = (r, w')" using run by (simp add: seqM_def bindM_def lift_result_def)
    show ?thesis
    proof (cases "get_preferences_by_topics accounts (ntf_Topic n) w")
      case (Pair q w1)
      show ?thesis
      proof (cases q)
        case (Inl e)
        with Pair run get_preferences_Inl [of accounts "ntf_Topic n" w] show ?thesis
          by (auto simp: bindM_def)
      next
        case (Inr m)
        obtain k where m: "m = batch_preferences accounts (ntf_Topic n) w" "w1 = w\<lparr>w_tick := k\<rparr>"
          using get_preferences_Inr Pair Inr by blast
        let ?recipients = "accepting accounts (ntf_Topic n) w"
        have run: "seqM (save_batch n ?recipients) (?deliver m) w1 = (r, w')"
          using run Pair Inr m(1) by (simp add: bindM_def accepting_def)
        obtain q2 w2 where save: "save_batch n ?recipients w1 = (q2, w2)" by (cases "save_batch n ?recipients w1")
        note saved = save_batch_effect [OF save]
        show ?thesis
        proof (cases q2)
          case (Inl e)
          with run save saved m(2) show ?thesis by (auto simp: seqM_def bindM_def)
        next
          case (Inr u)
          with run save have "?deliver m w2 = (r, w')" by (simp add: seqM_def bindM_def)
          with keeps_rows_deliveries have "rows_are (w_notifications w2) w'"
            by (rule keeps_run) (simp add: rows_are_def)
          with saved Inr m(2) show ?thesis by (auto simp: rows_are_def)
        qed
      qed
    qed
  qed
qed

text \<open>
  C21: A batch that is saved adds exactly one unread row for every account of the batch that does not
  reject the topic, in the order of the accounts, with the texts, meta, priority, app and push type of
  the notification; a batch that fails before the deliveries adds none. Deliveries that fail
  later leave the rows in place.
\<close>

theorem batch_saves_one_row_per_recipient:
  assumes "send_notification_batch p accounts True excluded w = (r, w')"
  shows "w_notifications w' = w_notifications w \<and> isl r
    \<or> (\<exists>es. w_notifications w' = w_notifications w @ es
        \<and> list_all2 (saved_copy (w_heap w p)) (accepting accounts (ntf_Topic (w_heap w p)) w) es)"
  by (rule batch_rows [OF assms refl])

theorem batch_saves_one_row_per_recipient_witness:
  "\<exists>w' es. send_notification_batch 0 [1, 2] True [] batch_world = (Inr (), w')
     \<and> w_notifications w' = es \<and> list_all2 (saved_copy (sample_notification 5 0 10)) [1, 2] es"
proof -
  have ok: "fst (send_notification_batch 0 [1, 2] True [] batch_world) = Inr ()"
    by code_simp
  then obtain w' where run: "send_notification_batch 0 [1, 2] True [] batch_world = (Inr (), w')"
    by (metis prod.collapse)
  have w: "w_heap batch_world 0 = sample_notification 5 0 10" "w_notifications batch_world = []"
    "w_preferences batch_world = []"
    by (simp_all add: batch_world_def empty_world_def)
  have "accepting [1, 2] t batch_world = [1, 2]" for t
    by (simp add: accepting_def batch_preferences_def w preference_at_def)
  with batch_saves_one_row_per_recipient [OF run] run show ?thesis by (auto simp: w)
qed

end
