(* ===== verification/Push_Service_Facts.thy ===== *)
theory Push_Service_Facts
  imports Push_Service
begin

text \<open>What the operations of \<open>Push_Service\<close> promise.\<close>

section \<open>The subscription of the current device\<close>

definition active_rank :: "push_subscription \<Rightarrow> bool \<times> time" where
  "active_rank sub = (sub_Provider sub = PushProviderSop, UpdatedAt sub)"

lemma foldl_better_active:
  "foldl better_active best subs = first_best active_rank best (filter sub_IsActivated subs)"
  by (induction subs arbitrary: best)
    (auto simp: better_active_def active_rank_def Let_def less_prod_def' split: option.splits)

lemma active_subscription_effect:
  assumes "get_current_device_active_subscription accountID deviceId w = (Inr best, w')"
  shows "\<exists>subs. get_current_device_subscriptions accountID deviceId w = (Inr subs, w')
    \<and> best = first_best active_rank None (filter sub_IsActivated subs)"
  using assms
  by (auto simp: get_current_device_active_subscription_def run_iffs foldl_better_active)

text \<open>
  The subscription of the current device is an activated one of the account and the device (with or
  without the SOP suffix), a SOP subscription before any other provider's, and the most recently
  updated among those; there is none exactly when no such subscription is activated.
\<close>

theorem active_subscription_best:
  assumes "get_current_device_active_subscription accountID deviceId w = (Inr best, w')"
    and "subs = map subscription_from_entity (filter (\<lambda>r. alive r \<and> se_AccountID r = accountID
       \<and> se_DeviceID r \<in> {deviceId, deviceId @ '':sop''} \<and> se_IsActivated r) (w_subscriptions w))"
  shows "case best of
      None \<Rightarrow> subs = []
    | Some b \<Rightarrow> b \<in> set subs \<and> (\<forall>sub \<in> set subs.
        (sub_Provider sub = PushProviderSop \<longrightarrow> sub_Provider b = PushProviderSop)
        \<and> ((sub_Provider sub = PushProviderSop) = (sub_Provider b = PushProviderSop)
             \<longrightarrow> UpdatedAt sub \<le> UpdatedAt b))"
proof -
  obtain all where all: "get_current_device_subscriptions accountID deviceId w = (Inr all, w')"
    "best = first_best active_rank None (filter sub_IsActivated all)"
    using active_subscription_effect [OF assms(1)] by blast
  have active: "sub_IsActivated (subscription_from_entity r) = se_IsActivated r" for r
    by (simp add: subscription_from_entity_def)
  have set: "set (filter sub_IsActivated all) = set subs"
    using all(1) assms(2)
    by (auto simp: get_current_device_subscriptions_def io_iffs active)
  show ?thesis
  proof (cases best)
    case None
    then have "filter sub_IsActivated all = []" using all(2) by (metis first_best_None_iff)
    then have "set subs = {}" using set by simp
    with None show ?thesis by simp
  next
    case (Some b)
    then have "b \<in> set (filter sub_IsActivated all)
        \<and> (\<forall>y \<in> set (filter sub_IsActivated all). active_rank y \<le> active_rank b)"
      using all(2) first_best_optimal by metis
    with set Some show ?thesis
      by (auto simp: active_rank_def less_eq_prod_def)
  qed
qed

theorem active_subscription_best_witness:
  "\<exists>b w'. get_current_device_active_subscription 7 ''d'' push_world = (Inr (Some b), w')
     \<and> sub_Provider b = PushProviderSop"
proof -
  have run: "fst (get_current_device_active_subscription 7 ''d'' push_world)
      = Inr (Some (sample_subscription 2 ''d:sop'' PushProviderSop))"
    by code_simp
  then obtain w' where w': "get_current_device_active_subscription 7 ''d'' push_world
      = (Inr (Some (sample_subscription 2 ''d:sop'' PushProviderSop)), w')"
    by (metis prod.collapse)
  have "sample_subscription 2 ''d:sop'' PushProviderSop \<in> set (map subscription_from_entity
      (filter (\<lambda>r. alive r \<and> se_AccountID r = 7 \<and> se_DeviceID r \<in> {''d'', ''d'' @ '':sop''}
        \<and> se_IsActivated r) (w_subscriptions push_world)))"
    using active_subscription_best [OF w' refl] by simp
  with w' show ?thesis by (auto simp: sample_subscription_def)
qed

section \<open>One active subscription per device and provider\<close>

text \<open>The active rows of one account, device and provider.\<close>

definition active_rows :: "uuid \<Rightarrow> string \<Rightarrow> push_provider \<Rightarrow> world \<Rightarrow> subscription_entity list" where
  "active_rows accountID deviceId provider w =
     filter (\<lambda>r. alive r \<and> se_AccountID r = accountID \<and> se_DeviceID r = deviceId
       \<and> se_Provider r = int_of_provider provider \<and> se_IsActivated r) (w_subscriptions w)"

lemma run_deactivate:
  assumes "deactivate_subscriptions accountID deviceId provider now w = (Inr u, w1)"
  shows "active_rows accountID deviceId provider w1 = []
     \<and> map ID (w_subscriptions w1) = map ID (w_subscriptions w) \<and> w_outside w1 = w_outside w"
proof -
  let ?hit = "\<lambda>r. alive r \<and> se_AccountID r = accountID \<and> se_DeviceID r = deviceId
    \<and> se_IsActivated r \<and> se_Provider r = int_of_provider provider"
  let ?off = "\<lambda>r. r\<lparr>se_IsActivated := False, e_UpdatedAt := now\<rparr>"
  have w1: "w1 = (w\<lparr>w_tick := Suc (w_tick w)\<rparr>)\<lparr>w_subscriptions := update_where ?hit ?off (w_subscriptions w)\<rparr>"
    using assms by (auto simp: deactivate_subscriptions_def io_iffs)
  have "map ID (update_where ?hit ?off (w_subscriptions w)) = map ID (w_subscriptions w)"
    by (rule map_update_where) simp
  moreover have "\<not> (alive x \<and> se_AccountID x = accountID \<and> se_DeviceID x = deviceId
      \<and> se_Provider x = int_of_provider provider \<and> se_IsActivated x)"
    if "x \<in> set (update_where ?hit ?off (w_subscriptions w))" for x
  proof -
    from that obtain r where "x = (if ?hit r then ?off r else r)" unfolding in_update_where by blast
    then show ?thesis by (cases "?hit r") auto
  qed
  ultimately show ?thesis
    unfolding active_rows_def filter_empty_conv by (simp add: w1)
qed

lemma find_existing_Inr:
  assumes "find_existing accountID deviceId provider w = (Inr existing, w')"
  shows "w_subscriptions w' = w_subscriptions w \<and> w_outside w' = w_outside w
    \<and> (case existing of
         None \<Rightarrow> True
       | Some e \<Rightarrow> \<exists>r \<in> set (w_subscriptions w). alive r \<and> se_AccountID r = accountID
           \<and> se_DeviceID r = deviceId \<and> se_Provider r = int_of_provider provider
           \<and> e = subscription_from_entity r)"
proof (cases "o_fault (w_outside w) (w_tick w)")
  case (Some e)
  with assms show ?thesis
    by (auto simp: find_existing_def get_existing_subscription_def prog_simps db_query_def external_def
        Let_def split: if_splits)
next
  case None
  let ?found = "first_row (filter (\<lambda>r. alive r \<and> se_AccountID r = accountID
    \<and> se_DeviceID r = deviceId \<and> se_Provider r = int_of_provider provider) (w_subscriptions w))"
  show ?thesis
  proof (cases ?found)
    case none: None
    with assms None show ?thesis
      by (auto simp: find_existing_def get_existing_subscription_def prog_simps db_query_def external_def
          Let_def)
  next
    case (Some r)
    with assms None first_row_Some [OF Some] show ?thesis
      by (auto simp: find_existing_def get_existing_subscription_def prog_simps db_query_def external_def
          Let_def)
  qed
qed

text \<open>Setting a column of the one row with an id, when no row of the device was active.\<close>

lemma renewed_rows:
  assumes "active_rows accountID deviceId provider w = []" and "distinct (map ID (w_subscriptions w))"
    and "r \<in> set (w_subscriptions w)" and "alive r" and "se_AccountID r = accountID"
    and "update_subscription e w = (Inr u, w')" and "Id e = ID r"
    and "sub_DeviceId e = deviceId" and "sub_Provider e = provider" and "sub_IsActivated e"
  shows "map ID (active_rows accountID deviceId provider w') = [Id e]
    \<and> (\<forall>r \<in> set (active_rows accountID deviceId provider w'). se_DeviceToken r = sub_DeviceToken e
        \<and> se_AppID r = sub_AppId e)"
proof -
  obtain xs ys where rows: "w_subscriptions w = xs @ r # ys" using assms(3) by (meson split_list)
  let ?active = "\<lambda>x. alive x \<and> se_AccountID x = accountID \<and> se_DeviceID x = deviceId
      \<and> se_Provider x = int_of_provider provider \<and> se_IsActivated x"
  have other: "x \<in> set xs \<union> set ys \<Longrightarrow> ID x \<noteq> ID r" for x
    using assms(2) rows by (auto simp: image_iff)
  have "update_where (\<lambda>x. alive x \<and> ID x = Id e) (set_subscription_columns e) zs = zs"
    if "set zs \<subseteq> set xs \<union> set ys" for zs
    by (rule update_where_none) (use other that assms(7) in auto)
  then have w': "w_subscriptions w' = xs @ set_subscription_columns e r # ys"
    using assms(4,6,7) by (auto simp: update_subscription_def io_iffs rows)
  have none: "filter ?active xs = []" "filter ?active ys = []"
    using assms(1) by (simp_all add: active_rows_def rows split: if_splits)
  have "?active (set_subscription_columns e r)"
    using assms(4,5,8-10) by (simp add: set_subscription_columns_def alive_def)
  then have "active_rows accountID deviceId provider w' = [set_subscription_columns e r]"
    by (simp add: active_rows_def w' none)
  then show ?thesis using assms(7) by (simp add: set_subscription_columns_def)
qed

lemma log_first_subscription_effect:
  "keeps (\<lambda>w. w_subscriptions w = rows) (log_first_subscription accountID provider)"
  unfolding log_first_subscription_def create_action_log_def count_subscriptions_def
  by (intro spec_intros keeps_modifyM) (simp_all add: steady_def)

lemma inserted_rows:
  assumes "active_rows accountID deviceId provider w = []"
    and "insert_subscription e w = (Inr u, w')" and "DeletedAt e = None"
    and "sub_AccountId e = accountID" and "sub_DeviceId e = deviceId" and "sub_Provider e = provider"
    and "sub_IsActivated e"
  shows "map ID (active_rows accountID deviceId provider w') = [Id e]
    \<and> (\<forall>r \<in> set (active_rows accountID deviceId provider w'). se_DeviceToken r = sub_DeviceToken e
        \<and> se_AppID r = sub_AppId e)"
proof -
  have "w_subscriptions w' = w_subscriptions w @ [subscription_entity_from_model e]"
    using assms(2) by (auto simp: insert_subscription_def db_insert_def io_iffs split: if_splits)
  then have "active_rows accountID deviceId provider w' = [subscription_entity_from_model e]"
    using assms unfolding active_rows_def
    by (simp add: subscription_entity_from_model_def alive_def)
  then show ?thesis by (simp add: subscription_entity_from_model_def)
qed

lemma subscribe_for_effect:
  assumes run: "subscribe_for accountID deviceId token name provider True appId now w = (Inr sub, w')"
    and ids: "distinct (map ID (w_subscriptions w))"
  shows "map ID (active_rows accountID deviceId provider w') = [Id sub]
    \<and> (\<forall>r \<in> set (active_rows accountID deviceId provider w'). se_DeviceToken r = token
        \<and> se_AppID r = Some appId)"
proof -
  obtain u w1 where off: "deactivate_subscriptions accountID deviceId provider now w = (Inr u, w1)"
    and rest: "bindM (find_existing accountID deviceId provider) (\<lambda>existing.
       case existing of
         Some e \<Rightarrow>
           bindM time_now (\<lambda>updated.
             let e' = renew_subscription e deviceId token name provider True appId now updated
             in seqM (update_subscription e') (ret e'))
       | None \<Rightarrow>
           bindM (new_subscription accountID deviceId token name provider True appId now)
             (\<lambda>subscription.
           seqM (insert_subscription subscription)
           (seqM (log_first_subscription accountID provider)
             (ret subscription)))) w1 = (Inr sub, w')"
    using run unfolding subscribe_for_def whenM_def seqM_Inr if_True by blast
  note off = run_deactivate [OF off]
  obtain existing w2 where found: "find_existing accountID deviceId provider w1 = (Inr existing, w2)"
    and rest: "(case existing of
         Some e \<Rightarrow>
           bindM time_now (\<lambda>updated.
             let e' = renew_subscription e deviceId token name provider True appId now updated
             in seqM (update_subscription e') (ret e'))
       | None \<Rightarrow>
           bindM (new_subscription accountID deviceId token name provider True appId now)
             (\<lambda>subscription.
           seqM (insert_subscription subscription)
           (seqM (log_first_subscription accountID provider)
             (ret subscription)))) w2 = (Inr sub, w')"
    using rest unfolding bindM_Inr by blast
  note found = find_existing_Inr [OF found]
  have none: "active_rows accountID deviceId provider (w2\<lparr>w_tick := k\<rparr>) = []" for k
    using off found by (simp add: active_rows_def)
  have ids2: "distinct (map ID (w_subscriptions (w2\<lparr>w_tick := k\<rparr>)))" for k
    using off found ids by simp
  show ?thesis
  proof (cases existing)
    case (Some e)
    then obtain r where r: "r \<in> set (w_subscriptions w2)" "alive r" "se_AccountID r = accountID"
        "e = subscription_from_entity r"
      using found by auto
    from rest Some obtain k v where up: "update_subscription sub (w2\<lparr>w_tick := k\<rparr>) = (Inr v, w')"
      and sub: "sub = renew_subscription e deviceId token name provider True appId now
          (o_time (w_outside w2) (w_tick w2))"
      by (auto simp: io_iffs Let_def)
    have "Id sub = ID r" by (simp add: sub r renew_subscription_def subscription_from_entity_def)
    then show ?thesis
      using renewed_rows [OF none ids2 _ r(2,3) up] r(1)
      by (simp add: sub renew_subscription_def)
  next
    case None
    from rest None obtain k v w3 where ins: "insert_subscription sub (w2\<lparr>w_tick := k\<rparr>) = (Inr v, w3)"
      and log: "\<exists>u. log_first_subscription accountID provider w3 = (Inr u, w')"
      and sub: "DeletedAt sub = None" "sub_AccountId sub = accountID" "sub_DeviceId sub = deviceId"
        "sub_Provider sub = provider" "sub_IsActivated sub" "sub_DeviceToken sub = token"
        "sub_AppId sub = Some appId"
      by (auto simp: io_iffs new_subscription_def)
    have "w_subscriptions w' = w_subscriptions w3"
      using log keeps_run [OF log_first_subscription_effect] by blast
    then show ?thesis
      using inserted_rows [OF none ins sub(1-5)] sub by (simp add: active_rows_def)
  qed
qed

text \<open>
  C3: After an activating \<open>SubscribeDevice\<close>, exactly one subscription of the account, device and
  provider is active: the one returned, with the new token, under the app id the request resolves to,
  which is configured unless it is empty.
\<close>

theorem subscribe_device_unique:
  assumes "subscribe_device deviceId token name provider account True appId w = (Inr sub, w')"
    and "distinct (map ID (w_subscriptions w))"
  shows "\<exists>accountID resolved. o_parse_uuid (w_outside w) (da_Id account) = Some accountID
    \<and> resolved = resolve_app_id (apps_of w) appId True
    \<and> (resolved = [] \<or> is_app_configured (apps_of w) resolved)
    \<and> map ID (active_rows accountID deviceId provider w') = [Id sub]
    \<and> (\<forall>r \<in> set (active_rows accountID deviceId provider w'). se_DeviceToken r = token
        \<and> se_AppID r = Some resolved)"
proof -
  let ?resolved = "resolve_app_id (apps_of w) appId True"
  from assms(1) obtain accountID where account: "o_parse_uuid (w_outside w) (da_Id account) = Some accountID"
    and valid: "validate_app_id (apps_of w) ?resolved = Inr ()"
    and run: "subscribe_for accountID deviceId token name provider True ?resolved
      (o_time (w_outside w) (w_tick w)) (w\<lparr>w_tick := Suc (w_tick w)\<rparr>) = (Inr sub, w')"
    by (auto simp: subscribe_device_def io_iffs Let_def split: option.splits)
  have "distinct (map ID (w_subscriptions (w\<lparr>w_tick := Suc (w_tick w)\<rparr>)))" using assms(2) by simp
  from subscribe_for_effect [OF run this] account valid show ?thesis
    by (auto simp: validate_app_id_ok)
qed

definition seven_outside :: outside where
  "seven_outside = push_outside\<lparr>o_parse_uuid := \<lambda>s. Some 7\<rparr>"

theorem subscribe_device_unique_witness:
  "\<exists>sub w'. subscribe_device ''d'' ''new'' None PushProviderUnifiedPush
       \<lparr>da_Id = ''7'', da_Name = [], da_Nick = [], da_IsSuperuser = False\<rparr> True []
       (push_world\<lparr>w_outside := seven_outside\<rparr>) = (Inr sub, w')
     \<and> map ID (active_rows 7 ''d'' PushProviderUnifiedPush w') = [Id sub]"
proof -
  let ?account = "\<lparr>da_Id = ''7'', da_Name = [], da_Nick = [], da_IsSuperuser = False\<rparr>"
  let ?w = "push_world\<lparr>w_outside := seven_outside\<rparr>"
  have "\<not> isl (fst (subscribe_device ''d'' ''new'' None PushProviderUnifiedPush ?account True [] ?w))"
    by code_simp
  then obtain sub w' where run: "subscribe_device ''d'' ''new'' None PushProviderUnifiedPush ?account True [] ?w
      = (Inr sub, w')"
    using run_exists by blast
  have "distinct (map ID (w_subscriptions ?w))"
    by (simp add: push_world_def subscription_entity_from_model_def sample_subscription_def)
  from subscribe_device_unique [OF run this] run show ?thesis
    by (auto simp: seven_outside_def)
qed

section \<open>The removal buffer\<close>

text \<open>
  Flushing the removal buffer deletes the rows of exactly the queued subscriptions and empties the
  buffer; when the statement fails nothing is deleted and everything stays queued.
\<close>

theorem flush_removals:
  assumes "flush_removal_buffer w = (r, w')"
  shows "case r of
      Inr _ \<Rightarrow> w_removals w' = [] \<and> w_subscriptions w'
        = filter (\<lambda>row. ID row \<notin> set (w_removals w)) (w_subscriptions w)
    | Inl _ \<Rightarrow> w_removals w' = w_removals w \<and> w_subscriptions w' = w_subscriptions w"
proof (cases "w_removals w = []")
  case True
  with assms show ?thesis
    by (auto simp: flush_removal_buffer_def fb_flush_def bindM_def getM_def ret_def)
next
  case False
  then have "keep_first (\<lambda>i. i) [] (w_removals w) \<noteq> []"
    by (metis set_empty set_keep_first_id)
  with assms False show ?thesis
    by (cases "o_fault (w_outside w) (w_tick w)")
      (auto simp: flush_removal_buffer_def fb_flush_def prog_simps fb_drain_def fb_requeue_def
        delete_subscriptions_by_ids_def db_exec_count_def external_def Let_def)
qed

theorem flush_removals_witness:
  "\<exists>w'. flush_removal_buffer (push_world\<lparr>w_removals := [3, 3]\<rparr>) = (Inr (), w')
     \<and> w_removals w' = [] \<and> map ID (w_subscriptions w') = [1, 2]"
proof -
  let ?w = "push_world\<lparr>w_removals := [3, 3]\<rparr>"
  have "fst (flush_removal_buffer ?w) = Inr ()" by code_simp
  then obtain w' where run: "flush_removal_buffer ?w = (Inr (), w')" by (metis prod.collapse)
  from flush_removals [OF this] run show ?thesis
    by (auto simp: push_world_def subscription_entity_from_model_def sample_subscription_def)
qed

section \<open>Sending one notification\<close>

definition stored_preference :: "uuid \<Rightarrow> string \<Rightarrow> world \<Rightarrow> preference_level" where
  "stored_preference accountID topic w =
     (case first_row (filter (\<lambda>r. alive r \<and> pe_AccountID r = accountID \<and> pe_Topic r = topic)
         (w_preferences w)) of
        None \<Rightarrow> PreferenceNormal
      | Some r \<Rightarrow> preference_of_int (pe_Preference r))"

lemma preferences_get_Inr:
  "preferences_get accountID topic w = (Inr level, w') \<Longrightarrow>
     level = stored_preference accountID topic w \<and> w' = w\<lparr>w_tick := Suc (w_tick w)\<rparr>"
  unfolding stored_preference_def
  by (cases "first_row (filter (\<lambda>r. alive r \<and> pe_AccountID r = accountID \<and> pe_Topic r = topic)
      (w_preferences w))"; cases "o_fault (w_outside w) (w_tick w)")
    (simp_all del: first_row_None add: preferences_get_def get_preference_def prog_simps db_query_def
      external_def Let_def preference_from_entity_def)

text \<open>The queue entry for a notification: a pointer to it.\<close>

definition delivery_job :: "nref \<Rightarrow> bool \<Rightarrow> job" where
  "delivery_job p save =
     \<lparr>job_Type = job_type_push_notification, job_Email = None,
      job_Push = Some \<lparr>pj_Notification = p, pj_ExcludedWebSocketDeviceIDs = [], pj_IsSavable = save\<rparr>\<rparr>"

lemma enqueue_delivery_Inr:
  "enqueue_delivery p a save w = (Inr u, w') \<Longrightarrow>
     w_jobs w' = w_jobs w @ [delivery_job p save] \<and> w_notifications w' = w_notifications w
     \<and> w_heap w' = (w_heap w)(p := (w_heap w p)\<lparr>ntf_AccountId := a\<rparr>)"
  by (auto simp: enqueue_delivery_def enqueue_push_notification_def run_iffs enqueue_Inr delivery_job_def
      split: if_splits)

lemma enqueue_delivery_Inl:
  "enqueue_delivery p a save w = (Inl e, w') \<Longrightarrow>
     w_jobs w' = w_jobs w \<and> w_notifications w' = w_notifications w"
  by (auto simp: enqueue_delivery_def enqueue_push_notification_def run_iffs split: if_splits
      dest!: enqueue_Inl)

text \<open>The row of a notification.\<close>

definition notification_row :: "notification \<Rightarrow> notification_entity" where
  "notification_row n = (case notification_entity_from_model n of Inr e \<Rightarrow> e)"

lemma notification_row: "notification_entity_from_model n = Inr (notification_row n)"
  by (simp add: notification_row_def notification_entity_from_model_def encode_json_def)

lemma save_notification_effect:
  "store_save_notification n w = (r, w') \<Longrightarrow> w_jobs w' = w_jobs w \<and> w_heap w' = w_heap w
     \<and> w_notifications w' = w_notifications w @ (case r of Inl _ \<Rightarrow> [] | Inr _ \<Rightarrow> [notification_row n])"
  by (cases r) (auto simp: store_save_notification_def batch_insert_notifications_def db_insert_def
      notification_row io_iffs split: if_splits)

lemma save_and_enqueue:
  assumes run: "seqM (whenM save (store_save_notification n)) (whenM loud (enqueue_delivery p a save)) w = (r, w')"
    and n: "w_heap w p = n" "ntf_AccountId n = a"
  shows "\<exists>saved. (saved \<longrightarrow> save) \<and> w_notifications w' = w_notifications w @ (if saved then [notification_row n] else [])
    \<and> (case r of
        Inl _ \<Rightarrow> w_jobs w' = w_jobs w \<and> (saved \<longrightarrow> loud)
      | Inr _ \<Rightarrow> saved = save \<and> w_heap w' p = n
          \<and> w_jobs w' = w_jobs w @ (if loud then [delivery_job p save] else []))"
proof -
  obtain q w1 where first: "whenM save (store_save_notification n) w = (q, w1)" by (cases "whenM save (store_save_notification n) w")
  have one: "w_jobs w1 = w_jobs w \<and> w_heap w1 = w_heap w
      \<and> w_notifications w1 = w_notifications w @ (if save \<and> \<not> isl q then [notification_row n] else [])"
    using first by (cases q) (auto simp: whenM_iff split: if_splits dest!: save_notification_effect)
  show ?thesis
  proof (cases q)
    case (Inl e)
    with run first have "r = Inl e" "w' = w1" by (auto simp: seqM_def bindM_def)
    with one Inl show ?thesis by (intro exI [of _ False]) simp
  next
    case (Inr u)
    with run first have "whenM loud (enqueue_delivery p a save) w1 = (r, w')" by (simp add: seqM_def bindM_def)
    then have "w_notifications w' = w_notifications w1 \<and> (case r of
        Inl _ \<Rightarrow> w_jobs w' = w_jobs w1 \<and> loud
      | Inr _ \<Rightarrow> w_heap w' p = (w_heap w1 p)\<lparr>ntf_AccountId := if loud then a else ntf_AccountId (w_heap w1 p)\<rparr>
          \<and> w_jobs w' = w_jobs w1 @ (if loud then [delivery_job p save] else []))"
      by (cases r) (auto simp: whenM_iff split: if_splits
          dest!: enqueue_delivery_Inr enqueue_delivery_Inl)
    with one Inr n show ?thesis by (intro exI [of _ save]) (auto split: sum.splits)
  qed
qed

lemma make_notification_effect:
  assumes "make_notification q app level w = (r, w')"
  shows "\<exists>saved now i p. (saved \<longrightarrow> sq_Save q)
    \<and> w_notifications w' = w_notifications w
        @ (if saved then [notification_row (new_notification q app now i)] else [])
    \<and> (case r of
         Inl _ \<Rightarrow> w_jobs w' = w_jobs w \<and> (saved \<longrightarrow> \<not> sq_IsSilent q \<and> level = PreferenceNormal)
       | Inr _ \<Rightarrow> saved = sq_Save q \<and> w_heap w' p = new_notification q app now i
           \<and> w_jobs w' = w_jobs w @ (if \<not> sq_IsSilent q \<and> level = PreferenceNormal
                then [delivery_job p (sq_Save q)] else []))"
proof -
  let ?now = "o_time (w_outside w) (w_tick w)"
  let ?i = "o_uuid (w_outside w) (Suc (w_tick w))"
  let ?n = "new_notification q app ?now ?i"
  define w2 where "w2 = w\<lparr>w_tick := Suc (Suc (w_tick w)),
    w_heap := (w_heap w)(w_heap_next w := ?n), w_heap_next := Suc (w_heap_next w)\<rparr>"
  have "seqM (whenM (sq_Save q) (store_save_notification ?n))
      (whenM (\<not> sq_IsSilent q \<and> level = PreferenceNormal)
        (enqueue_delivery (w_heap_next w) (sq_AccountID q) (sq_Save q))) w2 = (r, w')"
    using assms
    by (simp add: make_notification_def bindM_def time_now_def uuid_new_def alloc_notification_def w2_def)
  from save_and_enqueue [OF this] obtain saved where
    "saved \<longrightarrow> sq_Save q"
    "w_notifications w' = w_notifications w2 @ (if saved then [notification_row ?n] else [])"
    "case r of Inl _ \<Rightarrow> w_jobs w' = w_jobs w2
        \<and> (saved \<longrightarrow> \<not> sq_IsSilent q \<and> level = PreferenceNormal)
      | Inr _ \<Rightarrow> saved = sq_Save q \<and> w_heap w' (w_heap_next w) = ?n
        \<and> w_jobs w' = w_jobs w2 @ (if \<not> sq_IsSilent q \<and> level = PreferenceNormal
            then [delivery_job (w_heap_next w) (sq_Save q)] else [])"
    by (auto simp: w2_def new_notification_def)
  then show ?thesis
    by (intro exI [of _ saved] exI [of _ ?now] exI [of _ ?i] exI [of _ "w_heap_next w"])
      (auto simp: w2_def split: sum.splits)
qed

text \<open>The three ways a request that is not empty goes before a notification is made of it.\<close>

lemma send_notification_cases:
  assumes "send_notification q w = (r, w')"
    and "\<not> (sq_Title q = None \<and> sq_Subtitle q = None \<and> sq_Content q = None)"
  shows "(\<exists>e k. r = Inl e \<and> w' = w\<lparr>w_tick := k\<rparr>)
    \<or> validate_app_id (apps_of w) (resolve_app_id (apps_of w) (sq_AppId q) True) = Inr ()
      \<and> (if stored_preference (sq_AccountID q) (sq_Topic q) w = PreferenceReject
         then r = Inr () \<and> w' = w\<lparr>w_tick := Suc (w_tick w)\<rparr>
         else make_notification q (resolve_app_id (apps_of w) (sq_AppId q) True)
            (stored_preference (sq_AccountID q) (sq_Topic q) w) (w\<lparr>w_tick := Suc (w_tick w)\<rparr>) = (r, w'))"
proof -
  let ?app = "resolve_app_id (apps_of w) (sq_AppId q) True"
  let ?rest = "\<lambda>l. if l = PreferenceReject then ret () else make_notification q ?app l"
  have run: "seqM (lift_result (validate_app_id (apps_of w) ?app))
      (bindM (preferences_get (sq_AccountID q) (sq_Topic q)) ?rest) w = (r, w')"
    using assms(1) unfolding send_notification_def by (simp only: assms(2) if_False bindM_getM Let_def)
  show ?thesis
  proof (cases "validate_app_id (apps_of w) ?app")
    case (Inl e)
    with run have "r = Inl e \<and> w' = w\<lparr>w_tick := w_tick w\<rparr>"
      by (auto simp: seqM_def bindM_def lift_result_def)
    then show ?thesis by blast
  next
    case valid: (Inr u)
    with run have run: "bindM (preferences_get (sq_AccountID q) (sq_Topic q)) ?rest w = (r, w')"
      by (simp add: seqM_def bindM_def lift_result_def)
    show ?thesis
    proof (cases "preferences_get (sq_AccountID q) (sq_Topic q) w")
      case (Pair x w1)
      show ?thesis
      proof (cases x)
        case (Inl e)
        have "\<exists>k. w1 = w\<lparr>w_tick := k\<rparr>"
          using Pair Inl by (auto simp: preferences_get_def get_preference_def io_iffs)
        with run Pair Inl show ?thesis by (auto simp: bindM_def)
      next
        case (Inr l)
        with Pair have "l = stored_preference (sq_AccountID q) (sq_Topic q) w"
          "w1 = w\<lparr>w_tick := Suc (w_tick w)\<rparr>"
          using preferences_get_Inr by auto
        with run Pair Inr valid show ?thesis by (auto simp: bindM_def ret_def)
      qed
    qed
  qed
qed

text \<open>What \<open>SendNotification\<close> saves and queues, whatever it returns.\<close>

lemma send_notification_run:
  assumes "send_notification q w = (r, w')"
    and "app = resolve_app_id (apps_of w) (sq_AppId q) True"
    and "level = stored_preference (sq_AccountID q) (sq_Topic q) w"
  shows "\<exists>saved now i p. w_notifications w' = w_notifications w
        @ (if saved then [notification_row (new_notification q app now i)] else [])
    \<and> (saved \<longrightarrow> sq_Save q)
    \<and> (case r of
         Inl _ \<Rightarrow> w_jobs w' = w_jobs w
           \<and> (saved \<longrightarrow> \<not> sq_IsSilent q \<and> level = PreferenceNormal)
       | Inr _ \<Rightarrow> (sq_Title q \<noteq> None \<or> sq_Subtitle q \<noteq> None \<or> sq_Content q \<noteq> None)
           \<and> validate_app_id (apps_of w) app = Inr ()
           \<and> saved = (sq_Save q \<and> level \<noteq> PreferenceReject)
           \<and> w_jobs w' = w_jobs w @ (if \<not> sq_IsSilent q \<and> level = PreferenceNormal
                then [delivery_job p (sq_Save q)] else [])
           \<and> (level \<noteq> PreferenceReject \<longrightarrow> w_heap w' p = new_notification q app now i))"
proof -
  have unchanged: ?thesis if "\<exists>e k. r = Inl e \<and> w' = w\<lparr>w_tick := k\<rparr>"
    using that by (auto intro!: exI [of _ False])
  show ?thesis
  proof (cases "sq_Title q = None \<and> sq_Subtitle q = None \<and> sq_Content q = None")
    case True
    with assms(1) show ?thesis
      by (intro unchanged) (auto simp: send_notification_def throw_def intro: exI [of _ "w_tick w"])
  next
    case False
    note run = send_notification_cases [OF assms(1) False, folded assms(2,3)]
    then consider
        "\<exists>e k. r = Inl e \<and> w' = w\<lparr>w_tick := k\<rparr>"
      | "validate_app_id (apps_of w) app = Inr ()" "level = PreferenceReject" "r = Inr ()"
        "w' = w\<lparr>w_tick := Suc (w_tick w)\<rparr>"
      | "validate_app_id (apps_of w) app = Inr ()" "level \<noteq> PreferenceReject"
        "make_notification q app level (w\<lparr>w_tick := Suc (w_tick w)\<rparr>) = (r, w')"
      by (cases "level = PreferenceReject") (auto simp only: if_True if_False simp_thms)
    then show ?thesis
    proof cases
      case 1
      then show ?thesis by (rule unchanged)
    next
      case 2
      with False show ?thesis by (intro exI [of _ False]) simp
    next
      case 3
      from make_notification_effect [OF 3(3)] obtain saved now i p where
        "saved \<longrightarrow> sq_Save q"
        "w_notifications w' = w_notifications (w\<lparr>w_tick := Suc (w_tick w)\<rparr>)
          @ (if saved then [notification_row (new_notification q app now i)] else [])"
        "case r of Inl _ \<Rightarrow> w_jobs w' = w_jobs (w\<lparr>w_tick := Suc (w_tick w)\<rparr>)
            \<and> (saved \<longrightarrow> \<not> sq_IsSilent q \<and> level = PreferenceNormal)
          | Inr _ \<Rightarrow> saved = sq_Save q \<and> w_heap w' p = new_notification q app now i
            \<and> w_jobs w' = w_jobs (w\<lparr>w_tick := Suc (w_tick w)\<rparr>)
                @ (if \<not> sq_IsSilent q \<and> level = PreferenceNormal
                   then [delivery_job p (sq_Save q)] else [])"
        by blast
      with 3 False show ?thesis
        by (intro exI [of _ saved] exI [of _ now] exI [of _ i] exI [of _ p]) (auto split: sum.splits)
    qed
  qed
qed

text \<open>
  C16: What \<open>SendNotification\<close> does. It refuses a notification without title, subtitle and content, and
  an app id that is not configured, before it touches anything. A topic the account rejects is
  accepted and dropped. Otherwise one notification is made: it is saved if asked for, and one
  delivery job with a pointer to it is queued unless the request is silent or the preference is not
  the normal one. When it fails no job is queued, though the row may have been saved.
\<close>

theorem send_notification_effect:
  assumes "send_notification q w = (r, w')"
    and "app = resolve_app_id (apps_of w) (sq_AppId q) True"
    and "level = stored_preference (sq_AccountID q) (sq_Topic q) w"
  shows "\<exists>saved now i p. w_notifications w' = w_notifications w
        @ (if saved then [notification_row (new_notification q app now i)] else [])
    \<and> (saved \<longrightarrow> sq_Save q)
    \<and> (case r of
         Inl _ \<Rightarrow> w_jobs w' = w_jobs w
           \<and> (saved \<longrightarrow> \<not> sq_IsSilent q \<and> level = PreferenceNormal)
       | Inr _ \<Rightarrow> (sq_Title q \<noteq> None \<or> sq_Subtitle q \<noteq> None \<or> sq_Content q \<noteq> None)
           \<and> validate_app_id (apps_of w) app = Inr ()
           \<and> saved = (sq_Save q \<and> level \<noteq> PreferenceReject)
           \<and> w_jobs w' = w_jobs w @ (if \<not> sq_IsSilent q \<and> level = PreferenceNormal
                then [delivery_job p (sq_Save q)] else [])
           \<and> (level \<noteq> PreferenceReject \<longrightarrow> w_heap w' p = new_notification q app now i))"
  by (rule send_notification_run [OF assms])

definition sample_request :: send_request where
  "sample_request =
     \<lparr>sq_AccountID = 7, sq_Topic = ''t'', sq_Title = Some ''hi'', sq_Subtitle = None, sq_Content = None,
      sq_Meta = None, sq_ActionUri = Some ''/x'', sq_IsSilent = False, sq_Save = True, sq_AppId = [],
      sq_PushType = []\<rparr>"

theorem send_notification_effect_witness:
  "\<exists>w' n p. send_notification sample_request push_world = (Inr (), w')
     \<and> w_notifications w' = [notification_row n] \<and> w_jobs w' = [delivery_job p True] \<and> w_heap w' p = n"
proof -
  have "fst (send_notification sample_request push_world) = Inr ()"
    by code_simp
  then obtain w' where run: "send_notification sample_request push_world = (Inr (), w')"
    by (metis prod.collapse)
  have "stored_preference a t push_world = PreferenceNormal" for a t
    by (simp add: stored_preference_def push_world_def empty_world_def first_row_def)
  with send_notification_effect [OF run refl refl] run show ?thesis
    by (auto simp: sample_request_def push_world_def empty_world_def)
qed

text \<open>
  An account whose stored preference is none of the declared levels (nothing validates the number
  a request carries) is treated differently by the two ways of sending: a single notification is not
  delivered to it, a batch is.
\<close>

theorem unknown_preference_diverges:
  "let w0 = push_world\<lparr>w_preferences := [\<lparr>ID = 1, e_CreatedAt = 0, e_UpdatedAt = 0,
         e_DeletedAt = deleted_at None, pe_AccountID = 7, pe_Preference = 9, pe_Topic = ''t''\<rparr>]\<rparr>;
       (r1, w1) = send_notification sample_request w0;
       (r2, w2) = send_notification_batch 0 [7] True [] w0
   in r1 = Inr () \<and> w_jobs w1 = [] \<and> r2 = Inr () \<and> length (w_pushes w2) = 1"
  by code_simp

end
