(* ===== verification/Dispatch_Facts.thy ===== *)
theory Dispatch_Facts
  imports Dispatch Push_Batch Push_Service_Facts
begin

text \<open>
  The queue between its two ends: what \<open>SendNotification\<close> of \<open>internal/push/push.go\<close> queues is what a
  worker of \<open>internal/queue/queue.go\<close> hands to \<open>DeliverPushNotification\<close>. The lemmas say what
  each end leaves alone; the property composes them.
\<close>

section \<open>What the two ends leave alone\<close>

text \<open>A delivery writes records, the replay, the streams, the packets and the pushes; nothing else.\<close>

lemma keeps_deliver:
  assumes frame: "\<And>v v'. push_frame v' = push_frame v \<Longrightarrow> I v' = I v"
    and "\<And>v ss. I (v\<lparr>w_sends := ss\<rparr>) = I v" and "\<And>v x. I (v\<lparr>w_published := x\<rparr>) = I v"
    and "\<And>v m. I (v\<lparr>w_replay := m\<rparr>) = I v"
  shows "keeps I (deliver_to_devices n subs connectedSop excluded)"
    and "(\<And>v y. I (v\<lparr>w_streams := y\<rparr>) = I v) \<Longrightarrow> keeps I (deliver_to_account source p excluded isSavable)"
proof -
  have I: "steady I" "\<And>v ds. I (v\<lparr>w_deliveries := ds\<rparr>) = I v"
    by (rule steadyI) (rule frame, simp)+
  show devices: "keeps I (deliver_to_devices n subs connectedSop excluded)" for n subs connectedSop excluded
    unfolding deliver_to_devices_def Let_def
    by (intro spec_intros keeps_push_to_devices I assms)
  show "keeps I (deliver_to_account source p excluded isSavable)"
    if "\<And>v y. I (v\<lparr>w_streams := y\<rparr>) = I v"
    unfolding deliver_to_account_def by (intro spec_intros devices I assms that)
qed

lemma push_frame_fields [simp]:
  "w_jobs (push_frame v) = w_jobs v" "w_notifications (push_frame v) = w_notifications v"
  "w_heap (push_frame v) = w_heap v" "w_outside (push_frame v) = w_outside v"
  "w_streams (push_frame v) = w_streams v" "w_subscriptions (push_frame v) = w_subscriptions v"
  by (simp_all add: push_frame_def)

text \<open>The fields a delivery fixes, and those a request to send fixes.\<close>

definition deliver_view ::
  "world \<Rightarrow> job list \<times> notification_entity list \<times> (nref \<Rightarrow> notification) \<times> outside
     \<times> subscription_entity list" where
  "deliver_view v = (w_jobs v, w_notifications v, w_heap v, w_outside v, w_subscriptions v)"

lemma deliver_view_frame [simp]:
  "deliver_view (v\<lparr>w_sends := ss\<rparr>) = deliver_view v"
  "deliver_view (v\<lparr>w_published := x\<rparr>) = deliver_view v"
  "deliver_view (v\<lparr>w_replay := m\<rparr>) = deliver_view v"
  "deliver_view (v\<lparr>w_streams := y\<rparr>) = deliver_view v"
  by (simp_all add: deliver_view_def)

lemma deliver_view_push: "push_frame v' = push_frame v \<Longrightarrow> deliver_view v' = deliver_view v"
  unfolding deliver_view_def by (metis push_frame_fields(1-4,6))

lemma deliver_fixes: "fixed deliver_view (deliver_to_account source p excluded isSavable)"
proof (intro fixedI keeps_deliver(2))
  show "(deliver_view v' = x) = (deliver_view v = x)" if "push_frame v' = push_frame v" for v v' x
    using deliver_view_push [OF that] by simp
qed simp_all

text \<open>A request to send writes the notification and its job; nothing else.\<close>

lemma keeps_enqueue_delivery:
  assumes "steady I" and "\<And>v js. I (v\<lparr>w_jobs := js\<rparr>) = I v" and "\<And>v h. I (v\<lparr>w_heap := h\<rparr>) = I v"
  shows "keeps I (enqueue_delivery p a save)"
  unfolding enqueue_delivery_def enqueue_push_notification_def enqueue_def
  by (intro spec_intros keeps_modifyM) (simp_all add: assms)

lemma keeps_alloc_notification:
  assumes "\<And>v h k. I (v\<lparr>w_heap := h, w_heap_next := k\<rparr>) = I v"
  shows "keeps I (alloc_notification n)"
  by (rule keepsI) (simp add: alloc_notification_def assms)

lemma keeps_save_notification:
  assumes "steady I" and "\<And>v rs. I (v\<lparr>w_notifications := rs\<rparr>) = I v"
  shows "keeps I (store_save_notification n)"
  unfolding store_save_notification_def batch_insert_notifications_def db_insert_def
  by (intro spec_intros keeps_modifyM) (simp_all add: assms)

lemma keeps_send_notification:
  assumes "steady I" and "\<And>v js. I (v\<lparr>w_jobs := js\<rparr>) = I v" and "\<And>v h. I (v\<lparr>w_heap := h\<rparr>) = I v"
    and "\<And>v h k. I (v\<lparr>w_heap := h, w_heap_next := k\<rparr>) = I v"
    and "\<And>v rs. I (v\<lparr>w_notifications := rs\<rparr>) = I v"
  shows "keeps I (send_notification q)"
  unfolding send_notification_def make_notification_def preferences_get_def get_preference_def Let_def
  by (intro spec_intros keeps_enqueue_delivery keeps_alloc_notification keeps_save_notification assms)

definition send_view ::
  "world \<Rightarrow> outside \<times> push_attempt list \<times> subscription_entity list \<times> nref sop_streams" where
  "send_view v = (w_outside v, w_pushes v, w_subscriptions v, w_streams v)"

lemma send_fixes: "fixed send_view (send_notification q)"
  by (intro fixedI keeps_send_notification) (simp_all add: steady_def send_view_def)

section \<open>What a delivery does to the streams\<close>

text \<open>
  The SSE streams see exactly one broadcast of the pointer, before the pushes; only a delivery
  that could not read the subscriptions has none.
\<close>

lemma keeps_streams_devices:
  "keeps (\<lambda>v. w_streams v = x) (deliver_to_devices n subs connectedSop excluded)"
proof (intro keeps_deliver(1))
  show "(w_streams v' = x) = (w_streams v = x)" if "push_frame v' = push_frame v" for v v'
    using that by (metis push_frame_fields(5))
qed simp_all

lemma account_subscriptions_faultless:
  "faultless w \<Longrightarrow>
     account_subscriptions n w = (Inr (active_subscriptions n w), w\<lparr>w_tick := Suc (w_tick w)\<rparr>)"
  by (simp add: account_subscriptions_def list_activated_subscriptions_def active_subscriptions_def
      get_default_app_id_def faultless_def bindM_getM db_query_Inr)

lemma deliver_broadcasts:
  assumes run: "deliver_to_account source p excluded isSavable w = (r, w')" and "faultless w"
  shows "w_streams w' = sop_broadcast (ntf_AccountId (w_heap w p)) p (w_streams w)"
proof -
  define n where "n = w_heap w p"
  define w0 where "w0 = snd (record_notification_send (Some n) source w)"
  define w1 where "w1 = w0\<lparr>w_tick := Suc (w_tick w0)\<rparr>"
  let ?subs = "active_subscriptions n w0"
  let ?rest = "if ?subs = [] then send_websocket_notification n excluded
    else deliver_to_devices n ?subs (connected_device_ids (w_streams w0) (ntf_AccountId n)) excluded"
  let ?prepare = "whenM (should_queue_sop_replay isSavable ?subs) (swallow (append_notification n))"
  have same: "fixed (\<lambda>v. (w_streams v, w_outside v)) (record_notification_send (Some n) source)"
    "fixed w_streams ?prepare" "fixed w_streams ?rest"
    by (intro fixedI spec_intros keeps_streams_devices; simp add: steady_def)+
  have w0: "w_streams w0 = w_streams w" "faultless w0"
    using same(1) assms(2) by (simp_all add: fixed_def w0_def faultless_def)
  have prepared: "?prepare w1 = (Inr (), snd (?prepare w1))"
    by (simp add: whenM_def run_swallow ret_def)
  define w2 where "w2 = snd (?prepare w1)"
  have w2: "w_streams w2 = w_streams w"
    using same(2) w0(1) by (simp add: fixed_def w2_def w1_def)
  have "seqM ?prepare (seqM (broadcast (ntf_AccountId n) p) ?rest) w1 = (r, w')"
    using run unfolding deliver_to_account_def
    by (simp only: bindM_getM n_def [symmetric] then_record_send w0_def [symmetric]
        bindM_after [of "account_subscriptions n", OF account_subscriptions_faultless [OF w0(2)]] w1_def)
  then have "?rest (w2\<lparr>w_streams := sop_broadcast (ntf_AccountId n) p (w_streams w2)\<rparr>) = (r, w')"
    by (simp only: seqM_after [of ?prepare, OF prepared] w2_def [symmetric])
      (simp add: seqM_def bindM_def broadcast_def modifyM_def)
  from fixed_run [OF same(3) this] show ?thesis by (simp add: w2 n_def)
qed

section \<open>From the request to the devices\<close>

text \<open>A worker that takes a delivery job delivers, and always survives.\<close>

lemma worker_delivers:
  assumes "w_jobs w = delivery_job p save # rest"
  shows "worker_turn w = (Inr (), snd (deliver_push_notification p [] save (w\<lparr>w_jobs := rest\<rparr>)))"
  using assms
  by (simp add: worker_turn_def bindM_getM seqM_after modifyM_def dispatch_def run_swallow
      push_queue_handler_def delivery_job_def job_type_email_def job_type_push_notification_def)

text \<open>
  Whatever a worker takes, its turn leaves the rest of the queue, the notifications, the heap and the
  subscriptions alone, and the worker survives.
\<close>

lemma mail_fixes: "fixed deliver_view (send_email cfg name recipient subject body source)"
proof -
  have view: "deliver_view (mail_frame v) = deliver_view v" for v
    by (simp add: mail_frame_def deliver_view_def)
  have "deliver_view (snd (send_email cfg name recipient subject body source v)) = deliver_view v" for v
    using send_email_effect [OF prod.collapse [symmetric], THEN conjunct1] view by metis
  then show ?thesis by (simp add: fixed_def)
qed

lemma handler_fixes: "fixed deliver_view (push_queue_handler job)"
  unfolding push_queue_handler_def deliver_push_notification_def
  by (rule fixedI) (intro spec_intros mail_fixes [unfolded fixed_keeps, rule_format]
      deliver_fixes [unfolded fixed_keeps, rule_format])

lemma worker_turn_view:
  assumes "w_jobs w = j # rest"
  shows "\<exists>w'. worker_turn w = (Inr (), w') \<and> deliver_view w' = deliver_view (w\<lparr>w_jobs := rest\<rparr>)"
proof -
  have "worker_turn w = (Inr (), snd (push_queue_handler j (w\<lparr>w_jobs := rest\<rparr>)))"
    using assms by (simp add: worker_turn_def bindM_getM seqM_after modifyM_def dispatch_def run_swallow)
  moreover have "deliver_view (snd (push_queue_handler j (w\<lparr>w_jobs := rest\<rparr>))) = deliver_view (w\<lparr>w_jobs := rest\<rparr>)"
    using handler_fixes by (simp add: fixed_def)
  ultimately show ?thesis by blast
qed

definition worker_turns :: "nat \<Rightarrow> unit io" where
  "worker_turns k = forM (replicate k ()) (\<lambda>_. worker_turn)"

lemma worker_turns_view:
  "k \<le> length (w_jobs w) \<Longrightarrow> \<exists>w'. worker_turns k w = (Inr (), w')
     \<and> deliver_view w' = deliver_view (w\<lparr>w_jobs := drop k (w_jobs w)\<rparr>)"
proof (induction k arbitrary: w)
  case 0
  then show ?case by (simp add: worker_turns_def ret_def)
next
  case (Suc k)
  then obtain j rest where jobs: "w_jobs w = j # rest" by (cases "w_jobs w") auto
  from worker_turn_view [OF jobs] obtain w1 where w1: "worker_turn w = (Inr (), w1)"
    "deliver_view w1 = deliver_view (w\<lparr>w_jobs := rest\<rparr>)" by blast
  then have rest: "w_jobs w1 = rest" by (simp add: deliver_view_def)
  with Suc.IH [of w1] Suc.prems jobs obtain w' where "worker_turns k w1 = (Inr (), w')"
    "deliver_view w' = deliver_view (w1\<lparr>w_jobs := drop k rest\<rparr>)" by auto
  then show ?case
    using w1 jobs by (intro exI [of _ w']) (simp add: worker_turns_def seqM_def bindM_def deliver_view_def)
qed

lemma send_normal:
  assumes run: "send_notification q w = (Inr (), w1)" and "\<not> sq_IsSilent q"
    and level: "stored_preference (sq_AccountID q) (sq_Topic q) w = PreferenceNormal"
  shows "\<exists>now i p. let n = new_notification q (resolve_app_id (apps_of w) (sq_AppId q) True) now i in
    w_heap w1 p = n \<and> w_jobs w1 = w_jobs w @ [delivery_job p (sq_Save q)]
    \<and> w_notifications w1 = w_notifications w @ (if sq_Save q then [notification_row n] else [])"
proof -
  let ?app = "resolve_app_id (apps_of w) (sq_AppId q) True"
  have "\<not> (sq_Title q = None \<and> sq_Subtitle q = None \<and> sq_Content q = None)"
  proof
    assume "sq_Title q = None \<and> sq_Subtitle q = None \<and> sq_Content q = None"
    with run show False by (simp add: send_notification_def throw_def)
  qed
  from send_notification_cases [OF run this] level
  have "make_notification q ?app PreferenceNormal (w\<lparr>w_tick := Suc (w_tick w)\<rparr>) = (Inr (), w1)"
    by simp
  from make_notification_effect [OF this] assms(2) obtain now i p where
    "w_heap w1 p = new_notification q ?app now i" "w_jobs w1 = w_jobs w @ [delivery_job p (sq_Save q)]"
    "w_notifications w1 = w_notifications w
      @ (if sq_Save q then [notification_row (new_notification q ?app now i)] else [])"
    by auto
  then show ?thesis
    unfolding Let_def by (intro exI [of _ now] exI [of _ i] exI [of _ p]) simp
qed

text \<open>
  C12: The life of a notification, across the push service, the queue, a worker and the delivery. The
  request is neither silent nor held back by the preference of the account; when \<open>SendNotification\<close>
  returns nil, the workers come through everything that was queued before, whatever becomes of it,
  and then to this job: the worker that takes it returns and leaves the queue empty, and the
  notification made from the request is (saved exactly if asked for) pushed, at most once per device,
  only to active subscriptions its account had in the app of the request when the request was made.
  If no call fails, every SSE stream of the account is then written to exactly once.
\<close>

theorem queued_notification_is_delivered:
  assumes "send_notification q w = (Inr (), w1)" and "\<not> sq_IsSilent q"
    and "stored_preference (sq_AccountID q) (sq_Topic q) w = PreferenceNormal"
    and "worker_turns (length (w_jobs w)) w1 = (earlier, wk)" and "worker_turn wk = (r, w2)"
  shows "earlier = Inr () \<and> r = Inr () \<and> w_jobs w2 = [] \<and> (\<exists>now i p n receivers attempts.
    n = new_notification q (resolve_app_id (apps_of w) (sq_AppId q) True) now i \<and> w_heap w2 p = n
    \<and> w_notifications w2 = w_notifications w @ (if sq_Save q then [notification_row n] else [])
    \<and> list_all2 attempt_to receivers attempts \<and> w_pushes w2 = w_pushes wk @ attempts
    \<and> distinct (map (\<lambda>sub. normalize_sop_device_id (sub_DeviceId sub)) receivers)
    \<and> set receivers \<subseteq> set (active_subscriptions n w)
    \<and> (faultless w \<longrightarrow> w_streams w2 = sop_broadcast (sq_AccountID q) p (w_streams wk)))"
proof -
  from send_normal [OF assms(1,2,3)] obtain now i p n where
    n: "n = new_notification q (resolve_app_id (apps_of w) (sq_AppId q) True) now i"
    and sent: "w_heap w1 p = n" "w_jobs w1 = w_jobs w @ [delivery_job p (sq_Save q)]"
      "w_notifications w1 = w_notifications w @ (if sq_Save q then [notification_row n] else [])"
    unfolding Let_def by auto
  have before: "send_view w1 = send_view w" by (rule fixed_run [OF send_fixes assms(1)])
  from worker_turns_view [of "length (w_jobs w)" w1] sent(2) assms(4) have
    earlier: "earlier = Inr ()" "deliver_view wk = deliver_view (w1\<lparr>w_jobs := [delivery_job p (sq_Save q)]\<rparr>)"
    by auto
  then have at: "w_jobs wk = [delivery_job p (sq_Save q)]" "w_heap wk p = n"
    "w_notifications wk = w_notifications w1" "w_outside wk = w_outside w" "w_subscriptions wk = w_subscriptions w"
    using sent before by (simp_all add: deliver_view_def send_view_def)
  let ?wk = "wk\<lparr>w_jobs := []\<rparr>"
  have r: "r = Inr ()" "w2 = snd (deliver_push_notification p [] (sq_Save q) ?wk)"
    using worker_delivers [OF at(1)] assms(5) by simp_all
  then obtain r' where run: "deliver_to_account ''queue'' p [] (sq_Save q) ?wk = (r', w2)"
    unfolding deliver_push_notification_def by (metis prod.collapse)
  have after: "deliver_view w2 = deliver_view ?wk" by (rule fixed_run [OF deliver_fixes run])
  have "pushed n ?wk r' w2"
    using deliver_to_account_pushed [OF run] at(2) by simp
  then obtain receivers attempts where "list_all2 attempt_to receivers attempts"
    "w_pushes w2 = w_pushes wk @ attempts"
    "distinct (map device_key receivers)" "set receivers \<subseteq> set (active_subscriptions n ?wk)"
    unfolding pushed_def by fastforce
  moreover have "active_subscriptions n ?wk = active_subscriptions n w"
    using at by (simp add: active_subscriptions_def)
  moreover have "w_streams w2 = sop_broadcast (sq_AccountID q) p (w_streams wk)" if "faultless w"
    using deliver_broadcasts [OF run] that at n
    by (simp add: faultless_def new_notification_def)
  ultimately show ?thesis
    using r(1) after at earlier(1) sent(3) n
    by (intro conjI exI [of _ now] exI [of _ i] exI [of _ p] exI [of _ n] exI [of _ receivers]
        exI [of _ attempts]) (simp_all add: deliver_view_def)
qed

text \<open>
  The account of the sample request has an SSE stream and a device that is not connected; an e-mail is
  already in the queue.
\<close>

definition delivery_world :: world where
  "delivery_world = push_world\<lparr>w_streams := sop_subscribe 11 7 ''x'' new_sop_streams,
     w_jobs := [\<lparr>job_Type = job_type_email, job_Email = Some \<lparr>ej_ToName = [], ej_ToAddress = ''c@d'',
       ej_Subject = ''hi'', ej_Body = []\<rparr>, job_Push = None\<rparr>]\<rparr>"

lemma delivery_world_runs:
  "fst (send_notification sample_request delivery_world) = Inr ()"
  "let w1 = snd (send_notification sample_request delivery_world); wk = snd (worker_turns 1 w1)
   in w_pushes wk = [] \<and> length (w_pushes (snd (worker_turn wk))) = 1"
  by code_simp+

theorem queued_notification_is_delivered_witness:
  "\<exists>w1 wk w2 n p sub a. send_notification sample_request delivery_world = (Inr (), w1)
     \<and> worker_turns 1 w1 = (Inr (), wk) \<and> worker_turn wk = (Inr (), w2)
     \<and> w_notifications w2 = [notification_row n]
     \<and> sub \<in> set (active_subscriptions n delivery_world) \<and> w_pushes w2 = [a] \<and> attempt_to sub a
     \<and> w_streams w2 = sop_broadcast 7 p (w_streams wk)"
proof -
  obtain w1 where run: "send_notification sample_request delivery_world = (Inr (), w1)"
    using delivery_world_runs(1) by (metis prod.collapse)
  have w: "length (w_jobs delivery_world) = 1" "w_notifications delivery_world = []"
    "\<not> sq_IsSilent sample_request" "faultless delivery_world"
    "stored_preference a t delivery_world = PreferenceNormal" for a t
    by (simp_all add: delivery_world_def push_world_def empty_world_def sample_request_def faultless_def
        push_outside_def quiet_outside_def stored_preference_def first_row_def)
  obtain e wk where turns: "worker_turns (length (w_jobs delivery_world)) w1 = (e, wk)"
    by (cases "worker_turns (length (w_jobs delivery_world)) w1")
  obtain r w2 where turn: "worker_turn wk = (r, w2)" by (cases "worker_turn wk")
  have pushes: "w_pushes wk = []" "length (w_pushes w2) = 1"
    using delivery_world_runs(2) run turns turn by (simp_all add: w(1))
  from queued_notification_is_delivered [OF run w(3,5) turns turn] obtain p n receivers attempts where
    "e = Inr ()" "r = Inr ()" "w_notifications w2 = [notification_row n]"
    and sent: "list_all2 attempt_to receivers attempts" "w_pushes w2 = attempts"
      "set receivers \<subseteq> set (active_subscriptions n delivery_world)"
    and "w_streams w2 = sop_broadcast 7 p (w_streams wk)"
    using w(2,4) pushes(1) by (auto simp: sample_request_def)
  moreover obtain sub a where "receivers = [sub]" "attempts = [a]" "attempt_to sub a"
    using sent(1,2) pushes(2) by (auto simp: length_Suc_conv list_all2_Cons2)
  ultimately show ?thesis using run turns [unfolded w(1)] turn sent
    by (intro exI [of _ w1] exI [of _ wk] exI [of _ w2] exI [of _ n] exI [of _ p] exI [of _ sub] exI [of _ a])
      simp
qed

end
