(* ===== verification/Web.thy ===== *)
theory Web
  imports Sop Snake_Case Email_Advance
begin

text \<open>
  What the HTTP handlers of \<open>internal/httpserver\<close> share: the request as gin gives it to them, the
  response they write, and the helpers the controllers repeat. Routing, header parsing and JSON
  are gin's and \<open>encoding/json\<close>'s: a request carries the query, header and path values they find, what
  binding its body to the type the handler asks for gives (None where \<open>ShouldBindJSON\<close> fails), and
  the result of authenticating it; a response carries the Go value that is serialised.
\<close>

section \<open>Requests\<close>

record push_subscribe_request =
  psr_DeviceId :: "string option"
  psr_DeviceToken :: "string option"
  psr_DeviceName :: "string option"
  psr_Provider :: "int option"
  psr_AppId :: "string option"

record notification_request =
  nrq_Topic :: string
  nrq_Title :: string
  nrq_Subtitle :: "string option"
  nrq_Content :: string
  nrq_Meta :: "json_map option"
  nrq_Priority :: "int option"
  nrq_PushType :: "string option"

record notification_with_aim_request = notification_request +
  nrq_AccountId :: "uuid list"

record sop_registration_request =
  srr_DeviceName :: "string option"
  srr_AppId :: "string option"

record create_email_plan_request =
  cpr_AccountId :: "uuid option"
  cpr_AccountIds :: "uuid list"
  cpr_BroadcastToAll :: bool
  cpr_SendingPlanKey :: "string option"
  cpr_Subject :: string
  cpr_HtmlBody :: string
  cpr_PlannedStartAt :: "time option"
  cpr_MaxEmailsPerInterval :: int
  cpr_IntervalMinutes :: int
  cpr_MaxEmailsPerDay :: "int option"

record http_request =
  rq_Query :: "(string \<times> string) list"
  rq_Header :: "(string \<times> string) list"
  rq_Param :: "(string \<times> string) list"
  rq_Auth :: "auth_result option"
  rq_Flusher :: bool
  rq_bind_subscribe :: "push_subscribe_request option"
  rq_bind_send :: "notification_with_aim_request option"
  rq_bind_preference :: "int option option"
  rq_bind_sop :: "sop_registration_request option"
  rq_bind_plan :: "create_email_plan_request option"

text \<open>An absent query, header or path value reads as the empty string.\<close>

definition first_value :: "(string \<times> string) list \<Rightarrow> string \<Rightarrow> string" where
  "first_value kvs key = (case map_of kvs key of None \<Rightarrow> [] | Some v \<Rightarrow> v)"

abbreviation c_query :: "http_request \<Rightarrow> string \<Rightarrow> string" where
  "c_query rq \<equiv> first_value (rq_Query rq)"

abbreviation c_header :: "http_request \<Rightarrow> string \<Rightarrow> string" where
  "c_header rq \<equiv> first_value (rq_Header rq)"

abbreviation c_param :: "http_request \<Rightarrow> string \<Rightarrow> string" where
  "c_param rq \<equiv> first_value (rq_Param rq)"

text \<open>\<open>strconv.Atoi\<close>: an optional sign and decimal digits, within 64 bits.\<close>

fun decimal :: "int \<Rightarrow> string \<Rightarrow> int option" where
  "decimal n [] = Some n"
| "decimal n (c # s) =
     (if is_digit c then decimal (10 * n + (of_char c - 48)) s else None)"

definition digits_value :: "string \<Rightarrow> int option" where
  "digits_value s = (if s = [] then None else decimal 0 s)"

definition in_int64 :: "int \<Rightarrow> int option" where
  "in_int64 n = (if -9223372036854775808 \<le> n \<and> n \<le> 9223372036854775807 then Some n else None)"

definition atoi :: "string \<Rightarrow> int option" where
  "atoi s =
     (case s of
        [] \<Rightarrow> None
      | c # rest \<Rightarrow>
          (if c = CHR ''-'' then Option.bind (digits_value rest) (\<lambda>n. in_int64 (- n))
           else if c = CHR ''+'' then Option.bind (digits_value rest) in_int64
           else Option.bind (digits_value s) in_int64))"

definition query_int :: "http_request \<Rightarrow> string \<Rightarrow> int \<Rightarrow> int" where
  "query_int rq key dflt =
     (let raw = c_query rq key
      in if raw = [] then dflt else (case atoi raw of None \<Rightarrow> dflt | Some v \<Rightarrow> v))"

definition query_bool :: "http_request \<Rightarrow> string \<Rightarrow> bool" where
  "query_bool rq key = (let raw = c_query rq key in equal_fold raw ''true'' \<or> raw = ''1'')"

section \<open>Who is asking\<close>

definition current_user :: "http_request \<Rightarrow> dy_account option" where
  "current_user rq = (case rq_Auth rq of None \<Rightarrow> None | Some result \<Rightarrow> ar_Account result)"

definition current_session :: "http_request \<Rightarrow> dy_session option" where
  "current_session rq = (case rq_Auth rq of None \<Rightarrow> None | Some result \<Rightarrow> ar_Session result)"

definition client_id :: "http_request \<Rightarrow> string option" where
  "client_id rq = Option.bind (current_session rq) ds_ClientId"

section \<open>Responses\<close>

record sop_registration_response =
  srs_Token :: string
  srs_Subscription :: push_subscription

text \<open>The summary's success rate is the operands of its division, absent when the divisor is zero.\<close>

record delivery_summary =
  dsm_Total :: int
  dsm_Successful :: int
  dsm_Failed :: int
  dsm_InvalidToken :: int
  dsm_Skipped :: int
  dsm_Held :: int
  dsm_SuccessRate :: "(int \<times> int) option"

record delivery_breakdown = delivery_summary +
  dbd_Key :: string

record email_delivery_overview =
  edo_Summary :: delivery_summary
  edo_BySource :: "delivery_breakdown list"

record notification_delivery_overview =
  ndo_SendRequests :: int
  ndo_SendRequestsByTopic :: "delivery_breakdown list"
  ndo_Summary :: delivery_summary
  ndo_ByProvider :: "delivery_breakdown list"
  ndo_ByTopic :: "delivery_breakdown list"

datatype payload =
    CountJson int
  | NotificationsJson "notification list"
  | SubscriptionJson "push_subscription option"
  | SubscriptionsJson "push_subscription list"
  | PreferencesJson "notification_preference list"
  | LevelJson preference_level
  | SopRegistrationJson sop_registration_response
  | PlanJson "plan_view option"
  | PlansJson "plan_view list"
  | EmailOverviewJson email_delivery_overview
  | NotificationOverviewJson notification_delivery_overview
  | StatsJson notification_stats

text \<open>The error bodies of the shared \<open>errs\<close> package, by the constructor and arguments that make them.\<close>

datatype api_error =
    Unauthorized string
  | BadRequest string string
  | ApiError string string int

text \<open>What an event stream writes.\<close>

datatype sse_event = SseReady | SseNotification notification

text \<open>A body: nothing, what is serialised, an event stream, a JSON document or a page as they are.\<close>

datatype body = NoBody | Json payload | ErrorJson api_error | EventStream "sse_event list"
  | Document json | Html string

record http_response =
  hr_Status :: int
  hr_Header :: "(string \<times> string) list"
  hr_Body :: body

type_synonym handler = "http_request \<Rightarrow> http_response io"

definition json :: "payload \<Rightarrow> http_response" where
  "json p = \<lparr>hr_Status = 200, hr_Header = [], hr_Body = Json p\<rparr>"

definition fail :: "int \<Rightarrow> api_error \<Rightarrow> http_response" where
  "fail status e = \<lparr>hr_Status = status, hr_Header = [], hr_Body = ErrorJson e\<rparr>"

definition empty_ok :: http_response where
  "empty_ok = \<lparr>hr_Status = 200, hr_Header = [], hr_Body = NoBody\<rparr>"

definition unauthorized :: http_response where
  "unauthorized = fail 401 (Unauthorized [])"

definition bad_request :: "string \<Rightarrow> string \<Rightarrow> http_response" where
  "bad_request code message = fail 400 (BadRequest code message)"

definition invalid_body :: http_response where
  "invalid_body = bad_request ''INVALID_BODY'' ''The request body is invalid.''"

definition internal_error :: "string \<Rightarrow> http_response" where
  "internal_error message = fail 500 (ApiError ''INTERNAL_ERROR'' message 500)"

text \<open>What \<open>gin.Recovery\<close> answers when a handler panics.\<close>

definition recovered :: http_response where
  "recovered = \<lparr>hr_Status = 500, hr_Header = [], hr_Body = NoBody\<rparr>"

text \<open>
  A call whose error is answered. Handlers do not fail: each of their runs ends in a response.
\<close>

definition or_answer :: "'a io \<Rightarrow> (go_error \<Rightarrow> http_response) \<Rightarrow> ('a \<Rightarrow> http_response io) \<Rightarrow> http_response io"
where
  "or_answer m answer k =
     bindM (attempt m) (\<lambda>r. case r of Inl e \<Rightarrow> ret (answer e) | Inr x \<Rightarrow> k x)"

definition with_account :: "http_request \<Rightarrow> (dy_account \<Rightarrow> uuid \<Rightarrow> http_response io) \<Rightarrow> http_response io" where
  "with_account rq k =
     (case current_user rq of
        None \<Rightarrow> ret unauthorized
      | Some user \<Rightarrow>
          bindM (getM w_outside) (\<lambda>out.
            case o_parse_uuid out (da_Id user) of
              None \<Rightarrow> ret unauthorized
            | Some accountID \<Rightarrow> k user accountID))"

definition text_value :: "string option \<Rightarrow> string" where
  "text_value v = (case v of None \<Rightarrow> [] | Some s \<Rightarrow> s)"

definition subscribe_failure :: "string \<Rightarrow> go_error \<Rightarrow> http_response" where
  "subscribe_failure message e =
     (if errors_is_unknown_app e
      then bad_request ''RING_NOTIFICATION_INVALID_APP'' ''The app id is not configured.''
      else internal_error message)"

definition x_total :: "int \<Rightarrow> http_response \<Rightarrow> http_response" where
  "x_total n response = response\<lparr>hr_Header := (''X-Total'', show_int n) # hr_Header response\<rparr>"

definition notification_response :: "notification \<Rightarrow> notification" where
  "notification_response n =
     n\<lparr>ntf_Meta := (case ntf_Meta n of None \<Rightarrow> None | Some m \<Rightarrow> Some (snake_meta m))\<rparr>"

definition notifications_response :: "notification list \<Rightarrow> notification list" where
  "notifications_response items = map notification_response items"

end
