(* ===== verification/Admin_Ctl.thy ===== *)
theory Admin_Ctl
  imports Web
begin

text \<open>
  \<open>internal/httpserver/adminctl/adminctl.go\<close>: the administration of sending plans, the delivery
  overviews and the statistics. Creating a plan may page through the accounts for ever, so that
  handler is a partial program like \<open>create_plan\<close>.
\<close>

section \<open>Sending plans\<close>

definition check_plan_request :: "create_email_plan_request \<Rightarrow> api_error option" where
  "check_plan_request request =
     (if \<not> cpr_BroadcastToAll request \<and> cpr_AccountId request = None \<and> cpr_AccountIds request = [] then
        Some (BadRequest ''EMAIL_PLAN_TARGETING_REQUIRED''
          ''Provide account_id, account_ids, or set broadcast_to_all=true.'')
      else if trim_space (cpr_Subject request) = [] then
        Some (BadRequest ''EMAIL_PLAN_SUBJECT_REQUIRED'' ''Subject is required.'')
      else if trim_space (cpr_HtmlBody request) = [] then
        Some (BadRequest ''EMAIL_PLAN_HTML_BODY_REQUIRED'' ''Html body is required.'')
      else
        (case cpr_MaxEmailsPerDay request of
           None \<Rightarrow> None
         | Some perDay \<Rightarrow>
             if perDay < cpr_MaxEmailsPerInterval request then
               Some (BadRequest ''EMAIL_PLAN_MAX_EMAILS_PER_DAY_INVALID''
                 ''max_emails_per_day must be greater than or equal to max_emails_per_interval.'')
             else None))"

definition plan_command :: "create_email_plan_request \<Rightarrow> create_plan_command" where
  "plan_command request =
     \<lparr>cmd_AccountId = cpr_AccountId request, cmd_AccountIds = cpr_AccountIds request,
      cmd_BroadcastToAll = cpr_BroadcastToAll request, cmd_Subject = cpr_Subject request,
      cmd_HtmlBody = cpr_HtmlBody request, cmd_SendingPlanKey = cpr_SendingPlanKey request,
      cmd_PlannedStartAt = cpr_PlannedStartAt request,
      cmd_MaxEmailsPerInterval = cpr_MaxEmailsPerInterval request,
      cmd_IntervalMinutes = cpr_IntervalMinutes request,
      cmd_MaxEmailsPerDay = cpr_MaxEmailsPerDay request\<rparr>"

definition is_invalid_operation :: "go_error \<Rightarrow> bool" where
  "is_invalid_operation e = has_prefix (error_text e) ''No valid target accounts were resolved.''"

definition create_plan_failure :: "go_error \<Rightarrow> http_response" where
  "create_plan_failure e =
     (if sql_state e = Some ''23505'' then
        fail 409 (ApiError ''EMAIL_PLAN_KEY_CONFLICT'' ''The sending plan key already exists.'' 409)
      else if is_invalid_operation e then
        fail 400 (ApiError ''EMAIL_PLAN_VALIDATION_ERROR'' (error_text e) 400)
      else internal_error ''Failed to create email sending plan.'')"

definition answer_plan :: "(go_error + plan_view option) \<Rightarrow> http_response" where
  "answer_plan r = (case r of Inl e \<Rightarrow> create_plan_failure e | Inr view \<Rightarrow> json (PlanJson view))"

definition create_plan_handler :: "http_request \<Rightarrow> http_response partial_io" where
  "create_plan_handler rq w =
     (case rq_bind_plan rq of
        None \<Rightarrow> Some (Inr invalid_body, w)
      | Some request \<Rightarrow>
     (case current_user rq of
        None \<Rightarrow> Some (Inr unauthorized, w)
      | Some user \<Rightarrow>
     (case check_plan_request request of
        Some e \<Rightarrow> Some (Inr (fail 400 e), w)
      | None \<Rightarrow>
     (case o_parse_uuid (w_outside w) (da_Id user) of
        None \<Rightarrow> Some (Inr unauthorized, w)
      | Some createdBy \<Rightarrow>
          map_option (\<lambda>(r, w'). (Inr (answer_plan r), w')) (create_plan (plan_command request) createdBy w)))))"

definition clamp_take :: "int \<Rightarrow> int" where
  "clamp_take n = (let n' = (if n < 1 then 1 else n) in if 100 < n' then 100 else n')"

definition query_status :: "http_request \<Rightarrow> plan_status option" where
  "query_status rq =
     (let raw = c_query rq ''status''
      in if raw = [] then None else map_option plan_status_of_int (atoi raw))"

definition list_plans_handler :: handler where
  "list_plans_handler rq =
     or_answer (list_plans (max 0 (query_int rq ''offset'' 0)) (clamp_take (query_int rq ''take'' 20))
         (query_status rq))
       (\<lambda>e. internal_error ''Failed to list email sending plans.'')
       (\<lambda>(items, found). ret (x_total found (json (PlansJson items))))"

definition parse_plan_id :: "http_request \<Rightarrow> (uuid \<Rightarrow> http_response io) \<Rightarrow> http_response io" where
  "parse_plan_id rq k =
     bindM (getM w_outside) (\<lambda>out.
       case o_parse_uuid out (c_param rq ''planId'') of
         None \<Rightarrow> ret (bad_request ''INVALID_UUID'' ''The id is not a valid UUID.'')
       | Some i \<Rightarrow> k i)"

definition plan_missing :: http_response where
  "plan_missing = fail 404
     (ApiError ''EMAIL_PLAN_NOT_FOUND'' ''The requested email sending plan was not found.'' 404)"

definition get_plan_handler :: handler where
  "get_plan_handler rq = parse_plan_id rq (\<lambda>planID.
     or_answer (get_plan planID) (\<lambda>e. internal_error ''Failed to load email sending plan.'')
       (\<lambda>view. ret (if view = None then plan_missing else json (PlanJson view))))"

definition says_not_found :: "go_error \<Rightarrow> bool" where
  "says_not_found e = contains_text (error_text e) ''was not found''"

definition plan_conflict :: "string \<Rightarrow> go_error \<Rightarrow> http_response" where
  "plan_conflict code e =
     (if says_not_found e then plan_missing else fail 409 (ApiError code (error_text e) 409))"

definition pause_plan_handler :: handler where
  "pause_plan_handler rq = parse_plan_id rq (\<lambda>planID.
     or_answer (pause_plan planID) (plan_conflict ''EMAIL_PLAN_PAUSE_CONFLICT'')
       (\<lambda>view. ret (json (PlanJson view))))"

definition resume_plan_handler :: handler where
  "resume_plan_handler rq = parse_plan_id rq (\<lambda>planID.
     or_answer (resume_plan planID) (plan_conflict ''EMAIL_PLAN_RESUME_CONFLICT'')
       (\<lambda>view. ret (json (PlanJson view))))"

definition advance_plan_handler :: handler where
  "advance_plan_handler rq = parse_plan_id rq (\<lambda>planID.
     or_answer (advance_plan_interval planID True) (plan_conflict ''EMAIL_PLAN_ADVANCE_CONFLICT'')
       (\<lambda>view. ret (json (PlanJson view))))"

section \<open>Delivery overviews\<close>

text \<open>The sums are of row counts and stay far below the width of an \<open>int64\<close>.\<close>

definition add_outcome ::
  "(delivery_outcome \<times> int) list \<Rightarrow> outcome_count \<Rightarrow> (delivery_outcome \<times> int) list" where
  "add_outcome values oc =
     AList.update (fst oc) ((case map_of values (fst oc) of None \<Rightarrow> 0 | Some n \<Rightarrow> n) + snd oc) values"

definition outcome_values :: "outcome_count list \<Rightarrow> (delivery_outcome \<times> int) list" where
  "outcome_values outcomes = foldl add_outcome [] outcomes"

definition value_at :: "(delivery_outcome \<times> int) list \<Rightarrow> delivery_outcome \<Rightarrow> int" where
  "value_at values outcome = (case map_of values outcome of None \<Rightarrow> 0 | Some n \<Rightarrow> n)"

definition to_summary :: "outcome_count list \<Rightarrow> delivery_summary" where
  "to_summary outcomes =
     (let values = outcome_values outcomes;
          successful = value_at values OutcomeSuccess;
          failed = value_at values OutcomeFailure;
          invalidToken = value_at values OutcomeInvalidToken;
          attempts = successful + failed + invalidToken
      in \<lparr>dsm_Total = sum_list (map snd values), dsm_Successful = successful, dsm_Failed = failed,
          dsm_InvalidToken = invalidToken, dsm_Skipped = value_at values OutcomeSkipped,
          dsm_Held = value_at values OutcomeHeld,
          dsm_SuccessRate = (if attempts \<noteq> 0 then Some (successful, attempts) else None)\<rparr>)"

text \<open>The loop of \<open>sortBreakdowns\<close> over \<open>j\<close>, and the one over \<open>i\<close>, in place.\<close>

fun sink :: "nat \<Rightarrow> delivery_breakdown list \<Rightarrow> delivery_breakdown list" where
  "sink 0 items = items"
| "sink (Suc j) items =
     (if dsm_Total (items ! j) < dsm_Total (items ! Suc j)
      then sink j (items[j := items ! Suc j, Suc j := items ! j])
      else items)"

definition sort_breakdowns :: "delivery_breakdown list \<Rightarrow> delivery_breakdown list" where
  "sort_breakdowns items = foldl (\<lambda>xs i. sink i xs) items [1..<length items]"

definition keyed_summary :: "string \<Rightarrow> delivery_summary \<Rightarrow> delivery_breakdown" where
  "keyed_summary key s =
     \<lparr>dsm_Total = dsm_Total s, dsm_Successful = dsm_Successful s, dsm_Failed = dsm_Failed s,
      dsm_InvalidToken = dsm_InvalidToken s, dsm_Skipped = dsm_Skipped s, dsm_Held = dsm_Held s,
      dsm_SuccessRate = dsm_SuccessRate s, dbd_Key = key\<rparr>"

definition group_row ::
  "(string \<times> outcome_count list) list \<Rightarrow> key_outcome_count \<Rightarrow> (string \<times> outcome_count list) list" where
  "group_row grouped row =
     (case row of (key, outcome, n) \<Rightarrow>
        AList.update key ((case map_of grouped key of None \<Rightarrow> [] | Some ocs \<Rightarrow> ocs) @ [(outcome, n)])
          grouped)"

definition build_breakdowns :: "key_outcome_count list \<Rightarrow> delivery_breakdown list" where
  "build_breakdowns rows =
     sort_breakdowns
       (map (\<lambda>(key, outcomes). keyed_summary key (to_summary outcomes)) (foldl group_row [] rows))"

text \<open>The range of the query, and whether it is not reversed.\<close>

definition query_time :: "outside \<Rightarrow> http_request \<Rightarrow> string \<Rightarrow> time \<Rightarrow> time" where
  "query_time out rq key dflt =
     (let raw = c_query rq key
      in if raw = [] then dflt else (case o_parse_time out raw of None \<Rightarrow> dflt | Some t \<Rightarrow> t))"

definition resolve_range :: "outside \<Rightarrow> http_request \<Rightarrow> time \<Rightarrow> time \<times> time \<times> bool" where
  "resolve_range out rq now =
     (let to = query_time out rq ''to'' now;
          from = query_time out rq ''from'' (to - 30 * day_length)
      in (from, to, \<not> to < from))"

definition invalid_range :: http_response where
  "invalid_range = bad_request ''INVALID_RANGE'' ''from must be earlier than to.''"

definition overview_failure :: "go_error \<Rightarrow> http_response" where
  "overview_failure e = internal_error ''Failed to load delivery observability.''"

definition with_range :: "http_request \<Rightarrow> (time \<Rightarrow> time \<Rightarrow> http_response io) \<Rightarrow> http_response io" where
  "with_range rq k =
     bindM time_now (\<lambda>now. bindM (getM w_outside) (\<lambda>out.
       case resolve_range out rq now of
         (from, to, ok) \<Rightarrow> if \<not> ok then ret invalid_range else k from to))"

definition email_delivery_overview_handler :: handler where
  "email_delivery_overview_handler rq = with_range rq (\<lambda>from to.
     or_answer (count_delivery_outcomes ''email_delivery_records'' from to) overview_failure (\<lambda>outcomes.
     or_answer (count_delivery_by_key_outcome ''email_delivery_records'' ''source'' from to)
       overview_failure (\<lambda>bySource.
     ret (json (EmailOverviewJson
       \<lparr>edo_Summary = to_summary outcomes, edo_BySource = build_breakdowns bySource\<rparr>)))))"

definition topic_breakdown :: "key_count \<Rightarrow> delivery_breakdown" where
  "topic_breakdown row =
     \<lparr>dsm_Total = snd row, dsm_Successful = 0, dsm_Failed = 0, dsm_InvalidToken = 0, dsm_Skipped = 0,
      dsm_Held = 0, dsm_SuccessRate = None, dbd_Key = fst row\<rparr>"

definition notification_delivery_overview_handler :: handler where
  "notification_delivery_overview_handler rq = with_range rq (\<lambda>from to.
     or_answer (count_send_records from to) overview_failure (\<lambda>sendRequests.
     or_answer (count_send_by_topic from to) overview_failure (\<lambda>sendByTopic.
     or_answer (count_delivery_outcomes ''notification_delivery_records'' from to) overview_failure
       (\<lambda>outcomes.
     or_answer (count_delivery_by_key_outcome ''notification_delivery_records'' ''provider'' from to)
       overview_failure (\<lambda>byProvider.
     or_answer (count_delivery_by_key_outcome ''notification_delivery_records'' ''topic'' from to)
       overview_failure (\<lambda>byTopic.
     ret (json (NotificationOverviewJson
       \<lparr>ndo_SendRequests = sendRequests,
        ndo_SendRequestsByTopic = sort_breakdowns (map topic_breakdown sendByTopic),
        ndo_Summary = to_summary outcomes, ndo_ByProvider = build_breakdowns byProvider,
        ndo_ByTopic = build_breakdowns byTopic\<rparr>))))))))"

section \<open>Statistics\<close>

definition stats_handler :: handler where
  "stats_handler rq =
     bindM time_now (\<lambda>now.
     or_answer (get_notification_stats now) (\<lambda>e. internal_error ''Failed to load stats.'')
       (\<lambda>stats. ret (json (StatsJson stats))))"

end
