(* ===== verification/Web_Facts.thy ===== *)
theory Web_Facts
  imports Web
begin

named_theorems answers_intros "rules for programs that end in a response"

text \<open>
  What the handlers' building blocks do: the runs of a call whose error is answered, and of the
  parts that need the caller's account.
\<close>

lemma or_answer_iff:
  "or_answer m answer k w = (r, t) \<longleftrightarrow>
     (\<exists>e. m w = (Inl e, t) \<and> r = Inr (answer e)) \<or> (\<exists>x w'. m w = (Inr x, w') \<and> k x w' = (r, t))"
  by (auto simp: or_answer_def attempt_def bindM_def ret_def split: prod.splits sum.splits)

text \<open>Programs that never end in an error.\<close>

definition infallible :: "('s, 'a) prog \<Rightarrow> bool" where
  "infallible m \<longleftrightarrow> (\<forall>s. \<not> isl (fst (m s)))"

lemma infallible_basic [answers_intros]:
  "infallible (ret x)" "infallible (getM f)" "infallible (modifyM g)" "infallible (attempt m)"
  by (auto simp: infallible_def prog_simps split: prod.splits)

lemma infallible_outside [answers_intros]:
  "infallible time_now" "infallible uuid_new" "infallible (alloc_notification n)" "infallible (swallow n')"
  by (auto simp: infallible_def outside_defs run_swallow)

lemma infallible_bindM [answers_intros]:
  "infallible m \<Longrightarrow> (\<And>x. infallible (f x)) \<Longrightarrow> infallible (bindM m f)"
  unfolding infallible_def
proof (rule allI)
  fix s
  assume "\<forall>s. \<not> isl (fst (m s))" and f: "\<And>x. \<forall>s. \<not> isl (fst (f x s))"
  then obtain x s' where "m s = (Inr x, s')" using run_exists by blast
  then show "\<not> isl (fst (bindM m f s))"
    using f by (simp add: bindM_def)
qed

lemma infallible_seqM [answers_intros]: "infallible m \<Longrightarrow> infallible k \<Longrightarrow> infallible (seqM m k)"
  by (simp add: seqM_def infallible_bindM)

lemma infallible_whenM [answers_intros]: "infallible m \<Longrightarrow> infallible (whenM b m)"
  by (simp add: whenM_def infallible_basic)

lemma infallible_if [answers_intros]:
  "infallible m \<Longrightarrow> infallible k \<Longrightarrow> infallible (if b then m else k)"
  by simp

lemma infallible_case_option [answers_intros]:
  "infallible m \<Longrightarrow> (\<And>y. infallible (f y)) \<Longrightarrow> infallible (case x of None \<Rightarrow> m | Some y \<Rightarrow> f y)"
  by (cases x) simp_all

text \<open>Programs that always end in a response, with one of the statuses \<open>S\<close>.\<close>

definition responds :: "int set \<Rightarrow> http_response \<Rightarrow> bool" where
  "responds S r \<longleftrightarrow> hr_Status r \<in> S"

definition answers :: "int set \<Rightarrow> http_response io \<Rightarrow> bool" where
  "answers S m \<longleftrightarrow> (\<forall>w. case fst (m w) of Inl e \<Rightarrow> False | Inr r \<Rightarrow> responds S r)"

lemma answers_mono: "answers S m \<Longrightarrow> S \<subseteq> T \<Longrightarrow> answers T m"
  unfolding answers_def responds_def by (fastforce split: sum.splits)

lemma responds_basic [answers_intros]:
  "200 \<in> S \<Longrightarrow> responds S (json p)"
  "200 \<in> S \<Longrightarrow> responds S empty_ok"
  "401 \<in> S \<Longrightarrow> responds S unauthorized"
  "400 \<in> S \<Longrightarrow> responds S invalid_body"
  "400 \<in> S \<Longrightarrow> responds S (bad_request code message)"
  "500 \<in> S \<Longrightarrow> responds S (internal_error message)"
  "500 \<in> S \<Longrightarrow> responds S recovered"
  "400 \<in> S \<Longrightarrow> 500 \<in> S \<Longrightarrow> responds S (subscribe_failure message e)"
  by (simp_all add: responds_def json_def empty_ok_def unauthorized_def invalid_body_def
      bad_request_def internal_error_def recovered_def subscribe_failure_def fail_def)

lemma responds_fail [answers_intros]: "status \<in> S \<Longrightarrow> responds S (fail status e)"
  by (simp add: responds_def fail_def)

lemma responds_x_total [answers_intros]: "responds S r \<Longrightarrow> responds S (x_total n r)"
  by (simp add: responds_def x_total_def)

lemma responds_if [answers_intros]: "responds S r \<Longrightarrow> responds S q \<Longrightarrow> responds S (if b then r else q)"
  by simp

lemma answers_ret [answers_intros]: "responds S r \<Longrightarrow> answers S (ret r)"
  by (simp add: answers_def ret_def)

lemma answers_bindM [answers_intros]:
  "infallible m \<Longrightarrow> (\<And>x. answers S (f x)) \<Longrightarrow> answers S (bindM m f)"
  unfolding answers_def infallible_def
proof (rule allI)
  fix w
  assume "\<forall>s. \<not> isl (fst (m s))"
    and f: "\<And>x. \<forall>w. case fst (f x w) of Inl e \<Rightarrow> False | Inr r \<Rightarrow> responds S r"
  then obtain x w' where "m w = (Inr x, w')" using run_exists by blast
  then show "case fst (bindM m f w) of Inl e \<Rightarrow> False | Inr r \<Rightarrow> responds S r"
    using f by (simp add: bindM_def)
qed

lemma answers_seqM [answers_intros]: "infallible m \<Longrightarrow> answers S k \<Longrightarrow> answers S (seqM m k)"
  by (simp add: seqM_def answers_bindM)

lemma answers_or_answer [answers_intros]:
  "(\<And>e. responds S (answer e)) \<Longrightarrow> (\<And>x. answers S (k x)) \<Longrightarrow> answers S (or_answer m answer k)"
  unfolding answers_def or_answer_def attempt_def bindM_def ret_def
  by (fastforce split: prod.splits sum.splits)

lemma answers_if [answers_intros]: "answers S m \<Longrightarrow> answers S k \<Longrightarrow> answers S (if b then m else k)"
  by simp

lemma answers_case_option [answers_intros]:
  "answers S m \<Longrightarrow> (\<And>y. answers S (f y)) \<Longrightarrow> answers S (case x of None \<Rightarrow> m | Some y \<Rightarrow> f y)"
  by (cases x) simp_all

lemma answers_case_sum:
  "(\<And>y. answers S (f y)) \<Longrightarrow> (\<And>y. answers S (g y)) \<Longrightarrow> answers S (case x of Inl y \<Rightarrow> f y | Inr y \<Rightarrow> g y)"
  by (cases x) simp_all

lemma infallible_case_prod:
  "(\<And>a b. infallible (f a b)) \<Longrightarrow> infallible (case x of (a, b) \<Rightarrow> f a b)"
  by (cases x) simp

lemma answers_case_prod [answers_intros]:
  "(\<And>a b. answers S (f a b)) \<Longrightarrow> answers S (case x of (a, b) \<Rightarrow> f a b)"
  by (cases x) simp

lemma answers_Let [answers_intros]: "answers S (f x) \<Longrightarrow> answers S (Let x f)"
  by simp

lemma answers_with_account [answers_intros]:
  "401 \<in> S \<Longrightarrow> (\<And>user accountID. answers S (k user accountID)) \<Longrightarrow> answers S (with_account rq k)"
  unfolding with_account_def by (intro answers_intros)

end
