(* ===== verification/Admin_Facts.thy ===== *)
theory Admin_Facts
  imports Admin_Ctl Web_Facts
begin

text \<open>
  The overviews of \<open>adminctl\<close>: the insertion sort against a stable sort, and what the numbers of a
  breakdown add up to.
\<close>

section \<open>Sorting\<close>

text \<open>What one swap of neighbours does to a list.\<close>

lemma swap_neighbours:
  assumes "Suc j < length xs"
  shows "xs[j := xs ! Suc j, Suc j := xs ! j]
    = take j xs @ [xs ! Suc j, xs ! j] @ drop (Suc (Suc j)) xs"
    and "xs = take j xs @ [xs ! j, xs ! Suc j] @ drop (Suc (Suc j)) xs"
proof -
  show "xs = take j xs @ [xs ! j, xs ! Suc j] @ drop (Suc (Suc j)) xs"
    using assms by (simp add: Cons_nth_drop_Suc)
  then obtain ys zs where "xs = ys @ [xs ! j, xs ! Suc j] @ zs" "length ys = j"
    "drop (Suc (Suc j)) xs = zs" "take j xs = ys"
    using assms by (metis length_take Suc_lessD min.absorb4)
  then show "xs[j := xs ! Suc j, Suc j := xs ! j]
      = take j xs @ [xs ! Suc j, xs ! j] @ drop (Suc (Suc j)) xs"
    by (metis append_Cons append_Nil list_update_append1 list_update_length length_append_singleton append.assoc)
qed

text \<open>One pass moves the element behind a descending prefix to its place in it.\<close>

lemma sink_append:
  "desc dsm_Total ys \<Longrightarrow> sink (length ys) (ys @ x # zs)
    = filter (\<lambda>y. dsm_Total x \<le> dsm_Total y) ys @ x # filter (\<lambda>y. dsm_Total y < dsm_Total x) ys @ zs"
proof (induction ys arbitrary: zs rule: rev_induct)
  case (snoc y ys)
  then have ys: "desc dsm_Total ys" "\<forall>u \<in> set ys. dsm_Total y \<le> dsm_Total u"
    by (auto simp: desc_def sorted_wrt_append)
  have swap: "(ys @ y # x # zs)[length ys := x, Suc (length ys) := y] = ys @ x # y # zs"
    using swap_neighbours(1) [of "length ys" "ys @ y # x # zs"] by (simp add: nth_append)
  show ?case
  proof (cases "dsm_Total y < dsm_Total x")
    case True
    then show ?thesis
      using snoc.IH [OF ys(1), of "y # zs"] swap by (simp add: nth_append)
  next
    case False
    then have "filter (\<lambda>u. dsm_Total x \<le> dsm_Total u) ys = ys"
      "filter (\<lambda>u. dsm_Total u < dsm_Total x) ys = []"
      using ys(2) by (auto simp: filter_id_conv filter_empty_conv)
    then show ?thesis using False by (simp add: nth_append)
  qed
qed simp

text \<open>The stable sort of a list one element longer.\<close>

lemma sort_desc_snoc:
  "sort_desc k (xs @ [x])
    = filter (\<lambda>y. k x \<le> k y) (sort_desc k xs) @ x # filter (\<lambda>y. k y < k x) (sort_desc k xs)"
  (is "_ = ?ys")
proof -
  have "mset ?ys = mset (xs @ [x])"
    using multiset_partition [of "mset xs" "\<lambda>y. k x \<le> k y"] by (simp add: not_le)
  moreover have "filter (\<lambda>u. - k c = - k u) ?ys = filter (\<lambda>u. - k c = - k u) (xs @ [x])" for c
  proof -
    have stable: "filter (\<lambda>u. k c = k u) (sort_desc k xs) = filter (\<lambda>u. k c = k u) xs"
      using sort_key_stable [of "\<lambda>x. - k x" "- k c" xs] by (simp add: sort_desc_def eq_commute)
    have same: "k x \<le> k c \<Longrightarrow> (\<lambda>u. k x \<le> k u \<and> k c = k u) = (\<lambda>u. k c = k u)"
      "k c < k x \<Longrightarrow> (\<lambda>u. k u < k x \<and> k c = k u) = (\<lambda>u. k c = k u)" by auto
    then show ?thesis
      using stable
      by (cases "k x < k c"; cases "k x = k c") (auto simp: filter_empty_conv)
  qed
  moreover have "sorted (map (\<lambda>x. - k x) ?ys)"
    using desc_sort_desc [of k xs]
    by (auto simp: sorted_map desc_def sorted_wrt_append sorted_wrt_filter)
  ultimately show ?thesis
    unfolding sort_desc_def by (intro properties_for_sort_key)
qed

text \<open>The passes together sort longer and longer prefixes.\<close>

lemma insertion_sort_stable: "sort_breakdowns items = sort_desc dsm_Total items"
proof -
  have "foldl (\<lambda>xs i. sink i xs) items [1..<i] = sort_desc dsm_Total (take i items) @ drop i items"
    if "1 \<le> i" "i \<le> length items" for i
    using that
  proof (induction i rule: dec_induct)
    case base
    then show ?case by (cases items) (auto simp: sort_desc_def)
  next
    case (step i)
    then obtain x where x: "drop i items = x # drop (Suc i) items" "take (Suc i) items = take i items @ [x]"
      by (metis Cons_nth_drop_Suc Suc_le_eq take_Suc_conv_app_nth)
    have "sink i (sort_desc dsm_Total (take i items) @ x # drop (Suc i) items)
        = sort_desc dsm_Total (take i items @ [x]) @ drop (Suc i) items"
      using sink_append [OF desc_sort_desc, of "take i items" x "drop (Suc i) items"] step
      by (simp add: sort_desc_snoc)
    then show ?case using step x by simp
  qed
  from this [of "length items"] show ?thesis
    by (cases items) (auto simp: sort_breakdowns_def sort_desc_def Suc_le_eq)
qed

text \<open>C35: \<open>sortBreakdowns\<close>, the insertion sort by neighbouring swaps, is a stable sort by falling total:
  it permutes the breakdowns, orders them, and leaves those of equal totals in their order.\<close>

theorem sort_breakdowns_stable:
  "mset (sort_breakdowns items) = mset items
   \<and> sorted_wrt (\<lambda>a b. dsm_Total b \<le> dsm_Total a) (sort_breakdowns items)
   \<and> filter (\<lambda>b. dsm_Total b = n) (sort_breakdowns items) = filter (\<lambda>b. dsm_Total b = n) items"
  using desc_sort_desc [of dsm_Total items] sort_key_stable [of "\<lambda>b. - dsm_Total b" "- n" items]
  by (simp add: insertion_sort_stable desc_def) (simp add: sort_desc_def)

section \<open>Summaries\<close>

text \<open>What a summary of deliveries is: how many there are, and how many of each outcome.\<close>

definition summary_of :: "delivery_outcome list \<Rightarrow> delivery_summary" where
  "summary_of os =
     (let n = (\<lambda>outcome. int (count_list os outcome));
          attempts = n OutcomeSuccess + n OutcomeFailure + n OutcomeInvalidToken
      in \<lparr>dsm_Total = int (length os), dsm_Successful = n OutcomeSuccess,
          dsm_Failed = n OutcomeFailure, dsm_InvalidToken = n OutcomeInvalidToken,
          dsm_Skipped = n OutcomeSkipped, dsm_Held = n OutcomeHeld,
          dsm_SuccessRate = (if attempts \<noteq> 0 then Some (n OutcomeSuccess, attempts) else None)\<rparr>)"

text \<open>The counts of an outcome list tell how many outcomes satisfy whatever predicate.\<close>

definition counts_of :: "outcome_count list \<Rightarrow> delivery_outcome list \<Rightarrow> bool" where
  "counts_of ocs os \<longleftrightarrow>
     (\<forall>p. (\<Sum>(outcome, n) \<leftarrow> ocs. if p outcome then n else 0) = int (length (filter p os)))"

lemma value_at_outcome_values:
  "value_at (outcome_values ocs) outcome = (\<Sum>(u, n) \<leftarrow> ocs. if outcome = u then n else 0)"
proof -
  have "value_at (foldl add_outcome values ocs) outcome
      = value_at values outcome + (\<Sum>(u, n) \<leftarrow> ocs. if outcome = u then n else 0)" for "values"
    by (induction ocs arbitrary: "values") (auto simp: value_at_def add_outcome_def AList.update_conv')
  from this [of "[]"] show ?thesis by (simp add: outcome_values_def value_at_def)
qed

lemma sum_update:
  "sum_list (map snd (AList.update k v al))
    = sum_list (map snd al) - (case map_of al k of None \<Rightarrow> 0 | Some n \<Rightarrow> n) + (v :: int)"
  by (induction al) auto

lemma sum_outcome_values: "sum_list (map snd (outcome_values ocs)) = sum_list (map snd ocs)"
proof -
  have "sum_list (map snd (foldl add_outcome values ocs))
      = sum_list (map snd values) + sum_list (map snd ocs)" for "values"
    by (induction ocs arbitrary: "values") (auto simp: add_outcome_def sum_update)
  from this [of "[]"] show ?thesis by (simp add: outcome_values_def)
qed

lemma to_summary_counts:
  assumes "counts_of ocs os"
  shows "to_summary ocs = summary_of os"
proof -
  have "value_at (outcome_values ocs) outcome = int (count_list os outcome)" for outcome
    using assms [unfolded counts_of_def, rule_format, of "(=) outcome"]
    by (simp add: value_at_outcome_values count_list_eq_length_filter)
  moreover have "sum_list (map snd (outcome_values ocs)) = int (length os)"
    using assms [unfolded counts_of_def, rule_format, of "\<lambda>u. True"]
    by (simp add: sum_outcome_values split_def)
  ultimately show ?thesis by (simp add: to_summary_def summary_of_def Let_def)
qed

section \<open>Breakdowns\<close>

text \<open>The map the rows are grouped in: the keys that occur, each once, with their rows in order.\<close>

lemma map_of_group_rows:
  "map_of (foldl group_row [] rows) key
    = (if key \<in> fst ` set rows then Some (map snd (filter (\<lambda>r. fst r = key) rows)) else None)"
proof (induction rows rule: rev_induct)
  case (snoc r rows)
  obtain k u n where "r = (k, u, n)" by (cases r)
  then show ?case
    using snoc by (auto simp: group_row_def AList.update_conv' image_iff filter_empty_conv)
qed simp

lemma distinct_group_rows: "distinct (map fst (foldl group_row [] rows))"
proof (induction rows rule: rev_induct)
  case (snoc r rows)
  then show ?case by (cases r) (simp add: group_row_def AList.distinct_update)
qed simp

text \<open>
  \<open>broken_down rows key outcome bs\<close>: one breakdown for every key of the rows, each the summary of the
  rows of its key, by falling total.
\<close>

definition broken_down ::
  "'r list \<Rightarrow> ('r \<Rightarrow> string) \<Rightarrow> ('r \<Rightarrow> delivery_outcome) \<Rightarrow> delivery_breakdown list \<Rightarrow> bool" where
  "broken_down rows key outcome bs \<longleftrightarrow>
     distinct (map dbd_Key bs) \<and> dbd_Key ` set bs = key ` set rows \<and> desc dsm_Total bs
     \<and> (\<forall>b \<in> set bs. b = keyed_summary (dbd_Key b)
          (summary_of (map outcome (filter (\<lambda>r. key r = dbd_Key b) rows))))"

lemma dbd_Key_keyed_summary [simp]: "dbd_Key (keyed_summary key s) = key"
  by (simp add: keyed_summary_def)

lemma build_breakdowns_broken_down:
  assumes keys: "fst ` set counted = key ` set rows"
    and counts: "\<And>k. counts_of (map snd (filter (\<lambda>r. fst r = k) counted))
      (map outcome (filter (\<lambda>r. key r = k) rows))"
  shows "broken_down rows key outcome (build_breakdowns counted)"
proof -
  let ?g = "foldl group_row [] counted"
  let ?bs = "map (\<lambda>(k, ocs). keyed_summary k (to_summary ocs)) ?g"
  have grouped: "k \<in> key ` set rows \<and> ocs = map snd (filter (\<lambda>r. fst r = k) counted)"
    if "(k, ocs) \<in> set ?g" for k ocs
    using map_of_is_SomeI [OF distinct_group_rows that] keys
    by (simp add: map_of_group_rows split: if_splits)
  have "fst ` set ?g = key ` set rows"
    using keys by (auto simp: dom_map_of_conv_image_fst [symmetric] map_of_group_rows dom_def)
  moreover have "b = keyed_summary (dbd_Key b)
      (summary_of (map outcome (filter (\<lambda>r. key r = dbd_Key b) rows)))" if b: "b \<in> set ?bs" for b
  proof -
    obtain k ocs where g: "(k, ocs) \<in> set ?g" and b: "b = keyed_summary k (to_summary ocs)"
      using b by auto
    show ?thesis
      using b grouped [OF g] to_summary_counts [OF counts, of k] by simp
  qed
  moreover have "map dbd_Key ?bs = map fst ?g" by (simp add: split_def)
  ultimately show ?thesis
    unfolding broken_down_def build_breakdowns_def insertion_sort_stable
    using distinct_group_rows [of counted] by (simp add: image_image split_def comp_def)
qed

section \<open>The overviews\<close>

text \<open>C40: the overview of the e-mail deliveries is never answered: its breakdown asks the store for the
  key \<open>source\<close>, which the store refuses for this table, so every request ends with the error for a
  reversed range or with an internal error.\<close>

theorem email_overview_always_fails:
  "fst (email_delivery_overview_handler rq w)
    \<in> {Inr invalid_range, Inr (internal_error ''Failed to load delivery observability.'')}"
proof -
  obtain r t where "email_delivery_overview_handler rq w = (r, t)" by fastforce
  then show ?thesis
    by (auto simp: email_delivery_overview_handler_def with_range_def or_answer_iff bindM_def
        time_now_def getM_def ret_def overview_failure_def count_delivery_by_key_outcome_def
        delivery_entity_def allowed_delivery_key_def lift_result_def throw_def
        split: prod.splits if_splits)
qed

text \<open>What the grouped queries count.\<close>

lemma counts_of_group:
  "counts_of (map (\<lambda>(k, n). (f k, n)) (group_counts ks)) (map f ks)"
proof -
  have "(\<Sum>(u, n) \<leftarrow> map (\<lambda>(k, n). (f k, n)) (group_counts ks). if p u then n else 0)
      = (\<Sum>(k, n) \<leftarrow> group_counts ks. if p (f k) then n else 0)" for p
    by (simp only: map_map) (rule arg_cong [of _ _ sum_list], rule map_cong, auto)
  then show ?thesis
    by (simp add: counts_of_def group_counts_sum filter_map comp_def)
qed

lemma count_delivery_outcomes_counts:
  assumes "count_delivery_outcomes ''notification_delivery_records'' from to w = (Inr ocs, w')"
  shows "counts_of ocs
      (map (\<lambda>r. outcome_of_int (nde_Outcome r)) (filter (in_range from to) (w_deliveries w)))
    \<and> w' = w\<lparr>w_tick := Suc (w_tick w)\<rparr>"
  using assms counts_of_group
    [of outcome_of_int "map nde_Outcome (filter (in_range from to) (w_deliveries w))"]
  by (auto simp: count_delivery_outcomes_def delivery_entity_def io_iffs delivery_rows_def comp_def)

lemma sum_of_key:
  "(\<Sum>(u, n) \<leftarrow> map snd (filter (\<lambda>r. fst r = k) (map (\<lambda>((key, outcome), n). (f key, g outcome, n)) gs)).
      if p u then n else (0 :: int))
    = (\<Sum>((key, outcome), n) \<leftarrow> gs. if f key = k \<and> p (g outcome) then n else 0)"
  by (induction gs) auto

text \<open>The query per key, for a column whose values are scanned to \<open>key\<close>.\<close>

lemma count_by_key_broken_down:
  assumes "count_delivery_by_key_outcome ''notification_delivery_records'' column from to w = (Inr counted, w')"
  shows "broken_down (filter (in_range from to) (w_deliveries w))
      (\<lambda>r. scan_string (notification_key column r)) (\<lambda>r. outcome_of_int (nde_Outcome r))
      (build_breakdowns counted)
    \<and> w' = w\<lparr>w_tick := Suc (w_tick w)\<rparr>"
proof -
  let ?rows = "filter (in_range from to) (w_deliveries w)"
  let ?ks = "map (\<lambda>r. (notification_key column r, nde_Outcome r)) ?rows"
  have counted: "counted = map (\<lambda>((key, outcome), n). (scan_string key, outcome_of_int outcome, n))
      (group_counts ?ks)" and w': "w' = w\<lparr>w_tick := Suc (w_tick w)\<rparr>"
    using assms
    by (auto simp: count_delivery_by_key_outcome_def delivery_entity_def io_iffs delivery_rows_def
        comp_def split: if_splits)
  have "counts_of (map snd (filter (\<lambda>r. fst r = k) counted))
      (map (\<lambda>r. outcome_of_int (nde_Outcome r)) (filter (\<lambda>r. scan_string (notification_key column r) = k) ?rows))"
    for k
  proof -
    have "(\<Sum>(u, n) \<leftarrow> map snd (filter (\<lambda>r. fst r = k) counted). if p u then n else 0)
        = (\<Sum>((key, outcome), n) \<leftarrow> group_counts ?ks.
            if scan_string key = k \<and> p (outcome_of_int outcome) then n else 0)" for p
      unfolding counted by (rule sum_of_key)
    then show ?thesis
      using group_counts_sum [of "\<lambda>(key, outcome). scan_string key = k \<and> p (outcome_of_int outcome)" ?ks for p]
      by (simp add: counts_of_def split_def filter_map comp_def conj_commute conj_left_commute)
  qed
  moreover have "fst ` set counted = (\<lambda>r. scan_string (notification_key column r)) ` set ?rows"
    using group_counts_keys(2) [of ?ks] unfolding counted
    by (force simp: image_iff)
  ultimately show ?thesis using build_breakdowns_broken_down w' by blast
qed

text \<open>The requests to send, one breakdown per topic with nothing but its total.\<close>

definition topics_counted :: "send_record_entity list \<Rightarrow> delivery_breakdown list \<Rightarrow> bool" where
  "topics_counted sends bs \<longleftrightarrow>
     distinct (map dbd_Key bs) \<and> dbd_Key ` set bs = sre_Topic ` set sends \<and> desc dsm_Total bs
     \<and> (\<forall>b \<in> set bs. b = topic_breakdown
          (dbd_Key b, int (length (filter (\<lambda>r. sre_Topic r = dbd_Key b) sends))))"

lemma count_send_by_topic_counted:
  assumes "count_send_by_topic from to w = (Inr rows, w')"
  shows "topics_counted (filter (in_range from to) (w_sends w)) (sort_breakdowns (map topic_breakdown rows))
    \<and> w' = w\<lparr>w_tick := Suc (w_tick w)\<rparr>"
proof -
  let ?sends = "filter (in_range from to) (w_sends w)"
  have rows: "rows = group_counts (map sre_Topic ?sends)" and w': "w' = w\<lparr>w_tick := Suc (w_tick w)\<rparr>"
    using assms by (auto simp: count_send_by_topic_def io_iffs)
  have key: "dbd_Key (topic_breakdown r) = fst r" for r by (simp add: topic_breakdown_def)
  have "snd r = int (length (filter (\<lambda>s. sre_Topic s = fst r) ?sends))" if "r \<in> set rows" for r
    using that unfolding rows group_counts_def
    by (auto simp: count_list_eq_length_filter filter_map comp_def eq_commute)
  then have "b = topic_breakdown (dbd_Key b, int (length (filter (\<lambda>r. sre_Topic r = dbd_Key b) ?sends)))"
    if "b \<in> topic_breakdown ` set rows" for b
    using that by (auto simp: key)
  then show ?thesis
    using group_counts_keys [of "map sre_Topic ?sends"] w'
    by (simp add: topics_counted_def insertion_sort_stable key comp_def image_image flip: rows)
qed

text \<open>C32: an answered overview of the notification deliveries counts what the tables hold. Its range is
  not reversed, its summary is the number of deliveries in the range and of each outcome, its
  breakdowns by provider and by topic have one entry for every provider or topic that occurs, the
  summary of its deliveries, by falling total; and it counts the requests to send, in all and per topic.
  Answering changes nothing but the clock.\<close>

theorem notification_overview_counts:
  assumes run: "notification_delivery_overview_handler rq w = (Inr (json (NotificationOverviewJson v)), w')"
  shows "\<exists>from to. resolve_range (w_outside w) rq (o_time (w_outside w) (w_tick w)) = (from, to, True)
    \<and> (let rows = filter (in_range from to) (w_deliveries w);
           outcome = (\<lambda>r. outcome_of_int (nde_Outcome r));
           sends = filter (in_range from to) (w_sends w)
       in ndo_Summary v = summary_of (map outcome rows)
        \<and> broken_down rows nde_Provider outcome (ndo_ByProvider v)
        \<and> broken_down rows nde_Topic outcome (ndo_ByTopic v)
        \<and> ndo_SendRequests v = int (length sends)
        \<and> topics_counted sends (ndo_SendRequestsByTopic v))
    \<and> (\<exists>k. w' = w\<lparr>w_tick := k\<rparr>)"
proof -
  obtain "from" to ok where range:
    "resolve_range (w_outside w) rq (o_time (w_outside w) (w_tick w)) = (from, to, ok)"
    by (metis prod_cases3)
  let ?w = "w\<lparr>w_tick := Suc (w_tick w)\<rparr>"
  have ok
    using run range
    by (auto simp: notification_delivery_overview_handler_def with_range_def io_iffs invalid_range_def
        bad_request_def fail_def json_def split: if_splits)
  then obtain n w1 topics w2 ocs w3 providers w4 byTopic where
    n: "count_send_records from to ?w = (Inr n, w1)" and
    topics: "count_send_by_topic from to w1 = (Inr topics, w2)" and
    ocs: "count_delivery_outcomes ''notification_delivery_records'' from to w2 = (Inr ocs, w3)" and
    providers: "count_delivery_by_key_outcome ''notification_delivery_records'' ''provider'' from to w3
      = (Inr providers, w4)" and
    byTopic: "count_delivery_by_key_outcome ''notification_delivery_records'' ''topic'' from to w4
      = (Inr byTopic, w')" and
    v: "v = \<lparr>ndo_SendRequests = n, ndo_SendRequestsByTopic = sort_breakdowns (map topic_breakdown topics),
        ndo_Summary = to_summary ocs, ndo_ByProvider = build_breakdowns providers,
        ndo_ByTopic = build_breakdowns byTopic\<rparr>"
    using run range
    by (auto simp: notification_delivery_overview_handler_def with_range_def io_iffs or_answer_iff
        overview_failure_def internal_error_def fail_def json_def)
  have "n = int (length (filter (in_range from to) (w_sends w)))" "w1 = ?w\<lparr>w_tick := Suc (w_tick ?w)\<rparr>"
    using n by (auto simp: count_send_records_def count_entity_def io_iffs in_range_def [abs_def])
  then show ?thesis
    using range \<open>ok\<close> v count_send_by_topic_counted [OF topics] count_delivery_outcomes_counts [OF ocs]
      count_by_key_broken_down [OF providers] count_by_key_broken_down [OF byTopic] to_summary_counts
    by (auto simp: notification_key_def scan_string_def Let_def)
qed

definition delivered_row :: "nat \<Rightarrow> delivery_outcome \<Rightarrow> string \<Rightarrow> notification_delivery_entity" where
  "delivered_row i outcome topic =
     \<lparr>ID = i, e_CreatedAt = 0, e_UpdatedAt = 0, e_DeletedAt = deleted_at None, nde_AppID = None,
      nde_DurationMilliseconds = 3, nde_Error = None, nde_NotificationID = None,
      nde_Outcome = int_of_outcome outcome, nde_Provider = ''fcm'', nde_PushType = None,
      nde_SubscriptionID = None, nde_Topic = topic\<rparr>"

definition overview_world :: world where
  "overview_world = empty_world quiet_outside
     \<lparr>w_deliveries := [delivered_row 1 OutcomeFailure ''a'', delivered_row 2 OutcomeSuccess ''b'',
        delivered_row 3 OutcomeSuccess ''b'']\<rparr>"

definition plain_request :: http_request where
  "plain_request =
     \<lparr>rq_Query = [], rq_Header = [], rq_Param = [], rq_Auth = None, rq_Flusher = False,
      rq_bind_subscribe = None, rq_bind_send = None, rq_bind_preference = None,
      rq_bind_sop = None, rq_bind_plan = None\<rparr>"

lemma overview_world_answers:
  "fst (notification_delivery_overview_handler plain_request overview_world)
    = Inr (json (NotificationOverviewJson
        \<lparr>ndo_SendRequests = 0, ndo_SendRequestsByTopic = [],
         ndo_Summary = summary_of [OutcomeFailure, OutcomeSuccess, OutcomeSuccess],
         ndo_ByProvider =
           [keyed_summary ''fcm'' (summary_of [OutcomeFailure, OutcomeSuccess, OutcomeSuccess])],
         ndo_ByTopic = [keyed_summary ''b'' (summary_of [OutcomeSuccess, OutcomeSuccess]),
           keyed_summary ''a'' (summary_of [OutcomeFailure])]\<rparr>))"
  by code_simp

theorem notification_overview_counts_witness:
  "\<exists>v w'. notification_delivery_overview_handler plain_request overview_world
      = (Inr (json (NotificationOverviewJson v)), w')
    \<and> map dbd_Key (ndo_ByTopic v) = [''b'', ''a''] \<and> (\<exists>k. w' = overview_world\<lparr>w_tick := k\<rparr>)"
proof -
  obtain v w' where run: "notification_delivery_overview_handler plain_request overview_world
      = (Inr (json (NotificationOverviewJson v)), w')"
    using overview_world_answers by (metis prod.collapse)
  then have "map dbd_Key (ndo_ByTopic v) = [''b'', ''a'']"
    using overview_world_answers by (simp add: json_def)
  moreover have "\<exists>k. w' = overview_world\<lparr>w_tick := k\<rparr>"
    using notification_overview_counts [OF run] by (elim exE conjE) (rule exI)
  ultimately show ?thesis using run by (intro exI [of _ v] exI [of _ w'] conjI)
qed

end
