(* ===== verification/Notification_Ctl.thy ===== *)
theory Notification_Ctl
  imports Web Push_Batch
begin

text \<open>
  \<open>internal/httpserver/notificationctl\<close>: the handlers of \<open>/api/notifications\<close>. Each is the whole
  handler, from the checks of the request to the response; the routes with their middleware are in
  \<open>Routes\<close>.
\<close>

section \<open>Notifications\<close>

definition count_unread :: handler where
  "count_unread rq = with_account rq (\<lambda>user accountID.
     bindM (getM apps_of) (\<lambda>apps.
     or_answer (count_unread_notifications accountID (Some (resolve_app_id apps (c_query rq ''app'') True))
         (Some (get_default_app_id apps)))
       (\<lambda>e. internal_error ''Failed to count notifications.'')
       (\<lambda>count. ret (json (CountJson count)))))"

definition list_handler :: handler where
  "list_handler rq = with_account rq (\<lambda>user accountID.
     bindM (getM apps_of) (\<lambda>apps.
     or_answer (list_notifications accountID (Some (resolve_app_id apps (c_query rq ''app'') True))
         (Some (get_default_app_id apps)) (query_int rq ''offset'' 0) (query_int rq ''take'' 8))
       (\<lambda>e. internal_error ''Failed to list notifications.'')
       (\<lambda>(notifications, count).
     let response = x_total count (json (NotificationsJson (notifications_response notifications)))
     in if query_bool rq ''unmark'' then ret response
        else bindM time_now (\<lambda>now.
          or_answer (mark_notifications_viewed notifications now)
            (\<lambda>e. x_total count (internal_error ''Failed to mark notifications viewed.''))
            (\<lambda>_. ret response)))))"

definition mark_all_read :: handler where
  "mark_all_read rq = with_account rq (\<lambda>user accountID.
     or_answer (mark_all_notifications_viewed accountID (c_query rq ''app''))
       (\<lambda>e. internal_error ''Failed to mark notifications viewed.'')
       (\<lambda>_. ret empty_ok))"

definition aim_notification ::
  "notification_with_aim_request \<Rightarrow> string \<Rightarrow> time \<Rightarrow> uuid \<Rightarrow> notification" where
  "aim_notification request appId now i =
     \<lparr>Id = i, CreatedAt = now, UpdatedAt = now, DeletedAt = None, ntf_Topic = nrq_Topic request,
      ntf_Title = Some (nrq_Title request), ntf_Subtitle = nrq_Subtitle request,
      ntf_Content = Some (nrq_Content request),
      ntf_Meta = Some (case nrq_Meta request of None \<Rightarrow> [] | Some m \<Rightarrow> m),
      ntf_Priority = (case nrq_Priority request of None \<Rightarrow> 10 | Some p \<Rightarrow> p),
      ntf_ViewedAt = None, ntf_AppId = Some appId, ntf_PushType = nrq_PushType request,
      ntf_AccountId = 0\<rparr>"

definition send_handler :: handler where
  "send_handler rq =
     (case rq_bind_send rq of
        None \<Rightarrow> ret invalid_body
      | Some request \<Rightarrow>
          if nrq_AccountId request = [] then ret invalid_body
          else
            bindM (getM apps_of) (\<lambda>apps.
            bindM time_now (\<lambda>now. bindM uuid_new (\<lambda>i.
            bindM (alloc_notification (aim_notification request
                (resolve_app_id apps (c_query rq ''app'') True) now i)) (\<lambda>p.
            or_answer (send_notification_batch p (nrq_AccountId request) (query_bool rq ''save'') [])
              (subscribe_failure ''Failed to send notification.'')
              (\<lambda>_. ret empty_ok))))))"

section \<open>Subscriptions\<close>

definition is_valid_unified_push_endpoint :: "outside \<Rightarrow> string \<Rightarrow> bool" where
  "is_valid_unified_push_endpoint out endpoint =
     (case o_parse_url out endpoint of
        None \<Rightarrow> False
      | Some (scheme, host) \<Rightarrow>
          if scheme \<noteq> ''http'' \<and> scheme \<noteq> ''https'' then False
          else (case o_parse_ip out host of
                  Some loopback \<Rightarrow> \<not> loopback
                | None \<Rightarrow> \<not> equal_fold host ''localhost''))"

text \<open>The checks of the body, in their order: the provider and the token, or the refusal.\<close>

definition check_subscribe ::
  "outside \<Rightarrow> push_subscribe_request option \<Rightarrow> http_response + (push_subscribe_request \<times> push_provider \<times> string)"
where
  "check_subscribe out bound =
     (case bound of
        None \<Rightarrow> Inl invalid_body
      | Some request \<Rightarrow>
     (case psr_Provider request of
        None \<Rightarrow> Inl invalid_body
      | Some n \<Rightarrow>
          let provider = provider_of_int n in
          if provider = PushProviderSop then
            Inl (bad_request ''RING_NOTIFICATION_SOP_NOT_SUPPORTED''
              ''Use /api/notifications/sop/subscription to register SOP provider.'')
          else if blank (text_value (psr_DeviceToken request)) then
            Inl (bad_request ''RING_NOTIFICATION_DEVICE_TOKEN_REQUIRED'' ''DeviceToken is required.'')
          else if provider = PushProviderUnifiedPush
              \<and> \<not> is_valid_unified_push_endpoint out (text_value (psr_DeviceToken request)) then
            Inl (bad_request ''RING_NOTIFICATION_INVALID_UP_ENDPOINT''
              ''For UnifiedPush, DeviceToken must be a valid absolute HTTP(S) endpoint URL.'')
          else Inr (request, provider, text_value (psr_DeviceToken request))))"

text \<open>The SOP subscription that already serves the device; an error while looking is ignored.\<close>

definition active_sop ::
  "http_request \<Rightarrow> uuid \<Rightarrow> push_subscription option io" where
  "active_sop rq accountID =
     (case client_id rq of
        None \<Rightarrow> ret None
      | Some clientID \<Rightarrow>
          if query_bool rq ''force'' then ret None
          else
            bindM (attempt (get_current_device_active_subscription accountID clientID)) (\<lambda>r.
              ret (case r of
                     Inr (Some sub) \<Rightarrow> if sub_Provider sub = PushProviderSop then Some sub else None
                   | _ \<Rightarrow> None)))"

definition subscribe_device_id :: "http_request \<Rightarrow> push_subscribe_request \<Rightarrow> string" where
  "subscribe_device_id rq request =
     (let deviceId = trim_space (text_value (psr_DeviceId request))
      in if deviceId = [] then text_value (client_id rq) else deviceId)"

definition subscribe :: handler where
  "subscribe rq =
     (case (current_user rq, current_session rq) of
        (Some user, Some session) \<Rightarrow>
          bindM (getM w_outside) (\<lambda>out.
          case check_subscribe out (rq_bind_subscribe rq) of
            Inl refusal \<Rightarrow> ret refusal
          | Inr (request, provider, deviceToken) \<Rightarrow>
          (case o_parse_uuid out (da_Id user) of
             None \<Rightarrow> ret unauthorized
           | Some accountID \<Rightarrow>
               bindM (active_sop rq accountID) (\<lambda>existing.
               case existing of
                 Some sub \<Rightarrow> ret (json (SubscriptionJson (Some sub)))
               | None \<Rightarrow>
                   or_answer (subscribe_device (subscribe_device_id rq request) deviceToken
                       (psr_DeviceName request) provider user True (text_value (psr_AppId request)))
                     (subscribe_failure ''Failed to subscribe device.'')
                     (\<lambda>sub. ret (json (SubscriptionJson (Some sub)))))))
      | _ \<Rightarrow> ret unauthorized)"

definition list_subscriptions_handler :: handler where
  "list_subscriptions_handler rq = with_account rq (\<lambda>user accountID.
     bindM (getM apps_of) (\<lambda>apps.
     or_answer (list_subscriptions accountID (Some (resolve_app_id apps (c_query rq ''app'') True))
         (Some (get_default_app_id apps)))
       (\<lambda>e. internal_error ''Failed to list subscriptions.'')
       (\<lambda>subs. ret (json (SubscriptionsJson subs)))))"

definition current_subscription :: handler where
  "current_subscription rq =
     (case client_id rq of
        None \<Rightarrow> ret unauthorized
      | Some clientID \<Rightarrow> with_account rq (\<lambda>user accountID.
          or_answer (get_current_device_active_subscription accountID clientID)
            (\<lambda>e. internal_error ''Failed to load subscription.'')
            (\<lambda>sub. ret (json (SubscriptionJson sub)))))"

definition parse_uuid_param ::
  "http_request \<Rightarrow> string \<Rightarrow> (uuid \<Rightarrow> http_response io) \<Rightarrow> http_response io" where
  "parse_uuid_param rq key k =
     bindM (getM w_outside) (\<lambda>out.
       case o_parse_uuid out (c_param rq key) of
         None \<Rightarrow> ret (bad_request ''INVALID_UUID'' ''The id is not a valid UUID.'')
       | Some i \<Rightarrow> k i)"

definition unsubscribe :: handler where
  "unsubscribe rq = with_account rq (\<lambda>user accountID.
     parse_uuid_param rq ''subscriptionId'' (\<lambda>subscriptionID.
     or_answer (delete_subscription_by_id accountID subscriptionID)
       (\<lambda>e. internal_error ''Failed to delete subscription.'')
       (\<lambda>affected. ret (json (CountJson affected)))))"

section \<open>Preferences\<close>

definition list_preferences_handler :: handler where
  "list_preferences_handler rq = with_account rq (\<lambda>user accountID.
     or_answer (list_preferences accountID)
       (\<lambda>e. internal_error ''Failed to list preferences.'')
       (\<lambda>prefs. ret (json (PreferencesJson prefs))))"

definition preference_level_of :: "uuid \<Rightarrow> string \<Rightarrow> preference_level io" where
  "preference_level_of accountID topic =
     bindM (get_preference accountID topic) (\<lambda>pref.
       ret (case pref of None \<Rightarrow> PreferenceNormal | Some p \<Rightarrow> prf_Preference p))"

definition get_preference_handler :: handler where
  "get_preference_handler rq = with_account rq (\<lambda>user accountID.
     or_answer (preference_level_of accountID (c_param rq ''topic''))
       (\<lambda>e. internal_error ''Failed to load preference.'')
       (\<lambda>level. ret (json (LevelJson level))))"

definition set_preference_handler :: handler where
  "set_preference_handler rq = with_account rq (\<lambda>user accountID.
     case rq_bind_preference rq of
       Some (Some level) \<Rightarrow>
         bindM time_now (\<lambda>now.
         or_answer (set_preference accountID (c_param rq ''topic'') (preference_of_int level) now)
           (\<lambda>e. internal_error ''Failed to set preference.'')
           (\<lambda>_. ret empty_ok))
     | _ \<Rightarrow> ret invalid_body)"

definition delete_preference_handler :: handler where
  "delete_preference_handler rq = with_account rq (\<lambda>user accountID.
     bindM time_now (\<lambda>now.
     or_answer (delete_preference accountID (c_param rq ''topic'') now)
       (\<lambda>e. internal_error ''Failed to delete preference.'')
       (\<lambda>_. ret empty_ok)))"

end
