(* ===== verification/Sop_Ctl.thy ===== *)
theory Sop_Ctl
  imports Web
begin

text \<open>
  \<open>internal/httpserver/sopctl/sopctl.go\<close>: registering a SOP token, listing by token, and the event
  stream of a device.
\<close>

section \<open>Registering\<close>

definition register_sop_token_handler :: handler where
  "register_sop_token_handler rq =
     (case (current_user rq, current_session rq) of
        (Some user, Some session) \<Rightarrow>
          (case rq_bind_sop rq of
             None \<Rightarrow> ret invalid_body
           | Some request \<Rightarrow>
          (case ds_ClientId session of
             None \<Rightarrow> ret unauthorized
           | Some clientID \<Rightarrow>
               or_answer (register_sop_token (clientID @ '':sop'') (srr_DeviceName request) user
                   (text_value (srr_AppId request)))
                 (subscribe_failure ''Failed to register SOP token.'')
                 (\<lambda>(token, sub). ret (json (SopRegistrationJson
                    \<lparr>srs_Token = token, srs_Subscription = sub\<rparr>)))))
      | _ \<Rightarrow> ret unauthorized)"

section \<open>Listing\<close>

definition sop_prefix :: string where
  "sop_prefix = ''SOP ''"

definition extract_sop_token :: "http_request \<Rightarrow> string" where
  "extract_sop_token rq =
     (if trim_space (c_query rq ''token'') \<noteq> [] then trim_space (c_query rq ''token'')
      else if trim_space (c_header rq ''X-SOP-Token'') \<noteq> [] then trim_space (c_header rq ''X-SOP-Token'')
      else let authHeader = c_header rq ''Authorization'' in
        if length sop_prefix \<le> length authHeader
           \<and> equal_fold (take (length sop_prefix) authHeader) sop_prefix
        then trim_space (drop (length sop_prefix) authHeader)
        else [])"

definition list_by_sop_token :: handler where
  "list_by_sop_token rq =
     (let token = extract_sop_token rq in
      if token = [] then ret unauthorized
      else
        or_answer (push_get_sop_subscription_by_token token)
          (\<lambda>e. internal_error ''Failed to load SOP subscription.'')
          (\<lambda>found.
        case found of
          None \<Rightarrow> ret unauthorized
        | Some sopSub \<Rightarrow>
            or_answer (list_sop_notifications (sub_AccountId sopSub) (query_int rq ''offset'' 0)
                (query_int rq ''take'' 8) (c_query rq ''app''))
              (\<lambda>e. internal_error ''Failed to list notifications.'')
              (\<lambda>listing.
            case listing of
              None \<Rightarrow> ret recovered
            | Some (notifications, found) \<Rightarrow>
                let ids = map Id notifications in
                seqM (mark_sop_delivery_read_async (Id sopSub) ids)
                (seqM (swallow (remove_sop_replay_notifications (sub_AccountId sopSub) ids))
                  (ret (x_total found
                    (json (NotificationsJson (notifications_response notifications)))))))))"

section \<open>Streaming\<close>

text \<open>
  The handler of \<open>/stream\<close> opens a stream, then serves it in rounds, one for every return of
  \<open>WaitToRead\<close> with true, and ends with the deferred unsubscription. What other requests and jobs do
  comes between the rounds.
\<close>

record sse_connection =
  sse_AccountID :: uuid
  sse_StreamID :: uuid
  sse_Subscription :: "push_subscription option"

definition sop_subscription_of :: "http_request \<Rightarrow> push_subscription option io" where
  "sop_subscription_of rq =
     (let token = extract_sop_token rq in
      if token = [] then ret None
      else bindM (attempt (push_get_sop_subscription_by_token token))
        (\<lambda>r. ret (case r of Inl e \<Rightarrow> None | Inr found \<Rightarrow> found)))"

definition stream_identity ::
  "outside \<Rightarrow> http_request \<Rightarrow> push_subscription option \<Rightarrow> (uuid \<times> string) option" where
  "stream_identity out rq sopSub =
     (case sopSub of
        Some sub \<Rightarrow> Some (sub_AccountId sub, sub_DeviceId sub)
      | None \<Rightarrow>
          (case (current_user rq, client_id rq) of
             (Some user, Some clientID) \<Rightarrow>
               map_option (\<lambda>accountID. (accountID, clientID @ '':sop''))
                 (o_parse_uuid out (da_Id user))
           | _ \<Rightarrow> None))"

definition open_stream :: "http_request \<Rightarrow> (http_response + sse_connection) io" where
  "open_stream rq =
     bindM (sop_subscription_of rq) (\<lambda>sopSub.
     bindM (getM w_outside) (\<lambda>out.
     case stream_identity out rq sopSub of
       None \<Rightarrow> ret (Inl unauthorized)
     | Some (accountID, deviceId) \<Rightarrow>
         bindM (subscribe_sop_stream accountID deviceId) (\<lambda>streamID.
         if \<not> rq_Flusher rq then
           seqM (unsubscribe_sop_stream accountID streamID)
             (ret (Inl (internal_error ''Streaming is not supported.'')))
         else ret (Inr \<lparr>sse_AccountID = accountID, sse_StreamID = streamID,
                sse_Subscription = sopSub\<rparr>))))"

definition stream_opening :: "sse_event list" where
  "stream_opening = [SseReady]"

definition stream_round :: "sse_connection \<Rightarrow> sse_event list io" where
  "stream_round conn =
     bindM (getM (\<lambda>w. drain_stream (sr_objects (w_streams w) (sse_StreamID conn)))) (\<lambda>(refs, rest).
     bindM (getM w_heap) (\<lambda>heap.
     seqM (modifyM (\<lambda>w. w\<lparr>w_streams := (w_streams w)
         \<lparr>sr_objects := (sr_objects (w_streams w))(sse_StreamID conn := rest)\<rparr>\<rparr>))
     (let notifications = map heap refs in
      seqM (case sse_Subscription conn of
              None \<Rightarrow> ret ()
            | Some sub \<Rightarrow>
                whenM (notifications \<noteq> [])
                  (mark_sop_delivery_read_async (Id sub) (map Id notifications)))
        (ret (map (\<lambda>n. SseNotification (notification_response n)) notifications)))))"

definition close_stream :: "sse_connection \<Rightarrow> unit io" where
  "close_stream conn = unsubscribe_sop_stream (sse_AccountID conn) (sse_StreamID conn)"

end
