(* ===== verification/Permission.thy ===== *)
theory Permission
  imports Web
begin

text \<open>
  \<open>internal/middleware\<close>: the authentication of a request, the gate that demands it, the permission
  gate with its scopes, and the event an authenticated request leaves behind.
\<close>

section \<open>Last activity\<close>

definition touch :: "auth_result option \<Rightarrow> unit io" where
  "touch result =
     (case Option.bind result ar_Account of
        None \<Rightarrow> ret ()
      | Some account \<Rightarrow>
          if da_Id account = [] then ret ()
          else
            bindM (getM w_outside) (\<lambda>out.
            bindM (if o_cache out then attempt external else ret (Inr 0)) (\<lambda>r.
            let throttled = (case r of Inl e \<Rightarrow> False
                  | Inr k \<Rightarrow> o_cache out \<and> o_flag out k (o_touch_key out (da_Id account)));
                raw = (case Option.bind result ar_Session of None \<Rightarrow> [] | Some s \<Rightarrow> ds_Id s);
                sessionID = (if o_parse_uuid out raw = None then [] else raw)
            in if throttled then ret ()
               else
                 bindM time_now (\<lambda>now.
                 seqM (whenM (o_bus out) (swallow (bindM external (\<lambda>k. modifyM (\<lambda>w.
                     w\<lparr>w_last_active := w_last_active w
                       @ [\<lparr>la_AccountID = da_Id account, la_SessionID = sessionID, la_SeenAt = now\<rparr>]\<rparr>)))))
                   (whenM (o_cache out) (swallow external))))))"

section \<open>Authentication\<close>

text \<open>
  \<open>Auth\<close>: extracting a token and validating it are the shared \<open>auth\<close> package's, so the middleware
  gets the outcome: no token, a token that does not authenticate (both leave the request
  anonymous), or a result, which is stored in the request. Hydrating the profile changes only the
  account's profile, which the program does not read.
\<close>

datatype token_outcome = NoToken | TokenRefused go_error | TokenAccepted auth_result

definition auth_middleware :: "token_outcome \<Rightarrow> handler \<Rightarrow> handler" where
  "auth_middleware outcome next_handler rq =
     (case outcome of
        NoToken \<Rightarrow> next_handler (rq\<lparr>rq_Auth := None\<rparr>)
      | TokenRefused e \<Rightarrow> next_handler (rq\<lparr>rq_Auth := None\<rparr>)
      | TokenAccepted result \<Rightarrow>
          seqM (touch (Some result)) (next_handler (rq\<lparr>rq_Auth := Some result\<rparr>)))"

text \<open>
  A gate is a middleware between a route and its handler: it answers the request itself (\<open>Abort\<close>) or
  passes it on (None, gin's \<open>Next\<close>).
\<close>

type_synonym gate = "http_request \<Rightarrow> http_response option io"

definition require_auth :: gate where
  "require_auth rq = ret (if current_user rq = None then Some unauthorized else None)"

section \<open>Scopes\<close>

definition preset_scopes :: "string list" where
  "preset_scopes = [''openid'', ''profile'', ''email'', ''*'']"

definition has_full_scope :: "string list \<Rightarrow> bool" where
  "has_full_scope scopes = list_ex (\<lambda>scope. scope = ''*'') scopes"

fun matched_scope :: "string list \<Rightarrow> string \<Rightarrow> string option" where
  "matched_scope [] permissionKey = None"
| "matched_scope (rawScope # scopes) permissionKey =
     (let scope = trim_space rawScope in
      if scope = [] then matched_scope scopes permissionKey
      else if equal_fold scope ''*'' then Some ''*''
      else if to_lower scope \<in> set preset_scopes then matched_scope scopes permissionKey
      else if equal_fold scope permissionKey then Some scope
      else if has_suffix scope ''.*''
          \<and> has_prefix (to_lower permissionKey) (to_lower (take (length scope - 1) scope))
        then Some scope
      else matched_scope scopes permissionKey)"

definition get_matched_permission_scope :: "string list \<Rightarrow> string \<Rightarrow> string option" where
  "get_matched_permission_scope scopes permissionKey =
     (if trim_space permissionKey = [] then None else matched_scope scopes permissionKey)"

definition is_permission_enabled :: "string list \<Rightarrow> string \<Rightarrow> bool" where
  "is_permission_enabled scopes permissionKey =
     (get_matched_permission_scope scopes permissionKey \<noteq> None)"

section \<open>The gate\<close>

definition forbidden :: "string \<Rightarrow> http_response" where
  "forbidden message = fail 403 (Unauthorized message)"

definition scope_omits :: "dy_session option \<Rightarrow> string \<Rightarrow> bool" where
  "scope_omits session key =
     (case session of
        None \<Rightarrow> False
      | Some s \<Rightarrow> ds_IsOauth s \<and> \<not> is_permission_enabled (ds_Scopes s) key)"

text \<open>The call to the permission service; a nil response counts as a denial.\<close>

definition remote_permission :: "string \<Rightarrow> string \<Rightarrow> bool io" where
  "remote_permission actor key =
     bindM external (\<lambda>k. bindM (getM w_outside) (\<lambda>out.
       ret (case o_has_permission out k actor key of None \<Rightarrow> False | Some b \<Rightarrow> b)))"

definition ask_permission :: "string \<Rightarrow> gate" where
  "ask_permission key rq =
     (case current_user rq of
        None \<Rightarrow> ret (Some (fail 401
          (Unauthorized ''Authentication is required before permission checks can run.'')))
      | Some user \<Rightarrow>
          let session = current_session rq in
          if (case session of None \<Rightarrow> False | Some s \<Rightarrow> has_full_scope (ds_Scopes s)) then ret None
          else if scope_omits session key then
            ret (Some (forbidden (''Permission '' @ key @ '' was omitted by token scope.'')))
          else if da_IsSuperuser user then ret None
          else
            bindM (getM w_outside) (\<lambda>out.
            if \<not> o_perm out then
              ret (Some (internal_error ''Permission service is not configured.''))
            else
              bindM (attempt (remote_permission (da_Id user) key)) (\<lambda>r.
                ret (case r of
                       Inl e \<Rightarrow> Some (internal_error ''Error checking permissions.'')
                     | Inr False \<Rightarrow> Some (forbidden (''Permission '' @ key @ '' was required.''))
                     | Inr True \<Rightarrow> None))))"

end
