(* ===== verification/Swagger.thy ===== *)
theory Swagger
  imports Web
begin

text \<open>
  \<open>internal/httpserver/adminctl/swagger.go\<close>: the OpenAPI manifest of the service, built from a table of
  routes, its JSON, and the two handlers that serve it. A Go map is an association list with one
  entry per key; what \<open>encoding/json\<close> makes of it is an object, whose entries have no order.
\<close>

section \<open>The document\<close>

record openapi_info =
  oai_Title :: string
  oai_Version :: string
  oai_Description :: string

record openapi_schema =
  oas_Type :: string
  oas_Format :: string

record openapi_parameter =
  oap_Name :: string
  oap_In :: string
  oap_Required :: bool
  oap_Schema :: openapi_schema

record openapi_schema_ref =
  osr_Ref :: string

record openapi_media_type =
  omt_Schema :: openapi_schema_ref

record openapi_response =
  oar_Description :: string
  oar_Content :: "(string \<times> openapi_media_type) list"

record openapi_operation =
  oao_Summary :: string
  oao_Tags :: "string list"
  oao_Parameters :: "openapi_parameter list"
  oao_Responses :: "(string \<times> openapi_response) list"

type_synonym openapi_path = "(string \<times> openapi_operation) list"

record openapi_schema_object =
  oso_Type :: string
  oso_Properties :: "(string \<times> openapi_schema) list"

record openapi_components =
  oac_Schemas :: "(string \<times> openapi_schema_object) list"

record openapi_doc =
  oad_OpenAPI :: string
  oad_Info :: openapi_info
  oad_Paths :: "(string \<times> openapi_path) list"
  oad_Components :: openapi_components

record route_spec =
  rs_path :: string
  rs_method :: string
  rs_tag :: string
  rs_summary :: string
  rs_params :: "string list"
  rs_notFound :: bool
  rs_forbidden :: bool

section \<open>Building it\<close>

text \<open>An em dash, in UTF-8.\<close>

definition em_dash :: string where
  "em_dash = [CHR 0xE2, CHR 0x80, CHR 0x94]"

definition api_error_response :: "string \<Rightarrow> openapi_response" where
  "api_error_response message =
     \<lparr>oar_Description = message,
      oar_Content = [(''application/json'', \<lparr>omt_Schema = \<lparr>osr_Ref = ''#/components/schemas/ApiError''\<rparr>\<rparr>)]\<rparr>"

definition standard_error_responses :: "(string \<times> openapi_response) list" where
  "standard_error_responses =
     [(''400'', api_error_response (''Bad request '' @ em_dash @ '' validation or semantic error'')),
      (''401'', api_error_response (''Unauthorized '' @ em_dash @ '' missing or invalid token''))]"

definition responses_of :: "route_spec \<Rightarrow> (string \<times> openapi_response) list" where
  "responses_of r =
     (let responses = foldl (\<lambda>m (code, resp). AList.update code resp m) [] standard_error_responses;
          responses = (if rs_forbidden r
            then AList.update ''403'' (api_error_response (''Forbidden '' @ em_dash @ '' missing permission'')) responses
            else responses);
          responses = (if rs_notFound r
            then AList.update ''404'' (api_error_response ''Not found'') responses else responses)
      in AList.update ''200'' \<lparr>oar_Description = ''Success'', oar_Content = []\<rparr> responses)"

definition path_parameter :: "string \<Rightarrow> openapi_parameter" where
  "path_parameter p =
     \<lparr>oap_Name = p, oap_In = ''path'', oap_Required = True,
      oap_Schema = \<lparr>oas_Type = ''string'', oas_Format = []\<rparr>\<rparr>"

definition operation_of :: "route_spec \<Rightarrow> openapi_operation" where
  "operation_of r =
     \<lparr>oao_Summary = rs_summary r, oao_Tags = [rs_tag r],
      oao_Parameters = map path_parameter (rs_params r), oao_Responses = responses_of r\<rparr>"

text \<open>One turn of the loop over the table: the operation goes under its method into the map of its path.\<close>

definition add_route :: "(string \<times> openapi_path) list \<Rightarrow> route_spec \<Rightarrow> (string \<times> openapi_path) list" where
  "add_route paths r =
     (let pathOps = (case map_of paths (rs_path r) of None \<Rightarrow> [] | Some ops \<Rightarrow> ops)
      in AList.update (rs_path r) (AList.update (rs_method r) (operation_of r) pathOps) paths)"

definition api_error_schema :: openapi_schema_object where
  "api_error_schema =
     \<lparr>oso_Type = ''object'',
      oso_Properties =
        [(''code'', \<lparr>oas_Type = ''string'', oas_Format = []\<rparr>),
         (''message'', \<lparr>oas_Type = ''string'', oas_Format = []\<rparr>),
         (''status'', \<lparr>oas_Type = ''integer'', oas_Format = ''int32''\<rparr>),
         (''traceId'', \<lparr>oas_Type = ''string'', oas_Format = []\<rparr>)]\<rparr>"

definition build_doc :: "string \<Rightarrow> string \<Rightarrow> route_spec list \<Rightarrow> openapi_doc" where
  "build_doc title description routes =
     \<lparr>oad_OpenAPI = ''3.0.1'',
      oad_Info = \<lparr>oai_Title = title, oai_Version = ''v1'', oai_Description = description\<rparr>,
      oad_Paths = foldl add_route [] routes,
      oad_Components = \<lparr>oac_Schemas = [(''ApiError'', api_error_schema)]\<rparr>\<rparr>"

section \<open>The routes it lists\<close>

abbreviation (input) route_spec_of ::
  "string \<Rightarrow> string \<Rightarrow> string \<Rightarrow> string \<Rightarrow> string list \<Rightarrow> bool \<Rightarrow> bool \<Rightarrow> route_spec" where
  "route_spec_of m p t s ps nf fb \<equiv>
     \<lparr>rs_path = p, rs_method = m, rs_tag = t, rs_summary = s, rs_params = ps, rs_notFound = nf,
      rs_forbidden = fb\<rparr>"

definition ring_routes :: "route_spec list" where
  "ring_routes =
     [route_spec_of ''GET'' ''/api/notifications/count'' ''Notifications''
        ''Count unread notifications'' [] False False,
      route_spec_of ''GET'' ''/api/notifications'' ''Notifications''
        ''List notifications (X-Total header)'' [] False False,
      route_spec_of ''POST'' ''/api/notifications/all/read'' ''Notifications''
        ''Mark all notifications viewed'' [] False True,
      route_spec_of ''PUT'' ''/api/notifications/subscription'' ''Notifications''
        ''Subscribe a device to push notifications'' [] False True,
      route_spec_of ''GET'' ''/api/notifications/subscription'' ''Notifications''
        (''List the account'' @ [CHR 39] @ ''s push subscriptions'') [] False False,
      route_spec_of ''GET'' ''/api/notifications/subscription/current'' ''Notifications''
        (''Get the current device'' @ [CHR 39] @ ''s active subscription'') [] False False,
      route_spec_of ''DELETE'' ''/api/notifications/subscription/{subscriptionId}'' ''Notifications''
        ''Unsubscribe a device'' [''subscriptionId''] False True,
      route_spec_of ''POST'' ''/api/notifications/send'' ''Notifications''
        ''Send a notification to accounts (batch)'' [] False True,
      route_spec_of ''GET'' ''/api/notifications/preferences'' ''Notifications''
        ''List notification preferences'' [] False False,
      route_spec_of ''GET'' ''/api/notifications/preferences/{topic}'' ''Notifications''
        (''Get a topic'' @ [CHR 39] @ ''s preference level'') [''topic''] False False,
      route_spec_of ''PUT'' ''/api/notifications/preferences/{topic}'' ''Notifications''
        (''Set a topic'' @ [CHR 39] @ ''s preference level'') [''topic''] False True,
      route_spec_of ''DELETE'' ''/api/notifications/preferences/{topic}'' ''Notifications''
        ''Delete a topic preference'' [''topic''] False True,
      route_spec_of ''POST'' ''/api/notifications/sop/subscription'' ''SOP''
        ''Register a SOP push token'' [] False True,
      route_spec_of ''GET'' ''/api/notifications/sop'' ''SOP''
        ''List notifications by SOP token (X-Total header)'' [] False False,
      route_spec_of ''GET'' ''/api/notifications/sop/stream'' ''SOP''
        ''Stream notifications over SSE'' [] False False,
      route_spec_of ''POST'' ''/api/admin/email-plans'' ''Email Plans''
        ''Create an email sending plan'' [] False True,
      route_spec_of ''GET'' ''/api/admin/email-plans'' ''Email Plans''
        ''List email sending plans (X-Total header)'' [] False True,
      route_spec_of ''GET'' ''/api/admin/email-plans/{planId}'' ''Email Plans''
        ''Get an email sending plan'' [''planId''] True True,
      route_spec_of ''POST'' ''/api/admin/email-plans/{planId}/pause'' ''Email Plans''
        ''Pause an email sending plan'' [''planId''] True True,
      route_spec_of ''POST'' ''/api/admin/email-plans/{planId}/resume'' ''Email Plans''
        ''Resume an email sending plan'' [''planId''] True True,
      route_spec_of ''POST'' ''/api/admin/email-plans/{planId}/advance'' ''Email Plans''
        ''Advance an email sending plan manually'' [''planId''] True True,
      route_spec_of ''GET'' ''/api/admin/delivery-observability/emails'' ''Delivery Observability''
        ''Email delivery overview'' [] False True,
      route_spec_of ''GET'' ''/api/admin/delivery-observability/notifications'' ''Delivery Observability''
        ''Notification delivery overview'' [] False True,
      route_spec_of ''GET'' ''/api/admin/stats'' ''Admin''
        ''Notification statistics'' [] False True]"

definition ring_swagger :: openapi_doc where
  "ring_swagger =
     build_doc ''DysonNetwork.Ring'' ''The realtime service in the Solar Network.'' ring_routes"

section \<open>Its JSON\<close>

text \<open>The struct tags: \<open>omitempty\<close> leaves out empty strings, slices and maps, and false.\<close>

definition omit_string :: "string \<Rightarrow> string \<Rightarrow> (string \<times> json) list" where
  "omit_string key v = (if v = [] then [] else [(key, JStr v)])"

definition omit_map :: "string \<Rightarrow> ('a \<Rightarrow> json) \<Rightarrow> (string \<times> 'a) list \<Rightarrow> (string \<times> json) list" where
  "omit_map key f m = (if m = [] then [] else [(key, JObj (map (\<lambda>(k, v). (k, f v)) m))])"

definition omit_list :: "string \<Rightarrow> ('a \<Rightarrow> json) \<Rightarrow> 'a list \<Rightarrow> (string \<times> json) list" where
  "omit_list key f xs = (if xs = [] then [] else [(key, JArr (map f xs))])"

definition schema_json :: "openapi_schema \<Rightarrow> json" where
  "schema_json s = JObj (omit_string ''type'' (oas_Type s) @ omit_string ''format'' (oas_Format s))"

definition parameter_json :: "openapi_parameter \<Rightarrow> json" where
  "parameter_json p =
     JObj ([(''name'', JStr (oap_Name p)), (''in'', JStr (oap_In p))]
       @ (if oap_Required p then [(''required'', JBool True)] else [])
       @ [(''schema'', schema_json (oap_Schema p))])"

definition media_type_json :: "openapi_media_type \<Rightarrow> json" where
  "media_type_json m = JObj [(''schema'', JObj (omit_string ''$ref'' (osr_Ref (omt_Schema m))))]"

definition response_json :: "openapi_response \<Rightarrow> json" where
  "response_json r =
     JObj ((''description'', JStr (oar_Description r)) # omit_map ''content'' media_type_json (oar_Content r))"

definition operation_json :: "openapi_operation \<Rightarrow> json" where
  "operation_json op =
     JObj (omit_string ''summary'' (oao_Summary op) @ omit_list ''tags'' JStr (oao_Tags op)
       @ omit_list ''parameters'' parameter_json (oao_Parameters op)
       @ [(''responses'', JObj (map (\<lambda>(k, r). (k, response_json r)) (oao_Responses op)))])"

definition path_json :: "openapi_path \<Rightarrow> json" where
  "path_json ops = JObj (map (\<lambda>(m, op). (m, operation_json op)) ops)"

definition schema_object_json :: "openapi_schema_object \<Rightarrow> json" where
  "schema_object_json s =
     JObj (omit_string ''type'' (oso_Type s) @ omit_map ''properties'' schema_json (oso_Properties s))"

definition info_json :: "openapi_info \<Rightarrow> json" where
  "info_json i =
     JObj ([(''title'', JStr (oai_Title i)), (''version'', JStr (oai_Version i))]
       @ omit_string ''description'' (oai_Description i))"

definition doc_json :: "openapi_doc \<Rightarrow> json" where
  "doc_json doc =
     JObj [(''openapi'', JStr (oad_OpenAPI doc)), (''info'', info_json (oad_Info doc)),
       (''paths'', JObj (map (\<lambda>(p, ops). (p, path_json ops)) (oad_Paths doc))),
       (''components'', JObj (omit_map ''schemas'' schema_object_json (oac_Schemas (oad_Components doc))))]"

section \<open>Serving it\<close>

text \<open>The page, line by line; \<open>dq\<close> is the quotation mark.\<close>

fun join_lines :: "string list \<Rightarrow> string" where
  "join_lines [] = []"
| "join_lines [l] = l"
| "join_lines (l # ls) = l @ CHR 0x0A # join_lines ls"

definition swagger_ui_html :: string where
  "swagger_ui_html =
     (let dq = [CHR 34] in join_lines
      [''<!DOCTYPE html>'',
       ''<html lang='' @ dq @ ''en'' @ dq @ ''>'',
       ''<head>'',
       ''  <meta charset='' @ dq @ ''UTF-8'' @ dq @ ''>'',
       ''  <title>DysonNetwork.Ring '' @ em_dash @ '' Swagger</title>'',
       ''  <link rel='' @ dq @ ''stylesheet'' @ dq @ '' href='' @ dq @ ''https://unpkg.com/swagger-ui-dist@5/swagger-ui.css'' @ dq @ ''>'',
       ''</head>'',
       ''<body>'',
       ''  <div id='' @ dq @ ''swagger-ui'' @ dq @ ''></div>'',
       ''  <script src='' @ dq @ ''https://unpkg.com/swagger-ui-dist@5/swagger-ui-bundle.js'' @ dq @ ''></script>'',
       ''  <script>'',
       ''    window.onload = function () {'',
       ''      SwaggerUIBundle({ url: '' @ dq @ ''/swagger/v1/swagger.json'' @ dq @ '', dom_id: '' @ dq @ ''#swagger-ui'' @ dq @ '' });'',
       ''    };'',
       ''  </script>'',
       ''</body>'',
       ''</html>''])"

definition serve_swagger :: "openapi_doc \<Rightarrow> handler" where
  "serve_swagger doc rq =
     ret \<lparr>hr_Status = 200, hr_Header = [], hr_Body = Document (doc_json doc)\<rparr>"

definition serve_swagger_ui :: handler where
  "serve_swagger_ui rq =
     ret \<lparr>hr_Status = 200, hr_Header = [(''Content-Type'', ''text/html; charset=utf-8'')],
       hr_Body = Html swagger_ui_html\<rparr>"

end
