(* ===== verification/Routes.thy ===== *)
theory Routes
  imports Notification_Ctl Sop_Ctl Admin_Ctl Permission Swagger
begin

text \<open>
  The route tree: what the \<open>Register\<close> functions of the three controllers and \<open>httpserver.New\<close> mount.
  A route is its method and path with the gates before its handler. The event stream of
  \<open>sopctl\<close>, which outlives one run of a handler, is represented by what opening it answers.
\<close>

datatype endpoint = Plain handler | MayDiverge "http_request \<Rightarrow> http_response partial_io"

record route =
  rt_Method :: string
  rt_Path :: string
  rt_Gates :: "gate list"
  rt_Endpoint :: endpoint

abbreviation (input) route_to :: "string \<Rightarrow> string \<Rightarrow> gate list \<Rightarrow> handler \<Rightarrow> route" where
  "route_to m p gates h \<equiv> \<lparr>rt_Method = m, rt_Path = p, rt_Gates = gates, rt_Endpoint = Plain h\<rparr>"

definition notification_routes :: "route list" where
  "notification_routes =
     [route_to ''GET'' ''/notifications/count'' [require_auth] count_unread,
      route_to ''GET'' ''/notifications'' [require_auth] list_handler,
      route_to ''POST'' ''/notifications/all/read''
        [require_auth, ask_permission ''notifications.read.all''] mark_all_read,
      route_to ''PUT'' ''/notifications/subscription''
        [require_auth, ask_permission ''notifications.subscriptions.manage''] subscribe,
      route_to ''GET'' ''/notifications/subscription'' [require_auth] list_subscriptions_handler,
      route_to ''GET'' ''/notifications/subscription/current'' [require_auth] current_subscription,
      route_to ''DELETE'' ''/notifications/subscription/:subscriptionId''
        [require_auth, ask_permission ''notifications.subscriptions.manage''] unsubscribe,
      route_to ''POST'' ''/notifications/send''
        [require_auth, ask_permission ''notifications.send''] send_handler,
      route_to ''GET'' ''/notifications/preferences'' [require_auth] list_preferences_handler,
      route_to ''GET'' ''/notifications/preferences/:topic'' [require_auth] get_preference_handler,
      route_to ''PUT'' ''/notifications/preferences/:topic''
        [require_auth, ask_permission ''notifications.preferences.manage''] set_preference_handler,
      route_to ''DELETE'' ''/notifications/preferences/:topic''
        [require_auth, ask_permission ''notifications.preferences.manage''] delete_preference_handler]"

definition stream_answer :: handler where
  "stream_answer rq =
     bindM (open_stream rq) (\<lambda>opened. ret (case opened of
         Inl refusal \<Rightarrow> refusal
       | Inr conn \<Rightarrow> \<lparr>hr_Status = 200,
           hr_Header = [(''Content-Type'', ''text/event-stream''), (''Cache-Control'', ''no-cache''),
             (''Connection'', ''keep-alive'')],
           hr_Body = EventStream stream_opening\<rparr>))"

definition sop_routes :: "route list" where
  "sop_routes =
     [route_to ''POST'' ''/notifications/sop/subscription''
        [require_auth, ask_permission ''notifications.sop.subscribe''] register_sop_token_handler,
      route_to ''GET'' ''/notifications/sop'' [] list_by_sop_token,
      route_to ''GET'' ''/notifications/sop/stream'' [] stream_answer]"

definition admin_routes :: "route list" where
  "admin_routes =
     [\<lparr>rt_Method = ''POST'', rt_Path = ''/admin/email-plans'',
       rt_Gates = [require_auth, ask_permission ''emails.send''],
       rt_Endpoint = MayDiverge create_plan_handler\<rparr>,
      route_to ''GET'' ''/admin/email-plans'' [require_auth, ask_permission ''emails.send'']
        list_plans_handler,
      route_to ''GET'' ''/admin/email-plans/:planId'' [require_auth, ask_permission ''emails.send'']
        get_plan_handler,
      route_to ''POST'' ''/admin/email-plans/:planId/pause''
        [require_auth, ask_permission ''emails.send''] pause_plan_handler,
      route_to ''POST'' ''/admin/email-plans/:planId/resume''
        [require_auth, ask_permission ''emails.send''] resume_plan_handler,
      route_to ''POST'' ''/admin/email-plans/:planId/advance''
        [require_auth, ask_permission ''emails.send''] advance_plan_handler,
      route_to ''GET'' ''/admin/delivery-observability/emails''
        [require_auth, ask_permission ''emails.send''] email_delivery_overview_handler,
      route_to ''GET'' ''/admin/delivery-observability/notifications''
        [require_auth, ask_permission ''notifications.send''] notification_delivery_overview_handler,
      route_to ''GET'' ''/admin/stats'' [require_auth, ask_permission ''notifications.send'']
        stats_handler]"

definition health_routes :: "route list" where
  "health_routes =
     [route_to ''GET'' ''/health'' [] (\<lambda>rq. ret empty_ok), route_to ''GET'' ''/alive'' [] (\<lambda>rq. ret empty_ok)]"

definition swagger_routes :: "route list" where
  "swagger_routes =
     [route_to ''GET'' ''/swagger/v1/swagger.json'' [] (serve_swagger ring_swagger),
      route_to ''GET'' ''/swagger'' [] serve_swagger_ui]"

text \<open>The routes of the controllers, which \<open>httpserver.Register\<close> puts under \<open>/api\<close>.\<close>

definition api_prefix :: string where
  "api_prefix = ''/api''"

definition api_routes :: "route list" where
  "api_routes = notification_routes @ sop_routes @ admin_routes"

text \<open>The gates in turn, then the handler; the first gate that answers ends the chain.\<close>

fun through_gates :: "gate list \<Rightarrow> http_request \<Rightarrow> http_response option io" where
  "through_gates [] rq = ret None"
| "through_gates (g # gs) rq =
     bindM (g rq) (\<lambda>answer. case answer of Some r \<Rightarrow> ret (Some r) | None \<Rightarrow> through_gates gs rq)"

definition run_endpoint :: "endpoint \<Rightarrow> http_request \<Rightarrow> http_response partial_io" where
  "run_endpoint e rq w = (case e of Plain h \<Rightarrow> Some (h rq w) | MayDiverge h \<Rightarrow> h rq w)"

definition serve :: "route \<Rightarrow> http_request \<Rightarrow> http_response partial_io" where
  "serve rt rq w =
     (case through_gates (rt_Gates rt) rq w of
        (Inl e, w') \<Rightarrow> Some (Inl e, w')
      | (Inr (Some r), w') \<Rightarrow> Some (Inr r, w')
      | (Inr None, w') \<Rightarrow> run_endpoint (rt_Endpoint rt) rq w')"

end
