(* ===== verification/Handler_Facts.thy ===== *)
theory Handler_Facts
  imports Routes Web_Facts
begin

text \<open>
  What each handler of the route tables answers with: always a response, and only with the statuses
  of its kind.
\<close>

section \<open>The statuses\<close>

definition basic_statuses :: "int set" where
  "basic_statuses = {200, 400, 401, 500}"

definition new_plan_statuses :: "int set" where
  "new_plan_statuses = {200, 400, 401, 409, 500}"

definition plan_statuses :: "int set" where
  "plan_statuses = {200, 400, 404, 409, 500}"

lemma in_statuses [simp]:
  "200 \<in> basic_statuses" "400 \<in> basic_statuses" "401 \<in> basic_statuses" "500 \<in> basic_statuses"
  "200 \<in> new_plan_statuses" "400 \<in> new_plan_statuses" "401 \<in> new_plan_statuses"
  "409 \<in> new_plan_statuses" "500 \<in> new_plan_statuses"
  "200 \<in> plan_statuses" "400 \<in> plan_statuses" "404 \<in> plan_statuses" "409 \<in> plan_statuses"
  "500 \<in> plan_statuses"
  by (simp_all add: basic_statuses_def new_plan_statuses_def plan_statuses_def)

lemmas status_intros = answers_intros in_statuses

section \<open>The handlers\<close>

text \<open>The handlers, each by the rules for its parts.\<close>

lemma count_unread_answers: "answers basic_statuses (count_unread rq)"
  unfolding count_unread_def by (intro status_intros)

lemma list_handler_answers: "answers basic_statuses (list_handler rq)"
  unfolding list_handler_def by (intro status_intros)

lemma mark_all_read_answers: "answers basic_statuses (mark_all_read rq)"
  unfolding mark_all_read_def by (intro status_intros)

lemma list_subscriptions_handler_answers: "answers basic_statuses (list_subscriptions_handler rq)"
  unfolding list_subscriptions_handler_def by (intro status_intros)

lemma current_subscription_answers: "answers basic_statuses (current_subscription rq)"
  unfolding current_subscription_def by (intro status_intros)

lemma list_preferences_handler_answers: "answers basic_statuses (list_preferences_handler rq)"
  unfolding list_preferences_handler_def by (intro status_intros)

lemma get_preference_handler_answers: "answers basic_statuses (get_preference_handler rq)"
  unfolding get_preference_handler_def by (intro status_intros)

lemma delete_preference_handler_answers: "answers basic_statuses (delete_preference_handler rq)"
  unfolding delete_preference_handler_def by (intro status_intros)

lemma unsubscribe_answers: "answers basic_statuses (unsubscribe rq)"
  unfolding unsubscribe_def parse_uuid_param_def by (intro status_intros)

lemma send_handler_answers: "answers basic_statuses (send_handler rq)"
  unfolding send_handler_def by (intro status_intros)

lemma set_preference_answers: "answers basic_statuses (set_preference_handler rq)"
  unfolding set_preference_handler_def by (intro status_intros)

lemma active_sop_infallible: "infallible (active_sop rq accountID)"
  unfolding active_sop_def by (intro status_intros)

lemma check_subscribe_refuses: "check_subscribe out bound = Inl refusal \<Longrightarrow> responds basic_statuses refusal"
  by (auto simp: check_subscribe_def Let_def intro: status_intros split: option.splits if_splits)

lemma answers_check_subscribe:
  "(\<And>x. answers basic_statuses (f x)) \<Longrightarrow>
   answers basic_statuses (case check_subscribe out bound of Inl refusal \<Rightarrow> ret refusal | Inr x \<Rightarrow> f x)"
  using check_subscribe_refuses by (auto intro: answers_ret split: sum.splits)

lemma subscribe_answers: "answers basic_statuses (subscribe rq)"
  unfolding subscribe_def
  by (intro status_intros answers_check_subscribe active_sop_infallible)

lemma register_sop_token_handler_answers: "answers basic_statuses (register_sop_token_handler rq)"
  unfolding register_sop_token_handler_def by (intro status_intros)

lemma list_by_sop_token_answers: "answers basic_statuses (list_by_sop_token rq)"
  unfolding list_by_sop_token_def mark_sop_delivery_read_async_def mark_sop_delivery_read_def
  by (intro status_intros)

lemma plan_answers_respond:
  "responds plan_statuses plan_missing" "responds plan_statuses (plan_conflict code e)"
  "responds basic_statuses (overview_failure e)" "responds basic_statuses invalid_range"
  "responds new_plan_statuses (create_plan_failure e)" "responds new_plan_statuses (answer_plan r)"
  by (auto simp: plan_missing_def plan_conflict_def overview_failure_def invalid_range_def
      create_plan_failure_def answer_plan_def intro!: status_intros split: sum.splits)

lemma list_plans_handler_answers: "answers basic_statuses (list_plans_handler rq)"
  unfolding list_plans_handler_def by (intro status_intros plan_answers_respond)

lemma get_plan_handler_answers: "answers plan_statuses (get_plan_handler rq)"
  unfolding get_plan_handler_def parse_plan_id_def by (intro status_intros plan_answers_respond)

lemma pause_plan_handler_answers: "answers plan_statuses (pause_plan_handler rq)"
  unfolding pause_plan_handler_def parse_plan_id_def by (intro status_intros plan_answers_respond)

lemma resume_plan_handler_answers: "answers plan_statuses (resume_plan_handler rq)"
  unfolding resume_plan_handler_def parse_plan_id_def by (intro status_intros plan_answers_respond)

lemma advance_plan_handler_answers: "answers plan_statuses (advance_plan_handler rq)"
  unfolding advance_plan_handler_def parse_plan_id_def by (intro status_intros plan_answers_respond)

lemma stats_handler_answers: "answers basic_statuses (stats_handler rq)"
  unfolding stats_handler_def by (intro status_intros plan_answers_respond)

lemma email_delivery_overview_handler_answers: "answers basic_statuses (email_delivery_overview_handler rq)"
  unfolding email_delivery_overview_handler_def with_range_def by (intro status_intros plan_answers_respond)

lemma notification_delivery_overview_handler_answers: "answers basic_statuses (notification_delivery_overview_handler rq)"
  unfolding notification_delivery_overview_handler_def with_range_def by (intro status_intros plan_answers_respond)

lemma open_stream_infallible: "infallible (open_stream rq)"
  unfolding open_stream_def sop_subscription_of_def subscribe_sop_stream_def unsubscribe_sop_stream_def Let_def
  by (intro status_intros infallible_case_prod)

lemma open_stream_refuses: "open_stream rq w = (Inr (Inl refusal), w') \<Longrightarrow> responds basic_statuses refusal"
  by (auto simp: open_stream_def io_iffs split: option.splits if_splits intro!: status_intros)

lemma stream_answer_answers: "answers basic_statuses (stream_answer rq)"
  unfolding answers_def
proof (rule allI)
  fix w
  obtain opened w' where "open_stream rq w = (Inr opened, w')"
    using open_stream_infallible run_exists unfolding infallible_def by blast
  then show "case fst (stream_answer rq w) of Inl e \<Rightarrow> False | Inr r \<Rightarrow> responds basic_statuses r"
    using open_stream_refuses
    by (auto simp: stream_answer_def bindM_def ret_def responds_def split: sum.splits)
qed

lemma swagger_answers:
  "answers basic_statuses (serve_swagger doc rq)" "answers basic_statuses (serve_swagger_ui rq)"
  by (simp_all add: serve_swagger_def serve_swagger_ui_def answers_def responds_def ret_def)

lemma health_answers: "answers basic_statuses (ret empty_ok)"
  by (intro status_intros)

text \<open>Creating a plan may page for ever; when it ends, it ends in a response.\<close>

lemma create_plan_handler_answers:
  "create_plan_handler rq w = Some (r, w') \<Longrightarrow> \<exists>resp. r = Inr resp \<and> responds new_plan_statuses resp"
  by (auto simp: create_plan_handler_def check_plan_request_def
      intro!: status_intros plan_answers_respond split: option.splits if_splits)

lemmas handlers_answer = count_unread_answers list_handler_answers mark_all_read_answers
  list_subscriptions_handler_answers current_subscription_answers list_preferences_handler_answers
  get_preference_handler_answers delete_preference_handler_answers unsubscribe_answers
  send_handler_answers set_preference_answers subscribe_answers register_sop_token_handler_answers
  list_by_sop_token_answers stream_answer_answers list_plans_handler_answers get_plan_handler_answers
  pause_plan_handler_answers resume_plan_handler_answers advance_plan_handler_answers
  stats_handler_answers email_delivery_overview_handler_answers
  notification_delivery_overview_handler_answers swagger_answers health_answers

end
