(* ===== verification/Permission_Facts.thy ===== *)
theory Permission_Facts
  imports Permission
begin

text \<open>
  What the permission gate lets through: scopes by what they grant, and the gate against that.
\<close>

section \<open>What a scope grants\<close>

text \<open>
  A scope is trimmed and compared without case: \<open>*\<close> grants every key, the other preset scopes none,
  any other scope the key of its own name, and one that ends in \<open>.*\<close> the keys that continue it.
\<close>

definition scope_grants :: "string \<Rightarrow> string \<Rightarrow> bool" where
  "scope_grants key rawScope =
     (let scope = to_lower (trim_space rawScope) in
      scope = ''*'' \<or>
      scope \<notin> set preset_scopes \<and> scope \<noteq> []
        \<and> (scope = to_lower key
           \<or> (\<exists>stem. scope = stem @ ''.*'' \<and> has_prefix (to_lower key) (stem @ ''.''))))"

lemma is_lower_lower_char: "is_upper c \<Longrightarrow> is_lower (lower_char c)"
  using of_char_lower_char [of c] by (simp add: is_lower_def is_upper_def less_eq_char_def)

lemma lower_char_other: "lower_char c = d \<Longrightarrow> \<not> is_lower d \<Longrightarrow> c = d"
  by (cases "is_upper c") (auto simp: lower_char_id dest: is_lower_lower_char)

lemma to_lower_star_suffix:
  "to_lower s = stem @ ''.*'' \<longleftrightarrow> (\<exists>t. s = t @ ''.*'' \<and> to_lower t = stem)"
proof
  assume "to_lower s = stem @ ''.*''"
  then obtain t v where s: "s = t @ v" "to_lower t = stem" "to_lower v = ''.*''"
    unfolding to_lower_def by (metis map_eq_append_conv)
  from s(3) obtain a b where v: "v = [a, b]" "lower_char a = CHR ''.''" "lower_char b = CHR ''*''"
    unfolding to_lower_def by (auto simp: map_eq_Cons_conv)
  have "a = CHR ''.''" "b = CHR ''*''"
    using lower_char_other [OF v(2)] lower_char_other [OF v(3)] by (simp_all add: char_class_defs)
  then show "\<exists>t. s = t @ ''.*'' \<and> to_lower t = stem" using s(1,2) v(1) by blast
qed (auto simp: to_lower_def lower_char_def char_class_defs)

text \<open>The wildcard of the code against that of the description.\<close>

lemma wildcard_iff:
  "has_suffix scope ''.*'' \<and> has_prefix key (to_lower (take (length scope - 1) scope))
    \<longleftrightarrow> (\<exists>stem. to_lower scope = stem @ ''.*'' \<and> has_prefix key (stem @ ''.''))"
proof -
  have dot: "to_lower (take (length scope - 1) scope) = to_lower t @ ''.''" if "scope = t @ ''.*''" for t
    using that by (simp add: to_lower_def lower_char_def char_class_defs)
  show ?thesis
    unfolding has_suffix_iff to_lower_star_suffix using dot by auto
qed

lemma matched_scope_iff: "matched_scope scopes key \<noteq> None \<longleftrightarrow> (\<exists>s \<in> set scopes. scope_grants key s)"
proof (induction scopes)
  case (Cons s scopes)
  let ?s = "trim_space s"
  have star: "to_lower ''*'' = ''*''"
    by (simp add: to_lower_def lower_char_def char_class_defs)
  have "matched_scope (s # scopes) key \<noteq> None
      \<longleftrightarrow> scope_grants key s \<or> matched_scope scopes key \<noteq> None"
    using wildcard_iff [of ?s "to_lower key"]
    by (auto simp: scope_grants_def Let_def star equal_fold_def)
  then show ?case using Cons by simp
qed simp

lemma permission_enabled_iff:
  "is_permission_enabled scopes key \<longleftrightarrow> \<not> blank key \<and> (\<exists>s \<in> set scopes. scope_grants key s)"
  by (cases "blank key")
    (simp_all add: is_permission_enabled_def get_matched_permission_scope_def blank_def matched_scope_iff
      del: not_None_eq)

section \<open>The gate\<close>

text \<open>
  Whether the service may be used for a key: the account is known, and either its session has the full
  scope, or no OAuth scope omits the key and the account is a superuser or holds the permission.
\<close>

definition permitted :: "string \<Rightarrow> http_request \<Rightarrow> world \<Rightarrow> bool" where
  "permitted key rq w \<longleftrightarrow>
     (case current_user rq of
        None \<Rightarrow> False
      | Some user \<Rightarrow>
          let scopes = (case current_session rq of None \<Rightarrow> [] | Some s \<Rightarrow> ds_Scopes s);
              oauth = (case current_session rq of None \<Rightarrow> False | Some s \<Rightarrow> ds_IsOauth s)
          in ''*'' \<in> set scopes
           \<or> (oauth \<longrightarrow> \<not> blank key \<and> (\<exists>s \<in> set scopes. scope_grants key s))
             \<and> (da_IsSuperuser user
                \<or> o_perm (w_outside w) \<and> o_fault (w_outside w) (w_tick w) = None
                  \<and> o_has_permission (w_outside w) (w_tick w) (da_Id user) key = Some True))"

lemma same_tick: "\<exists>k. w = w\<lparr>w_tick := k\<rparr>"
  by (rule exI [of _ "w_tick w"]) simp

lemma has_full_scope_iff: "has_full_scope scopes \<longleftrightarrow> ''*'' \<in> set scopes"
  by (induction scopes) (auto simp: has_full_scope_def)

lemma ask_permission_run:
  "if permitted key rq w
   then \<exists>k. ask_permission key rq w = (Inr None, w\<lparr>w_tick := k\<rparr>)
   else \<exists>r k. ask_permission key rq w = (Inr (Some r), w\<lparr>w_tick := k\<rparr>) \<and> hr_Status r \<in> {401, 403, 500}"
proof (cases "current_user rq")
  case None
  then show ?thesis
    by (auto simp: permitted_def ask_permission_def ret_def fail_def intro: exI [of _ "w_tick w"])
next
  case (Some user)
  define scopes where "scopes = (case current_session rq of None \<Rightarrow> [] | Some s \<Rightarrow> ds_Scopes s)"
  define omitted where
    "omitted = ((case current_session rq of None \<Rightarrow> False | Some s \<Rightarrow> ds_IsOauth s)
       \<and> \<not> (\<not> blank key \<and> (\<exists>s \<in> set scopes. scope_grants key s)))"
  define held where
    "held = (o_has_permission (w_outside w) (w_tick w) (da_Id user) key = Some True)"
  have allowed: "permitted key rq w \<longleftrightarrow> ''*'' \<in> set scopes \<or> \<not> omitted \<and> (da_IsSuperuser user
      \<or> o_perm (w_outside w) \<and> o_fault (w_outside w) (w_tick w) = None \<and> held)"
    using Some unfolding permitted_def scopes_def omitted_def held_def Let_def by auto
  have session: "(case current_session rq of None \<Rightarrow> False | Some s \<Rightarrow> has_full_scope (ds_Scopes s))
      \<longleftrightarrow> ''*'' \<in> set scopes" "scope_omits (current_session rq) key \<longleftrightarrow> omitted"
    by (auto simp: scopes_def omitted_def scope_omits_def has_full_scope_iff permission_enabled_iff
        split: option.splits)
  have remote: "remote_permission (da_Id user) key w
      = (case o_fault (w_outside w) (w_tick w) of None \<Rightarrow> Inr held | Some e \<Rightarrow> Inl e,
         w\<lparr>w_tick := Suc (w_tick w)\<rparr>)"
    by (auto simp: remote_permission_def prog_simps external_def held_def Let_def split: option.splits)
  show ?thesis
    unfolding allowed ask_permission_def Some option.case Let_def session
    using same_tick [of w]
    by (auto simp: prog_simps remote forbidden_def internal_error_def fail_def
        split: option.splits bool.splits)
qed

end
