(* ===== verification/Routes_Facts.thy ===== *)
theory Routes_Facts
  imports Handler_Facts Permission_Facts
begin

text \<open>
  What serving a request does whichever route it is for: it ends in a response, and what is behind a
  gate is reached only through it.
\<close>

section \<open>Gates\<close>

text \<open>Who may use a route: the policy the gates are to enforce.\<close>

datatype access = Open | SignedIn | Holding string

definition key_of_write :: "string \<Rightarrow> string" where
  "key_of_write path =
     (if has_prefix path ''/notifications/subscription'' then ''notifications.subscriptions.manage''
      else if has_prefix path ''/notifications/preferences/'' then ''notifications.preferences.manage''
      else if path = ''/notifications/sop/subscription'' then ''notifications.sop.subscribe''
      else if path = ''/notifications/all/read'' then ''notifications.read.all''
      else ''notifications.send'')"

definition access_of :: "route \<Rightarrow> access" where
  "access_of rt =
     (if has_prefix (rt_Path rt) ''/admin/email-plans'' then Holding ''emails.send''
      else if rt_Path rt = ''/admin/delivery-observability/emails'' then Holding ''emails.send''
      else if has_prefix (rt_Path rt) ''/admin/'' then Holding ''notifications.send''
      else if rt_Method rt \<noteq> ''GET'' then Holding (key_of_write (rt_Path rt))
      else if has_prefix (rt_Path rt) ''/notifications/sop'' then Open
      else SignedIn)"

fun allowed :: "access \<Rightarrow> http_request \<Rightarrow> world \<Rightarrow> bool" where
  "allowed Open rq w = True"
| "allowed SignedIn rq w = (current_user rq \<noteq> None)"
| "allowed (Holding key) rq w = permitted key rq w"

fun gates_for :: "access \<Rightarrow> gate list" where
  "gates_for Open = []"
| "gates_for SignedIn = [require_auth]"
| "gates_for (Holding key) = [require_auth, ask_permission key]"

fun refusals :: "access \<Rightarrow> int set" where
  "refusals Open = {}"
| "refusals SignedIn = {401}"
| "refusals (Holding key) = {401, 403, 500}"

text \<open>
  What the routes rely on in a gate: it passes a request on or answers it with one of its refusals,
  and changes nothing but the count of interactions. A free gate does not even interact.
\<close>

locale gate_contract =
  fixes g :: gate
    and passes :: "http_request \<Rightarrow> world \<Rightarrow> bool"
    and refused_with :: "int set"
  assumes pass: "passes rq w \<Longrightarrow> fst (g rq w) = Inr None"
    and refuse: "\<not> passes rq w \<Longrightarrow> \<exists>r. fst (g rq w) = Inr (Some r) \<and> hr_Status r \<in> refused_with"
    and touches: "\<exists>k. snd (g rq w) = w\<lparr>w_tick := k\<rparr>"
begin

lemma through_pass: "passes rq w \<Longrightarrow> through_gates (g # gs) rq w = through_gates gs rq (snd (g rq w))"
  using pass [of rq w] by (cases "g rq w") (simp add: bindM_def)

lemma through_refuse:
  "\<not> passes rq w \<Longrightarrow>
     \<exists>r k. through_gates (g # gs) rq w = (Inr (Some r), w\<lparr>w_tick := k\<rparr>) \<and> hr_Status r \<in> refused_with"
  using refuse [of rq w] touches [of rq w] by (cases "g rq w") (auto simp: bindM_def ret_def)

end

locale free_gate = gate_contract +
  assumes free: "snd (g rq w) = w"
begin

lemma through_free: "passes rq w \<Longrightarrow> through_gates (g # gs) rq w = through_gates gs rq w"
  using through_pass free by simp

end

interpretation auth_gate: free_gate require_auth "\<lambda>rq w. current_user rq \<noteq> None" "{401}"
  by unfold_locales
    (auto simp: require_auth_def ret_def unauthorized_def fail_def same_tick)

interpretation permission_gate: gate_contract "ask_permission key" "permitted key" "{401, 403, 500}" for key
proof
  fix rq w
  note run = ask_permission_run [of key rq w]
  show "permitted key rq w \<Longrightarrow> fst (ask_permission key rq w) = Inr None" using run by auto
  show "\<not> permitted key rq w \<Longrightarrow>
      \<exists>r. fst (ask_permission key rq w) = Inr (Some r) \<and> hr_Status r \<in> {401, 403, 500}"
    using run by auto
  show "\<exists>k. snd (ask_permission key rq w) = w\<lparr>w_tick := k\<rparr>" using run by (auto split: if_splits)
qed

lemma permitted_signed_in: "permitted key rq w \<Longrightarrow> current_user rq \<noteq> None"
  by (cases "current_user rq") (simp_all add: permitted_def)

lemma through_access_gates:
  "if allowed a rq w
   then \<exists>k. through_gates (gates_for a) rq w = (Inr None, w\<lparr>w_tick := k\<rparr>)
   else \<exists>r k. through_gates (gates_for a) rq w = (Inr (Some r), w\<lparr>w_tick := k\<rparr>) \<and> hr_Status r \<in> refusals a"
proof -
  show ?thesis
  proof (cases a)
    case Open
    then show ?thesis using same_tick [of w] by (simp add: ret_def)
  next
    case SignedIn
    then show ?thesis
      using auth_gate.through_free [where rq = rq and w = w and gs = "[]"]
        auth_gate.through_refuse [where rq = rq and w = w and gs = "[]"] same_tick [of w]
      by (simp add: through_gates.simps(1) ret_def del: through_gates.simps(2))
  next
    case (Holding key)
    let ?gates = "[require_auth, ask_permission key]"
    consider "current_user rq = None" | "current_user rq \<noteq> None" "\<not> permitted key rq w" | "permitted key rq w"
      by blast
    then show ?thesis
    proof cases
      case 1
      then have "\<not> allowed a rq w" using Holding by (simp add: permitted_def)
      moreover have "\<exists>r k. through_gates ?gates rq w = (Inr (Some r), w\<lparr>w_tick := k\<rparr>) \<and> hr_Status r \<in> {401}"
        using 1 by (intro auth_gate.through_refuse) simp
      ultimately show ?thesis using Holding by (auto simp del: through_gates.simps)
    next
      case 2
      then show ?thesis
        using Holding auth_gate.through_free [where rq = rq and w = w and gs = "[ask_permission key]"]
          permission_gate.through_refuse [where key = key and rq = rq and w = w and gs = "[]"]
        by (simp del: through_gates.simps)
    next
      case 3
      obtain k where "snd (ask_permission key rq w) = w\<lparr>w_tick := k\<rparr>"
        using permission_gate.touches by blast
      then show ?thesis
        using 3 Holding permitted_signed_in [OF 3] auth_gate.through_free [where rq = rq and w = w and gs = "[ask_permission key]"]
          permission_gate.through_pass [where key = key and rq = rq and w = w and gs = "[]"]
        by (auto simp: through_gates.simps(1) ret_def simp del: through_gates.simps(2))
    qed
  qed
qed

lemma serve_through_gates:
  assumes gates: "rt_Gates rt = gates_for (access_of rt)"
  shows "if allowed (access_of rt) rq w
    then \<exists>k. serve rt rq w = run_endpoint (rt_Endpoint rt) rq (w\<lparr>w_tick := k\<rparr>)
    else \<exists>r k. serve rt rq w = Some (Inr r, w\<lparr>w_tick := k\<rparr>) \<and> hr_Status r \<in> refusals (access_of rt)"
  using through_access_gates [of "access_of rt" rq w] by (auto simp: serve_def gates split: if_splits)

lemma refusals_are: "refusals a \<subseteq> {401, 403, 500}"
  by (cases a) auto

lemmas route_tables = api_routes_def notification_routes_def sop_routes_def admin_routes_def

lemma routes_have_their_gates: "list_all (\<lambda>rt. rt_Gates rt = gates_for (access_of rt)) api_routes"
  by (simp add: route_tables access_of_def key_of_write_def has_prefix_def)

text \<open>C8: the routes enforce the access policy. A request the policy allows reaches the handler, with
  nothing changed but the count of interactions; any other is answered 401, 403 or 500 and has
  changed nothing: everything under \<open>/admin\<close> and every write needs a permission, every read of the
  account's own data an account, and only the two SOP reads, which carry a token, are open.\<close>

theorem routes_enforce_access:
  "list_all (\<lambda>rt. \<forall>rq w.
     if allowed (access_of rt) rq w
     then \<exists>k. serve rt rq w = run_endpoint (rt_Endpoint rt) rq (w\<lparr>w_tick := k\<rparr>)
     else \<exists>r k. serve rt rq w = Some (Inr r, w\<lparr>w_tick := k\<rparr>) \<and> hr_Status r \<in> {401, 403, 500})
   api_routes"
  unfolding list_all_iff
proof (intro ballI allI)
  fix rt rq w
  assume "rt \<in> set api_routes"
  then have "rt_Gates rt = gates_for (access_of rt)"
    using routes_have_their_gates unfolding list_all_iff by blast
  from serve_through_gates [OF this, of rq w] refusals_are [of "access_of rt"]
  show "if allowed (access_of rt) rq w
     then \<exists>k. serve rt rq w = run_endpoint (rt_Endpoint rt) rq (w\<lparr>w_tick := k\<rparr>)
     else \<exists>r k. serve rt rq w = Some (Inr r, w\<lparr>w_tick := k\<rparr>) \<and> hr_Status r \<in> {401, 403, 500}"
    by (simp split: if_splits) blast
qed

section \<open>Every request is answered\<close>

text \<open>\<open>ends_in S r\<close>: a run that ended, ended in a response with one of the statuses \<open>S\<close>.\<close>

definition ends_in :: "int set \<Rightarrow> ((go_error + http_response) \<times> world) option \<Rightarrow> bool" where
  "ends_in S r \<longleftrightarrow>
     (case r of
        None \<Rightarrow> True
      | Some (Inl e, w') \<Rightarrow> False
      | Some (Inr response, w') \<Rightarrow> hr_Status response \<in> S)"

lemma ends_in_simps [simp]:
  "ends_in S None" "\<not> ends_in S (Some (Inl e, w))" "ends_in S (Some (Inr r, w)) \<longleftrightarrow> hr_Status r \<in> S"
  by (simp_all add: ends_in_def)

lemma ends_in_mono: "ends_in S r \<Longrightarrow> S \<subseteq> T \<Longrightarrow> ends_in T r"
  unfolding ends_in_def by (auto split: option.splits sum.splits)

text \<open>The statuses of the handler behind a route.\<close>

definition handler_statuses :: "route \<Rightarrow> int set" where
  "handler_statuses rt =
     (if has_prefix (rt_Path rt) ''/admin/email-plans/'' then plan_statuses
      else if rt_Method rt = ''POST'' \<and> rt_Path rt = ''/admin/email-plans'' then new_plan_statuses
      else basic_statuses)"

lemma endpoint_ends_in:
  "answers S (h rq) \<Longrightarrow> ends_in S (run_endpoint (Plain h) rq w)"
  "ends_in new_plan_statuses (run_endpoint (MayDiverge create_plan_handler) rq w)"
proof -
  assume "answers S (h rq)"
  then have "case fst (h rq w) of Inl e \<Rightarrow> False | Inr r \<Rightarrow> responds S r" by (simp add: answers_def)
  then show "ends_in S (run_endpoint (Plain h) rq w)"
    by (cases "h rq w") (auto simp: run_endpoint_def responds_def split: sum.splits)
next
  show "ends_in new_plan_statuses (run_endpoint (MayDiverge create_plan_handler) rq w)"
    using create_plan_handler_answers [of rq w]
    by (cases "create_plan_handler rq w") (auto simp: run_endpoint_def responds_def)
qed

lemma endpoints_end:
  "list_all (\<lambda>rt. \<forall>rq w. ends_in (handler_statuses rt) (run_endpoint (rt_Endpoint rt) rq w))
    (api_routes @ health_routes @ swagger_routes)"
  by (simp add: route_tables health_routes_def swagger_routes_def handler_statuses_def has_prefix_def
      endpoint_ends_in handlers_answer)

lemma only_creating_diverges:
  assumes "rt \<in> set (api_routes @ health_routes @ swagger_routes)" and "run_endpoint (rt_Endpoint rt) rq w = None"
  shows "rt_Method rt = ''POST'' \<and> rt_Path rt = ''/admin/email-plans''"
proof -
  have "list_all (\<lambda>rt. case rt_Endpoint rt of Plain h \<Rightarrow> True
      | MayDiverge h \<Rightarrow> rt_Method rt = ''POST'' \<and> rt_Path rt = ''/admin/email-plans'')
    (api_routes @ health_routes @ swagger_routes)"
    by (simp add: route_tables health_routes_def swagger_routes_def)
  with assms show ?thesis
    unfolding list_all_iff by (fastforce simp: run_endpoint_def split: endpoint.splits)
qed

text \<open>The routes outside \<open>/api\<close> have no gates.\<close>

lemma ungated_routes:
  "rt \<in> set (health_routes @ swagger_routes) \<Longrightarrow> serve rt rq w = run_endpoint (rt_Endpoint rt) rq w"
  by (auto simp: health_routes_def swagger_routes_def serve_def ret_def)

lemma serve_ends_in:
  assumes "rt \<in> set api_routes"
  shows "ends_in (handler_statuses rt \<union> refusals (access_of rt)) (serve rt rq w)"
proof -
  have "rt_Gates rt = gates_for (access_of rt)"
    using assms routes_have_their_gates unfolding list_all_iff by blast
  note gated = serve_through_gates [OF this, of rq w]
  have ends: "ends_in (handler_statuses rt \<union> refusals (access_of rt)) (run_endpoint (rt_Endpoint rt) rq v)" for v
    using endpoints_end assms by (auto simp: list_all_iff intro: ends_in_mono)
  show ?thesis
  proof (cases "allowed (access_of rt) rq w")
    case True
    then show ?thesis using gated ends by auto
  next
    case False
    then show ?thesis using gated by auto
  qed
qed

text \<open>
  \<open>well_served rt r\<close>: the run of a route ended in a response with a status of the service, never in
  an error that nobody answers; only the creation of a plan need not end.
\<close>

definition well_served :: "route \<Rightarrow> ((go_error + http_response) \<times> world) option \<Rightarrow> bool" where
  "well_served rt r \<longleftrightarrow>
     (case r of
        None \<Rightarrow> rt_Method rt = ''POST'' \<and> rt_Path rt = ''/admin/email-plans''
      | Some (Inl e, w') \<Rightarrow> False
      | Some (Inr response, w') \<Rightarrow> hr_Status response \<in> {200, 400, 401, 403, 404, 409, 500})"

lemma statuses_are: "handler_statuses rt \<union> refusals a \<subseteq> {200, 400, 401, 403, 404, 409, 500}"
  using refusals_are [of a]
  by (auto simp: handler_statuses_def basic_statuses_def plan_statuses_def new_plan_statuses_def split: if_splits)

lemma serve_None:
  assumes "rt \<in> set (api_routes @ health_routes @ swagger_routes)" and "serve rt rq w = None"
  shows "rt_Method rt = ''POST'' \<and> rt_Path rt = ''/admin/email-plans''"
proof -
  obtain v where "run_endpoint (rt_Endpoint rt) rq v = None"
    using assms(2) by (auto simp: serve_def split: prod.splits sum.splits option.splits)
  with assms(1) show ?thesis by (rule only_creating_diverges)
qed


end
