(* ===== verification/Swagger_Facts.thy ===== *)
theory Swagger_Facts
  imports Routes_Facts
begin

text \<open>
  The manifest against the routes: the loop of \<open>buildDoc\<close> as a lookup in its table, and what the manifest
  of the service says of each route that is registered.
\<close>

section \<open>The builder\<close>

definition find_operation :: "openapi_doc \<Rightarrow> string \<Rightarrow> string \<Rightarrow> openapi_operation option" where
  "find_operation doc m p = Option.bind (map_of (oad_Paths doc) p) (\<lambda>ops. map_of ops m)"

text \<open>Of several entries for a method and path the last one stands.\<close>

lemma find_operation_build:
  "find_operation (build_doc t d routes) m p
    = map_option operation_of (find (\<lambda>r. rs_method r = m \<and> rs_path r = p) (rev routes))"
proof (induction routes rule: rev_induct)
  case (snoc r routes)
  then show ?case
    by (auto simp: find_operation_def build_doc_def add_route_def Let_def update_conv split: option.splits)
qed (simp add: find_operation_def build_doc_def)

lemma find_rev_distinct:
  assumes "distinct (map key xs)" and "x \<in> set xs"
  shows "find (\<lambda>y. key y = key x) (rev xs) = Some x"
proof -
  have "find (\<lambda>y. key y = key x) (rev xs) \<noteq> None"
    using assms(2) by (auto simp: find_None_iff)
  then obtain y where y: "find (\<lambda>y. key y = key x) (rev xs) = Some y" by blast
  then have "y \<in> set xs" "key y = key x"
    unfolding find_Some_iff by (metis nth_mem set_rev)+
  with assms y show ?thesis by (metis distinct_map inj_onD)
qed

lemma responses_of_keys:
  "map_of (responses_of r) code \<noteq> None \<longleftrightarrow>
     code \<in> {''200'', ''400'', ''401''} \<or> rs_forbidden r \<and> code = ''403'' \<or> rs_notFound r \<and> code = ''404''"
  by (auto simp: responses_of_def standard_error_responses_def Let_def update_conv)

section \<open>The manifest of the service\<close>

text \<open>A path of gin as OpenAPI writes it: \<open>:name\<close> up to the next slash is \<open>{name}\<close>.\<close>

fun in_braces :: "bool \<Rightarrow> string \<Rightarrow> string" where
  "in_braces inside [] = (if inside then ''}'' else [])"
| "in_braces inside (c # s) =
     (if c = CHR ''/'' then (if inside then ''}/'' else ''/'') @ in_braces False s
      else if c = CHR '':'' then CHR ''{'' # in_braces True s
      else c # in_braces inside s)"

fun param_names :: "string option \<Rightarrow> string \<Rightarrow> string list" where
  "param_names current [] = (case current of None \<Rightarrow> [] | Some n \<Rightarrow> [n])"
| "param_names current (c # s) =
     (if c = CHR ''/'' then (case current of None \<Rightarrow> [] | Some n \<Rightarrow> [n]) @ param_names None s
      else if c = CHR '':'' then param_names (Some []) s
      else param_names (map_option (\<lambda>n. n @ [c]) current) s)"

definition openapi_path_of :: "route \<Rightarrow> string" where
  "openapi_path_of rt = in_braces False (api_prefix @ rt_Path rt)"

definition describes :: "route_spec \<Rightarrow> route \<Rightarrow> bool" where
  "describes r rt \<longleftrightarrow> rs_method r = rt_Method rt \<and> rs_path r = openapi_path_of rt
     \<and> rs_params r = param_names None (rt_Path rt)
     \<and> (rs_forbidden r \<longleftrightarrow> (\<exists>key. access_of rt = Holding key))
     \<and> (rs_notFound r \<longleftrightarrow> has_prefix (rt_Path rt) ''/admin/email-plans/'')"

lemma table_describes_routes: "list_all2 describes ring_routes api_routes"
  by (simp add: ring_routes_def route_tables describes_def openapi_path_of_def api_prefix_def
      access_of_def key_of_write_def has_prefix_def)

lemma table_distinct: "distinct (map (\<lambda>r. (rs_method r, rs_path r)) ring_routes)"
  by (simp add: ring_routes_def)

lemma list_all2_sets:
  assumes "list_all2 P xs ys"
  shows "x \<in> set xs \<Longrightarrow> \<exists>y \<in> set ys. P x y" and "y \<in> set ys \<Longrightarrow> \<exists>x \<in> set xs. P x y"
  using assms by (fastforce simp: list_all2_conv_all_nth in_set_conv_nth)+

lemma operation_of_route:
  assumes "rt \<in> set api_routes"
  obtains r where "r \<in> set ring_routes" "describes r rt"
    "find_operation ring_swagger (rt_Method rt) (openapi_path_of rt) = Some (operation_of r)"
proof -
  let ?key = "\<lambda>r. (rs_method r, rs_path r)"
  obtain r where r: "r \<in> set ring_routes" "describes r rt"
    using list_all2_sets(2) [OF table_describes_routes assms] by blast
  then have "rs_method r = rt_Method rt" "rs_path r = openapi_path_of rt"
    by (simp_all add: describes_def)
  then have "find (\<lambda>q. rs_method q = rt_Method rt \<and> rs_path q = openapi_path_of rt) (rev ring_routes) = Some r"
    using find_rev_distinct [OF table_distinct r(1)] by simp
  with r that show ?thesis by (simp add: ring_swagger_def find_operation_build)
qed

lemma listed_is_routed:
  assumes "find_operation ring_swagger m p \<noteq> None"
  shows "\<exists>rt \<in> set api_routes. rt_Method rt = m \<and> openapi_path_of rt = p"
proof -
  obtain r where "find (\<lambda>r. rs_method r = m \<and> rs_path r = p) (rev ring_routes) = Some r"
    using assms by (auto simp: ring_swagger_def find_operation_build)
  then have "r \<in> set ring_routes" "rs_method r = m" "rs_path r = p"
    unfolding find_Some_iff by (metis nth_mem set_rev)+
  with list_all2_sets(1) [OF table_describes_routes, of r] show ?thesis
    by (auto simp: describes_def)
qed

text \<open>
  C27: The manifest served at \<open>/swagger/v1/swagger.json\<close> lists the routes of the service: an operation for
  every method and path the controllers register, under the path in the notation of OpenAPI and with
  the parameters of that path, and no other operation; and it announces a refusal for lack of
  permission exactly on the routes whose access policy asks for one.
\<close>

theorem swagger_lists_the_routes:
  "(\<forall>m p. find_operation ring_swagger m p \<noteq> None
      \<longleftrightarrow> (\<exists>rt \<in> set api_routes. rt_Method rt = m \<and> openapi_path_of rt = p))
   \<and> list_all (\<lambda>rt. case find_operation ring_swagger (rt_Method rt) (openapi_path_of rt) of
        None \<Rightarrow> False
      | Some op \<Rightarrow> map oap_Name (oao_Parameters op) = param_names None (rt_Path rt)
          \<and> (map_of (oao_Responses op) ''403'' \<noteq> None \<longleftrightarrow> (\<exists>key. access_of rt = Holding key)))
    api_routes"
proof (intro conjI allI iffI)
  show "\<exists>rt \<in> set api_routes. rt_Method rt = m \<and> openapi_path_of rt = p"
    if "find_operation ring_swagger m p \<noteq> None" for m p
    using that by (rule listed_is_routed)
  show "find_operation ring_swagger m p \<noteq> None"
    if "\<exists>rt \<in> set api_routes. rt_Method rt = m \<and> openapi_path_of rt = p" for m p
    using that by (metis operation_of_route option.distinct(1))
  show "list_all (\<lambda>rt. case find_operation ring_swagger (rt_Method rt) (openapi_path_of rt) of
        None \<Rightarrow> False
      | Some op \<Rightarrow> map oap_Name (oao_Parameters op) = param_names None (rt_Path rt)
          \<and> (map_of (oao_Responses op) ''403'' \<noteq> None \<longleftrightarrow> (\<exists>key. access_of rt = Holding key)))
    api_routes"
    unfolding list_all_iff
  proof
    fix rt assume "rt \<in> set api_routes"
    then obtain r where "describes r rt"
      "find_operation ring_swagger (rt_Method rt) (openapi_path_of rt) = Some (operation_of r)"
      by (rule operation_of_route)
    then show "case find_operation ring_swagger (rt_Method rt) (openapi_path_of rt) of
        None \<Rightarrow> False
      | Some op \<Rightarrow> map oap_Name (oao_Parameters op) = param_names None (rt_Path rt)
          \<and> (map_of (oao_Responses op) ''403'' \<noteq> None \<longleftrightarrow> (\<exists>key. access_of rt = Holding key))"
      using responses_of_keys [of r "''403''"]
      by (simp add: operation_of_def describes_def path_parameter_def comp_def)
  qed
qed

section \<open>The statuses it announces\<close>

definition announces :: "openapi_doc \<Rightarrow> route \<Rightarrow> int \<Rightarrow> bool" where
  "announces doc rt status =
     (case find_operation doc (rt_Method rt) (openapi_path_of rt) of
        None \<Rightarrow> False
      | Some op \<Rightarrow> map_of (oao_Responses op) (show_int status) \<noteq> None)"

lemma shown_statuses:
  "show_int 200 = ''200''" "show_int 400 = ''400''" "show_int 401 = ''401''" "show_int 403 = ''403''"
  "show_int 404 = ''404''"
  by (simp_all add: show_int_def show_nat.simps digit_char_def)

lemma announced:
  assumes "rt \<in> set api_routes" and "status \<in> handler_statuses rt \<union> refusals (access_of rt)"
  shows "announces ring_swagger rt status \<or> status \<in> {409, 500}"
proof -
  obtain r where r: "describes r rt"
    "find_operation ring_swagger (rt_Method rt) (openapi_path_of rt) = Some (operation_of r)"
    using assms(1) by (rule operation_of_route)
  have "status \<in> {200, 400, 401, 409, 500} \<or> status = 403 \<and> rs_forbidden r \<or> status = 404 \<and> rs_notFound r"
    using assms(2) r(1)
    by (cases "access_of rt")
      (auto simp: describes_def handler_statuses_def basic_statuses_def plan_statuses_def
        new_plan_statuses_def split: if_splits)
  then show ?thesis
    using r(2) by (auto simp: announces_def operation_of_def responses_of_keys shown_statuses simp del: not_None_eq)
qed

text \<open>
  C26: What the service answers is what its manifest announces: whatever the request and the state of
  the outside, the response to a request on a route of the controllers has a status listed for that
  method and path, but for the two statuses the manifest never lists, a conflict (409) and a failure of
  the service (500).
\<close>

theorem responses_are_announced:
  "list_all (\<lambda>rt. \<forall>rq w. case serve rt rq w of
        Some (Inr response, w') \<Rightarrow>
          announces ring_swagger rt (hr_Status response) \<or> hr_Status response \<in> {409, 500}
      | Some (Inl e, w') \<Rightarrow> False
      | None \<Rightarrow> rt_Path rt = ''/admin/email-plans'')
    api_routes"
  unfolding list_all_iff
proof (intro ballI allI)
  fix rt rq w
  assume rt: "rt \<in> set api_routes"
  then have "serve rt rq w = None \<Longrightarrow> rt_Path rt = ''/admin/email-plans''"
    using serve_None [of rt rq w] by simp
  with serve_ends_in [OF rt, of rq w] announced [OF rt]
  show "case serve rt rq w of
        Some (Inr response, w') \<Rightarrow>
          announces ring_swagger rt (hr_Status response) \<or> hr_Status response \<in> {409, 500}
      | Some (Inl e, w') \<Rightarrow> False
      | None \<Rightarrow> rt_Path rt = ''/admin/email-plans''"
    by (cases "serve rt rq w") (auto simp: ends_in_def split: prod.splits sum.splits)
qed

text \<open>
  The operations are listed under the methods in capitals, which is how the table spells them; the fixed
  fields of a path item are in small letters in OpenAPI.
\<close>

theorem methods_in_capitals:
  "find_operation ring_swagger ''get'' ''/api/notifications'' = None
   \<and> find_operation ring_swagger ''GET'' ''/api/notifications'' \<noteq> None"
  by (simp add: ring_swagger_def find_operation_build) (simp add: ring_routes_def)

end
