(* ===== verification/Ring_Server.thy ===== *)
theory Ring_Server
  imports Push_Service
begin

text \<open>
  \<open>internal/grpcserver\<close>: the inbound gRPC calls and the capability registry. A call answers, refuses
  its argument, or returns an error the gRPC runtime reports as unknown.
\<close>

section \<open>The ring service\<close>

record dy_email =
  dye_ToName :: string
  dye_ToAddress :: string
  dye_Subject :: string
  dye_Body :: string

record dy_push_notification =
  dyn_Topic :: string
  dyn_Title :: string
  dyn_Subtitle :: string
  dyn_Body :: string
  dyn_Meta :: string
  dyn_ActionUri :: "string option"
  dyn_IsSilent :: bool
  dyn_IsSavable :: bool
  dyn_AppId :: "string option"
  dyn_PushType :: "string option"

datatype rpc_answer = RpcOk | InvalidArgument string | RpcUnknown go_error

text \<open>An error of the service is returned as it is; the empty response stands for success.\<close>

definition answer_rpc :: "(go_error \<Rightarrow> rpc_answer) \<Rightarrow> unit io \<Rightarrow> rpc_answer io" where
  "answer_rpc report m =
     bindM (attempt m) (\<lambda>r. ret (case r of Inl e \<Rightarrow> report e | Inr u \<Rightarrow> RpcOk))"

definition rpc_send_email :: "dy_email option option \<Rightarrow> rpc_answer io" where
  "rpc_send_email req =
     (case req of
        Some (Some email) \<Rightarrow>
          answer_rpc RpcUnknown (enqueue_email (dye_ToName email) (dye_ToAddress email)
            (dye_Subject email) (dye_Body email))
      | _ \<Rightarrow> ret (InvalidArgument ''email message is required''))"

definition notification_app_id :: "dy_push_notification \<Rightarrow> string" where
  "notification_app_id n = (case dyn_AppId n of None \<Rightarrow> [] | Some a \<Rightarrow> a)"

text \<open>An empty, malformed or null dictionary reads as the empty one.\<close>

definition parse_meta :: "outside \<Rightarrow> dy_push_notification \<Rightarrow> json_map" where
  "parse_meta out n =
     (if dyn_Meta n = [] then []
      else (case o_unmarshal_meta out (dyn_Meta n) of
              None \<Rightarrow> []
            | Some None \<Rightarrow> []
            | Some (Some meta) \<Rightarrow> meta))"

definition rpc_request :: "outside \<Rightarrow> uuid \<Rightarrow> dy_push_notification \<Rightarrow> string \<Rightarrow> send_request" where
  "rpc_request out userID n appId =
     \<lparr>sq_AccountID = userID, sq_Topic = dyn_Topic n, sq_Title = Some (dyn_Title n),
      sq_Subtitle = Some (dyn_Subtitle n), sq_Content = Some (dyn_Body n),
      sq_Meta = Some (parse_meta out n), sq_ActionUri = dyn_ActionUri n,
      sq_IsSilent = dyn_IsSilent n, sq_Save = dyn_IsSavable n, sq_AppId = appId,
      sq_PushType = (case dyn_PushType n of None \<Rightarrow> [] | Some t \<Rightarrow> t)\<rparr>"

definition report_send :: "go_error \<Rightarrow> rpc_answer" where
  "report_send e =
     (if errors_is_empty_notification e \<or> errors_is_unknown_app e then InvalidArgument (error_text e)
      else RpcUnknown e)"

definition rpc_send_notification :: "uuid \<Rightarrow> dy_push_notification \<Rightarrow> string \<Rightarrow> rpc_answer io" where
  "rpc_send_notification userID n appId =
     bindM (getM w_outside) (\<lambda>out.
       answer_rpc report_send (send_notification (rpc_request out userID n appId)))"

definition rpc_send_to_user :: "string \<Rightarrow> dy_push_notification option \<Rightarrow> rpc_answer io" where
  "rpc_send_to_user userId notification =
     (case notification of
        None \<Rightarrow> ret (InvalidArgument ''notification is required'')
      | Some n \<Rightarrow>
          bindM (getM w_outside) (\<lambda>out.
          case o_parse_uuid out userId of
            None \<Rightarrow> ret (InvalidArgument ''user id is not a valid UUID'')
          | Some userID \<Rightarrow>
              rpc_send_notification userID n (resolve_app_id (o_apps out) (notification_app_id n) True)))"

fun parse_users :: "outside \<Rightarrow> string list \<Rightarrow> uuid list option" where
  "parse_users out [] = Some []"
| "parse_users out (raw # raws) =
     (case o_parse_uuid out raw of
        None \<Rightarrow> None
      | Some i \<Rightarrow> map_option (Cons i) (parse_users out raws))"

text \<open>
  The goroutines of \<open>SendPushNotificationToUsers\<close> run in some order (\<open>o_schedule_users\<close>) and all of
  them run; the first error in the channel is the one of the first that failed.
\<close>

definition scheduled_users :: "uuid list \<Rightarrow> uuid list io" where
  "scheduled_users ids =
     bindM (getM w_outside) (\<lambda>out. bindM (getM w_tick) (\<lambda>k.
       let order = o_schedule_users out k ids
       in ret (if mset order = mset ids then order else ids)))"

definition first_failure :: "rpc_answer list \<Rightarrow> rpc_answer" where
  "first_failure answers = (case filter (\<lambda>a. a \<noteq> RpcOk) answers of [] \<Rightarrow> RpcOk | a # _ \<Rightarrow> a)"

definition rpc_send_to_users :: "string list \<Rightarrow> dy_push_notification option \<Rightarrow> rpc_answer io" where
  "rpc_send_to_users userIds notification =
     (case notification of
        None \<Rightarrow> ret (InvalidArgument ''notification is required'')
      | Some n \<Rightarrow>
          bindM (getM w_outside) (\<lambda>out.
          case parse_users out userIds of
            None \<Rightarrow> ret (InvalidArgument ''user id is not a valid UUID'')
          | Some ids \<Rightarrow>
              bindM (scheduled_users ids) (\<lambda>order.
              bindM (mapM (\<lambda>userID. rpc_send_notification userID n
                  (resolve_app_id (o_apps out) (notification_app_id n) True)) order)
                (\<lambda>answers. ret (first_failure answers)))))"

definition rpc_unsubscribe :: "string option \<Rightarrow> rpc_answer io" where
  "rpc_unsubscribe deviceId =
     (case deviceId of
        None \<Rightarrow> ret (InvalidArgument ''device id is required'')
      | Some d \<Rightarrow> answer_rpc RpcUnknown (unsubscribe_device d))"

section \<open>Capabilities\<close>

record capability =
  cap_name :: string
  cap_revision :: nat
  cap_experimental :: bool

datatype dy_capability =
    CapabilityUnspecified | CapabilityVoice | CapabilityPasskeys | CapabilityStories
  | CapabilityDriveResumable | CapabilityRealmV2

record capability_state =
  cst_Capability :: dy_capability
  cst_Name :: string
  cst_Enabled :: bool
  cst_Revision :: nat
  cst_Experimental :: bool

definition shipped :: "string \<Rightarrow> capability" where
  "shipped n = \<lparr>cap_name = n, cap_revision = 1, cap_experimental = False\<rparr>"

definition capability_registry :: "capability list" where
  "capability_registry = map shipped
     [''notifications'', ''notifications.preferences'', ''notifications.sop'', ''admin.email-plans'',
      ''admin.delivery-observability'', ''admin.stats'']"

definition capability_enum_by_name :: "string \<Rightarrow> dy_capability" where
  "capability_enum_by_name n =
     (if n = ''voice'' then CapabilityVoice
      else if n = ''passkeys'' then CapabilityPasskeys
      else if n = ''stories'' then CapabilityStories
      else if n = ''drive-resumable'' then CapabilityDriveResumable
      else if n = ''realm-v2'' then CapabilityRealmV2
      else CapabilityUnspecified)"

definition merge_capability :: "capability \<Rightarrow> capability_state \<Rightarrow> capability_state" where
  "merge_capability f st =
     st\<lparr>cst_Revision := (if cst_Revision st < cap_revision f then cap_revision f else cst_Revision st),
        cst_Experimental := (if \<not> cap_experimental f then False else cst_Experimental st)\<rparr>"

definition add_capability :: "capability_state list \<Rightarrow> capability \<Rightarrow> capability_state list" where
  "add_capability states f =
     (if list_ex (\<lambda>st. cst_Name st = cap_name f) states
      then map (\<lambda>st. if cst_Name st = cap_name f then merge_capability f st else st) states
      else states @ [\<lparr>cst_Capability = capability_enum_by_name (cap_name f), cst_Name = cap_name f,
        cst_Enabled = True, cst_Revision = cap_revision f, cst_Experimental = cap_experimental f\<rparr>])"

definition capability_states :: "capability list \<Rightarrow> capability_state list" where
  "capability_states registry = foldl add_capability [] registry"

definition api_revision :: "capability_state list \<Rightarrow> nat" where
  "api_revision states = foldl (\<lambda>r st. if r < cst_Revision st then cst_Revision st else r) 0 states"

definition get_capabilities :: "capability_state list \<times> nat" where
  "get_capabilities =
     (capability_states capability_registry, api_revision (capability_states capability_registry))"

end
