(* ===== verification/Ring_Facts.thy ===== *)
theory Ring_Facts
  imports Ring_Server Dispatch_Facts
begin

text \<open>
  What the inbound calls of \<open>internal/grpcserver/ring.go\<close> promise: every call answers, an argument
  that is refused has changed nothing, and OK means that the notification was saved and queued
  for every user it was asked for.
\<close>

section \<open>One user\<close>

text \<open>Whether a user is owed a row, and whether a delivery, when a notification is sent to it.\<close>

definition due_row :: "world \<Rightarrow> dy_push_notification \<Rightarrow> uuid \<Rightarrow> bool" where
  "due_row w n userID \<longleftrightarrow>
     dyn_IsSavable n \<and> stored_preference userID (dyn_Topic n) w \<noteq> PreferenceReject"

definition due_job :: "world \<Rightarrow> dy_push_notification \<Rightarrow> uuid \<Rightarrow> bool" where
  "due_job w n userID \<longleftrightarrow>
     \<not> dyn_IsSilent n \<and> stored_preference userID (dyn_Topic n) w = PreferenceNormal"

text \<open>What the answer of a call depends on and no call changes.\<close>

definition ring_view :: "world \<Rightarrow> outside \<times> preference_entity list" where
  "ring_view w = (w_outside w, w_preferences w)"

lemma ring_view_due:
  "ring_view w' = ring_view w \<Longrightarrow> due_row w' = due_row w \<and> due_job w' = due_job w \<and> apps_of w' = apps_of w
     \<and> w_outside w' = w_outside w"
  by (simp add: ring_view_def due_row_def due_job_def stored_preference_def fun_eq_iff)

lemma send_fixes_ring: "fixed ring_view (send_notification q)"
  by (intro fixedI keeps_send_notification) (simp_all add: steady_def ring_view_def)

lemma answer_rpc_run:
  "answer_rpc report m w = (r, w') \<longleftrightarrow>
     (\<exists>q. m w = (q, w') \<and> r = Inr (case q of Inl e \<Rightarrow> report e | Inr u \<Rightarrow> RpcOk))"
  by (auto simp: answer_rpc_def bindM_def attempt_def ret_def split: prod.splits)

lemma row_account: "ne_AccountID (notification_row (new_notification q app now i)) = sq_AccountID q"
  by (simp add: notification_row_def notification_entity_from_model_def encode_json_def new_notification_def)

lemma report_send_not_ok [simp]: "report_send e \<noteq> RpcOk"
  by (simp add: report_send_def)

text \<open>
  What calls for \<open>users\<close> have saved and queued: at most what is owed to them, and all of it when every call
  was answered OK (\<open>ok\<close>).
\<close>

definition owed ::
  "world \<Rightarrow> dy_push_notification \<Rightarrow> uuid list \<Rightarrow> bool \<Rightarrow> notification_entity list \<Rightarrow> job list \<Rightarrow> bool" where
  "owed w n users ok rows jobs \<longleftrightarrow>
     mset (map ne_AccountID rows) \<subseteq># mset (filter (due_row w n) users)
     \<and> length jobs \<le> length (filter (due_job w n) users)
     \<and> (ok \<longrightarrow> map ne_AccountID rows = filter (due_row w n) users
          \<and> length jobs = length (filter (due_job w n) users))"

lemma owed_none: "owed w n [] ok [] []"
  by (simp add: owed_def)

lemma owed_append:
  "owed w n us ok rows jobs \<Longrightarrow> owed w n vs ok' rows' jobs' \<Longrightarrow>
     owed w n (us @ vs) (ok \<and> ok') (rows @ rows') (jobs @ jobs')"
  by (auto simp: owed_def simp flip: mset_map mset_filter intro: subset_mset.add_mono)

text \<open>What the calls did to the world; an app that is not configured is refused before anything is done.\<close>

definition sent_to ::
  "world \<Rightarrow> dy_push_notification \<Rightarrow> string \<Rightarrow> uuid list \<Rightarrow> rpc_answer list \<Rightarrow> world \<Rightarrow> bool" where
  "sent_to w n app users answers w' \<longleftrightarrow>
     length answers = length users \<and> ring_view w' = ring_view w
     \<and> (\<exists>rows jobs. w_notifications w' = w_notifications w @ rows \<and> w_jobs w' = w_jobs w @ jobs
         \<and> owed w n users (\<forall>answer \<in> set answers. answer = RpcOk) rows jobs
         \<and> (validate_app_id (apps_of w) app \<noteq> Inr () \<longrightarrow> rows = [] \<and> jobs = []
              \<and> (\<forall>answer \<in> set answers. answer = InvalidArgument (error_text (ErrUnknownAppId app)))))"

lemma sent_to_none: "sent_to w n app [] [] w"
  by (auto simp: sent_to_def intro: owed_none)

lemma sent_to_cons:
  assumes "sent_to w n app [u] [answer] w1" "sent_to w1 n app users answers w'"
  shows "sent_to w n app (u # users) (answer # answers) w'"
proof -
  from assms(1) obtain rows jobs where one: "ring_view w1 = ring_view w"
    "w_notifications w1 = w_notifications w @ rows" "w_jobs w1 = w_jobs w @ jobs"
    "owed w n [u] (answer = RpcOk) rows jobs"
    "validate_app_id (apps_of w) app \<noteq> Inr () \<Longrightarrow> rows = [] \<and> jobs = []
       \<and> answer = InvalidArgument (error_text (ErrUnknownAppId app))"
    by (auto simp: sent_to_def)
  note same = ring_view_due [OF one(1)]
  from assms(2) obtain rows' jobs' where rest: "length answers = length users" "ring_view w' = ring_view w1"
    "w_notifications w' = w_notifications w1 @ rows'" "w_jobs w' = w_jobs w1 @ jobs'"
    "owed w n users (\<forall>answer \<in> set answers. answer = RpcOk) rows' jobs'"
    "validate_app_id (apps_of w) app \<noteq> Inr () \<Longrightarrow> rows' = [] \<and> jobs' = []
       \<and> (\<forall>answer \<in> set answers. answer = InvalidArgument (error_text (ErrUnknownAppId app)))"
    using same by (auto simp: sent_to_def owed_def)
  have owed: "owed w n (u # users) (\<forall>answer \<in> set (answer # answers). answer = RpcOk) (rows @ rows') (jobs @ jobs')"
    using owed_append [OF one(4) rest(5)] by simp
  have refused: "rows @ rows' = [] \<and> jobs @ jobs' = []
      \<and> (\<forall>answer \<in> set (answer # answers). answer = InvalidArgument (error_text (ErrUnknownAppId app)))"
    if "validate_app_id (apps_of w) app \<noteq> Inr ()"
    using one(5) [OF that] rest(6) [OF that] by simp
  have grown: "length (answer # answers) = length (u # users)" "ring_view w' = ring_view w"
    "w_notifications w' = w_notifications w @ rows @ rows'" "w_jobs w' = w_jobs w @ jobs @ jobs'"
    by (simp_all add: one(1-3) rest(1-4))
  show ?thesis unfolding sent_to_def using owed refused grown by blast
qed

text \<open>One call.\<close>

lemma send_refuses_app:
  assumes "validate_app_id (apps_of w) (resolve_app_id (apps_of w) (sq_AppId q) True) = Inl e"
    and "sq_Title q = Some t"
  shows "send_notification q w = (Inl e, w)"
  using assms
  by (simp add: send_notification_def bindM_getM Let_def) (simp add: seqM_def bindM_def lift_result_def)

lemma rpc_send_one:
  assumes "rpc_send_notification userID n app w = (r, w')" and "app = resolve_app_id (apps_of w) a True"
  shows "\<exists>answer. r = Inr answer \<and> sent_to w n app [userID] [answer] w'"
proof -
  let ?q = "rpc_request (w_outside w) userID n app"
  have q: "sq_AccountID ?q = userID" "sq_Topic ?q = dyn_Topic n" "sq_Save ?q = dyn_IsSavable n"
    "sq_IsSilent ?q = dyn_IsSilent n" "sq_Title ?q = Some (dyn_Title n)"
    "resolve_app_id (apps_of w) (sq_AppId ?q) True = app"
    by (simp_all add: rpc_request_def assms(2) resolve_app_id_idem)
  obtain s where s: "send_notification ?q w = (s, w')"
    and r: "r = Inr (case s of Inl e \<Rightarrow> report_send e | Inr u \<Rightarrow> RpcOk)"
    using assms(1) by (auto simp: rpc_send_notification_def bindM_getM answer_rpc_run)
  have view: "ring_view w' = ring_view w" by (rule fixed_run [OF send_fixes_ring s])
  show ?thesis
  proof (cases "validate_app_id (apps_of w) app")
    case (Inl e)
    then have e: "e = ErrUnknownAppId app" by (auto simp: validate_app_id_def split: if_splits)
    have "s = Inl e \<and> w' = w" using send_refuses_app [of w ?q e] s Inl q by simp
    then show ?thesis
      using r e Inl by (intro exI [of _ "report_send e"]) (simp add: sent_to_def report_send_def owed_def)
  next
    case (Inr u)
    from send_notification_run [OF s refl refl, unfolded q] obtain saved now i p where
      rows: "w_notifications w' = w_notifications w
        @ (if saved then [notification_row (new_notification ?q app now i)] else [])"
      and save: "saved \<longrightarrow> dyn_IsSavable n"
      and run: "case s of
         Inl _ \<Rightarrow> w_jobs w' = w_jobs w
           \<and> (saved \<longrightarrow> \<not> dyn_IsSilent n \<and> stored_preference userID (dyn_Topic n) w = PreferenceNormal)
       | Inr _ \<Rightarrow> (Some (dyn_Title n) \<noteq> None \<or> sq_Subtitle ?q \<noteq> None \<or> sq_Content ?q \<noteq> None)
           \<and> validate_app_id (apps_of w) app = Inr ()
           \<and> saved = (dyn_IsSavable n \<and> stored_preference userID (dyn_Topic n) w \<noteq> PreferenceReject)
           \<and> w_jobs w' = w_jobs w @ (if \<not> dyn_IsSilent n
                  \<and> stored_preference userID (dyn_Topic n) w = PreferenceNormal
                then [delivery_job p (dyn_IsSavable n)] else [])
           \<and> (stored_preference userID (dyn_Topic n) w \<noteq> PreferenceReject
                \<longrightarrow> w_heap w' p = new_notification ?q app now i)"
      by blast
    have out: "case s of Inl _ \<Rightarrow> w_jobs w' = w_jobs w \<and> (saved \<longrightarrow> due_job w n userID)
        | Inr _ \<Rightarrow> saved = due_row w n userID
            \<and> w_jobs w' = w_jobs w @ (if due_job w n userID then [delivery_job p (dyn_IsSavable n)] else [])"
      using run by (cases s) (simp_all add: due_row_def due_job_def)
    have acc: "ne_AccountID (notification_row (new_notification ?q app now i)) = userID"
      by (simp add: row_account q)
    show ?thesis
    proof (cases s)
      case (Inl e)
      then have "owed w n [userID] False (if saved then [notification_row (new_notification ?q app now i)] else []) []"
        using out save by (auto simp: owed_def acc due_row_def due_job_def)
      moreover have "w_jobs w' = w_jobs w @ []" using Inl out by simp
      ultimately have "sent_to w n app [userID] [report_send e] w'"
        unfolding sent_to_def using Inr rows view by (intro conjI exI) simp_all
      with r Inl show ?thesis by simp
    next
      case ok: (Inr u')
      then have "owed w n [userID] True (if saved then [notification_row (new_notification ?q app now i)] else [])
          (if due_job w n userID then [delivery_job p (dyn_IsSavable n)] else [])"
        using out by (simp add: owed_def acc)
      moreover have "w_jobs w' = w_jobs w @ (if due_job w n userID then [delivery_job p (dyn_IsSavable n)] else [])"
        using ok out by simp
      ultimately have "sent_to w n app [userID] [RpcOk] w'"
        unfolding sent_to_def using Inr rows view by (intro conjI exI) simp_all
      with r ok show ?thesis by simp
    qed
  qed
qed

section \<open>All users\<close>

text \<open>The calls for a list of users, in the order in which they run.\<close>

lemma rpc_send_all:
  assumes "mapM (\<lambda>userID. rpc_send_notification userID n app) users w = (r, w')"
    and "app = resolve_app_id (apps_of w) a True"
  shows "\<exists>answers. r = Inr answers \<and> sent_to w n app users answers w'"
  using assms
proof (induction users arbitrary: w r)
  case Nil
  then show ?case by (auto simp: ret_iff intro: sent_to_none)
next
  case (Cons u users)
  obtain q w1 where one: "rpc_send_notification u n app w = (q, w1)"
    by (cases "rpc_send_notification u n app w")
  from rpc_send_one [OF one Cons.prems(2)] obtain answer where
    first: "q = Inr answer" "sent_to w n app [u] [answer] w1" by blast
  have "ring_view w1 = ring_view w" using first(2) by (simp only: sent_to_def)
  then have same: "apps_of w1 = apps_of w" using ring_view_due by blast
  obtain q' where rest: "mapM (\<lambda>userID. rpc_send_notification userID n app) users w1 = (q', w')"
    "r = map_sum id (Cons answer) q'"
    using Cons.prems(1) one first(1)
    by (cases "mapM (\<lambda>userID. rpc_send_notification userID n app) users w1")
      (auto simp: bindM_def ret_def split: sum.splits)
  from Cons.IH [OF rest(1)] Cons.prems(2) same obtain answers where
    "q' = Inr answers" "sent_to w1 n app users answers w'" by auto
  with rest(2) sent_to_cons [OF first(2)] show ?case by auto
qed

section \<open>The call\<close>

lemma parse_users_total:
  "parse_users out raws = (if \<exists>raw \<in> set raws. o_parse_uuid out raw = None then None
     else Some (map (\<lambda>raw. the (o_parse_uuid out raw)) raws))"
  by (induction raws) (auto split: option.splits)

lemma scheduled_users_run:
  "scheduled_users ids w = (r, w') \<Longrightarrow> w' = w \<and> (\<exists>order. r = Inr order \<and> mset order = mset ids)"
  by (auto simp: scheduled_users_def run_iffs Let_def bindM_def getM_def ret_def split: if_splits)

lemma first_failure_cases:
  "first_failure answers = RpcOk \<and> (\<forall>answer \<in> set answers. answer = RpcOk)
   \<or> first_failure answers \<noteq> RpcOk \<and> first_failure answers \<in> set answers"
proof (cases "filter (\<lambda>a. a \<noteq> RpcOk) answers")
  case Nil
  then show ?thesis by (auto simp: first_failure_def filter_empty_conv)
next
  case (Cons a as)
  have "a \<in> {a \<in> set answers. a \<noteq> RpcOk}" unfolding set_filter [symmetric] Cons by simp
  with Cons show ?thesis by (auto simp: first_failure_def)
qed

lemma owed_mset:
  assumes "owed w n order ok rows jobs" "mset order = mset users"
  shows "mset (map ne_AccountID rows) \<subseteq># mset (filter (due_row w n) users)
    \<and> length jobs \<le> length (filter (due_job w n) users)
    \<and> (ok \<longrightarrow> mset (map ne_AccountID rows) = mset (filter (due_row w n) users)
         \<and> length jobs = length (filter (due_job w n) users))"
proof -
  have same: "mset (filter P order) = mset (filter P users)" for P
    using assms(2) by (simp add: mset_filter)
  then have "length (filter P order) = length (filter P users)" for P by (metis size_mset)
  with assms show ?thesis unfolding owed_def same by simp
qed

text \<open>
  C14: \<open>SendPushNotificationToUsers\<close>. One user id that is not a UUID refuses the call before anything is
  done. Otherwise, in whatever order its goroutines run, the call saves at most one row per user
  that does not reject the topic, for exactly these users, and queues at most one delivery per user
  whose preference is the normal one; OK is answered only when all of them have been saved and
  queued. An app that is not configured is an invalid argument, with nothing saved or queued; and
  the handler itself never fails.
\<close>

theorem send_to_users_all_or_refused:
  assumes "rpc_send_to_users userIds (Some n) w = (r, w')"
    and "app = resolve_app_id (apps_of w) (notification_app_id n) True"
    and "users = map (\<lambda>raw. the (o_parse_uuid (w_outside w) raw)) userIds"
  shows "if \<exists>raw \<in> set userIds. o_parse_uuid (w_outside w) raw = None
    then r = Inr (InvalidArgument ''user id is not a valid UUID'') \<and> w' = w
    else \<exists>answer rows jobs. r = Inr answer
      \<and> w_notifications w' = w_notifications w @ rows \<and> w_jobs w' = w_jobs w @ jobs
      \<and> mset (map ne_AccountID rows) \<subseteq># mset (filter (due_row w n) users)
      \<and> length jobs \<le> length (filter (due_job w n) users)
      \<and> (answer = RpcOk \<longrightarrow> mset (map ne_AccountID rows) = mset (filter (due_row w n) users)
           \<and> length jobs = length (filter (due_job w n) users))
      \<and> (users \<noteq> [] \<and> validate_app_id (apps_of w) app \<noteq> Inr () \<longrightarrow>
           answer = InvalidArgument (error_text (ErrUnknownAppId app)) \<and> rows = [] \<and> jobs = [])"
proof (cases "\<exists>raw \<in> set userIds. o_parse_uuid (w_outside w) raw = None")
  case True
  then have "parse_users (w_outside w) userIds = None" by (simp only: parse_users_total if_True)
  with assms(1) have "r = Inr (InvalidArgument ''user id is not a valid UUID'') \<and> w' = w"
    by (simp add: rpc_send_to_users_def bindM_getM ret_def)
  with True show ?thesis by (simp only: if_True)
next
  case False
  then have parsed: "parse_users (w_outside w) userIds = Some users"
    by (simp only: parse_users_total if_False assms(3))
  obtain order where order: "scheduled_users users w = (Inr order, w)" "mset order = mset users"
    using scheduled_users_run [of users w] by (metis surj_pair)
  have "bindM (mapM (\<lambda>userID. rpc_send_notification userID n app) order)
      (\<lambda>answers. ret (first_failure answers)) w = (r, w')"
    using assms(1) parsed order(1) assms(2)
    by (simp add: rpc_send_to_users_def bindM_getM) (simp add: bindM_def)
  moreover obtain s w1 where sends: "mapM (\<lambda>userID. rpc_send_notification userID n app) order w = (s, w1)"
    by (cases "mapM (\<lambda>userID. rpc_send_notification userID n app) order w")
  moreover obtain answers where answers: "s = Inr answers" "sent_to w n app order answers w1"
    using rpc_send_all [OF sends assms(2)] by blast
  ultimately have r: "r = Inr (first_failure answers)" "w1 = w'" by (auto simp: bindM_def ret_def)
  from answers(2) r(2) obtain rows jobs where sent: "length answers = length order"
    "w_notifications w' = w_notifications w @ rows" "w_jobs w' = w_jobs w @ jobs"
    "owed w n order (\<forall>answer \<in> set answers. answer = RpcOk) rows jobs"
    "validate_app_id (apps_of w) app \<noteq> Inr () \<Longrightarrow> rows = [] \<and> jobs = []
       \<and> (\<forall>answer \<in> set answers. answer = InvalidArgument (error_text (ErrUnknownAppId app)))"
    unfolding sent_to_def by blast
  have refused: "first_failure answers = InvalidArgument (error_text (ErrUnknownAppId app))"
    if "users \<noteq> []" "validate_app_id (apps_of w) app \<noteq> Inr ()"
  proof -
    have "answers \<noteq> []" using that(1) sent(1) order(2) by auto
    with sent(5) [OF that(2)] first_failure_cases [of answers] show ?thesis
      by (cases answers) auto
  qed
  have ok: "first_failure answers = RpcOk \<Longrightarrow> \<forall>answer \<in> set answers. answer = RpcOk"
    using first_failure_cases [of answers] by blast
  note owed = owed_mset [OF sent(4) order(2)]
  have "r = Inr (first_failure answers)
      \<and> w_notifications w' = w_notifications w @ rows \<and> w_jobs w' = w_jobs w @ jobs
      \<and> mset (map ne_AccountID rows) \<subseteq># mset (filter (due_row w n) users)
      \<and> length jobs \<le> length (filter (due_job w n) users)
      \<and> (first_failure answers = RpcOk \<longrightarrow> mset (map ne_AccountID rows) = mset (filter (due_row w n) users)
           \<and> length jobs = length (filter (due_job w n) users))
      \<and> (users \<noteq> [] \<and> validate_app_id (apps_of w) app \<noteq> Inr () \<longrightarrow>
           first_failure answers = InvalidArgument (error_text (ErrUnknownAppId app)) \<and> rows = [] \<and> jobs = [])"
    using r(1) sent(2,3,5) owed ok refused by blast
  then show ?thesis unfolding if_not_P [OF False] by blast
qed

text \<open>Two users, one of whom rejects the topic, in the order in which they were not named.\<close>

definition ring_outside :: outside where
  "ring_outside = quiet_outside\<lparr>o_parse_uuid := (\<lambda>s. if s = ''a'' then Some 1 else if s = ''b'' then Some 2 else None),
     o_schedule_users := (\<lambda>k ids. rev ids)\<rparr>"

definition ring_world :: world where
  "ring_world = (empty_world ring_outside)\<lparr>
     w_preferences := [\<lparr>ID = 9, e_CreatedAt = 1, e_UpdatedAt = 1, e_DeletedAt = deleted_at None, pe_AccountID = 2,
       pe_Preference = int_of_preference PreferenceReject, pe_Topic = ''t''\<rparr>]\<rparr>"

definition sample_ring_notification :: dy_push_notification where
  "sample_ring_notification =
     \<lparr>dyn_Topic = ''t'', dyn_Title = ''hi'', dyn_Subtitle = [], dyn_Body = [], dyn_Meta = [],
      dyn_ActionUri = None, dyn_IsSilent = False, dyn_IsSavable = True, dyn_AppId = None, dyn_PushType = None\<rparr>"

theorem send_to_users_all_or_refused_witness:
  "(\<exists>w' rows. rpc_send_to_users [''a'', ''b''] (Some sample_ring_notification) ring_world = (Inr RpcOk, w')
      \<and> w_notifications w' = rows \<and> map ne_AccountID rows = [1] \<and> length (w_jobs w') = 1)
   \<and> rpc_send_to_users [''a'', ''c''] (Some sample_ring_notification) ring_world
     = (Inr (InvalidArgument ''user id is not a valid UUID''), ring_world)"
proof -
  have "fst (rpc_send_to_users [''a'', ''b''] (Some sample_ring_notification) ring_world) = Inr RpcOk"
    by code_simp
  then obtain w' where run:
    "rpc_send_to_users [''a'', ''b''] (Some sample_ring_notification) ring_world = (Inr RpcOk, w')"
    by (metis prod.collapse)
  have due: "filter (due_row ring_world sample_ring_notification) [1, 2] = [1]"
    "filter (due_job ring_world sample_ring_notification) [1, 2] = [1]"
    by code_simp+
  have w: "w_notifications ring_world = []" "w_jobs ring_world = []" "w_outside ring_world = ring_outside"
    by (simp_all add: ring_world_def empty_world_def)
  have "mset (map ne_AccountID (w_notifications w')) = {#1#} \<and> length (w_jobs w') = 1"
    using send_to_users_all_or_refused [OF run refl refl] due by (simp add: w ring_outside_def)
  then have "map ne_AccountID (w_notifications w') = [1]" "length (w_jobs w') = 1"
    by (metis mset_single_iff_right, blast)
  moreover obtain q w2 where other:
    "rpc_send_to_users [''a'', ''c''] (Some sample_ring_notification) ring_world = (q, w2)"
    by (cases "rpc_send_to_users [''a'', ''c''] (Some sample_ring_notification) ring_world")
  moreover have "q = Inr (InvalidArgument ''user id is not a valid UUID'') \<and> w2 = ring_world"
    using send_to_users_all_or_refused [OF other refl refl] by (simp add: w ring_outside_def)
  ultimately show ?thesis using run by simp
qed

end
