(* ===== verification/Scheduler.thy ===== *)
theory Scheduler
  imports Email_Advance Push_Service
begin

text \<open>
  \<open>internal/scheduler/scheduler.go\<close>: the four jobs, the parser of their cron specifications, and the
  times the daily ones run at. A loop sleeps until its time, runs its job and logs an error.
\<close>

section \<open>Cron specifications\<close>

text \<open>
  The loop over \<open>i\<close> with the \<open>start\<close> of the current part; after a separator \<open>i\<close> goes on by one. Its only
  caller passes one character: with a longer separator that overlaps itself the slice \<open>s[start:i]\<close>
  could be taken with \<open>i < start\<close>, which panics and is outside the model.
\<close>

function (sequential) split_from :: "string \<Rightarrow> string \<Rightarrow> nat \<Rightarrow> nat \<Rightarrow> string list" where
  "split_from s sep start i =
     (if i + length sep \<le> length s then
        if take (length sep) (drop i s) = sep
        then take (i - start) (drop start s) # split_from s sep (i + length sep) (Suc i)
        else split_from s sep start (Suc i)
      else [drop start s])"
  by pat_completeness auto
termination by (relation "measure (\<lambda>(s, sep, start, i). Suc (length s) - i)") auto

declare split_from.simps [simp del]

definition strings_split :: "string \<Rightarrow> string \<Rightarrow> string list" where
  "strings_split s sep = split_from s sep 0 0"

fun atoi_digits :: "int \<Rightarrow> string \<Rightarrow> int" where
  "atoi_digits v [] = v"
| "atoi_digits v (r # rs) =
     (if is_digit r then atoi_digits (wrap64 (v * 10 + (of_char r - 48))) rs else 0)"

definition atoi_or_zero :: "string \<Rightarrow> int" where
  "atoi_or_zero s = (if s = [] then 0 else atoi_digits 0 s)"

definition parse_cron_time :: "string \<Rightarrow> int \<times> int" where
  "parse_cron_time spec =
     (let parts = strings_split spec '' ''
      in if 3 \<le> length parts then (atoi_or_zero (parts ! 2), atoi_or_zero (parts ! 1)) else (0, 0))"

section \<open>When a daily job runs\<close>

text \<open>\<open>time.Date\<close> on the day of \<open>now\<close>, and a day later when that has passed.\<close>

definition next_run :: "int \<Rightarrow> int \<Rightarrow> time \<Rightarrow> time" where
  "next_run hour' minute now =
     (let at = get_start_of_utc_day now + hour' * 3600000000000 + minute * 60000000000
      in if \<not> now < at then at + day_length else at)"

section \<open>The jobs\<close>

definition app_database_recycling :: "unit io" where
  "app_database_recycling =
     bindM time_now (\<lambda>now. recycle_soft_deleted (now - 7 * day_length))"

definition notification_retention_cleanup :: "unit io" where
  "notification_retention_cleanup = bindM delete_excess_notifications (\<lambda>n. ret ())"

definition push_sub_flush :: "unit io" where
  "push_sub_flush = flush_removal_buffer"

definition email_sending_plan_advance :: "unit io" where
  "email_sending_plan_advance = advance_due_plans"

definition push_sub_flush_interval :: int where
  "push_sub_flush_interval = 5 * 60000000000"

definition plan_advance_interval :: int where
  "plan_advance_interval = 60000000000"

text \<open>One pass of \<open>runDaily\<close> and \<open>runInterval\<close> after the timer: the job runs, its error is logged.\<close>

definition run_job :: "unit io \<Rightarrow> unit io" where
  "run_job fn = swallow fn"

text \<open>
  The times at which the first \<open>n\<close> passes of \<open>runDaily\<close> run their job, when each pass finds the clock
  \<open>late k\<close> after the time the one before it slept until.
\<close>

fun daily_runs :: "int \<Rightarrow> int \<Rightarrow> (nat \<Rightarrow> int) \<Rightarrow> nat \<Rightarrow> time \<Rightarrow> time list" where
  "daily_runs hour' minute late 0 now = []"
| "daily_runs hour' minute late (Suc n) now =
     (let at = next_run hour' minute now
      in at # daily_runs hour' minute late n (at + late n))"

end
