(* ===== verification/Scheduler_Facts.thy ===== *)
theory Scheduler_Facts
  imports Scheduler
begin

text \<open>
  The cron specifications read back what they were written for, and the daily jobs run once a day.
\<close>

section \<open>Reading a specification\<close>

text \<open>Splitting at one character, which is all the parser does.\<close>

lemma split_from_shift:
  "split_from (p @ s) [c] (length p + start) (length p + i) = split_from s [c] start i"
proof (induction "length s - i" arbitrary: start i)
  case 0
  then show ?case by (simp add: split_from.simps)
next
  case (Suc n)
  then have step: "split_from (p @ s) [c] (length p + start') (length p + Suc i) = split_from s [c] start' (Suc i)"
    for start' by (metis Suc_diff_Suc Suc_inject zero_less_Suc zero_less_diff)
  show ?case
    using step [of start] step [of "Suc i"]
    by (subst (1 2) split_from.simps) simp
qed

lemma split_from_skip:
  "c \<notin> set u \<Longrightarrow> i \<le> length u \<Longrightarrow> split_from (u @ s) [c] 0 i = split_from (u @ s) [c] 0 (length u)"
proof (induction "length u - i" arbitrary: i)
  case (Suc n)
  then have i: "i < length u" by simp
  then have "take 1 (drop i (u @ s)) = [u ! i]"
    by (simp add: take_Suc_conv_app_nth Cons_nth_drop_Suc [symmetric])
  moreover have "u ! i \<noteq> c" using Suc.prems(1) i by force
  moreover have "split_from (u @ s) [c] 0 (Suc i) = split_from (u @ s) [c] 0 (length u)"
    using Suc by simp
  ultimately show ?case by (subst split_from.simps) (use i in simp)
qed simp

lemma strings_split_none: "c \<notin> set u \<Longrightarrow> strings_split u [c] = [u]"
  using split_from_skip [of c u 0 "[]"] by (simp add: strings_split_def split_from.simps [of _ _ _ "length u"])

lemma strings_split_sep:
  assumes "c \<notin> set u"
  shows "strings_split (u @ c # s) [c] = u # strings_split s [c]"
proof -
  have "strings_split (u @ c # s) [c] = split_from (u @ c # s) [c] 0 (length u)"
    using split_from_skip [OF assms, of 0 "c # s"] by (simp add: strings_split_def)
  also have "\<dots> = u # split_from (u @ c # s) [c] (Suc (length u)) (Suc (length u))"
    by (subst split_from.simps) simp
  also have "\<dots> = u # strings_split s [c]"
    using split_from_shift [of "u @ [c]" s c 0 0] by (simp add: strings_split_def)
  finally show ?thesis .
qed

text \<open>A number written in decimal is read back.\<close>

lemma digit_char_value:
  assumes "d < 10"
  shows "is_digit (digit_char d)" "of_char (digit_char d) = (48 + int d)"
proof -
  have "d \<in> set [0..<10]" using assms by simp
  then have "is_digit (digit_char d) \<and> of_char (digit_char d) = (48 + int d)"
    by (auto simp: upt_rec digit_char_def char_class_defs)
  then show "is_digit (digit_char d)" "of_char (digit_char d) = (48 + int d)" by simp_all
qed

lemma show_nat_digits: "c \<in> set (show_nat n) \<Longrightarrow> is_digit c"
proof (induction n rule: show_nat.induct)
  case (1 n)
  then show ?case
    by (subst (asm) (2) show_nat.simps) (auto simp: digit_char_value split: if_splits)
qed

lemma atoi_digits_snoc:
  "\<forall>c \<in> set s. is_digit c \<Longrightarrow> is_digit d \<Longrightarrow>
   atoi_digits v (s @ [d]) = wrap64 (atoi_digits v s * 10 + (of_char d - 48))"
  by (induction s arbitrary: v) auto

lemma atoi_show_nat: "int n \<le> 9223372036854775807 \<Longrightarrow> atoi_or_zero (show_nat n) = int n"
proof (induction n rule: show_nat.induct)
  case (1 n)
  have id: "wrap64 (int n) = int n" using 1 by (simp add: wrap64_id)
  show ?case
  proof (cases "n < 10")
    case True
    then show ?thesis
      using digit_char_value id by (simp add: atoi_or_zero_def show_nat.simps [of n])
  next
    case False
    moreover have "show_nat (n div 10) \<noteq> []" by (subst show_nat.simps) simp
    ultimately have "atoi_digits 0 (show_nat (n div 10)) = int (n div 10)"
      using 1 by (simp add: atoi_or_zero_def)
    moreover have "int (n div 10) * 10 + int (n mod 10) = int n"
      by (metis div_mult_mod_eq of_nat_add of_nat_mult of_nat_numeral)
    ultimately show ?thesis
      using False id digit_char_value [of "n mod 10"] show_nat_digits
      by (simp add: atoi_or_zero_def show_nat.simps [of n] atoi_digits_snoc)
  qed
qed

text \<open>The scheduler's parser reads back every daily specification: of \<open>0 m h * * ?\<close>, with the minute
  and the hour in decimal, it gives \<open>h\<close> and \<open>m\<close>, whatever numbers of 63 bits they are.\<close>

theorem parse_cron_roundtrip:
  assumes "int h \<le> 9223372036854775807" and "int m \<le> 9223372036854775807"
  shows "parse_cron_time (''0 '' @ show_nat m @ '' '' @ show_nat h @ '' * * ?'') = (int h, int m)"
proof -
  have space: "CHR '' '' \<notin> set (show_nat n)" for n
    using show_nat_digits [of "CHR '' ''" n] by (auto simp: char_class_defs)
  have "strings_split (''0 '' @ show_nat m @ '' '' @ show_nat h @ '' * * ?'') '' ''
      = ''0'' # show_nat m # show_nat h # strings_split ''* * ?'' '' ''"
    using strings_split_sep [of "CHR '' ''" "''0''"] strings_split_sep [OF space [of m]]
      strings_split_sep [OF space [of h]] by simp
  then show ?thesis
    using assms by (simp add: parse_cron_time_def atoi_show_nat)
qed

theorem parse_cron_roundtrip_witness:
  "parse_cron_time ''0 15 0 * * ?'' = (0, 15) \<and> show_nat 15 = ''15'' \<and> show_nat 0 = ''0''"
proof -
  have "show_nat 15 = ''15''" "show_nat 0 = ''0''" by code_simp+
  then show ?thesis using parse_cron_roundtrip [of 0 15] by simp
qed

section \<open>The daily runs\<close>

lemma next_run_day:
  assumes "0 \<le> h" "h < 24" "0 \<le> m" "m < 60"
  shows "now < next_run h m now" "next_run h m now \<le> now + day_length"
    "next_run h m now mod day_length = h * 3600000000000 + m * 60000000000"
proof -
  have offset: "0 \<le> h * 3600000000000 + m * 60000000000" "h * 3600000000000 + m * 60000000000 < day_length"
    using assms by (auto simp: day_length_def)
  have now: "get_start_of_utc_day now \<le> now" "now < get_start_of_utc_day now + day_length"
    unfolding get_start_of_utc_day_def day_length_def by presburger+
  show "now < next_run h m now" "next_run h m now \<le> now + day_length"
    using offset now by (auto simp: next_run_def Let_def)
  have "(get_start_of_utc_day now + h * 3600000000000 + m * 60000000000) mod day_length
      = h * 3600000000000 + m * 60000000000"
    using offset by (simp add: get_start_of_utc_day_def add.assoc)
  then show "next_run h m now mod day_length = h * 3600000000000 + m * 60000000000"
    by (simp add: next_run_def Let_def)
qed

text \<open>C10: a daily job runs once a day at its time. From whatever moment the loop starts, the first run is
  at the hour and minute of its specification within the next 24 hours, and as long as no run ends a
  day late the runs follow each other at exactly 24 hours: none is skipped or doubled.\<close>

theorem daily_runs_once_a_day:
  assumes time: "0 \<le> h" "h < 24" "0 \<le> m" "m < 60"
    and late: "\<And>k. 0 \<le> late k \<and> late k < day_length"
  shows "daily_runs h m late n now = map (\<lambda>k. next_run h m now + int k * day_length) [0..<n]
    \<and> now < next_run h m now \<and> next_run h m now \<le> now + day_length
    \<and> next_run h m now mod day_length = h * 3600000000000 + m * 60000000000"
proof -
  have step: "next_run h m (next_run h m t + d) = next_run h m t + day_length"
    if "0 \<le> d" "d < day_length" for t d
  proof -
    let ?t = "next_run h m t" let ?u = "next_run h m (?t + d)"
    have "?u mod day_length = ?t mod day_length"
      using next_run_day(3) [OF time] by simp
    then obtain k where "?u = ?t + day_length * k" by (metis add_diff_cancel_left' diff_add_cancel mod_eqE)
    moreover have "?t < ?u" "?u < ?t + 2 * day_length"
      using next_run_day(1,2) [OF time, of "?t + d"] that by auto
    ultimately show ?thesis by (auto simp: day_length_def)
  qed
  have "daily_runs h m late n now = map (\<lambda>k. next_run h m now + int k * day_length) [0..<n]" for n
  proof (induction n arbitrary: now)
    case (Suc n)
    have "daily_runs h m late n (next_run h m now + late n)
        = map (\<lambda>k. next_run h m now + day_length + int k * day_length) [0..<n]"
      using Suc step late by simp
    then show ?case
      by (simp add: Let_def map_upt_Suc distrib_right add.assoc del: upt_Suc)
  qed simp
  then show ?thesis using next_run_day [OF time] by blast
qed

theorem daily_runs_once_a_day_witness:
  "daily_runs 0 15 (\<lambda>k. 7) 3 86400000000001
    = [87300000000000, 173700000000000, 260100000000000]"
proof -
  have first: "next_run 0 15 86400000000001 = 87300000000000"
    by (simp add: next_run_def get_start_of_utc_day_def day_length_def)
  show ?thesis
    using daily_runs_once_a_day [of 0 15 "\<lambda>k. 7" 3 86400000000001]
    by (simp add: first upt_rec) (simp add: day_length_def)
qed

end
