(* ===== verification/Scheduler_Loop.thy ===== *)
theory Scheduler_Loop
  imports Scheduler
begin

text \<open>
  \<open>runInterval\<close> of \<open>internal/scheduler/scheduler.go\<close> as a step relation over the clock, the ticker, the
  context and the loop, and \<open>Run\<close>, which starts the loops. A \<open>time.Ticker\<close> has a channel with room for
  one tick: a tick that finds it full is dropped, and a ticker that is late skips what it missed.
\<close>

section \<open>What is started\<close>

datatype schedule = RunDaily string | RunInterval int

definition scheduled_jobs :: "(string \<times> schedule \<times> unit io) list" where
  "scheduled_jobs =
     [(''app_database_recycling'', RunDaily ''0 0 0 * * ?'', app_database_recycling),
      (''notification_retention_cleanup'', RunDaily ''0 15 0 * * ?'', notification_retention_cleanup),
      (''push_sub_flush'', RunInterval push_sub_flush_interval, push_sub_flush),
      (''email_sending_plan_advance'', RunInterval plan_advance_interval, email_sending_plan_advance)]"

text \<open>Every job is started with a time of day, or an interval after which it runs.\<close>

lemma scheduled_jobs_run:
  "list_all (\<lambda>(name, sched, fn). case sched of
       RunDaily spec \<Rightarrow> (case parse_cron_time spec of (h, m) \<Rightarrow> 0 \<le> h \<and> h < 24 \<and> 0 \<le> m \<and> m < 60)
     | RunInterval interval \<Rightarrow> 0 < interval)
     scheduled_jobs"
proof -
  have "parse_cron_time ''0 0 0 * * ?'' = (0, 0)" "parse_cron_time ''0 15 0 * * ?'' = (0, 15)"
    by code_simp+
  then show ?thesis by (simp add: scheduled_jobs_def push_sub_flush_interval_def plan_advance_interval_def)
qed

section \<open>The machine\<close>

datatype loop_pc = LoopSelecting | LoopRunning | LoopReturned

text \<open>
  \<open>il_Due\<close> is when the ticker fires next; \<open>il_Tick\<close> tells whether a tick is in the channel; \<open>il_Fired\<close> and
  \<open>il_Dropped\<close> count the ticks sent and those that found the channel full; \<open>il_Starts\<close> are the times
  at which the job was started, \<open>il_Failures\<close> counts the errors logged.
\<close>

record interval_loop =
  il_Now :: time
  il_Due :: time
  il_Tick :: bool
  il_Fired :: nat
  il_Dropped :: nat
  il_Cancelled :: bool
  il_Pc :: loop_pc
  il_Starts :: "time list"
  il_Failures :: nat

definition start_interval :: "int \<Rightarrow> time \<Rightarrow> interval_loop" where
  "start_interval interval now =
     \<lparr>il_Now = now, il_Due = now + interval, il_Tick = False, il_Fired = 0, il_Dropped = 0,
      il_Cancelled = False, il_Pc = LoopSelecting, il_Starts = [], il_Failures = 0\<rparr>"

text \<open>The runtime sends a tick and sets the next time, as many whole intervals on as have passed.\<close>

definition fire_ticker :: "int \<Rightarrow> interval_loop \<Rightarrow> interval_loop" where
  "fire_ticker interval s =
     s\<lparr>il_Due := il_Due s + interval * (1 + (il_Now s - il_Due s) div interval),
       il_Fired := Suc (il_Fired s), il_Tick := True,
       il_Dropped := (if il_Tick s then Suc (il_Dropped s) else il_Dropped s)\<rparr>"

text \<open>
  The loop is at its \<open>select\<close>, which picks one of the ready cases, or in the job; a failed job is logged
  and the loop goes on. Leaving the function stops the ticker.
\<close>

inductive interval_step :: "int \<Rightarrow> interval_loop \<Rightarrow> interval_loop \<Rightarrow> bool" for interval where
  passes: "0 < d \<Longrightarrow> interval_step interval s (s\<lparr>il_Now := il_Now s + d\<rparr>)"
| ticks:
    "il_Due s \<le> il_Now s \<Longrightarrow> il_Pc s \<noteq> LoopReturned \<Longrightarrow> interval_step interval s (fire_ticker interval s)"
| cancels: "interval_step interval s (s\<lparr>il_Cancelled := True\<rparr>)"
| starts:
    "il_Pc s = LoopSelecting \<Longrightarrow> il_Tick s \<Longrightarrow>
     interval_step interval s
       (s\<lparr>il_Tick := False, il_Pc := LoopRunning, il_Starts := il_Starts s @ [il_Now s]\<rparr>)"
| ends:
    "il_Pc s = LoopRunning \<Longrightarrow>
     interval_step interval s
       (s\<lparr>il_Pc := LoopSelecting, il_Failures := (if isl (result :: go_error + unit) then Suc (il_Failures s) else il_Failures s)\<rparr>)"
| leaves:
    "il_Pc s = LoopSelecting \<Longrightarrow> il_Cancelled s \<Longrightarrow>
     interval_step interval s (s\<lparr>il_Pc := LoopReturned\<rparr>)"

inductive interval_reachable :: "int \<Rightarrow> time \<Rightarrow> interval_loop \<Rightarrow> bool" for interval now where
  begins: "interval_reachable interval now (start_interval interval now)"
| steps: "interval_reachable interval now s \<Longrightarrow> interval_step interval s t \<Longrightarrow> interval_reachable interval now t"

inductive_cases interval_stepE: "interval_step interval s t"

section \<open>How often the job runs\<close>

text \<open>
  Every tick was taken by a run, is in the channel, or was dropped; the next tick is at least
  one interval after each that was sent, and the job's \<open>k\<close>-th run follows the \<open>k\<close>-th tick.
\<close>

definition interval_inv :: "int \<Rightarrow> time \<Rightarrow> interval_loop \<Rightarrow> bool" where
  "interval_inv interval now s \<longleftrightarrow>
     il_Fired s = length (il_Starts s) + of_bool (il_Tick s) + il_Dropped s
     \<and> now + (int (il_Fired s) + 1) * interval \<le> il_Due s \<and> il_Due s \<le> il_Now s + interval
     \<and> now + int (il_Fired s) * interval \<le> il_Now s
     \<and> sorted (il_Starts s @ [il_Now s])
     \<and> (\<forall>k<length (il_Starts s). now + (int k + 1) * interval \<le> il_Starts s ! k)
     \<and> il_Failures s + of_bool (il_Pc s = LoopRunning) \<le> length (il_Starts s)
     \<and> (il_Pc s = LoopReturned \<longrightarrow> il_Cancelled s)"

lemma sorted_snoc_later: "sorted (xs @ [a]) \<Longrightarrow> a \<le> b \<Longrightarrow> sorted (xs @ [b])"
  for a :: "'a::linorder"
  by (auto simp: sorted_append)

lemma fire_ticker_inv:
  assumes "0 < interval" "il_Due s \<le> il_Now s" "interval_inv interval now s"
  shows "interval_inv interval now (fire_ticker interval s)"
proof -
  let ?late = "(il_Now s - il_Due s) div interval"
  have "0 \<le> interval * ?late" using assms(1,2) by (simp add: pos_imp_zdiv_nonneg_iff)
  moreover have "interval * ?late \<le> il_Now s - il_Due s"
    using assms(1) by (metis add.commute le_add_same_cancel1 mult_div_mod_eq pos_mod_sign)
  ultimately show ?thesis
    using assms by (auto simp: interval_inv_def fire_ticker_def distrib_left distrib_right)
qed

lemma starts_inv:
  assumes "0 < interval" "il_Pc s = LoopSelecting" "il_Tick s" "interval_inv interval now s"
  shows "interval_inv interval now
    (s\<lparr>il_Tick := False, il_Pc := LoopRunning, il_Starts := il_Starts s @ [il_Now s]\<rparr>)"
proof -
  have "(int (length (il_Starts s)) + 1) * interval \<le> int (il_Fired s) * interval"
    using assms by (intro mult_right_mono) (auto simp: interval_inv_def)
  then have "now + (int (length (il_Starts s)) + 1) * interval \<le> il_Now s"
    using assms(4) by (auto simp: interval_inv_def)
  then show ?thesis
    using assms(2-4) by (auto simp: interval_inv_def nth_append sorted_append less_Suc_eq)
qed

lemma interval_step_inv:
  assumes "0 < interval" "interval_step interval s t" "interval_inv interval now s"
  shows "interval_inv interval now t"
  using assms(2,3)
proof (cases rule: interval_step.cases)
  case (passes d)
  then show ?thesis using assms(3) sorted_snoc_later [of "il_Starts s" "il_Now s" "il_Now s + d"]
    unfolding interval_inv_def by (elim conjE, intro conjI) simp_all
next
  case ticks
  then show ?thesis using fire_ticker_inv assms(1,3) by simp
next
  case starts
  then show ?thesis using starts_inv assms(1,3) by simp
qed (use assms(3) in \<open>unfold interval_inv_def, (elim conjE, intro conjI; simp)+\<close>)

lemma interval_reachable_inv:
  assumes "0 < interval" "interval_reachable interval now s"
  shows "interval_inv interval now s"
  using assms(2)
proof induction
  case begins
  show ?case using assms(1) by (simp add: interval_inv_def start_interval_def)
next
  case (steps s t)
  then show ?case using interval_step_inv assms(1) by blast
qed

text \<open>While the loop has not returned, its job can still be started once more.\<close>

lemma selecting_can_start:
  assumes "il_Pc s = LoopSelecting"
  shows "\<exists>t. (interval_step interval)\<^sup>*\<^sup>* s t \<and> length (il_Starts t) = Suc (length (il_Starts s))"
proof -
  obtain u where u: "(interval_step interval)\<^sup>*\<^sup>* s u" "il_Pc u = LoopSelecting" "il_Tick u"
    "il_Starts u = il_Starts s"
  proof (cases "il_Tick s")
    case False
    define d where "d = max 1 (il_Due s - il_Now s)"
    let ?later = "s\<lparr>il_Now := il_Now s + d\<rparr>"
    have "interval_step interval s ?later" by (rule interval_step.passes) (simp add: d_def)
    moreover have "interval_step interval ?later (fire_ticker interval ?later)"
      by (rule interval_step.ticks) (simp_all add: d_def assms)
    ultimately have "(interval_step interval)\<^sup>*\<^sup>* s (fire_ticker interval ?later)" by simp
    with that show ?thesis by (simp add: fire_ticker_def assms)
  qed (use that assms in blast)
  let ?t = "u\<lparr>il_Tick := False, il_Pc := LoopRunning, il_Starts := il_Starts u @ [il_Now u]\<rparr>"
  have "(interval_step interval)\<^sup>*\<^sup>* s ?t"
    using u(1) interval_step.starts [OF u(2,3)] by (rule rtranclp.rtrancl_into_rtrancl)
  with u(4) show ?thesis by (intro exI [of _ ?t]) simp
qed

lemma unreturned_can_start:
  assumes "il_Pc s \<noteq> LoopReturned"
  shows "\<exists>t. (interval_step interval)\<^sup>*\<^sup>* s t \<and> length (il_Starts t) = Suc (length (il_Starts s))"
proof (cases "il_Pc s")
  case LoopRunning
  let ?u = "s\<lparr>il_Pc := LoopSelecting\<rparr>"
  have "interval_step interval s ?u" using interval_step.ends [OF LoopRunning, of interval "Inr ()"] by simp
  moreover obtain t where "(interval_step interval)\<^sup>*\<^sup>* ?u t" "length (il_Starts t) = Suc (length (il_Starts s))"
    using selecting_can_start [of ?u] by auto
  ultimately show ?thesis by (meson converse_rtranclp_into_rtranclp)
qed (use assms selecting_can_start in auto)



end
