(* ===== verification/Config.thy ===== *)
theory Config
  imports Apps World
begin

text \<open>
  \<open>internal/config/config.go\<close>: the configuration, its defaults and the environment overrides; and
  the clients \<open>internal/grpcclient\<close> makes of it. The TOML parser is a parameter that fills a
  configuration in, the environment a function in which an unset variable is empty.
\<close>

section \<open>The configuration\<close>

record config =
  cfg_SiteUrl :: string
  cfg_BaseUrl :: string
  cfg_ConsumerCount :: int
  cfg_HttpPort :: string
  cfg_GrpcPort :: string
  cfg_GrpcUseTLS :: bool
  cfg_GrpcCertFile :: string
  cfg_GrpcKeyFile :: string
  cfg_DatabaseDSN :: string
  cfg_RedisAddr :: string
  cfg_RedisPassword :: string
  cfg_RedisDB :: int
  cfg_NatsTarget :: string
  cfg_Email :: email_config
  cfg_Push :: push_config
  cfg_StargateGrpc :: string
  cfg_BladeGrpc :: string
  cfg_DiscoveryEnabled :: bool
  cfg_DiscoveryTarget :: string
  cfg_DiscoveryRegistrationToken :: string
  cfg_DiscoveryService :: string
  cfg_DiscoveryInstanceID :: string
  cfg_DiscoveryHttpEndpoint :: string
  cfg_DiscoveryGrpcEndpoint :: string
  cfg_DiscoveryLeaseSeconds :: int
  cfg_DiscoveryWeight :: int

definition default_config :: config where
  "default_config =
     \<lparr>cfg_SiteUrl = ''http://localhost:3000'', cfg_BaseUrl = ''http://localhost:5212'',
      cfg_ConsumerCount = 0, cfg_HttpPort = ''8080'', cfg_GrpcPort = ''9090'', cfg_GrpcUseTLS = False,
      cfg_GrpcCertFile = [], cfg_GrpcKeyFile = [], cfg_DatabaseDSN = [], cfg_RedisAddr = [],
      cfg_RedisPassword = [], cfg_RedisDB = 0, cfg_NatsTarget = [],
      cfg_Email = \<lparr>ec_Server = [], ec_Port = 25, ec_UseSsl = False, ec_Username = [],
        ec_Password = [], ec_FromAddress = [], ec_FromName = ''Alphabot'',
        ec_SubjectPrefix = ''Solar Network''\<rparr>,
      cfg_Push = \<lparr>pc_DefaultApp = [], pc_Apps = [], pc_Production = False, pc_Google = [],
        pc_ApplePrivateKey = [], pc_ApplePrivateKeyId = [], pc_AppleTeamId = [],
        pc_AppleBundleIdentifier = []\<rparr>,
      cfg_StargateGrpc = [], cfg_BladeGrpc = [], cfg_DiscoveryEnabled = False,
      cfg_DiscoveryTarget = [], cfg_DiscoveryRegistrationToken = [],
      cfg_DiscoveryService = ''metoer'', cfg_DiscoveryInstanceID = [],
      cfg_DiscoveryHttpEndpoint = [], cfg_DiscoveryGrpcEndpoint = [],
      cfg_DiscoveryLeaseSeconds = 30, cfg_DiscoveryWeight = 1\<rparr>"

text \<open>The number of consumers; \<open>cpus\<close> is \<open>runtime.NumCPU\<close>.\<close>

definition consumer_count_value :: "int \<Rightarrow> config \<Rightarrow> int" where
  "consumer_count_value cpus cfg = (if 0 < cfg_ConsumerCount cfg then cfg_ConsumerCount cfg else cpus)"

section \<open>Overrides\<close>

type_synonym environment = "string \<Rightarrow> string"

definition set_str :: "environment \<Rightarrow> string \<Rightarrow> ((string \<Rightarrow> string) \<Rightarrow> config \<Rightarrow> config) \<Rightarrow> config \<Rightarrow> config" where
  "set_str env key upd cfg = (if env key \<noteq> [] then upd (\<lambda>_. env key) cfg else cfg)"

definition set_bool :: "environment \<Rightarrow> string \<Rightarrow> ((bool \<Rightarrow> bool) \<Rightarrow> config \<Rightarrow> config) \<Rightarrow> config \<Rightarrow> config" where
  "set_bool env key upd cfg =
     (if env key \<noteq> [] then upd (\<lambda>_. env key = ''true'' \<or> env key = ''1'') cfg else cfg)"

abbreviation (input) in_email ::
  "((string \<Rightarrow> string) \<Rightarrow> email_config \<Rightarrow> email_config) \<Rightarrow> (string \<Rightarrow> string) \<Rightarrow> config \<Rightarrow> config" where
  "in_email upd f \<equiv> cfg_Email_update (upd f)"

definition env_overrides :: "environment \<Rightarrow> (config \<Rightarrow> config) list" where
  "env_overrides env =
     [set_str env ''METOER_SITE_URL'' cfg_SiteUrl_update,
      set_str env ''METOER_BASE_URL'' cfg_BaseUrl_update,
      set_str env ''METOER_HTTP_PORT'' cfg_HttpPort_update,
      set_str env ''METOER_GRPC_PORT'' cfg_GrpcPort_update,
      set_bool env ''METOER_GRPC_USETLS'' cfg_GrpcUseTLS_update,
      set_str env ''METOER_GRPC_CERT_FILE'' cfg_GrpcCertFile_update,
      set_str env ''METOER_GRPC_KEY_FILE'' cfg_GrpcKeyFile_update,
      set_str env ''METOER_DATABASE__DSN'' cfg_DatabaseDSN_update,
      set_str env ''METOER_REDIS_ADDR'' cfg_RedisAddr_update,
      set_str env ''METOER_REDIS_PASSWORD'' cfg_RedisPassword_update,
      set_str env ''METOER_NATS_TARGET'' cfg_NatsTarget_update,
      set_str env ''METOER_EMAIL_SERVER'' (in_email ec_Server_update),
      set_str env ''METOER_EMAIL_USERNAME'' (in_email ec_Username_update),
      set_str env ''METOER_EMAIL_PASSWORD'' (in_email ec_Password_update),
      set_str env ''METOER_EMAIL_FROM_ADDRESS'' (in_email ec_FromAddress_update),
      set_str env ''METOER_SERVICES_STARGATE__GRPC'' cfg_StargateGrpc_update,
      set_str env ''METOER_SERVICES_BLADE__GRPC'' cfg_BladeGrpc_update,
      set_bool env ''METOER_DISCOVERY_ENABLED'' cfg_DiscoveryEnabled_update,
      set_str env ''METOER_DISCOVERY_TARGET'' cfg_DiscoveryTarget_update,
      set_str env ''METOER_DISCOVERY_REGISTRATION_TOKEN'' cfg_DiscoveryRegistrationToken_update,
      set_str env ''METOER_DISCOVERY_SERVICE'' cfg_DiscoveryService_update,
      set_str env ''METOER_DISCOVERY_INSTANCE_ID'' cfg_DiscoveryInstanceID_update,
      set_str env ''METOER_DISCOVERY_HTTP_ENDPOINT'' cfg_DiscoveryHttpEndpoint_update,
      set_str env ''METOER_DISCOVERY_GRPC_ENDPOINT'' cfg_DiscoveryGrpcEndpoint_update]"

definition apply_env_overrides :: "environment \<Rightarrow> config \<Rightarrow> config" where
  "apply_env_overrides env cfg = foldl (\<lambda>c f. f c) cfg (env_overrides env)"

datatype file_read = FileMissing | FileUnreadable go_error | FileData string

definition config_path :: "environment \<Rightarrow> string \<Rightarrow> string" where
  "config_path env path =
     (let p = (if path = [] then env ''CONFIG_PATH'' else path)
      in if p = [] then ''config.example.toml'' else p)"

definition load_config ::
  "environment \<Rightarrow> (string \<Rightarrow> file_read) \<Rightarrow> (string \<Rightarrow> config \<Rightarrow> go_error + config) \<Rightarrow> string
   \<Rightarrow> go_error + config" where
  "load_config env read_file unmarshal path =
     (let p = config_path env path in
      case read_file p of
        FileUnreadable e \<Rightarrow> Inl (ErrWrap (''read config '' @ p) e)
      | FileMissing \<Rightarrow> Inr (apply_env_overrides env default_config)
      | FileData text \<Rightarrow>
          (case unmarshal text default_config of
             Inl e \<Rightarrow> Inl (ErrWrap (''parse config '' @ p) e)
           | Inr cfg \<Rightarrow> Inr (apply_env_overrides env cfg)))"

section \<open>What is configured\<close>

text \<open>
  \<open>NewClients\<close>: a client per target that is named and can be dialled (\<open>dials\<close> is \<open>grpc.NewClient\<close>, which
  fails on a malformed target); the account, permission and action-log clients share Stargate's.
\<close>

record grpc_clients =
  gc_Stargate :: bool
  gc_Blade :: bool

definition new_clients :: "(string \<Rightarrow> bool) \<Rightarrow> config \<Rightarrow> grpc_clients" where
  "new_clients dials cfg =
     \<lparr>gc_Stargate = (cfg_StargateGrpc cfg \<noteq> [] \<and> dials (cfg_StargateGrpc cfg)),
      gc_Blade = (cfg_BladeGrpc cfg \<noteq> [] \<and> dials (cfg_BladeGrpc cfg))\<rparr>"

end
