(* ===== verification/Discovery.thy ===== *)
theory Discovery
  imports Config
begin

text \<open>
  \<open>internal/discovery/registration.go\<close>: the registration with Blade's service discovery, as the state
  machine its loop is. A step is what the loop waited for: the answer to a call, the end of a
  pause, or the cancellation of its context.
\<close>

section \<open>Options\<close>

record discovery_options =
  dop_Service :: string
  dop_InstanceID :: string
  dop_HttpEndpoint :: string
  dop_GrpcEndpoint :: string
  dop_RegistrationToken :: string
  dop_LeaseSeconds :: int
  dop_Weight :: int

text \<open>The options \<open>run\<close> makes of the configuration; \<open>fresh\<close> is \<open>uuid.NewString\<close>.\<close>

definition discovery_options_of :: "config \<Rightarrow> string \<Rightarrow> discovery_options" where
  "discovery_options_of cfg fresh =
     \<lparr>dop_Service = cfg_DiscoveryService cfg,
      dop_InstanceID =
        (if cfg_DiscoveryInstanceID cfg = [] then fresh else cfg_DiscoveryInstanceID cfg),
      dop_HttpEndpoint =
        (if cfg_DiscoveryHttpEndpoint cfg = []
         then ''http://'' @ cfg_DiscoveryService cfg @ '':'' @ cfg_HttpPort cfg
         else cfg_DiscoveryHttpEndpoint cfg),
      dop_GrpcEndpoint =
        (if cfg_DiscoveryGrpcEndpoint cfg = [] then cfg_DiscoveryService cfg @ '':'' @ cfg_GrpcPort cfg
         else cfg_DiscoveryGrpcEndpoint cfg),
      dop_RegistrationToken = cfg_DiscoveryRegistrationToken cfg,
      dop_LeaseSeconds = cfg_DiscoveryLeaseSeconds cfg, dop_Weight = cfg_DiscoveryWeight cfg\<rparr>"

definition err_config :: "string \<Rightarrow> go_error" where
  "err_config msg =
     ErrWrap ''service discovery'' (ErrText (''invalid configuration'' @ '': '' @ msg))"

definition validate_options :: "discovery_options \<Rightarrow> go_error option" where
  "validate_options opts =
     (if trim_space (dop_Service opts) = [] then Some (err_config ''service name is required'')
      else if trim_space (dop_InstanceID opts) = [] then Some (err_config ''instance ID is required'')
      else if trim_space (dop_HttpEndpoint opts) = [] \<and> trim_space (dop_GrpcEndpoint opts) = []
        then Some (err_config ''at least one endpoint is required'')
      else if dop_LeaseSeconds opts < 3 then
        Some (err_config ''lease must be at least three seconds'')
      else if dop_Weight opts < 1 then Some (err_config ''weight must be greater than zero'')
      else None)"

section \<open>The lease\<close>

definition second :: int where
  "second = 1000000000"

text \<open>
  \<open>renewalInterval\<close>, with the thirds taken exactly: the code divides \<open>float64\<close> seconds, which may
  differ in the last nanoseconds. \<open>now\<close> is the clock \<open>time.Until\<close> reads.
\<close>

definition third_of :: "int \<Rightarrow> int" where
  "third_of d = (if d < 3 * second then second else d div 3)"

definition renewal_interval :: "time \<Rightarrow> int \<Rightarrow> int \<Rightarrow> int" where
  "renewal_interval now leaseExpiresAtUnixMs leaseSeconds =
     (let remaining = leaseExpiresAtUnixMs * 1000000 - now in
      if 0 < leaseExpiresAtUnixMs \<and> 0 < remaining then third_of remaining
      else third_of (leaseSeconds * second))"

section \<open>The loop\<close>

datatype phase = Registering | Renewing int | WaitingToRenew int | Retrying int | Stopped

datatype discovery_event =
    Registered time int | RegisterFailed
  | Elapsed
  | Renewed time int | RenewFailed
  | Cancelled

record registration =
  rg_phase :: phase
  rg_delay :: int
  rg_registered :: bool

definition new_registration :: registration where
  "new_registration = \<lparr>rg_phase = Registering, rg_delay = 5 * second, rg_registered = False\<rparr>"

text \<open>\<open>time.Duration(math.Min(float64(retryDelay)*2, 30_000_000_000))\<close>.\<close>

definition backed_off :: "int \<Rightarrow> int" where
  "backed_off delay = min (delay * 2) (30 * second)"

text \<open>
  The pause before the next attempt; a cancellation during \<open>register\<close> or while renewing ends the loop
  there. An event the loop does not wait for changes nothing.
\<close>

fun discovery_step :: "discovery_options \<Rightarrow> discovery_event \<Rightarrow> registration \<Rightarrow> registration" where
  "discovery_step opts event s =
     (case (rg_phase s, event) of
        (Registering, Registered now ms) \<Rightarrow>
          s\<lparr>rg_phase := WaitingToRenew (renewal_interval now ms (dop_LeaseSeconds opts)),
            rg_delay := 5 * second, rg_registered := True\<rparr>
      | (Registering, RegisterFailed) \<Rightarrow> s\<lparr>rg_phase := Retrying (rg_delay s), rg_registered := False\<rparr>
      | (Registering, Cancelled) \<Rightarrow> s\<lparr>rg_phase := Stopped\<rparr>
      | (WaitingToRenew interval, Elapsed) \<Rightarrow> s\<lparr>rg_phase := Renewing interval\<rparr>
      | (WaitingToRenew interval, Cancelled) \<Rightarrow> s\<lparr>rg_phase := Stopped\<rparr>
      | (Renewing interval, Renewed now ms) \<Rightarrow>
          s\<lparr>rg_phase := WaitingToRenew (renewal_interval now ms (dop_LeaseSeconds opts))\<rparr>
      | (Renewing interval, RenewFailed) \<Rightarrow> s\<lparr>rg_phase := Retrying (rg_delay s)\<rparr>
      | (Renewing interval, Cancelled) \<Rightarrow> s\<lparr>rg_phase := Stopped\<rparr>
      | (Retrying delay, Elapsed) \<Rightarrow> s\<lparr>rg_phase := Registering, rg_delay := backed_off (rg_delay s)\<rparr>
      | (Retrying delay, Cancelled) \<Rightarrow> s\<lparr>rg_phase := Stopped\<rparr>
      | _ \<Rightarrow> s)"

definition discovery_run :: "discovery_options \<Rightarrow> discovery_event list \<Rightarrow> registration" where
  "discovery_run opts events = foldl (\<lambda>s e. discovery_step opts e s) new_registration events"

text \<open>\<open>Deregister\<close>: whether Blade is called, and the flag afterwards when the call succeeds or fails.\<close>

definition deregister :: "bool \<Rightarrow> registration \<Rightarrow> bool \<times> registration" where
  "deregister succeeds s =
     (if \<not> rg_registered s then (False, s)
      else (True, if succeeds then s\<lparr>rg_registered := False\<rparr> else s))"

end
