(* ===== verification/Discovery_Facts.thy ===== *)
theory Discovery_Facts
  imports Discovery
begin

text \<open>
  The invariant of the registration loop: what its phase says of the lease, and the pauses it makes.
\<close>

text \<open>What is left of the lease, as far as the loop knows.\<close>

definition lease_left :: "time \<Rightarrow> int \<Rightarrow> int \<Rightarrow> int" where
  "lease_left now ms leaseSeconds =
     (if 0 < ms \<and> 0 < ms * 1000000 - now then ms * 1000000 - now else leaseSeconds * second)"

lemma renewal_interval_third: "renewal_interval now ms l = third_of (lease_left now ms l)"
  by (simp add: renewal_interval_def lease_left_def Let_def)

lemma third_of_bounds: "second \<le> third_of d" "3 * second \<le> d \<Longrightarrow> 3 * third_of d \<le> d"
  by (auto simp: third_of_def second_def)

definition registration_ok :: "registration \<Rightarrow> bool" where
  "registration_ok s \<longleftrightarrow>
     rg_delay s \<in> {5 * second, 10 * second, 20 * second, 30 * second}
     \<and> (case rg_phase s of
          WaitingToRenew interval \<Rightarrow> second \<le> interval \<and> rg_registered s \<and> rg_delay s = 5 * second
        | Renewing interval \<Rightarrow> second \<le> interval \<and> rg_registered s \<and> rg_delay s = 5 * second
        | Retrying delay \<Rightarrow> delay = rg_delay s
        | _ \<Rightarrow> True)"

lemma registration_ok_step: "registration_ok s \<Longrightarrow> registration_ok (discovery_step opts e s)"
  by (cases "rg_phase s"; cases e)
    (auto simp: registration_ok_def renewal_interval_third third_of_bounds(1) [unfolded second_def]
      backed_off_def second_def)

lemma discovery_run_snoc: "discovery_run opts (events @ [e]) = discovery_step opts e (discovery_run opts events)"
  by (simp add: discovery_run_def)

lemma registration_ok_run: "registration_ok (discovery_run opts events)"
proof (induction events rule: rev_induct)
  case (snoc e events)
  then show ?case unfolding discovery_run_snoc by (rule registration_ok_step)
qed (simp add: discovery_run_def new_registration_def registration_ok_def)

text \<open>Attempts that fail one after the other.\<close>

definition failures :: "nat \<Rightarrow> discovery_event list" where
  "failures n = concat (replicate n [RegisterFailed, Elapsed])"

lemma failures_Suc: "failures (Suc n) = failures n @ [RegisterFailed, Elapsed]"
  unfolding failures_def by (metis append_Nil2 concat.simps concat_append replicate_Suc replicate_append_same)

lemma run_failures:
  "discovery_run opts (failures n)
    = \<lparr>rg_phase = Registering, rg_delay = min (5 * 2 ^ n) 30 * second, rg_registered = False\<rparr>"
proof (induction n)
  case (Suc n)
  have "backed_off (min (5 * 2 ^ n) 30 * second) = min (5 * 2 ^ Suc n) 30 * second"
    by (auto simp: backed_off_def second_def)
  then show ?case
    using Suc by (simp add: failures_Suc discovery_run_def)
qed (simp add: failures_def discovery_run_def new_registration_def)

text \<open>C34: whatever Blade answers and whenever it is cancelled, the registration loop with options that
  pass their validation waits only 5, 10, 20 or 30 seconds before it tries again, doubling up to 30
  with every failure in a row and starting over with every success; it waits to renew only a
  registration it holds, for at least a second, and three waits fit into what is left of a lease
  of three seconds or more; and a cancelled loop does nothing any more.\<close>

theorem discovery_loop_bounds:
  assumes valid: "validate_options opts = None"
  shows "registration_ok (discovery_run opts events)
    \<and> rg_delay (discovery_run opts (failures n)) = min (5 * 2 ^ n) 30 * second
    \<and> second \<le> renewal_interval now ms (dop_LeaseSeconds opts)
    \<and> 3 * renewal_interval now 0 (dop_LeaseSeconds opts) \<le> dop_LeaseSeconds opts * second
    \<and> (if 3 * second \<le> lease_left now ms (dop_LeaseSeconds opts)
       then 3 * renewal_interval now ms (dop_LeaseSeconds opts) \<le> lease_left now ms (dop_LeaseSeconds opts)
       else True)
    \<and> (if rg_phase (discovery_run opts events) = Stopped
       then discovery_run opts (events @ rest) = discovery_run opts events else True)"
proof -
  have lease: "3 * second \<le> lease_left now 0 (dop_LeaseSeconds opts)"
    using valid by (auto simp: validate_options_def lease_left_def second_def split: if_splits)
  have stopped: "foldl (\<lambda>s e. discovery_step opts e s) s rest = s" if "rg_phase s = Stopped" for s
    using that by (induction rest) simp_all
  show ?thesis
    using registration_ok_run [of opts events] run_failures [of opts n] third_of_bounds lease stopped
    by (auto simp: renewal_interval_third lease_left_def [of now 0] discovery_run_def)
qed

definition sample_options :: discovery_options where
  "sample_options = \<lparr>dop_Service = ''metoer'', dop_InstanceID = ''i1'', dop_HttpEndpoint = ''http://h'',
     dop_GrpcEndpoint = '''', dop_RegistrationToken = '''', dop_LeaseSeconds = 30, dop_Weight = 1\<rparr>"

theorem discovery_loop_bounds_witness:
  "validate_options sample_options = None
   \<and> rg_phase (discovery_run sample_options [RegisterFailed, Elapsed, Registered 0 0, Elapsed, RenewFailed])
      = Retrying (5 * second)
   \<and> rg_delay (discovery_run sample_options (failures 3)) = 30 * second"
proof -
  have valid: "validate_options sample_options = None" by code_simp
  moreover have "rg_phase (discovery_run sample_options
      [RegisterFailed, Elapsed, Registered 0 0, Elapsed, RenewFailed]) = Retrying (5 * second)"
    by code_simp
  ultimately show ?thesis using discovery_loop_bounds [OF valid, of "[]" 3] by simp
qed

end
