(* ===== verification/Migrate.thy ===== *)
theory Migrate
  imports Prelude "HOL-Library.List_Lexorder" "HOL-Library.Sublist"
begin

text \<open>
  \<open>internal/migrate/migrate.go\<close>: applying the embedded SQL scripts that the ledger does not record. The
  state is the database as far as the runner sees it; every statement may fail (\<open>md_fault\<close>, by
  its number), and what a script does to the tables is a parameter of the run.
\<close>

section \<open>The database\<close>

record migration_db =
  md_fault :: "nat \<Rightarrow> go_error option"
  md_tick :: nat
  md_Tables :: "string list"
  md_Ledger :: "string list"
  md_Applied :: "string list"

type_synonym 'a migration = "(migration_db, 'a) prog"

definition statement :: "unit migration" where
  "statement db =
     (let k = md_tick db; db' = db\<lparr>md_tick := Suc k\<rparr>
      in case md_fault db k of Some e \<Rightarrow> (Inl e, db') | None \<Rightarrow> (Inr (), db'))"

text \<open>A transaction that fails leaves only the count of statements.\<close>

definition db_transaction :: "unit migration \<Rightarrow> unit migration" where
  "db_transaction body db =
     (case seqM statement (seqM body statement) db of
        (Inl e, db') \<Rightarrow> (Inl e, db\<lparr>md_tick := md_tick db'\<rparr>)
      | (Inr u, db') \<Rightarrow> (Inr u, db'))"

section \<open>Running\<close>

definition ledger_table :: string where
  "ledger_table = ''schema_migrations''"

definition migration_names :: "(string \<times> string) list \<Rightarrow> string list" where
  "migration_names files = sort (filter (\<lambda>n. suffix ''.sql'' n) (map fst files))"

definition ensure_ledger :: "unit migration" where
  "ensure_ledger =
     seqM (wrapM ''inspect database tables'' statement)
     (bindM (getM md_Tables) (\<lambda>tables.
       if ledger_table \<in> set tables then ret ()
       else if tables \<noteq> [] then throw ErrUnsafeDatabase
       else seqM (wrapM ''create schema_migrations'' statement)
         (modifyM (\<lambda>db. db\<lparr>md_Tables := [ledger_table]\<rparr>))))"

definition apply_migration ::
  "(string \<times> string) list \<Rightarrow> (string \<Rightarrow> string list \<Rightarrow> string list) \<Rightarrow> string \<Rightarrow> unit migration" where
  "apply_migration files script_effect name =
     seqM (wrapM (''check migration '' @ name) statement)
     (bindM (getM md_Ledger) (\<lambda>ledger.
       if name \<in> set ledger then ret ()
       else
         (case map_of files name of
            None \<Rightarrow> throw (ErrText ''file does not exist'')
          | Some content \<Rightarrow>
              db_transaction
                (seqM (wrapM (''apply migration '' @ name) statement)
                (seqM (modifyM (\<lambda>db. db\<lparr>md_Tables := script_effect content (md_Tables db),
                    md_Applied := md_Applied db @ [name]\<rparr>))
                (seqM statement
                  (modifyM (\<lambda>db. db\<lparr>md_Ledger := md_Ledger db @ [name]\<rparr>))))))))"

definition run_migrations ::
  "(string \<times> string) list \<Rightarrow> (string \<Rightarrow> string list \<Rightarrow> string list) \<Rightarrow> unit migration" where
  "run_migrations files script_effect =
     seqM ensure_ledger (forM (migration_names files) (apply_migration files script_effect))"

end
