(* ===== verification/Migrate_Facts.thy ===== *)
theory Migrate_Facts
  imports Migrate
begin

text \<open>
  What a run of the migrations leaves behind, whatever statement fails: the scripts it executed are a
  prefix of the missing ones, and the ledger says so.
\<close>

section \<open>Single steps\<close>

lemma statement_run:
  "statement db = (r, db') \<longleftrightarrow> db' = db\<lparr>md_tick := Suc (md_tick db)\<rparr>
    \<and> r = (case md_fault db (md_tick db) of Some e \<Rightarrow> Inl e | None \<Rightarrow> Inr ())"
  by (auto simp: statement_def Let_def split: option.splits)

text \<open>Only the count of statements differs.\<close>

definition same_database :: "migration_db \<Rightarrow> migration_db \<Rightarrow> bool" where
  "same_database db db' \<longleftrightarrow> md_Tables db' = md_Tables db \<and> md_Ledger db' = md_Ledger db
     \<and> md_Applied db' = md_Applied db"

text \<open>\<open>extends db new db'\<close>: the scripts \<open>new\<close> were executed and recorded, in this order.\<close>

definition extends :: "migration_db \<Rightarrow> string list \<Rightarrow> migration_db \<Rightarrow> bool" where
  "extends db new db' \<longleftrightarrow> md_Ledger db' = md_Ledger db @ new \<and> md_Applied db' = md_Applied db @ new"

lemma extends_refl: "extends db [] db"
  by (simp add: extends_def)

lemma extends_trans: "extends db xs db1 \<Longrightarrow> extends db1 ys db2 \<Longrightarrow> extends db (xs @ ys) db2"
  by (simp add: extends_def)

lemma ensure_ledger_extends: "ensure_ledger db = (r, db') \<Longrightarrow> extends db [] db'"
  by (cases r) (auto simp: ensure_ledger_def run_iffs statement_run extends_def split: if_splits)

lemma ensure_ledger_refuses:
  "ledger_table \<notin> set (md_Tables db) \<Longrightarrow> md_Tables db \<noteq> [] \<Longrightarrow> ensure_ledger db = (r, db')
   \<Longrightarrow> isl r \<and> same_database db db'"
  by (cases r) (auto simp: ensure_ledger_def run_iffs statement_run same_database_def split: if_splits)

lemma apply_migration_extends:
  assumes "apply_migration files effect name db = (r, db')"
  shows "if name \<in> set (md_Ledger db) then extends db [] db'
    else if isl r then extends db [] db' else extends db [name] db'"
proof (cases "md_fault db (md_tick db)")
  case (Some e)
  then show ?thesis
    using assms by (auto simp: apply_migration_def prog_simps statement_def extends_def)
next
  case None
  then show ?thesis
    using assms
    by (auto simp: apply_migration_def prog_simps statement_def db_transaction_def extends_def Let_def
        split: option.splits if_splits)
qed

section \<open>The run\<close>

text \<open>The scripts of a list that a database has not recorded.\<close>

abbreviation missing :: "migration_db \<Rightarrow> string list \<Rightarrow> string list" where
  "missing db names \<equiv> filter (\<lambda>n. n \<notin> set (md_Ledger db)) names"

lemma forM_migrations_extend:
  assumes "distinct names" and "forM names (apply_migration files effect) db = (r, db')"
  shows "\<exists>new. prefix new (missing db names) \<and> extends db new db'
    \<and> (if isl r then True else new = missing db names)"
  using assms
proof (induction names arbitrary: db)
  case Nil
  then show ?case by (auto simp: ret_def intro: extends_refl)
next
  case (Cons name names)
  obtain q db1 where step: "apply_migration files effect name db = (q, db1)" by fastforce
  show ?case
  proof (cases q)
    case (Inl e)
    then have "extends db [] db'" "isl r"
      using Cons.prems(2) step apply_migration_extends [OF step] by (auto simp: seqM_def bindM_def split: if_splits)
    then show ?thesis by (intro exI [of _ "[]"]) simp
  next
    case (Inr u)
    define new where "new = (if name \<in> set (md_Ledger db) then [] else [name])"
    have ext: "extends db new db1"
      using apply_migration_extends [OF step] Inr by (auto simp: new_def split: if_splits)
    have rest: "forM names (apply_migration files effect) db1 = (r, db')"
      using Cons.prems(2) step Inr by (simp add: seqM_def bindM_def)
    have "set (md_Ledger db1) = set (md_Ledger db) \<union> set new" using ext by (simp add: extends_def)
    then have "missing db1 names = missing db names"
      using Cons.prems(1) by (auto simp: new_def intro!: filter_cong)
    then obtain more where "prefix more (missing db names)" "extends db1 more db'"
      "if isl r then True else more = missing db names"
      using Cons.IH [OF _ rest] Cons.prems(1) by auto
    moreover have "missing db (name # names) = new @ missing db names" by (simp add: new_def)
    ultimately show ?thesis
      using extends_trans [OF ext] by (intro exI [of _ "new @ more"]) auto
  qed
qed

text \<open>C9: a run of the migrations, whatever statement fails, executes scripts that were not recorded, in
  the order of their names, each once, and records exactly those it executed; a run that succeeds has
  executed them all, so that running again executes none. A database with tables but no ledger is
  refused and not touched.\<close>

theorem run_migrations_in_order:
  assumes embedded: "distinct (map fst files)" and run: "run_migrations files effect db = (r, db')"
  shows "\<exists>new. prefix new (missing db (migration_names files)) \<and> sorted new \<and> distinct new
      \<and> md_Ledger db' = md_Ledger db @ new \<and> md_Applied db' = md_Applied db @ new
      \<and> (if isl r then True
         else new = missing db (migration_names files)
           \<and> md_Applied (snd (run_migrations files effect db')) = md_Applied db')
      \<and> (if ledger_table \<notin> set (md_Tables db) \<and> md_Tables db \<noteq> []
         then isl r \<and> same_database db db' else True)"
proof -
  have names: "distinct (migration_names files)" "sorted (migration_names files)"
    using embedded by (simp_all add: migration_names_def)
  have run_new: "\<exists>new. prefix new (missing d (migration_names files)) \<and> extends d new d'
      \<and> (if isl q then True else new = missing d (migration_names files))
      \<and> (if ledger_table \<notin> set (md_Tables d) \<and> md_Tables d \<noteq> [] then isl q \<and> same_database d d' else True)"
    if d: "run_migrations files effect d = (q, d')" for d q d'
  proof -
    obtain p d1 where ens: "ensure_ledger d = (p, d1)" by fastforce
    note first = ensure_ledger_extends [OF ens] ensure_ledger_refuses [OF _ _ ens]
    show ?thesis
    proof (cases p)
      case (Inl e)
      then have "q = Inl e \<and> d' = d1" using d ens by (simp add: run_migrations_def seqM_def bindM_def)
      then show ?thesis using first Inl by (intro exI [of _ "[]"]) auto
    next
      case (Inr u)
      then have "forM (migration_names files) (apply_migration files effect) d1 = (q, d')"
        using d ens by (simp add: run_migrations_def seqM_def bindM_def)
      from forM_migrations_extend [OF names(1) this] show ?thesis
        using first Inr extends_trans [OF first(1)] by (auto simp: extends_def [of d "[]"])
    qed
  qed
  from run_new [OF run] obtain new where new: "prefix new (missing db (migration_names files))"
    "extends db new db'" "if isl r then True else new = missing db (migration_names files)"
    "if ledger_table \<notin> set (md_Tables db) \<and> md_Tables db \<noteq> [] then isl r \<and> same_database db db' else True"
    by blast
  have "sorted (missing db (migration_names files))" "distinct (missing db (migration_names files))"
    using names by (simp_all add: sorted_filter [of id, simplified])
  then have sub: "sorted new" "distinct new"
    using new(1) by (auto simp: prefix_def sorted_append)
  have rerun: "md_Applied (snd (run_migrations files effect db')) = md_Applied db'" if "\<not> isl r"
  proof -
    obtain q d' where again: "run_migrations files effect db' = (q, d')" by fastforce
    have "missing db' (migration_names files) = []"
      using new(2,3) that by (auto simp: extends_def filter_empty_conv)
    then show ?thesis using run_new [OF again] again by (auto simp: extends_def)
  qed
  show ?thesis
    using new sub rerun unfolding extends_def by (intro exI [of _ new]) simp
qed

definition sample_files :: "(string \<times> string) list" where
  "sample_files = [(''0002_b.sql'', ''B''), (''0001_a.sql'', ''A''), (''notes.txt'', ''N'')]"

definition fresh_database :: migration_db where
  "fresh_database = \<lparr>md_fault = (\<lambda>k. if k = 9 then Some (ErrText ''lost'') else None), md_tick = 0,
     md_Tables = [], md_Ledger = [], md_Applied = []\<rparr>"

text \<open>The connection is lost while the second script runs: the first one stays, and is on record.\<close>

theorem run_migrations_in_order_witness:
  "\<exists>db'. snd (run_migrations sample_files (\<lambda>content tables. content # tables) fresh_database) = db'
    \<and> md_Ledger db' = [''0001_a.sql''] \<and> md_Applied db' = [''0001_a.sql'']
    \<and> prefix (md_Applied db') (migration_names sample_files)"
proof -
  let ?effect = "\<lambda>content tables. content # tables"
  obtain r db' where run: "run_migrations sample_files ?effect fresh_database = (r, db')" by fastforce
  have ledger: "md_Ledger (snd (run_migrations sample_files ?effect fresh_database)) = [''0001_a.sql'']"
    by code_simp
  have embedded: "distinct (map fst sample_files)" by (simp add: sample_files_def)
  show ?thesis
    using run_migrations_in_order [OF embedded run] ledger run by (auto simp: fresh_database_def)
qed

end
