(* ===== verification/Startup.thy ===== *)
theory Startup
  imports Discovery Job_Queue Email_Send
begin

text \<open>
  \<open>cmd/metoer/main.go\<close>: how the process starts, serves and stops, with the connections of
  \<open>internal/db\<close> and \<open>internal/redis\<close>. The state is the trace of what the process opened, closed and
  started; what each call to the outside gives is an argument. A \<open>defer\<close> runs when the function
  returns, whatever it returns.
\<close>

section \<open>The trace\<close>

datatype resource = Database | Redis | Nats | GrpcClients | Authenticator | BladeDiscovery
  | HttpListener | GrpcListener

datatype task = DiscoveryLoop | SchedulerLoops | FileListener | QueueWorkers | HttpServer | GrpcServer

datatype launch_event = Opened resource | Closed resource | Migrated | Started task | DeregisterCalled

type_synonym 'a launch = "(launch_event list, 'a) prog"

definition emit :: "launch_event \<Rightarrow> unit launch" where
  "emit e = modifyM (\<lambda>trace. trace @ [e])"

definition deferring :: "resource \<Rightarrow> 'a launch \<Rightarrow> 'a launch" where
  "deferring r body trace = (case body trace of (result, trace') \<Rightarrow> (result, trace' @ [Closed r]))"

definition no_fault :: "go_error option \<Rightarrow> unit launch" where
  "no_fault fault = (case fault of None \<Rightarrow> ret () | Some e \<Rightarrow> throw e)"

section \<open>What the calls to the outside give\<close>

datatype run_end = Signalled | ServerClosed | ServeFailed go_error

record launch_outcomes =
  lo_config :: "go_error + config"
  lo_open :: "go_error option"
  lo_handle :: "go_error option"
  lo_ping :: "go_error option"
  lo_migrations :: "go_error option"
  lo_nats :: bool
  lo_authenticator :: "go_error option"
  lo_certificate :: "go_error option"
  lo_fresh_id :: string
  lo_discovery :: "go_error option"
  lo_http_listen :: "go_error option"
  lo_grpc_listen :: "go_error option"
  lo_end :: run_end

section \<open>Connections\<close>

definition connect_database :: "launch_outcomes \<Rightarrow> unit launch" where
  "connect_database lo =
     seqM (wrapM ''open database'' (no_fault (lo_open lo)))
     (seqM (emit (Opened Database))
     (seqM (wrapM ''get database handle'' (no_fault (lo_handle lo)))
       (case lo_ping lo of
          None \<Rightarrow> ret ()
        | Some e \<Rightarrow> seqM (emit (Closed Database)) (throw (ErrWrap ''ping database'' e)))))"

text \<open>
  Redis and NATS may be missing: the process starts all the same. A Redis client whose ping fails has
  been opened and is dropped as it is.
\<close>

definition connect_redis :: "unit launch" where
  "connect_redis = emit (Opened Redis)"

definition connect_nats :: "launch_outcomes \<Rightarrow> unit launch" where
  "connect_nats lo = whenM (lo_nats lo) (emit (Opened Nats))"

definition with_authenticator :: "launch_outcomes \<Rightarrow> config \<Rightarrow> 'a launch \<Rightarrow> 'a launch" where
  "with_authenticator lo cfg rest =
     (if cfg_StargateGrpc cfg = [] then rest
      else seqM (no_fault (lo_authenticator lo))
        (seqM (emit (Opened Authenticator)) (deferring Authenticator rest)))"

definition load_certificate :: "launch_outcomes \<Rightarrow> config \<Rightarrow> unit launch" where
  "load_certificate lo cfg =
     (if \<not> cfg_GrpcUseTLS cfg then ret ()
      else if cfg_GrpcCertFile cfg = [] \<or> cfg_GrpcKeyFile cfg = [] then
        throw (ErrText ''grpc tls requires grpc.certFile and grpc.keyFile'')
      else wrapM ''load grpc tls credentials'' (no_fault (lo_certificate lo)))"

definition with_discovery :: "launch_outcomes \<Rightarrow> config \<Rightarrow> 'a launch \<Rightarrow> 'a launch" where
  "with_discovery lo cfg rest =
     (if \<not> cfg_DiscoveryEnabled cfg then rest
      else
        seqM (wrapM ''discovery'' (no_fault (validate_options (discovery_options_of cfg (lo_fresh_id lo)))))
        (seqM (wrapM (''dial blade discovery '' @ cfg_DiscoveryTarget cfg) (no_fault (lo_discovery lo)))
        (seqM (emit (Opened BladeDiscovery))
          (deferring BladeDiscovery (seqM (emit (Started DiscoveryLoop)) rest)))))"

section \<open>Serving\<close>

definition listen :: "launch_outcomes \<Rightarrow> config \<Rightarrow> unit launch" where
  "listen lo cfg =
     seqM (wrapM (''listen http on :'' @ cfg_HttpPort cfg) (no_fault (lo_http_listen lo)))
     (seqM (emit (Opened HttpListener))
       (case lo_grpc_listen lo of
          None \<Rightarrow> emit (Opened GrpcListener)
        | Some e \<Rightarrow>
            seqM (emit (Closed HttpListener))
              (throw (ErrWrap (''listen grpc on :'' @ cfg_GrpcPort cfg) e))))"

definition shut_down :: "launch_outcomes \<Rightarrow> config \<Rightarrow> unit launch" where
  "shut_down lo cfg =
     seqM (whenM (cfg_DiscoveryEnabled cfg) (emit DeregisterCalled))
     (seqM (emit (Closed HttpListener))
     (seqM (emit (Closed GrpcListener))
       (whenM (lo_nats lo) (emit (Closed Nats)))))"

definition serve_until_end :: "launch_outcomes \<Rightarrow> config \<Rightarrow> unit launch" where
  "serve_until_end lo cfg =
     seqM (forM [SchedulerLoops, FileListener, QueueWorkers] (\<lambda>t. emit (Started t)))
     (seqM (listen lo cfg)
     (seqM (forM [HttpServer, GrpcServer] (\<lambda>t. emit (Started t)))
       (case lo_end lo of
          Signalled \<Rightarrow> shut_down lo cfg
        | ServerClosed \<Rightarrow> ret ()
        | ServeFailed e \<Rightarrow> throw e)))"

section \<open>The process\<close>

definition run_configured :: "launch_outcomes \<Rightarrow> config \<Rightarrow> unit launch" where
  "run_configured lo cfg =
     seqM (wrapM ''connect database'' (connect_database lo))
     (deferring Database
       (seqM (wrapM ''run database migrations'' (no_fault (lo_migrations lo)))
       (seqM (emit Migrated)
       (seqM connect_redis
       (seqM (connect_nats lo)
       (seqM (emit (Opened GrpcClients))
       (deferring GrpcClients
         (with_authenticator lo cfg
           (seqM (load_certificate lo cfg)
             (with_discovery lo cfg (serve_until_end lo cfg)))))))))))"

definition run_service :: "launch_outcomes \<Rightarrow> unit launch" where
  "run_service lo =
     bindM (wrapM ''load config'' (lift_result (lo_config lo))) (\<lambda>cfg. run_configured lo cfg)"

definition exit_code :: "launch_outcomes \<Rightarrow> int" where
  "exit_code lo = (case run_service lo [] of (Inl e, trace) \<Rightarrow> 1 | (Inr u, trace) \<Rightarrow> 0)"

text \<open>What the services are made of, once everything is connected.\<close>

record services =
  sv_Apps :: push_apps
  sv_Email :: "email_config option"
  sv_Clients :: grpc_clients
  sv_Workers :: int

definition services_of :: "key_store \<Rightarrow> (string \<Rightarrow> bool) \<Rightarrow> int \<Rightarrow> config \<Rightarrow> services" where
  "services_of ks dials cpus cfg =
     \<lparr>sv_Apps = new_apps ks (cfg_Push cfg),
      sv_Email = (case new_email_service (cfg_Email cfg) of Inl e \<Rightarrow> None | Inr ec \<Rightarrow> Some ec),
      sv_Clients = new_clients dials cfg, sv_Workers = new_workers (consumer_count_value cpus cfg)\<rparr>"

end
