(* ===== verification/Startup_Facts.thy ===== *)
theory Startup_Facts
  imports Startup
begin

text \<open>
  However the process ends, what it deferred to close is closed, in the reverse of the order in which it
  was opened.
\<close>

section \<open>Opened and closed\<close>

definition deferred :: "resource list" where
  "deferred = [Database, GrpcClients, Authenticator, BladeDiscovery]"

fun opened_in :: "launch_event \<Rightarrow> resource list" where
  "opened_in (Opened r) = (if r \<in> set deferred then [r] else [])"
| "opened_in _ = []"

fun closed_in :: "launch_event \<Rightarrow> resource list" where
  "closed_in (Closed r) = (if r \<in> set deferred then [r] else [])"
| "closed_in _ = []"

definition nested :: "launch_event list \<Rightarrow> bool" where
  "nested trace \<longleftrightarrow> concat (map closed_in trace) = rev (concat (map opened_in trace))"

text \<open>Programs that extend the trace: by nothing of the deferred resources, or by a nested part.\<close>

definition plain :: "'a launch \<Rightarrow> bool" where
  "plain m \<longleftrightarrow> (\<forall>trace. \<exists>new. snd (m trace) = trace @ new
     \<and> concat (map opened_in new) = [] \<and> concat (map closed_in new) = [])"

definition neat :: "'a launch \<Rightarrow> bool" where
  "neat m \<longleftrightarrow> (\<forall>trace. \<exists>new. snd (m trace) = trace @ new \<and> nested new)"

named_theorems launch_intros "rules for the trace of the start"

lemma plain_same: "(\<And>trace. snd (m trace) = trace) \<Longrightarrow> plain m"
  by (simp add: plain_def)

lemma plain_basic [launch_intros]:
  "plain (ret x)" "plain (throw e)" "plain (lift_result r)" "plain (no_fault f)"
  by (auto intro!: plain_same simp: prog_simps no_fault_def split: option.splits)

lemma plain_emit [launch_intros]:
  "opened_in e = [] \<Longrightarrow> closed_in e = [] \<Longrightarrow> plain (emit e)"
  by (simp add: plain_def emit_def modifyM_def)

lemma plain_bindM [launch_intros]:
  assumes "plain m" "\<And>x. plain (k x)"
  shows "plain (bindM m k)"
  unfolding plain_def
proof (rule allI)
  fix trace
  obtain new where new: "snd (m trace) = trace @ new" "concat (map opened_in new) = []" "concat (map closed_in new) = []"
    using assms(1) unfolding plain_def by blast
  show "\<exists>new. snd (bindM m k trace) = trace @ new \<and> concat (map opened_in new) = [] \<and> concat (map closed_in new) = []"
  proof (cases "m trace")
    case (Pair r trace')
    show ?thesis
    proof (cases r)
      case (Inl e)
      then show ?thesis using Pair new by (auto simp: bindM_def)
    next
      case (Inr x)
      obtain new' where "snd (k x trace') = trace' @ new'" "concat (map opened_in new') = []"
        "concat (map closed_in new') = []"
        using assms(2) [of x] unfolding plain_def by blast
      then show ?thesis
        using Pair Inr new by (intro exI [of _ "new @ new'"]) (auto simp: bindM_def)
    qed
  qed
qed

lemma plain_seqM [launch_intros]: "plain m \<Longrightarrow> plain k \<Longrightarrow> plain (seqM m k)"
  by (simp add: seqM_def plain_bindM)

lemma plain_wrapM [launch_intros]: "plain m \<Longrightarrow> plain (wrapM t m)"
  unfolding plain_def wrapM_def by (auto split: prod.splits sum.splits) (metis snd_conv)+

lemma plain_whenM [launch_intros]: "plain m \<Longrightarrow> plain (whenM b m)"
  by (simp add: whenM_def plain_basic)

lemma plain_if [launch_intros]: "plain m \<Longrightarrow> plain k \<Longrightarrow> plain (if b then m else k)"
  by simp

lemma plain_case_option [launch_intros]:
  "plain m \<Longrightarrow> (\<And>y. plain (f y)) \<Longrightarrow> plain (case x of None \<Rightarrow> m | Some y \<Rightarrow> f y)"
  by (cases x) simp_all

lemma plain_case_end [launch_intros]:
  "plain m \<Longrightarrow> plain k \<Longrightarrow> (\<And>e. plain (f e))
   \<Longrightarrow> plain (case x of Signalled \<Rightarrow> m | ServerClosed \<Rightarrow> k | ServeFailed e \<Rightarrow> f e)"
  by (cases x) simp_all

lemma plain_forM [launch_intros]: "(\<And>x. plain (f x)) \<Longrightarrow> plain (forM xs f)"
  by (induction xs) (auto intro: launch_intros)

lemma neat_plain: "plain m \<Longrightarrow> neat m"
  unfolding plain_def neat_def nested_def by (metis rev.simps(1))

lemma neat_bindM:
  assumes "plain m" "\<And>x. neat (k x)"
  shows "neat (bindM m k)"
  unfolding neat_def
proof (rule allI)
  fix trace
  obtain new where new: "snd (m trace) = trace @ new" "concat (map opened_in new) = []" "concat (map closed_in new) = []"
    using assms(1) unfolding plain_def by blast
  show "\<exists>new. snd (bindM m k trace) = trace @ new \<and> nested new"
  proof (cases "m trace")
    case (Pair r trace')
    show ?thesis
    proof (cases r)
      case (Inl e)
      moreover have "nested new" unfolding nested_def new(2,3) by simp
      ultimately show ?thesis using Pair new(1) by (auto simp: bindM_def)
    next
      case (Inr x)
      obtain new' where new': "snd (k x trace') = trace' @ new'" "nested new'"
        using assms(2) [of x] unfolding neat_def by blast
      then have "nested (new @ new')"
        unfolding nested_def map_append concat_append new(2,3) by simp
      then show ?thesis
        using Pair Inr new(1) new'(1) by (intro exI [of _ "new @ new'"]) (simp add: bindM_def)
    qed
  qed
qed

lemma neat_seqM: "plain m \<Longrightarrow> neat k \<Longrightarrow> neat (seqM m k)"
  by (simp add: seqM_def neat_bindM)

text \<open>What is opened and deferred around a neat program.\<close>

lemma neat_deferring:
  assumes "r \<in> set deferred" "neat m"
  shows "neat (seqM (emit (Opened r)) (deferring r m))"
  unfolding neat_def
proof (rule allI)
  fix trace
  obtain new where new: "snd (m (trace @ [Opened r])) = (trace @ [Opened r]) @ new" "nested new"
    using assms(2) unfolding neat_def by blast
  have "snd (seqM (emit (Opened r)) (deferring r m) trace) = trace @ [Opened r] @ new @ [Closed r]"
    using new(1) by (cases "m (trace @ [Opened r])")
      (simp add: seqM_def bindM_def emit_def modifyM_def deferring_def)
  moreover have "nested ([Opened r] @ new @ [Closed r])"
    using new(2) assms(1) by (simp add: nested_def)
  ultimately show "\<exists>new. snd (seqM (emit (Opened r)) (deferring r m) trace) = trace @ new \<and> nested new"
    by blast
qed

section \<open>The process\<close>

lemma plain_serve: "plain (serve_until_end lo cfg)"
  unfolding serve_until_end_def listen_def shut_down_def
  by (intro launch_intros | simp add: deferred_def split: task.splits)+

lemma neat_discovery: "neat m \<Longrightarrow> neat (with_discovery lo cfg m)"
  unfolding with_discovery_def
  by (auto simp: deferred_def intro!: neat_seqM neat_deferring launch_intros)

lemma neat_authenticator: "neat m \<Longrightarrow> neat (with_authenticator lo cfg m)"
  unfolding with_authenticator_def
  by (auto simp: deferred_def intro!: neat_seqM neat_deferring launch_intros)

lemma plain_certificate: "plain (load_certificate lo cfg)"
  unfolding load_certificate_def by (intro launch_intros)

text \<open>The database: opened and closed again when its ping fails, else closed by the \<open>defer\<close>.\<close>

lemma neat_database:
  assumes handle: "lo_handle lo = None" and rest: "neat rest"
  shows "neat (seqM (wrapM t (connect_database lo)) (deferring Database rest))"
proof (cases "lo_open lo = None \<and> lo_ping lo = None")
  case True
  then have "seqM (wrapM t (connect_database lo)) (deferring Database rest)
      = seqM (emit (Opened Database)) (deferring Database rest)"
    using handle by (auto simp: connect_database_def no_fault_def prog_simps emit_def fun_eq_iff)
  then show ?thesis using rest by (simp add: neat_deferring deferred_def)
next
  case False
  then show ?thesis
    using handle
    by (auto simp: neat_def connect_database_def no_fault_def prog_simps emit_def nested_def split: option.splits)
qed

lemma neat_run: "lo_handle lo = None \<Longrightarrow> neat (run_service lo)"
  unfolding run_service_def run_configured_def connect_redis_def connect_nats_def
  by (intro neat_bindM neat_database neat_seqM neat_deferring neat_authenticator neat_discovery
      neat_plain [OF plain_serve] plain_certificate launch_intros) (simp_all add: deferred_def)

lemma deferring_Inr: "deferring r m s = (Inr x, t) \<longleftrightarrow> (\<exists>t'. m s = (Inr x, t') \<and> t = t' @ [Closed r])"
  by (auto simp: deferring_def split: prod.splits)

lemma emit_iff: "emit e s = (r, t) \<longleftrightarrow> r = Inr () \<and> t = s @ [e]"
  by (auto simp: emit_def modifyM_iff)

lemma no_fault_Inr: "no_fault f s = (Inr u, t) \<longleftrightarrow> f = None \<and> t = s"
  by (cases f) (auto simp: no_fault_def run_iffs)

lemmas launch_iffs = run_iffs deferring_Inr emit_iff no_fault_Inr

text \<open>What the trace shows when a program has succeeded; a process told to stop has closed what it served with.\<close>

definition shows_events :: "launch_event set \<Rightarrow> 'a launch \<Rightarrow> bool" where
  "shows_events es m \<longleftrightarrow> (\<forall>before x after. m before = (Inr x, after) \<longrightarrow> es \<subseteq> set after)"

lemma shows_events_seqM: "shows_events es k \<Longrightarrow> shows_events es (seqM m k)"
  by (auto simp: shows_events_def launch_iffs)

lemma shows_events_deferring: "shows_events es m \<Longrightarrow> shows_events es (deferring r m)"
  by (fastforce simp: shows_events_def deferring_Inr)

lemma shows_events_discovery: "shows_events es m \<Longrightarrow> shows_events es (with_discovery lo cfg m)"
  unfolding with_discovery_def by (simp add: shows_events_seqM shows_events_deferring)

lemma shows_events_authenticator: "shows_events es m \<Longrightarrow> shows_events es (with_authenticator lo cfg m)"
  unfolding with_authenticator_def by (simp add: shows_events_seqM shows_events_deferring)

definition stop_events :: "launch_outcomes \<Rightarrow> config \<Rightarrow> launch_event set" where
  "stop_events lo cfg = {Closed HttpListener, Closed GrpcListener}
     \<union> (if lo_nats lo then {Closed Nats} else {})
     \<union> (if cfg_DiscoveryEnabled cfg then {DeregisterCalled} else {})"

lemma serve_signalled: "lo_end lo = Signalled \<Longrightarrow> shows_events (stop_events lo cfg) (serve_until_end lo cfg)"
  by (auto simp: shows_events_def stop_events_def serve_until_end_def listen_def shut_down_def launch_iffs
      split: option.splits if_splits)

lemma run_signalled:
  assumes "run_service lo [] = (Inr (), trace)" "lo_end lo = Signalled"
  shows "\<exists>cfg. lo_config lo = Inr cfg \<and> stop_events lo cfg \<subseteq> set trace"
proof -
  have "shows_events (stop_events lo cfg) (run_configured lo cfg)" for cfg
    unfolding run_configured_def
    by (intro shows_events_seqM shows_events_deferring shows_events_authenticator shows_events_discovery
        serve_signalled assms(2))
  moreover obtain cfg where "lo_config lo = Inr cfg" "run_configured lo cfg [] = (Inr (), trace)"
    using assms(1) by (cases "lo_config lo") (auto simp: run_service_def bindM_Inr wrapM_Inr lift_result_iff)
  ultimately show ?thesis unfolding shows_events_def by blast
qed

text \<open>C33: however the process ends, it closes the database, the gRPC clients, the authenticator and the
  connection to Blade exactly as often as it opened them and in the reverse order; it exits with 1 exactly
  when it returned an error; and when it was told to stop and stopped without an error it has closed
  its listeners and the event bus and asked Blade to forget it. The database driver is assumed to hand
  out the handle of the connection it has just opened: when it does not, the connection is left open.\<close>

theorem process_closes_what_it_opened:
  assumes handle: "lo_handle lo = None" and run: "run_service lo [] = (r, trace)"
  shows "concat (map closed_in trace) = rev (concat (map opened_in trace))
    \<and> exit_code lo = (if isl r then 1 else 0)
    \<and> (if lo_end lo = Signalled \<and> \<not> isl r
       then \<exists>cfg. lo_config lo = Inr cfg \<and> stop_events lo cfg \<subseteq> set trace
       else True)"
proof -
  obtain new where "snd (run_service lo []) = [] @ new" "nested new"
    using neat_run [OF handle] unfolding neat_def by blast
  then have "concat (map closed_in trace) = rev (concat (map opened_in trace))"
    using run by (simp add: nested_def)
  moreover have "exit_code lo = (if isl r then 1 else 0)"
    using run by (cases r) (simp_all add: exit_code_def)
  moreover have "r = Inr ()" if "\<not> isl r" using that by (cases r) simp_all
  ultimately show ?thesis using run run_signalled [of lo trace] by auto
qed

text \<open>A start with discovery whose gRPC port is taken, and one that is told to stop.\<close>

definition sample_launch :: launch_outcomes where
  "sample_launch =
     \<lparr>lo_config = Inr (default_config\<lparr>cfg_DiscoveryEnabled := True, cfg_StargateGrpc := ''s''\<rparr>),
      lo_open = None, lo_handle = None, lo_ping = None, lo_migrations = None, lo_nats = True,
      lo_authenticator = None, lo_certificate = None, lo_fresh_id = ''i'', lo_discovery = None,
      lo_http_listen = None, lo_grpc_listen = None, lo_end = Signalled\<rparr>"

theorem process_closes_what_it_opened_witness:
  "\<exists>trace. run_service sample_launch [] = (Inr (), trace) \<and> exit_code sample_launch = 0
     \<and> concat (map closed_in trace) = [BladeDiscovery, Authenticator, GrpcClients, Database]
     \<and> concat (map closed_in trace) = rev (concat (map opened_in trace))"
proof -
  have ok: "fst (run_service sample_launch []) = Inr ()"
    "concat (map closed_in (snd (run_service sample_launch [])))
      = [BladeDiscovery, Authenticator, GrpcClients, Database]" by code_simp+
  obtain trace where run: "run_service sample_launch [] = (Inr (), trace)"
    using ok(1) by (metis prod.collapse)
  have "lo_handle sample_launch = None" by (simp add: sample_launch_def)
  from process_closes_what_it_opened [OF this run] show ?thesis using run ok(2) by auto
qed

text \<open>
  An instance whose listener fails after the registration loop has started returns without taking its
  registration back: Blade keeps it until the lease runs out.
\<close>

theorem failed_listen_stays_registered:
  "let lo = sample_launch\<lparr>lo_grpc_listen := Some (ErrText ''address already in use'')\<rparr>;
       (r, trace) = run_service lo []
   in isl r \<and> Started DiscoveryLoop \<in> set trace \<and> DeregisterCalled \<notin> set trace"
  by code_simp

end
