(* ===== verification/Grpc_Clients.thy ===== *)
theory Grpc_Clients
  imports Startup
begin

text \<open>
  \<open>internal/grpcclient/grpcclient.go\<close>: dialling the sibling services, the clients made of the
  connections, and closing them. \<open>grpc.NewClient\<close> is a parameter, once with TLS and once without: a
  connection of type \<open>'c\<close>, or an error. A nil pointer is None. A client is its connection.
\<close>

section \<open>The code\<close>

type_synonym 'c dialler = "string \<Rightarrow> go_error + 'c"

text \<open>\<open>Dial\<close> and \<open>DialPlaintext\<close>: no target, no connection and no error.\<close>

definition dial :: "'c dialler \<Rightarrow> string \<Rightarrow> go_error + 'c option" where
  "dial new_client target =
     (if target = [] then Inr None
      else (case new_client target of Inl e \<Rightarrow> Inl e | Inr conn \<Rightarrow> Inr (Some conn)))"

record 'c connections =
  cs_Stargate :: "'c option"
  cs_Blade :: "'c option"
  cs_conns :: "'c option list"

text \<open>
  The closure \<open>dial\<close> of \<open>NewClients\<close>: what was dialled, or nil when dialling failed, and the list of
  connections, to which it appends the nil of an empty target as well.
\<close>

definition dial_into ::
  "'c dialler \<Rightarrow> string \<Rightarrow> 'c connections \<Rightarrow> 'c option \<times> 'c connections" where
  "dial_into new_client target c =
     (case dial new_client target of
        Inl e \<Rightarrow> (None, c)
      | Inr conn \<Rightarrow> (conn, c\<lparr>cs_conns := cs_conns c @ [conn]\<rparr>))"

definition dial_clients :: "'c dialler \<Rightarrow> 'c dialler \<Rightarrow> config \<Rightarrow> go_error + 'c connections" where
  "dial_clients tls plaintext cfg =
     (let (stargate, c) = dial_into tls (cfg_StargateGrpc cfg)
            \<lparr>cs_Stargate = None, cs_Blade = None, cs_conns = []\<rparr>;
          c = (if stargate \<noteq> None then c\<lparr>cs_Stargate := stargate\<rparr> else c);
          (blade, c) = dial_into plaintext (cfg_BladeGrpc cfg) c;
          c = (if blade \<noteq> None then c\<lparr>cs_Blade := blade\<rparr> else c)
      in Inr c)"

text \<open>\<open>Close\<close>: the connections it closes, in order.\<close>

definition close_clients :: "'c connections \<Rightarrow> 'c list" where
  "close_clients c = concat (map (\<lambda>conn. case conn of None \<Rightarrow> [] | Some x \<Rightarrow> [x]) (cs_conns c))"

text \<open>The accessors, which a nil receiver survives.\<close>

definition stargate_client :: "'c connections option \<Rightarrow> 'c option" where
  "stargate_client c = (case c of None \<Rightarrow> None | Some cs \<Rightarrow> cs_Stargate cs)"

definition blade_client :: "'c connections option \<Rightarrow> 'c option" where
  "blade_client c = (case c of None \<Rightarrow> None | Some cs \<Rightarrow> cs_Blade cs)"

definition account_client :: "'c connections option \<Rightarrow> 'c option" where
  "account_client c = stargate_client c"

definition permission_client :: "'c connections option \<Rightarrow> 'c option" where
  "permission_client c = stargate_client c"

definition profile_client :: "'c connections option \<Rightarrow> 'c option" where
  "profile_client c = stargate_client c"

definition action_log_client :: "'c connections option \<Rightarrow> 'c option" where
  "action_log_client c = stargate_client c"

definition websocket_client :: "'c connections option \<Rightarrow> 'c option" where
  "websocket_client c = blade_client c"

section \<open>Facts\<close>

text \<open>What one target comes to.\<close>

definition dialled :: "'c dialler \<Rightarrow> string \<Rightarrow> 'c option" where
  "dialled new_client target =
     (if target = [] then None else (case new_client target of Inl e \<Rightarrow> None | Inr conn \<Rightarrow> Some conn))"

lemma dial_into_run:
  "\<exists>new. dial_into new_client target c = (dialled new_client target, c\<lparr>cs_conns := cs_conns c @ new\<rparr>)
     \<and> concat (map (\<lambda>conn. case conn of None \<Rightarrow> [] | Some x \<Rightarrow> [x]) new)
       = (case dialled new_client target of None \<Rightarrow> [] | Some x \<Rightarrow> [x])"
proof (cases "dial new_client target")
  case (Inl e)
  then show ?thesis
    by (intro exI [of _ "[]"]) (auto simp: dial_into_def dialled_def dial_def split: if_splits sum.splits)
next
  case (Inr conn)
  then show ?thesis
    by (intro exI [of _ "[conn]"]) (auto simp: dial_into_def dialled_def dial_def split: if_splits sum.splits)
qed

lemma dial_clients_run:
  "\<exists>c. dial_clients tls plaintext cfg = Inr c
     \<and> cs_Stargate c = dialled tls (cfg_StargateGrpc cfg) \<and> cs_Blade c = dialled plaintext (cfg_BladeGrpc cfg)
     \<and> close_clients c = (case cs_Stargate c of None \<Rightarrow> [] | Some x \<Rightarrow> [x])
         @ (case cs_Blade c of None \<Rightarrow> [] | Some x \<Rightarrow> [x])"
proof -
  let ?none = "\<lparr>cs_Stargate = None, cs_Blade = None, cs_conns = []\<rparr>"
  obtain s where s: "dial_into tls (cfg_StargateGrpc cfg) ?none
      = (dialled tls (cfg_StargateGrpc cfg), ?none\<lparr>cs_conns := s\<rparr>)"
    "concat (map (\<lambda>conn. case conn of None \<Rightarrow> [] | Some x \<Rightarrow> [x]) s)
      = (case dialled tls (cfg_StargateGrpc cfg) of None \<Rightarrow> [] | Some x \<Rightarrow> [x])"
    using dial_into_run [of tls "cfg_StargateGrpc cfg" ?none] by auto
  let ?c = "?none\<lparr>cs_conns := s, cs_Stargate := dialled tls (cfg_StargateGrpc cfg)\<rparr>"
  obtain b where b: "dial_into plaintext (cfg_BladeGrpc cfg) ?c
      = (dialled plaintext (cfg_BladeGrpc cfg), ?c\<lparr>cs_conns := s @ b\<rparr>)"
    "concat (map (\<lambda>conn. case conn of None \<Rightarrow> [] | Some x \<Rightarrow> [x]) b)
      = (case dialled plaintext (cfg_BladeGrpc cfg) of None \<Rightarrow> [] | Some x \<Rightarrow> [x])"
    using dial_into_run [of plaintext "cfg_BladeGrpc cfg" ?c] by auto
  have "dial_clients tls plaintext cfg
      = Inr (?c\<lparr>cs_conns := s @ b, cs_Blade := dialled plaintext (cfg_BladeGrpc cfg)\<rparr>)"
    using s(1) b(1)
    by (cases "dialled tls (cfg_StargateGrpc cfg)"; cases "dialled plaintext (cfg_BladeGrpc cfg)")
      (simp_all add: dial_clients_def)
  then show ?thesis using s(2) b(2) by (simp add: close_clients_def)
qed

text \<open>
  \<open>NewClients\<close> never fails, although its caller checks for an error: a target that cannot be dialled
  is silently without a client, as an empty one is. The account, permission, profile and action-log
  clients exist exactly when Stargate's target was dialled, the websocket client exactly when
  Blade's was, which is what the coarser model of the process start says of each; and \<open>Close\<close> closes
  every connection that was made, once, and nothing else.
\<close>

theorem clients_are_what_was_dialled:
  "\<exists>c. dial_clients tls plaintext cfg = Inr c
     \<and> (let stargate = dialled tls (cfg_StargateGrpc cfg); blade = dialled plaintext (cfg_BladeGrpc cfg)
        in account_client (Some c) = stargate \<and> permission_client (Some c) = stargate
         \<and> profile_client (Some c) = stargate \<and> action_log_client (Some c) = stargate
         \<and> websocket_client (Some c) = blade
         \<and> close_clients c = (case stargate of None \<Rightarrow> [] | Some x \<Rightarrow> [x])
             @ (case blade of None \<Rightarrow> [] | Some x \<Rightarrow> [x])
         \<and> gc_Stargate (new_clients (\<lambda>t. \<not> isl (tls t)) cfg) = (stargate \<noteq> None)
         \<and> gc_Blade (new_clients (\<lambda>t. \<not> isl (plaintext t)) cfg) = (blade \<noteq> None))"
proof -
  obtain c where c: "dial_clients tls plaintext cfg = Inr c"
    "cs_Stargate c = dialled tls (cfg_StargateGrpc cfg)" "cs_Blade c = dialled plaintext (cfg_BladeGrpc cfg)"
    "close_clients c = (case cs_Stargate c of None \<Rightarrow> [] | Some x \<Rightarrow> [x])
         @ (case cs_Blade c of None \<Rightarrow> [] | Some x \<Rightarrow> [x])"
    using dial_clients_run by blast
  have dials: "(dialled f t \<noteq> None) = (t \<noteq> [] \<and> \<not> isl (f t))" for f :: "'a dialler" and t
    by (cases "f t") (auto simp: dialled_def)
  show ?thesis
    by (intro exI [of _ c]) (simp add: c account_client_def permission_client_def profile_client_def
        action_log_client_def websocket_client_def stargate_client_def blade_client_def Let_def
        new_clients_def dials del: not_None_eq)
qed

end
