(* ===== verification/Spec2Isabelle.thy ===== *)
theory Spec2Isabelle
  imports Snake_Case Row_Codec Stream_Wait Store_Roundtrip Email_Plan_Invariant Email_Paging Dispatch_Facts
    Admin_Facts Swagger_Facts Ring_Facts Scheduler_Facts Scheduler_Loop Discovery_Facts
    Migrate_Facts Startup_Facts Grpc_Clients
begin

text \<open>
  \<^bold>\<open>Metoer\<close>: a service that sends notifications to the devices of an account (FCM, APNs, UnifiedPush, its
  own SOP event streams, a websocket relay) and e-mails under sending plans, and observes what became
  of them. The development models the Go code under \<open>src/\<close> and proves what makes it correct.

  \<^bold>\<open>How the parts interact.\<close> HTTP requests (\<open>internal/httpserver\<close>, through \<open>internal/middleware\<close>) and gRPC
  calls (\<open>internal/grpcserver\<close>) reach the push service (\<open>internal/push\<close>) and the plan service
  (\<open>internal/email\<close>). Sending a notification saves it, broadcasts it to the open streams of the
  account, keeps it in a replay buffer and queues a job (\<open>internal/queue\<close>); a worker takes the job and
  delivers it to the devices, over the websocket relay where the device is connected, through its
  provider otherwise. Deliveries are recorded (\<open>internal/observability\<close>). Everything durable is in
  PostgreSQL, behind \<open>internal/store\<close>. Timed jobs (\<open>internal/scheduler\<close>) recycle rows, trim the history
  of an account, flush removed subscriptions and advance the sending plans. The process starts from a
  configuration (\<open>internal/config\<close>), applies the migrations (\<open>internal/migrate\<close>) and registers with
  Blade (\<open>internal/discovery\<close>).

  \<^bold>\<open>Programs and their state.\<close> A Go function that acts on the world is a \<open>'a io\<close>, a function from the
  \<open>world\<close> to an error or a result and the next world (\<open>Prelude\<close>, \<open>World\<close>). The world holds the
  tables as lists of rows in insertion order, the heap of the notifications that are passed by
  pointer, the streams, the replay buffers, the queue, and what has left the process. What the
  outside does is the record \<open>outside\<close>: every interaction has a number, and the record says for each
  number whether it fails and what it answers, so that a theorem about every \<open>outside\<close> is one about every
  sequence of failures and answers. A call that may not return (paging through the accounts) is a
  \<open>partial_io\<close>, with None for not returning. Errors are values of \<open>go_error\<close>, panics an option.

  \<^bold>\<open>The theories\<close>, in the order in which they build on each other:
  \<^item> \<open>Prelude\<close>: errors, 64-bit wrap-around, the program combinators with their rules, the \<open>seen\<close> loop,
    tables, descending sorts, \<open>GROUP BY\<close>. \<open>Go_Text\<close>, \<open>Snake_Case\<close>: the \<open>strings\<close> functions the code calls and
    the renaming of JSON keys of \<open>httpserver/notificationctl\<close>.
  \<^item> \<open>Model\<close>, \<open>Entities\<close>: \<open>internal/model\<close> and \<open>store/entities.go\<close>, \<open>store/codec.go\<close>, with the round trips
    between models and rows. \<open>Apps\<close>: \<open>push/apps.go\<close>. \<open>Streams\<close>, \<open>Stream_Wait\<close>, \<open>Flush\<close>, \<open>Replay\<close>: \<open>push/streams.go\<close>,
    \<open>flush.go\<close>, \<open>replay.go\<close>, each against an interface stated as a locale (a sealed queue, a drained
    buffer, a buffer of the most recent) that the model interprets.
  \<^item> \<open>World\<close>, \<open>Store\<close>, \<open>Store_Records\<close>, \<open>Store_Email\<close>, with \<open>Store_Facts\<close> and \<open>Store_Roundtrip\<close>: the queries and
    statements of \<open>internal/store\<close>. \<open>Row_Codec\<close>: what the conversions of rows promise to them, as an
    interpreted interface. \<open>Observability\<close>: the recorders, as an interpreted interface. \<open>Events\<close>:
    \<open>internal/events/websocket.go\<close>. \<open>Job_Queue\<close>, \<open>Dispatch\<close>: \<open>internal/queue\<close> as operations and as a step
    relation, the handler of \<open>main.go\<close>, the file events. \<open>Dispatch_Facts\<close>: the two ends of the queue
    composed, from the request to send to the devices.
  \<^item> \<open>Email_Send\<close>, \<open>Email_Plan\<close>, \<open>Email_Advance\<close>, with \<open>Email_Plan_Facts\<close>, \<open>Email_Plan_Invariant\<close>,
    \<open>Email_Paging\<close>: \<open>internal/email\<close>.
  \<^item> \<open>Device_Ids\<close>, \<open>Senders\<close>, \<open>Push_Select\<close>, \<open>Push_Send\<close>, \<open>Push_Deliver\<close>, \<open>Push_Service\<close>, with \<open>Push_Batch\<close> and
    \<open>Push_Service_Facts\<close>: \<open>internal/push\<close>. \<open>Sop\<close>, \<open>Sop_Facts\<close>: \<open>push/sop.go\<close> and its abstract feed.
  \<^item> \<open>Web\<close>, \<open>Notification_Ctl\<close>, \<open>Sop_Ctl\<close>, \<open>Admin_Ctl\<close>, \<open>Permission\<close>, \<open>Swagger\<close>, \<open>Routes\<close>, with \<open>Web_Facts\<close>,
    \<open>Admin_Facts\<close>, \<open>Permission_Facts\<close>, \<open>Handler_Facts\<close> (the statuses of each handler), \<open>Routes_Facts\<close>,
    \<open>Swagger_Facts\<close>: \<open>internal/httpserver\<close> and \<open>internal/middleware\<close>, from a bound request to the
    response. The gates before a handler are an interface, once as any gate and once as one that does
    not touch the world, that the two of the code interpret. \<open>Ring_Server\<close>, \<open>Ring_Facts\<close>: \<open>internal/grpcserver\<close>.
  \<^item> \<open>Scheduler\<close>, \<open>Config\<close>, \<open>Discovery\<close>, \<open>Migrate\<close>, \<open>Startup\<close>, with their \<open>_Facts\<close>, \<open>Scheduler_Loop\<close> (the loop of
    an interval job, as a step relation) and \<open>Grpc_Clients\<close>: the packages of those names,
    \<open>internal/grpcclient\<close>, \<open>internal/db\<close>, \<open>internal/redis\<close> and \<open>cmd/metoer/main.go\<close>.
\<close>

text \<open>
  \<^bold>\<open>What is shown.\<close>
  \<^item> Sending: what a request to send saves, queues and refuses on each branch; a batch saves one row per
    recipient that accepts; at most one push per device and none to a connected one; a provider is
    asked at most once and its answer is the recorded outcome; the selection loops pick what their
    order says; and, over all of these, what a request has become when the workers are done with what
    was queued before it and with it. A gRPC call for many users answers OK only when all were served.
  \<^item> State: the replay buffer, the removal buffer, the queue, the streams and the subscriptions of a device
    keep their invariants; a waiting reader misses nothing, but a cancelled one may sleep on.
  \<^item> E-mail: an interval attempts no more than its capacity and accounts for what it did; the daily quota
    holds; a completed plan is done and stays so; creating a plan returns exactly when the account
    service ends its pages.
  \<^item> Store: trimming keeps the newest, recycling removes only what has expired, what is saved is listed,
    a plan is created as a whole or not at all, and the SOP page is a slice of the whole feed although only part of it is read.
  \<^item> Web: every request to every route is answered, and the gates of the routes enforce the access policy;
    the OpenAPI manifest lists these routes and the statuses of their answers; the administrative
    overviews count what the tables hold.
  \<^item> Running: the migrations run in order and once, the daily jobs once a day, the interval jobs
    no faster than their interval, the registration loop keeps its bounds, the clients are what was
    dialled, and the process closes what it opened.
  \<^item> Defects of the code, as theorems about the model: the e-mail overview can never be answered, a
    batch rewrites a notification that streams hold, a failed write-back sends a mail again, a
    cancelled wait may hang, an unknown preference level means two things, a failed listener leaves
    the instance registered, the manifest spells methods so that no reader finds an operation.

  \<^bold>\<open>Conventions and bounds.\<close>
  \<^item> Integers are \<open>int\<close>; \<open>wrap64\<close> is applied where an input can drive a value out of 64 bits. Times and
    durations are nanoseconds. The success rate of an overview is kept as the two numbers it divides,
    and the third of a lease is exact: the code computes both with \<open>float64\<close>.
  \<^item> Strings are lists of bytes; case folding and trimming are those of ASCII.
  \<^item> A query that asks for no order, and rows equal in the order it asks for, come in table order; groups
    come in the order of their first row; a Go map whose order the code sees is an association list.
  \<^item> Goroutines that a call waits for run one after the other, in an order the outside chooses
    (\<open>o_schedule\<close>, \<open>o_schedule_users\<close>); goroutines it does not wait for run at the point where they are
    started. The queue, the wait of a stream reader, the removal buffer and the interval loop, where
    interleaving matters, are step relations.
  \<^item> The recursion of every other loop is over the list it ranges over, or has a measure; no theorem
    depends on fuel.

  \<^bold>\<open>Parameters\<close>: the TOML, JSON, URL, IP, UUID, RFC 3339 and address parsers, the key files, quoted-printable
  encoding, gin's binding and routing, the shared authentication, cache and event-bus packages, the
  gRPC clients and what dialling them answers, the ticker of the runtime, and the effect of a migration script on the tables. They are fields of \<open>outside\<close> or of
  the request, or arguments of the definitions that use them.

  \<^bold>\<open>Not modelled\<close>: TLS and call options of gRPC connections, pool sizes and time-outs; gorm's tags
  and the SQL text of the migrations, beyond the columns and conditions the queries use; logging; the
  Go memory model (the unsynchronised flag of \<open>discovery\<close>).
\<close>

end
